(* ===== verification/JS_Base.thy ===== *)
theory JS_Base
  imports Main "HOL-Library.Word" "HOL-Library.Sublist" "HOL-Library.List_Lexorder"
begin

text \<open>
  The prelude of the development: the part of JavaScript the portal's frontend uses.
  Strings are sequences of UTF-16 code units, a call that may throw is a computation over
  the state it mutates (the state reached before the throw is kept, as in JavaScript), the
  settled value of a promise is a sum with the rejection reason on the left, and what the
  user or the browser sees (notifications, navigation, requests) is a list of effects.
\<close>

section \<open>Collections of facts shared by the component theories\<close>

named_theorems js_run "evaluation of computations"
named_theorems arr "facts on the array operations of the language"

section \<open>Strings\<close>

type_synonym jsstr = "16 word list"

text \<open>\<open>js\<close> embeds an ASCII literal of the source as a JavaScript string.\<close>

definition js_char :: "char \<Rightarrow> 16 word" where
  "js_char c = of_char c"

definition js :: "string \<Rightarrow> jsstr" where
  "js s = map js_char s"

lemma of_char_less_256: "(of_char c :: nat) < 256"
  by (metis char_of_char mod_less_divisor of_char_of zero_less_numeral)

lemma unat_js_char: "unat (js_char c) = of_char c"
proof -
  have "js_char c = of_nat (of_char c)"
    by (simp add: js_char_def of_nat_of_char)
  moreover have "(of_char c :: nat) < 2 ^ LENGTH(16)"
    using order_less_trans [OF of_char_less_256, of "2 ^ LENGTH(16)" c] by simp
  ultimately show ?thesis
    by (simp add: unat_of_nat)
qed

lemma js_char_eq_iff [simp]: "js_char c = js_char d \<longleftrightarrow> c = d"
  by (metis of_char_eq_iff unat_js_char)

lemma js_eq_iff [simp]: "js s = js t \<longleftrightarrow> s = t"
proof
  assume "js s = js t"
  moreover have "inj (map js_char)" by (simp add: inj_def)
  ultimately show "s = t" by (metis inj_def js_def)
qed simp

lemma js_Nil [simp]: "js [] = []"
  by (simp add: js_def)

lemma js_is_Nil [simp]: "js s = [] \<longleftrightarrow> s = []" "[] = js s \<longleftrightarrow> s = []"
  by (auto simp: js_def)

lemma length_js [simp]: "length (js s) = length s"
  by (simp add: js_def)

lemma js_append: "js s @ js t = js (s @ t)"
  by (simp add: js_def)

lemma js_Cons_eq_Cons: "js (c # s) = u # us \<longleftrightarrow> u = js_char c \<and> us = js s"
  by (auto simp: js_def)

text \<open>\<open>String.prototype.includes\<close>, \<open>startsWith\<close>.\<close>

definition strIncludes :: "jsstr \<Rightarrow> jsstr \<Rightarrow> bool" where
  "strIncludes s t = sublist t s"

definition startsWith :: "jsstr \<Rightarrow> jsstr \<Rightarrow> bool" where
  "startsWith s t = prefix t s"

lemma strIncludes_empty [simp]: "strIncludes s []"
  by (simp add: strIncludes_def)

lemma strIncludes_iff: "strIncludes s t \<longleftrightarrow> (\<exists>pre post. s = pre @ t @ post)"
  by (simp add: strIncludes_def sublist_def)

section \<open>Rejection reasons and promises\<close>

text \<open>
  What a promise can be rejected with, or a call throw: a string (\<open>handleResponse\<close> rejects
  with the server's message) or an error object with a name and a message.
\<close>

datatype reason =
    Text jsstr
  | Exc (exc_name: jsstr) (exc_message: jsstr)

text \<open>\<open>String(e)\<close> and \<open>e.toString()\<close>; \<open>new Error(e)\<close> keeps that text as its message.\<close>

fun reason_string :: "reason \<Rightarrow> jsstr" where
  "reason_string (Text t) = t"
| "reason_string (Exc n m) =
     (if n = [] then m else if m = [] then n else n @ js '': '' @ m)"

definition new_Error :: "reason \<Rightarrow> reason" where
  "new_Error e = Exc (js ''Error'') (reason_string e)"

definition TypeError :: reason where
  "TypeError = Exc (js ''TypeError'') []"

type_synonym 'a settled = "reason + 'a"

lemma map_sum_Inl [simp]: "map_sum f g x = Inl y \<longleftrightarrow> (\<exists>z. x = Inl z \<and> f z = y)"
  by (cases x) auto

lemma map_sum_Inr [simp]: "map_sum f g x = Inr y \<longleftrightarrow> (\<exists>z. x = Inr z \<and> g z = y)"
  by (cases x) auto

section \<open>JSON values\<close>

text \<open>The result of \<open>JSON.parse\<close>; an object is its list of properties.\<close>

datatype jsval =
    JNull
  | JBool bool
  | JNum int
  | JStr jsstr
  | JArr "jsval list"
  | JObj "(jsstr \<times> jsval) list"

fun truthy :: "jsval \<Rightarrow> bool" where
  "truthy JNull = False"
| "truthy (JBool b) = b"
| "truthy (JNum n) = (n \<noteq> 0)"
| "truthy (JStr s) = (s \<noteq> [])"
| "truthy _ = True"

section \<open>Requests\<close>

text \<open>
  What a store action hands to \<open>apiWrapper\<close>: the method, the path below the base URL, and the
  body, when there is one.
\<close>

datatype http_method = GET | POST | PUT | DELETE

datatype 'b request = Request (req_method: http_method) (req_path: jsstr) (req_body: "'b option")

section \<open>Effects\<close>

text \<open>
  What leaves the stores: a notification (title, text and, when the call gives one, a type),
  a navigation of the router, a request whose answer the caller does not wait for, and the
  event with which a dialog asks its parent to close it.
  Console output is left out.
\<close>

datatype effect =
    Notify (ntitle: jsstr) (ntext: reason) (ntype: "jsstr option")
  | Push (ntarget: jsstr)
  | Send (nmethod: http_method) (npath: jsstr)
  | Close

section \<open>Computations over a mutable state\<close>

text \<open>
  \<open>Returns a s es\<close> ends normally with value \<open>a\<close> in state \<open>s\<close>, having caused \<open>es\<close>;
  \<open>Throws e s es\<close> ends with an exception, keeping the mutations made so far; \<open>Diverges\<close>
  is a loop that does not end.
\<close>

datatype ('a, 's) run =
    Returns (run_value: 'a) (run_state: 's) (run_effects: "effect list")
  | Throws (run_reason: reason) (run_state: 's) (run_effects: "effect list")
  | Diverges

type_synonym ('s, 'a) comp = "'s \<Rightarrow> ('a, 's) run"

fun prepend_effects :: "effect list \<Rightarrow> ('a, 's) run \<Rightarrow> ('a, 's) run" where
  "prepend_effects es (Returns a s fs) = Returns a s (es @ fs)"
| "prepend_effects es (Throws e s fs) = Throws e s (es @ fs)"
| "prepend_effects es Diverges = Diverges"

definition return :: "'a \<Rightarrow> ('s, 'a) comp" where
  "return a s = Returns a s []"

definition throw :: "reason \<Rightarrow> ('s, 'a) comp" where
  "throw e s = Throws e s []"

definition diverge :: "('s, 'a) comp" where
  "diverge s = Diverges"

definition bind :: "('s, 'a) comp \<Rightarrow> ('a \<Rightarrow> ('s, 'b) comp) \<Rightarrow> ('s, 'b) comp" where
  "bind m k s = (case m s of
      Returns a s' es \<Rightarrow> prepend_effects es (k a s')
    | Throws e s' es \<Rightarrow> Throws e s' es
    | Diverges \<Rightarrow> Diverges)"

definition andThen :: "('s, 'a) comp \<Rightarrow> ('s, 'b) comp \<Rightarrow> ('s, 'b) comp" where
  "andThen m k = bind m (\<lambda>_. k)"

definition catch :: "('s, 'a) comp \<Rightarrow> (reason \<Rightarrow> ('s, 'a) comp) \<Rightarrow> ('s, 'a) comp" where
  "catch m h s = (case m s of
      Returns a s' es \<Rightarrow> Returns a s' es
    | Throws e s' es \<Rightarrow> prepend_effects es (h e s')
    | Diverges \<Rightarrow> Diverges)"

definition gets :: "('s \<Rightarrow> 'a) \<Rightarrow> ('s, 'a) comp" where
  "gets f s = Returns (f s) s []"

definition modify :: "('s \<Rightarrow> 's) \<Rightarrow> ('s, unit) comp" where
  "modify f s = Returns () (f s) []"

definition emit :: "effect \<Rightarrow> ('s, unit) comp" where
  "emit e s = Returns () s [e]"

definition lift_settled :: "'a settled \<Rightarrow> ('s, 'a) comp" where
  "lift_settled r s = (case r of Inl e \<Rightarrow> Throws e s [] | Inr a \<Rightarrow> Returns a s [])"

definition lift_option :: "'a option \<Rightarrow> ('s, 'a) comp" where
  "lift_option r s = (case r of None \<Rightarrow> Diverges | Some a \<Rightarrow> Returns a s [])"

text \<open>
  \<open>p.then(f).catch(h)\<close> on a settled promise: a rejection goes to \<open>h\<close>, and so does an
  exception thrown by \<open>f\<close> itself, with the state \<open>f\<close> left behind.
\<close>

definition then_catch ::
  "'d settled \<Rightarrow> ('d \<Rightarrow> ('s, 'a) comp) \<Rightarrow> (reason \<Rightarrow> ('s, 'a) comp) \<Rightarrow> ('s, 'a) comp" where
  "then_catch r f h = catch (bind (lift_settled r) f) h"

text \<open>\<open>try ... finally\<close>: the final step runs after a normal end and after an exception.\<close>

definition try_finally :: "('s, 'a) comp \<Rightarrow> ('s, unit) comp \<Rightarrow> ('s, 'a) comp" where
  "try_finally m f = bind (catch m (\<lambda>e. andThen f (throw e))) (\<lambda>a. andThen f (return a))"

text \<open>\<open>zoom\<close> runs a computation of one store inside the state of all of them.\<close>

definition zoom :: "('s \<Rightarrow> 't) \<Rightarrow> ('t \<Rightarrow> 's \<Rightarrow> 's) \<Rightarrow> ('t, 'a) comp \<Rightarrow> ('s, 'a) comp" where
  "zoom get put m s = (case m (get s) of
      Returns a t es \<Rightarrow> Returns a (put t s) es
    | Throws e t es \<Rightarrow> Throws e (put t s) es
    | Diverges \<Rightarrow> Diverges)"

lemmas comp_defs [js_run] =
  return_def throw_def diverge_def bind_def andThen_def catch_def gets_def modify_def emit_def
  lift_settled_def lift_option_def then_catch_def try_finally_def zoom_def

lemma prepend_Nil [simp]: "prepend_effects [] r = r"
  by (cases r) simp_all

lemma prepend_append: "prepend_effects es (prepend_effects fs r) = prepend_effects (es @ fs) r"
  by (cases r) simp_all

text \<open>The laws that let a proof regroup the steps of a handler.\<close>

lemma bind_return [simp]: "bind m return = m"
  by (rule ext) (simp add: js_run split: run.split)

lemma return_bind [simp]: "bind (return a) k = k a"
  by (rule ext) (simp add: js_run)

lemma bind_prepend:
  "(case prepend_effects es r of
      Returns a s fs \<Rightarrow> prepend_effects fs (k a s)
    | Throws e s fs \<Rightarrow> Throws e s fs
    | Diverges \<Rightarrow> Diverges)
   = prepend_effects es (case r of
      Returns a s fs \<Rightarrow> prepend_effects fs (k a s)
    | Throws e s fs \<Rightarrow> Throws e s fs
    | Diverges \<Rightarrow> Diverges)"
  by (cases r) (simp_all add: prepend_append)

lemma bind_assoc: "bind (bind m k) l = bind m (\<lambda>a. bind (k a) l)"
proof
  fix s
  show "bind (bind m k) l s = bind m (\<lambda>a. bind (k a) l) s"
    by (cases "m s") (simp_all add: bind_def bind_prepend)
qed

lemma then_catch_rejected [simp]: "then_catch (Inl e) f h = h e"
  by (rule ext) (simp add: js_run)

lemma then_catch_fulfilled [simp]: "then_catch (Inr d) f h = catch (f d) h"
  by (rule ext) (simp add: js_run)

lemma catch_modify [simp]: "catch (modify f) h = modify f"
  by (rule ext) (simp add: js_run)

text \<open>What every end of a computation satisfies, and what a normal end does.\<close>

fun run_all :: "('s \<Rightarrow> bool) \<Rightarrow> ('a, 's) run \<Rightarrow> bool" where
  "run_all P (Returns a s es) = P s"
| "run_all P (Throws e s es) = P s"
| "run_all P Diverges = True"

fun run_ends :: "('a, 's) run \<Rightarrow> bool" where
  "run_ends Diverges = False"
| "run_ends _ = True"

fun ends_in :: "('a, 's) run \<Rightarrow> 's \<Rightarrow> bool" where
  "ends_in (Returns a s es) t = (t = s)"
| "ends_in (Throws e s es) t = (t = s)"
| "ends_in Diverges t = False"

text \<open>\<open>keeps I m\<close>: a computation started in a state with \<open>I\<close> ends, if it does, in one.\<close>

definition keeps :: "('s \<Rightarrow> bool) \<Rightarrow> ('s, 'a) comp \<Rightarrow> bool" where
  "keeps I m \<longleftrightarrow> (\<forall>s. I s \<longrightarrow> run_all I (m s))"

named_theorems keep "invariants through the combinators"

lemma run_all_prepend [simp]: "run_all P (prepend_effects es r) = run_all P r"
  by (cases r) simp_all

lemma run_ends_prepend [simp]: "run_ends (prepend_effects es r) = run_ends r"
  by (cases r) simp_all

lemma ends_in_prepend [simp]: "ends_in (prepend_effects es r) t = ends_in r t"
  by (cases r) simp_all

lemma keepsD: "keeps I m \<Longrightarrow> I s \<Longrightarrow> ends_in (m s) t \<Longrightarrow> I t"
  by (cases "m s") (auto simp: keeps_def dest!: spec [of _ s])

lemma keeps_return [keep]: "keeps I (return a)"
  by (simp add: keeps_def js_run)

lemma keeps_throw [keep]: "keeps I (throw e)"
  by (simp add: keeps_def js_run)

lemma keeps_emit [keep]: "keeps I (emit e)"
  by (simp add: keeps_def js_run)

lemma keeps_lift_settled [keep]: "keeps I (lift_settled r)"
  by (simp add: keeps_def js_run split: sum.split)

lemma keeps_lift_option [keep]: "keeps I (lift_option r)"
  by (simp add: keeps_def js_run split: option.split)

lemma keeps_modify: "(\<And>s. I s \<Longrightarrow> I (f s)) \<Longrightarrow> keeps I (modify f)"
  by (simp add: keeps_def js_run)

lemma keeps_gets [keep]: "keeps I (gets f)"
  by (simp add: keeps_def js_run)

lemma keeps_bind [keep]:
  assumes "keeps I m" "\<And>a. keeps I (k a)"
  shows "keeps I (bind m k)"
proof -
  have "run_all I (bind m k s)" if "I s" for s
    using that assms by (cases "m s") (auto simp: keeps_def bind_def dest!: spec [of _ s])
  then show ?thesis by (simp add: keeps_def)
qed

lemma keeps_andThen [keep]: "keeps I m \<Longrightarrow> keeps I k \<Longrightarrow> keeps I (andThen m k)"
  by (simp add: andThen_def keeps_bind)

lemma keeps_catch [keep]:
  assumes "keeps I m" "\<And>e. keeps I (h e)"
  shows "keeps I (catch m h)"
proof -
  have "run_all I (catch m h s)" if "I s" for s
    using that assms by (cases "m s") (auto simp: keeps_def catch_def dest!: spec [of _ s])
  then show ?thesis by (simp add: keeps_def)
qed

lemma keeps_then_catch [keep]:
  "(\<And>d. keeps I (f d)) \<Longrightarrow> (\<And>e. keeps I (h e)) \<Longrightarrow> keeps I (then_catch r f h)"
  by (simp add: then_catch_def keep)

lemma keeps_if [keep]: "keeps I m \<Longrightarrow> keeps I k \<Longrightarrow> keeps I (if b then m else k)"
  by simp

section \<open>Arrays\<close>

text \<open>\<open>xs.findIndex(p)\<close>: the first index where \<open>p\<close> holds, \<open>-1\<close> when there is none.\<close>

fun findIndex :: "('a \<Rightarrow> bool) \<Rightarrow> 'a list \<Rightarrow> int" where
  "findIndex P [] = -1"
| "findIndex P (x # xs) =
     (if P x then 0 else (let i = findIndex P xs in if i = -1 then -1 else i + 1))"

text \<open>
  \<open>xs[i] = v\<close>: an index inside the array is overwritten, the length appends, and a negative
  index makes a property that is no element of the array, which leaves the elements as they
  are. (An index beyond the length would leave a hole; \<open>findIndex\<close>, the only source of the
  index here, never gives one.)
\<close>

definition setIndex :: "'a list \<Rightarrow> int \<Rightarrow> 'a \<Rightarrow> 'a list" where
  "setIndex xs i v =
     (if i < 0 then xs
      else if i < int (length xs) then xs[nat i := v]
      else xs @ [v])"

text \<open>\<open>xs.slice(start, end)\<close>: negative positions count from the end, both are clipped.\<close>

definition rel_index :: "int \<Rightarrow> int \<Rightarrow> int" where
  "rel_index n k = (if k < 0 then max (n + k) 0 else min k n)"

definition slice :: "'a list \<Rightarrow> int \<Rightarrow> int \<Rightarrow> 'a list" where
  "slice xs start stop =
     (let n = int (length xs); from = rel_index n start; til = rel_index n stop
      in take (nat (til - from)) (drop (nat from) xs))"

lemma findIndex_bounds: "- 1 \<le> findIndex P xs \<and> findIndex P xs < int (length xs)"
  by (induction xs) (auto simp: Let_def)

lemma findIndex_none [arr]: "findIndex P xs = - 1 \<longleftrightarrow> (\<forall>x \<in> set xs. \<not> P x)"
proof (induction xs)
  case (Cons x xs)
  then show ?case using findIndex_bounds [of P xs] by (auto simp: Let_def)
qed simp

lemma findIndex_split:
  assumes "\<exists>x \<in> set xs. P x"
  obtains pre x post where "xs = pre @ x # post" "P x" "\<forall>y \<in> set pre. \<not> P y"
    "findIndex P xs = int (length pre)"
  using assms
proof (induction xs arbitrary: thesis)
  case (Cons a xs)
  show ?case
  proof (cases "P a")
    case True
    then show ?thesis using Cons.prems(1) [of "[]" a xs] by simp
  next
    case False
    with Cons.prems(2) have ex: "\<exists>x \<in> set xs. P x" by simp
    obtain pre x post where split: "xs = pre @ x # post" "P x" "\<forall>y \<in> set pre. \<not> P y"
      "findIndex P xs = int (length pre)"
      using Cons.IH [OF _ ex] by blast
    have "findIndex P (a # xs) = int (length (a # pre))"
      using False split(4) by simp
    with False split show ?thesis
      using Cons.prems(1) [of "a # pre" x post] by simp
  qed
qed simp

lemma setIndex_missing [simp]: "setIndex xs (- 1) v = xs"
  by (simp add: setIndex_def)

lemma setIndex_length: "setIndex (pre @ x # post) (int (length pre)) v = pre @ v # post"
  by (simp add: setIndex_def)

text \<open>The update of a store: the first element with the key is replaced in place.\<close>

lemma setIndex_findIndex:
  "setIndex xs (findIndex P xs) v =
     (case List.extract P xs of None \<Rightarrow> xs | Some (pre, _, post) \<Rightarrow> pre @ v # post)"
proof (cases "List.extract P xs")
  case None
  then have "findIndex P xs = - 1" by (simp add: extract_None_iff findIndex_none)
  with None show ?thesis by simp
next
  case (Some t)
  then obtain pre x post where t: "t = (pre, x, post)" by (cases t)
  with Some have split: "xs = pre @ x # post" "P x" "\<forall>y \<in> set pre. \<not> P y"
    by (simp_all add: extract_Some_iff)
  have "findIndex P (pre @ x # post) = int (length pre)"
    using split(2,3) by (induction pre) auto
  then show ?thesis using Some t split(1) by (simp add: setIndex_length)
qed

lemma length_setIndex_findIndex [arr]: "length (setIndex xs (findIndex P xs) v) = length xs"
  using findIndex_bounds [of P xs] by (simp add: setIndex_def)

lemma slice_window:
  assumes "0 \<le> start" and "start \<le> stop"
  shows "slice xs start stop = take (nat (stop - start)) (drop (nat start) xs)"
proof (cases "start \<le> int (length xs)")
  case True
  have "nat (min stop (int (length xs)) - start) = min (nat (stop - start)) (length xs - nat start)"
    using assms True by linarith
  with True assms show ?thesis
    by (simp add: slice_def rel_index_def Let_def min_def split: if_splits)
next
  case False
  then have "length xs \<le> nat start" by linarith
  with False assms show ?thesis by (simp add: slice_def rel_index_def Let_def)
qed

lemma slice_sublist: "set (slice xs i j) \<subseteq> set xs"
  by (auto simp: slice_def Let_def dest: in_set_takeD in_set_dropD)

end
