(* ===== verification/Models.thy ===== *)
theory Models
  imports JS_Base
begin

text \<open>
  The objects the portal exchanges with its backend (\<open>helpers/models.js\<close>): one record per
  object literal, with the source's property names behind a prefix, and the functions that
  make fresh ones. A property that may be missing or null is an option; numbers are integers
  (ports, MTUs, counters), all far below the range where a JavaScript number loses precision.
\<close>

section \<open>Interfaces\<close>

text \<open>
  \<open>freshInterface\<close> has a property \<open>DnsStr\<close> that no other code reads, and lacks the property
  \<open>Dns\<close> that the backend sends and the edit dialog copies; each is an option here.
\<close>

record iface =
  i_Disabled :: bool
  i_DisplayName :: jsstr
  i_Identifier :: jsstr
  i_Mode :: jsstr
  i_Backend :: jsstr
  i_PublicKey :: jsstr
  i_PrivateKey :: jsstr
  i_ListenPort :: int
  i_Addresses :: "jsstr list"
  i_DnsStr :: "jsstr list option"
  i_Dns :: "jsstr list option"
  i_DnsSearch :: "jsstr list"
  i_Mtu :: int
  i_FirewallMark :: int
  i_RoutingTable :: jsstr
  i_PreUp :: jsstr
  i_PostUp :: jsstr
  i_PreDown :: jsstr
  i_PostDown :: jsstr
  i_SaveConfig :: bool
  i_PeerDefNetwork :: "jsstr list"
  i_PeerDefDns :: "jsstr list"
  i_PeerDefDnsSearch :: "jsstr list"
  i_PeerDefEndpoint :: jsstr
  i_PeerDefAllowedIPs :: "jsstr list"
  i_PeerDefMtu :: int
  i_PeerDefPersistentKeepalive :: int
  i_PeerDefFirewallMark :: int
  i_PeerDefRoutingTable :: jsstr
  i_PeerDefPreUp :: jsstr
  i_PeerDefPostUp :: jsstr
  i_PeerDefPreDown :: jsstr
  i_PeerDefPostDown :: jsstr
  i_TotalPeers :: int
  i_EnabledPeers :: int
  i_Filename :: jsstr

definition freshInterface :: iface where
  "freshInterface = \<lparr>
    i_Disabled = False,
    i_DisplayName = [],
    i_Identifier = [],
    i_Mode = js ''server'',
    i_Backend = js ''local'',
    i_PublicKey = [],
    i_PrivateKey = [],
    i_ListenPort = 51820,
    i_Addresses = [],
    i_DnsStr = Some [],
    i_Dns = None,
    i_DnsSearch = [],
    i_Mtu = 0,
    i_FirewallMark = 0,
    i_RoutingTable = [],
    i_PreUp = [],
    i_PostUp = [],
    i_PreDown = [],
    i_PostDown = [],
    i_SaveConfig = False,
    i_PeerDefNetwork = [],
    i_PeerDefDns = [],
    i_PeerDefDnsSearch = [],
    i_PeerDefEndpoint = [],
    i_PeerDefAllowedIPs = [],
    i_PeerDefMtu = 0,
    i_PeerDefPersistentKeepalive = 0,
    i_PeerDefFirewallMark = 0,
    i_PeerDefRoutingTable = [],
    i_PeerDefPreUp = [],
    i_PeerDefPostUp = [],
    i_PeerDefPreDown = [],
    i_PeerDefPostDown = [],
    i_TotalPeers = 0,
    i_EnabledPeers = 0,
    i_Filename = []\<rparr>"

section \<open>Peers\<close>

text \<open>A setting of a peer that an interface-wide default may override.\<close>

record 'a overridable =
  ov_Value :: 'a
  ov_Overridable :: bool

record peer =
  p_Identifier :: jsstr
  p_DisplayName :: jsstr
  p_UserIdentifier :: jsstr
  p_InterfaceIdentifier :: jsstr
  p_Disabled :: bool
  p_DisabledReason :: "jsstr option"
  p_ExpiresAt :: "jsstr option"
  p_Notes :: jsstr
  p_Endpoint :: "jsstr overridable"
  p_EndpointPublicKey :: "jsstr overridable"
  p_AllowedIPs :: "jsstr list overridable"
  p_ExtraAllowedIPs :: "jsstr list"
  p_PresharedKey :: jsstr
  p_PersistentKeepalive :: "int overridable"
  p_PrivateKey :: jsstr
  p_PublicKey :: jsstr
  p_Mode :: jsstr
  p_Addresses :: "jsstr list"
  p_CheckAliveAddress :: jsstr
  p_Dns :: "jsstr list overridable"
  p_DnsSearch :: "jsstr list overridable"
  p_Mtu :: "int overridable"
  p_FirewallMark :: "int overridable"
  p_RoutingTable :: "jsstr overridable"
  p_PreUp :: "jsstr overridable"
  p_PostUp :: "jsstr overridable"
  p_PreDown :: "jsstr overridable"
  p_PostDown :: "jsstr overridable"
  p_Filename :: jsstr
  p_IgnoreGlobalSettings :: bool
  p_IsSelected :: bool

definition freshPeer :: peer where
  "freshPeer = \<lparr>
    p_Identifier = [],
    p_DisplayName = [],
    p_UserIdentifier = [],
    p_InterfaceIdentifier = [],
    p_Disabled = False,
    p_DisabledReason = None,
    p_ExpiresAt = None,
    p_Notes = [],
    p_Endpoint = \<lparr>ov_Value = [], ov_Overridable = True\<rparr>,
    p_EndpointPublicKey = \<lparr>ov_Value = [], ov_Overridable = True\<rparr>,
    p_AllowedIPs = \<lparr>ov_Value = [], ov_Overridable = True\<rparr>,
    p_ExtraAllowedIPs = [],
    p_PresharedKey = [],
    p_PersistentKeepalive = \<lparr>ov_Value = 0, ov_Overridable = True\<rparr>,
    p_PrivateKey = [],
    p_PublicKey = [],
    p_Mode = js ''client'',
    p_Addresses = [],
    p_CheckAliveAddress = [],
    p_Dns = \<lparr>ov_Value = [], ov_Overridable = True\<rparr>,
    p_DnsSearch = \<lparr>ov_Value = [], ov_Overridable = True\<rparr>,
    p_Mtu = \<lparr>ov_Value = 0, ov_Overridable = True\<rparr>,
    p_FirewallMark = \<lparr>ov_Value = 0, ov_Overridable = True\<rparr>,
    p_RoutingTable = \<lparr>ov_Value = [], ov_Overridable = True\<rparr>,
    p_PreUp = \<lparr>ov_Value = [], ov_Overridable = True\<rparr>,
    p_PostUp = \<lparr>ov_Value = [], ov_Overridable = True\<rparr>,
    p_PreDown = \<lparr>ov_Value = [], ov_Overridable = True\<rparr>,
    p_PostDown = \<lparr>ov_Value = [], ov_Overridable = True\<rparr>,
    p_Filename = [],
    p_IgnoreGlobalSettings = False,
    p_IsSelected = False\<rparr>"

section \<open>Users\<close>

text \<open>
  The backend sends the token of the programming interface and its date, when there is one, and
  the reason why a peer is disabled; the fresh objects have none of these properties.
\<close>

record user =
  u_Identifier :: jsstr
  u_Email :: jsstr
  u_Source :: jsstr
  u_IsAdmin :: bool
  u_Firstname :: jsstr
  u_Lastname :: jsstr
  u_Phone :: jsstr
  u_Department :: jsstr
  u_Notes :: jsstr
  u_Password :: jsstr
  u_Disabled :: bool
  u_DisabledReason :: jsstr
  u_Locked :: bool
  u_LockedReason :: jsstr
  u_ApiEnabled :: bool
  u_ApiToken :: "jsstr option"
  u_ApiTokenCreated :: "jsstr option"
  u_PeerCount :: int
  u_IsSelected :: bool

definition freshUser :: user where
  "freshUser = \<lparr>
    u_Identifier = [],
    u_Email = [],
    u_Source = js ''db'',
    u_IsAdmin = False,
    u_Firstname = [],
    u_Lastname = [],
    u_Phone = [],
    u_Department = [],
    u_Notes = [],
    u_Password = [],
    u_Disabled = False,
    u_DisabledReason = [],
    u_Locked = False,
    u_LockedReason = [],
    u_ApiEnabled = False,
    u_ApiToken = None,
    u_ApiTokenCreated = None,
    u_PeerCount = 0,
    u_IsSelected = False\<rparr>"

section \<open>Statistics\<close>

record stats =
  s_IsConnected :: bool
  s_IsPingable :: bool
  s_LastHandshake :: "jsstr option"
  s_LastPing :: "jsstr option"
  s_LastSessionStart :: "jsstr option"
  s_BytesTransmitted :: int
  s_BytesReceived :: int
  s_EndpointAddress :: jsstr

definition freshStats :: stats where
  "freshStats = \<lparr>
    s_IsConnected = False,
    s_IsPingable = False,
    s_LastHandshake = None,
    s_LastPing = None,
    s_LastSessionStart = None,
    s_BytesTransmitted = 0,
    s_BytesReceived = 0,
    s_EndpointAddress = []\<rparr>"

text \<open>The answer to a request for statistics.\<close>

record stats_response =
  r_Enabled :: bool
  r_Stats :: "jsstr \<rightharpoonup> stats"

end
