(* ===== verification/Encoding.thy ===== *)
theory Encoding
  imports JS_Base
begin

text \<open>
  How identifiers travel in a request path. \<open>helpers/encoding.js\<close> (\<open>base64_url_encode\<close>) and
  its counterpart in the backend (\<open>handlers/encoding.go\<close>, \<open>Base64UrlDecode\<close>), over models
  of the browser's \<open>btoa\<close> and of Go's \<open>base64.StdEncoding.DecodeString\<close>; the helpers of the
  key generator page (\<open>b64urlToB64\<close>, \<open>arrayBufferToBase64\<close>). The lemmas give the round trip,
  the shape of the encoded text, and when it is a single path segment.
\<close>

section \<open>Standard Base64\<close>

definition b64_alphabet :: jsstr where
  "b64_alphabet = js ''ABCDEFGHIJKLMNOPQRSTUVWXYZabcdefghijklmnopqrstuvwxyz0123456789+/''"

definition b64_digit :: "nat \<Rightarrow> 16 word" where
  "b64_digit n = b64_alphabet ! n"

definition b64_pad :: "16 word" where
  "b64_pad = js_char CHR ''=''"

text \<open>Bytes are numbers below 256; three of them make four digits.\<close>

fun b64_bytes :: "nat list \<Rightarrow> jsstr" where
  "b64_bytes [] = []"
| "b64_bytes [a] = [b64_digit (a div 4), b64_digit ((a mod 4) * 16), b64_pad, b64_pad]"
| "b64_bytes [a, b] =
     [b64_digit (a div 4), b64_digit ((a mod 4) * 16 + b div 16),
      b64_digit ((b mod 16) * 4), b64_pad]"
| "b64_bytes (a # b # c # rest) =
     b64_digit (a div 4) # b64_digit ((a mod 4) * 16 + b div 16)
     # b64_digit ((b mod 16) * 4 + c div 64) # b64_digit (c mod 64) # b64_bytes rest"

text \<open>
  \<open>window.btoa\<close>: every code unit must be a byte, else the call throws an
  \<open>InvalidCharacterError\<close> (whose message no code reads).
\<close>

definition bytes_of :: "jsstr \<Rightarrow> nat list" where
  "bytes_of s = map unat s"

definition latin1 :: "jsstr \<Rightarrow> bool" where
  "latin1 s = (\<forall>u \<in> set s. unat u < 256)"

definition InvalidCharacterError :: reason where
  "InvalidCharacterError = Exc (js ''InvalidCharacterError'') []"

definition btoa :: "jsstr \<Rightarrow> jsstr settled" where
  "btoa s = (if latin1 s then Inr (b64_bytes (bytes_of s)) else Inl InvalidCharacterError)"

section \<open>The frontend's encoder\<close>

text \<open>
  \<open>String.prototype.replace\<close> with a string pattern replaces the first occurrence only, with
  a global regular expression all of them.
\<close>

fun replace_first :: "16 word \<Rightarrow> 16 word \<Rightarrow> jsstr \<Rightarrow> jsstr" where
  "replace_first x y [] = []"
| "replace_first x y (u # us) = (if u = x then y # us else u # replace_first x y us)"

definition replace_all :: "16 word \<Rightarrow> 16 word \<Rightarrow> jsstr \<Rightarrow> jsstr" where
  "replace_all x y s = map (\<lambda>u. if u = x then y else u) s"

definition base64_url_encode :: "jsstr \<Rightarrow> jsstr settled" where
  "base64_url_encode input = (case btoa input of
      Inl e \<Rightarrow> Inl e
    | Inr output1 \<Rightarrow>
        (let output2 = replace_first (js_char CHR ''+'') (js_char CHR ''.'') output1;
             output3 = replace_first (js_char CHR ''/'') (js_char CHR ''_'') output2;
             output4 = replace_first (js_char CHR ''='') (js_char CHR ''-'') output3
         in Inr output4))"

section \<open>The backend's decoder\<close>

text \<open>
  Go's standard decoder skips line ends, takes four digits at a time, wants padding at the
  very end, and on a malformed quantum stops with an error and the bytes decoded so far;
  \<open>Base64UrlDecode\<close> drops the error and returns those bytes.
\<close>

definition b64_value :: "16 word \<Rightarrow> nat option" where
  "b64_value u = map_of (zip b64_alphabet [0..<64]) u"

definition is_line_end :: "16 word \<Rightarrow> bool" where
  "is_line_end u = (unat u = 10 \<or> unat u = 13)"

fun b64_quanta :: "jsstr \<Rightarrow> nat list" where
  "b64_quanta (p # q # r # s # rest) =
     (case (b64_value p, b64_value q) of
        (Some v, Some w) \<Rightarrow>
          (case b64_value r of
             None \<Rightarrow> if r = b64_pad \<and> s = b64_pad then [v * 4 + w div 16] else []
           | Some x \<Rightarrow>
              (case b64_value s of
                 None \<Rightarrow> if s = b64_pad then [v * 4 + w div 16, (w mod 16) * 16 + x div 4] else []
               | Some y \<Rightarrow>
                   (v * 4 + w div 16) # ((w mod 16) * 16 + x div 4) # ((x mod 4) * 64 + y)
                   # b64_quanta rest))
      | _ \<Rightarrow> [])"
| "b64_quanta _ = []"

definition StdEncoding_DecodeString :: "jsstr \<Rightarrow> nat list" where
  "StdEncoding_DecodeString s = b64_quanta (filter (\<lambda>u. \<not> is_line_end u) s)"

definition Base64UrlDecode :: "jsstr \<Rightarrow> nat list" where
  "Base64UrlDecode in0 =
     (let in1 = replace_all (js_char CHR ''-'') (js_char CHR ''='') in0;
          in2 = replace_all (js_char CHR ''_'') (js_char CHR ''/'') in1;
          in3 = replace_all (js_char CHR ''.'') (js_char CHR ''+'') in2
      in StdEncoding_DecodeString in3)"

text \<open>
  \<open>Base64UrlDecode\<close> returns these bytes as a Go string, which holds text in UTF-8: as an identifier
  they are compared with the UTF-8 bytes of the one the backend stores. A surrogate pair is one
  character of four bytes, a surrogate on its own becomes the replacement character.
\<close>

definition utf8_char :: "nat \<Rightarrow> nat list" where
  "utf8_char c =
     (if c < 128 then [c]
      else if c < 2048 then [192 + c div 64, 128 + c mod 64]
      else if c < 65536 then [224 + c div 4096, 128 + c div 64 mod 64, 128 + c mod 64]
      else [240 + c div 262144, 128 + c div 4096 mod 64, 128 + c div 64 mod 64, 128 + c mod 64])"

definition high_surrogate :: "16 word \<Rightarrow> bool" where
  "high_surrogate u \<longleftrightarrow> 55296 \<le> unat u \<and> unat u < 56320"

definition low_surrogate :: "16 word \<Rightarrow> bool" where
  "low_surrogate u \<longleftrightarrow> 56320 \<le> unat u \<and> unat u < 57344"

fun utf8 :: "jsstr \<Rightarrow> nat list" where
  "utf8 [] = []"
| "utf8 (u # us) =
     (if high_surrogate u
      then (case us of
          v # vs \<Rightarrow> if low_surrogate v
            then utf8_char (65536 + (unat u - 55296) * 1024 + (unat v - 56320)) @ utf8 vs
            else utf8_char 65533 @ utf8 us
        | [] \<Rightarrow> utf8_char 65533)
      else if low_surrogate u then utf8_char 65533 @ utf8 us
      else utf8_char (unat u) @ utf8 us)"

section \<open>The key generator's helpers\<close>

text \<open>\<open>while (b64.length % 4) b64 += '='\<close>: at most three rounds.\<close>

function pad_to_4 :: "jsstr \<Rightarrow> jsstr" where
  "pad_to_4 b64 = (if length b64 mod 4 \<noteq> 0 then pad_to_4 (b64 @ [b64_pad]) else b64)"
  by pat_completeness auto
termination
  by (relation "measure (\<lambda>b64. if length b64 mod 4 = 0 then 0 else 4 - length b64 mod 4)")
    (auto simp: mod_Suc)

declare pad_to_4.simps [simp del]

definition b64urlToB64 :: "jsstr \<Rightarrow> jsstr" where
  "b64urlToB64 input =
     pad_to_4 (replace_all (js_char CHR ''_'') (js_char CHR ''/'')
       (replace_all (js_char CHR ''-'') (js_char CHR ''+'') input))"

text \<open>The loop over the bytes of the buffer appends \<open>String.fromCharCode(bytes[i])\<close>.\<close>

fun binary_string :: "8 word list \<Rightarrow> jsstr \<Rightarrow> jsstr" where
  "binary_string [] binary = binary"
| "binary_string (b # bytes) binary = binary_string bytes (binary @ [ucast b])"

definition arrayBufferToBase64 :: "8 word list \<Rightarrow> jsstr settled" where
  "arrayBufferToBase64 buffer = btoa (binary_string buffer [])"

section \<open>Facts on the alphabet\<close>

lemma length_alphabet [simp]: "length b64_alphabet = 64"
  by (simp add: b64_alphabet_def)

lemma distinct_alphabet: "distinct b64_alphabet"
proof -
  have "distinct ''ABCDEFGHIJKLMNOPQRSTUVWXYZabcdefghijklmnopqrstuvwxyz0123456789+/''"
    by code_simp
  then show ?thesis
    unfolding b64_alphabet_def js_def distinct_map by (simp only: inj_on_def js_char_eq_iff) blast
qed

lemma set_alphabet:
  "u \<in> set b64_alphabet \<longleftrightarrow>
     (\<exists>c \<in> set ''ABCDEFGHIJKLMNOPQRSTUVWXYZabcdefghijklmnopqrstuvwxyz0123456789+/''. u = js_char c)"
  by (auto simp: b64_alphabet_def js_def)

lemma b64_value_digit [simp]: "n < 64 \<Longrightarrow> b64_value (b64_digit n) = Some n"
  using map_of_zip_nth [of b64_alphabet "[0..<64]" n]
  by (simp add: b64_value_def b64_digit_def distinct_alphabet)

lemma b64_digit_inject: "m < 64 \<Longrightarrow> n < 64 \<Longrightarrow> b64_digit m = b64_digit n \<longleftrightarrow> m = n"
  by (metis b64_value_digit option.inject)

lemma digit_in_alphabet [simp]: "n < 64 \<Longrightarrow> b64_digit n \<in> set b64_alphabet"
  by (simp add: b64_digit_def)

lemma b64_value_None: "b64_value u = None \<longleftrightarrow> u \<notin> set b64_alphabet"
proof -
  have "fst ` set (zip b64_alphabet [0..<64]) = set b64_alphabet"
    by (metis length_alphabet length_upt map_fst_zip minus_nat.diff_0 list.set_map)
  then show ?thesis by (simp only: b64_value_def map_of_eq_None_iff)
qed

lemma pad_not_digit [simp]: "b64_value b64_pad = None"
  by (simp add: b64_value_None set_alphabet b64_pad_def)

section \<open>The standard decoder inverts the standard encoder\<close>

definition is_byte :: "nat \<Rightarrow> bool" where
  "is_byte a = (a < 256)"

lemma is_byte_0 [simp]: "is_byte 0"
  by (simp add: is_byte_def)

lemma sextets:
  assumes "is_byte a" "is_byte b" "is_byte c"
  shows "a div 4 < 64" "(a mod 4) * 16 < 64" "(a mod 4) * 16 + b div 16 < 64"
    "(b mod 16) * 4 < 64" "(b mod 16) * 4 + c div 64 < 64" "c mod 64 < 64"
proof -
  have a: "a mod 4 < 4" and b: "b mod 16 < 16" by simp_all
  have "b div 16 < 16" "c div 64 < 4" using assms by (simp_all add: is_byte_def)
  with a b show "(a mod 4) * 16 < 64" "(a mod 4) * 16 + b div 16 < 64"
    "(b mod 16) * 4 < 64" "(b mod 16) * 4 + c div 64 < 64" by linarith+
  show "a div 4 < 64" "c mod 64 < 64" using assms by (simp_all add: is_byte_def)
qed

lemma recombine:
  assumes "is_byte b"
  shows "((a mod 4) * 16 + b div 16) div 16 = a mod 4"
    "((a mod 4) * 16 + b div 16) mod 16 = b div 16"
    "((a mod 16) * 4 + b div 64) div 4 = a mod 16"
    "((a mod 16) * 4 + b div 64) mod 4 = b div 64"
proof -
  have "b div 16 < 16" "b div 64 < 4" using assms by (simp_all add: is_byte_def)
  then show "((a mod 4) * 16 + b div 16) div 16 = a mod 4"
    "((a mod 4) * 16 + b div 16) mod 16 = b div 16"
    "((a mod 16) * 4 + b div 64) div 4 = a mod 16"
    "((a mod 16) * 4 + b div 64) mod 4 = b div 64"
    by simp_all
qed

lemma b64_quanta_bytes: "\<forall>a \<in> set bs. is_byte a \<Longrightarrow> b64_quanta (b64_bytes bs) = bs"
proof (induction bs rule: b64_bytes.induct)
  case (2 a)
  then show ?case using sextets [of a 0 0] by (simp add: is_byte_def)
next
  case (3 a b)
  then have "b div 16 < 16" by (auto simp: is_byte_def)
  with 3 show ?case using sextets [of a b 0] by (simp add: recombine)
next
  case (4 a b c rest)
  then have "b div 16 < 16" "c div 64 < 4" by (auto simp: is_byte_def)
  with 4 show ?case using sextets [of a b c] by (simp add: recombine)
qed simp

lemma set_b64_bytes: "\<forall>a \<in> set bs. is_byte a \<Longrightarrow> set (b64_bytes bs) \<subseteq> insert b64_pad (set b64_alphabet)"
proof (induction bs rule: b64_bytes.induct)
  case (2 a)
  then show ?case using sextets [of a 0 0] by (simp add: is_byte_def)
next
  case (3 a b)
  then show ?case using sextets [of a b 0] by (simp add: is_byte_def)
next
  case (4 a b c rest)
  then show ?case using sextets [of a b c] by simp
qed simp

lemma length_b64_bytes: "length (b64_bytes bs) = (length bs + 2) div 3 * 4"
  proof (induction bs rule: b64_bytes.induct)
  case (4 a b c rest)
  have "(length (a # b # c # rest) + 2) div 3 = Suc ((length rest + 2) div 3)" by simp
  then show ?case using 4 by (simp only: b64_bytes.simps list.size mult_Suc)
qed simp_all

lemma bytes_of_bytes: "latin1 s \<Longrightarrow> \<forall>a \<in> set (bytes_of s). is_byte a"
  by (auto simp: latin1_def bytes_of_def is_byte_def)

lemma bytes_of_inject: "bytes_of s = bytes_of t \<longleftrightarrow> s = t"
  unfolding bytes_of_def by (rule inj_map_eq_map) (simp add: inj_def word_unat_eq_iff)

section \<open>The substitutions undo each other\<close>

definition unurl :: "16 word \<Rightarrow> 16 word" where
  "unurl u = (if u = js_char CHR ''-'' then js_char CHR ''=''
    else if u = js_char CHR ''_'' then js_char CHR ''/''
    else if u = js_char CHR ''.'' then js_char CHR ''+'' else u)"

lemma Base64UrlDecode_unurl: "Base64UrlDecode s = StdEncoding_DecodeString (map unurl s)"
proof -
  have "replace_all (js_char CHR ''.'') (js_char CHR ''+'')
     (replace_all (js_char CHR ''_'') (js_char CHR ''/'')
       (replace_all (js_char CHR ''-'') (js_char CHR ''='') s)) = map unurl s"
    by (simp add: replace_all_def unurl_def)
  then show ?thesis by (simp add: Base64UrlDecode_def Let_def)
qed

lemma map_replace_first: "f y = f x \<Longrightarrow> map f (replace_first x y s) = map f s"
  by (induction s) auto

lemma unurl_encoded:
  assumes "set s \<subseteq> insert b64_pad (set b64_alphabet)"
  shows "map unurl s = s"
proof (rule map_idI)
  fix u assume "u \<in> set s"
  with assms have "u = b64_pad \<or> u \<in> set b64_alphabet" by blast
  then show "unurl u = u" by (auto simp: set_alphabet b64_pad_def unurl_def)
qed

lemma no_line_end:
  assumes "set s \<subseteq> insert b64_pad (set b64_alphabet)"
  shows "filter (\<lambda>u. \<not> is_line_end u) s = s"
proof (rule filter_True, rule ballI)
  fix u assume "u \<in> set s"
  with assms have "u = b64_pad \<or> u \<in> set b64_alphabet" by blast
  then show "\<not> is_line_end u"
    by (auto simp: set_alphabet b64_pad_def is_line_end_def unat_js_char)
qed

lemma base64_url_encode_Inr:
  "base64_url_encode s = Inr t \<longleftrightarrow> latin1 s \<and>
     t = replace_first (js_char CHR ''='') (js_char CHR ''-'')
          (replace_first (js_char CHR ''/'') (js_char CHR ''_'')
            (replace_first (js_char CHR ''+'') (js_char CHR ''.'') (b64_bytes (bytes_of s))))"
  by (auto simp: base64_url_encode_def btoa_def Let_def)

lemma decode_encoded:
  assumes "base64_url_encode s = Inr t"
  shows "Base64UrlDecode t = bytes_of s"
proof -
  from assms have "latin1 s" by (simp add: base64_url_encode_Inr)
  note bytes = bytes_of_bytes [OF this]
  note range = set_b64_bytes [OF bytes]
  have "map unurl t = map unurl (b64_bytes (bytes_of s))"
    using assms by (simp add: base64_url_encode_Inr map_replace_first unurl_def)
  also have "\<dots> = b64_bytes (bytes_of s)" by (rule unurl_encoded [OF range])
  finally show ?thesis
    by (simp add: Base64UrlDecode_unurl StdEncoding_DecodeString_def no_line_end [OF range]
        b64_quanta_bytes [OF bytes])
qed

section \<open>Identifiers as UTF-8\<close>

definition seven_bit :: "jsstr \<Rightarrow> bool" where
  "seven_bit s = (\<forall>u \<in> set s. unat u < 128)"

lemma utf8_latin1: "latin1 s \<Longrightarrow> utf8 s = concat (map (utf8_char \<circ> unat) s)"
  by (induction s) (auto simp: latin1_def high_surrogate_def low_surrogate_def)

text \<open>Every character of a Latin-1 text has one byte in UTF-8, or two, when it is beyond ASCII.\<close>

lemma length_utf8:
  assumes "latin1 s"
  shows "length (utf8 s) = length s + length (filter (\<lambda>u. 128 \<le> unat u) s)"
  using assms unfolding utf8_latin1 [OF assms]
  by (induction s) (auto simp: latin1_def utf8_char_def)

lemma utf8_bytes_of:
  assumes "latin1 s"
  shows "bytes_of s = utf8 s \<longleftrightarrow> seven_bit s"
proof
  assume "bytes_of s = utf8 s"
  then have "length (bytes_of s) = length (utf8 s)" by (rule arg_cong)
  then have "filter (\<lambda>u. 128 \<le> unat u) s = []"
    by (simp add: length_utf8 [OF assms] bytes_of_def)
  then show "seven_bit s" by (auto simp: seven_bit_def filter_empty_conv not_le)
next
  assume "seven_bit s"
  then show "bytes_of s = utf8 s"
    unfolding utf8_latin1 [OF assms] by (induction s) (auto simp: seven_bit_def bytes_of_def utf8_char_def)
qed

section \<open>What is left in the encoded text\<close>

lemma count_replace_first:
  assumes "x \<noteq> y"
  shows "count_list (replace_first x y s) x = count_list s x - 1"
  using assms by (induction s) auto

lemma count_replace_first_other:
  assumes "z \<noteq> x" "z \<noteq> y"
  shows "count_list (replace_first x y s) z = count_list s z"
  using assms by (induction s) auto

text \<open>
  Which inputs make the digits \<open>+\<close> and \<open>/\<close>: in seven-bit text only the last digit of a
  triple can have its upper bits set.
\<close>

definition plain_byte :: "nat \<Rightarrow> bool" where
  "plain_byte a = (a < 128 \<and> a mod 64 < 62)"

definition plain_text :: "jsstr \<Rightarrow> bool" where
  "plain_text s = (\<forall>a \<in> set (bytes_of s). plain_byte a)"

lemma b64_digit_plain:
  assumes "n < 62"
  shows "b64_digit n \<noteq> js_char CHR ''/''" "b64_digit n \<noteq> js_char CHR ''+''"
proof -
  have nth: "b64_digit 63 = js_char CHR ''/''" "b64_digit 62 = js_char CHR ''+''"
    by (simp_all add: b64_digit_def b64_alphabet_def js_def)
  have "b64_digit n \<noteq> b64_digit 63" "b64_digit n \<noteq> b64_digit 62"
    using assms by (simp_all add: b64_digit_inject)
  then show "b64_digit n \<noteq> js_char CHR ''/''" "b64_digit n \<noteq> js_char CHR ''+''"
    by (simp_all only: nth not_False_eq_True)
qed

lemma plain_sextets:
  assumes "plain_byte a" "plain_byte b" "plain_byte c"
  shows "a div 4 < 62" "(a mod 4) * 16 < 62" "(a mod 4) * 16 + b div 16 < 62"
    "(b mod 16) * 4 < 62" "(b mod 16) * 4 + c div 64 < 62" "c mod 64 < 62"
proof -
  have a: "a mod 4 < 4" and b: "b mod 16 < 16" by simp_all
  have "b div 16 < 8" "c div 64 < 2" using assms by (auto simp: plain_byte_def)
  with a b show "(a mod 4) * 16 < 62" "(a mod 4) * 16 + b div 16 < 62"
    "(b mod 16) * 4 < 62" "(b mod 16) * 4 + c div 64 < 62" by linarith+
  show "a div 4 < 62" "c mod 64 < 62" using assms by (auto simp: plain_byte_def)
qed

lemma plain_byte_0 [simp]: "plain_byte 0"
  by (simp add: plain_byte_def)

definition no_slash_plus :: "jsstr \<Rightarrow> bool" where
  "no_slash_plus s = (js_char CHR ''/'' \<notin> set s \<and> js_char CHR ''+'' \<notin> set s)"

lemma no_slash_plus_Cons:
  "no_slash_plus (u # us) \<longleftrightarrow>
     u \<noteq> js_char CHR ''/'' \<and> u \<noteq> js_char CHR ''+'' \<and> no_slash_plus us"
  by (auto simp: no_slash_plus_def)

lemma no_slash_plus_pad [simp]: "no_slash_plus []" "b64_pad \<noteq> js_char CHR ''/''"
  "b64_pad \<noteq> js_char CHR ''+''"
  by (simp_all add: no_slash_plus_def b64_pad_def)

lemma b64_bytes_plain: "\<forall>a \<in> set bs. plain_byte a \<Longrightarrow> no_slash_plus (b64_bytes bs)"
proof (induction bs rule: b64_bytes.induct)
  case (2 a)
  then show ?case using plain_sextets [of a 0 0] by (simp add: no_slash_plus_Cons b64_digit_plain)
next
  case (3 a b)
  then show ?case using plain_sextets [of a b 0] by (simp add: no_slash_plus_Cons b64_digit_plain)
next
  case (4 a b c rest)
  then show ?case using plain_sextets [of a b c] by (simp add: no_slash_plus_Cons b64_digit_plain)
qed simp

lemma plain_text_latin1: "plain_text s \<Longrightarrow> latin1 s"
  by (auto simp: plain_text_def latin1_def bytes_of_def plain_byte_def)

lemma replace_first_absent: "x \<notin> set s \<Longrightarrow> replace_first x y s = s"
  by (induction s) auto

lemma set_replace_first: "set (replace_first x y s) \<subseteq> insert y (set s)"
  by (induction s) auto

section \<open>Unpadding and padding\<close>

lemma pad_to_4_eq: "pad_to_4 b = b @ replicate ((4 - length b mod 4) mod 4) b64_pad"
proof (induction b rule: pad_to_4.induct)
  case (1 b)
  show ?case
  proof (cases "length b mod 4 = 0")
    case True
    then show ?thesis by (subst pad_to_4.simps) simp
  next
    case False
    then have "(4 - length b mod 4) mod 4 = Suc ((4 - length (b @ [b64_pad]) mod 4) mod 4)"
      by (auto simp: mod_Suc)
    with False 1 show ?thesis by (subst pad_to_4.simps) simp
  qed
qed

lemma length_pad_to_4: "4 dvd length (pad_to_4 b)"
proof (induction b rule: pad_to_4.induct)
  case (1 b)
  then show ?case
    by (cases "length b mod 4 = 0") (subst pad_to_4.simps, simp add: dvd_eq_mod_eq_0)+
qed

text \<open>
  The JSON Web Key format that \<open>crypto.subtle.exportKey\<close> returns: Base64 with \<open>-\<close> and \<open>_\<close>
  in place of \<open>+\<close> and \<open>/\<close>, and no padding (RFC 7515).
\<close>

definition b64url_bytes :: "nat list \<Rightarrow> jsstr" where
  "b64url_bytes bs =
     replace_all (js_char CHR ''+'') (js_char CHR ''-'')
       (replace_all (js_char CHR ''/'') (js_char CHR ''_'')
         (filter (\<lambda>u. u \<noteq> b64_pad) (b64_bytes bs)))"

lemma digit_not_pad [simp]: "n < 64 \<Longrightarrow> b64_digit n \<noteq> b64_pad"
  by (metis b64_value_digit option.distinct(1) pad_not_digit)

lemma pad_unpadded:
  assumes "\<forall>a \<in> set bs. is_byte a"
  shows "pad_to_4 (filter (\<lambda>u. u \<noteq> b64_pad) (b64_bytes bs)) = b64_bytes bs"
  using assms
proof (induction bs rule: b64_bytes.induct)
  case (2 a)
  then show ?case using sextets [of a 0 0] by (simp add: pad_to_4_eq numeral_2_eq_2)
next
  case (3 a b)
  then show ?case using sextets [of a b 0] by (simp add: pad_to_4_eq)
next
  case (4 a b c rest)
  then show ?case using sextets [of a b c] by (simp add: pad_to_4_eq)
qed (simp add: pad_to_4_eq)

lemma replace_all_back:
  assumes "y \<notin> set s"
  shows "replace_all y x (replace_all x y s) = s"
  using assms by (induction s) (auto simp: replace_all_def)

lemma b64urlToB64_bytes:
  assumes "\<forall>a \<in> set bs. is_byte a"
  shows "b64urlToB64 (b64url_bytes bs) = b64_bytes bs"
proof -
  let ?core = "filter (\<lambda>u. u \<noteq> b64_pad) (b64_bytes bs)"
  have core: "set ?core \<subseteq> set b64_alphabet"
    using set_b64_bytes [OF assms] by auto
  have "map (\<lambda>u. if (if (if u = js_char CHR ''/'' then js_char CHR ''_'' else u) = js_char CHR ''+''
                    then js_char CHR ''-'' else (if u = js_char CHR ''/'' then js_char CHR ''_'' else u))
              = js_char CHR ''-'' then js_char CHR ''+''
          else (if (if u = js_char CHR ''/'' then js_char CHR ''_'' else u) = js_char CHR ''+''
                then js_char CHR ''-'' else (if u = js_char CHR ''/'' then js_char CHR ''_'' else u))) ?core
        = replace_all (js_char CHR ''/'') (js_char CHR ''_'') ?core"
    unfolding replace_all_def using core by (intro map_cong refl) (auto simp: set_alphabet)
  then have "replace_all (js_char CHR ''-'') (js_char CHR ''+'') (b64url_bytes bs)
      = replace_all (js_char CHR ''/'') (js_char CHR ''_'') ?core"
    by (simp add: b64url_bytes_def replace_all_def comp_def)
  moreover have "js_char CHR ''_'' \<notin> set ?core"
    using core by (auto simp: set_alphabet dest!: subsetD)
  ultimately show ?thesis
    by (simp add: b64urlToB64_def replace_all_back pad_unpadded [OF assms])
qed

lemma is_byte_unat [simp]: "is_byte (unat (b :: 8 word))"
  using unsigned_less [where ?'a = nat and w = b] by (simp add: is_byte_def)

lemma unat_byte_unit: "unat (ucast (b :: 8 word) :: 16 word) = unat b"
proof -
  have "unat b < 2 ^ 16" using is_byte_unat [of b] by (simp add: is_byte_def)
  then show ?thesis by (simp add: unsigned_ucast_eq take_bit_nat_eq_self)
qed

lemma binary_string_eq: "binary_string bytes acc = acc @ map ucast bytes"
  by (induction bytes arbitrary: acc) simp_all

text \<open>Evaluation on literals.\<close>

lemma bytes_of_js: "bytes_of (js s) = map of_char s"
  by (simp add: bytes_of_def js_def unat_js_char comp_def)

lemma latin1_js [simp]: "latin1 (js s)"
  using of_char_less_256 by (auto simp: latin1_def js_def unat_js_char)

lemma b64_digit_js: "n < 64 \<Longrightarrow> b64_digit n = js_char (''ABCDEFGHIJKLMNOPQRSTUVWXYZabcdefghijklmnopqrstuvwxyz0123456789+/'' ! n)"
  unfolding b64_digit_def b64_alphabet_def js_def by (rule nth_map) simp

lemma encode_questions: "b64_bytes (bytes_of (js ''??????'')) = js ''Pz8/Pz8/''"
  unfolding bytes_of_js by (simp add: b64_digit_js js_def)

section \<open>Properties\<close>

text \<open>C14. Which identifiers survive the trip through a request path. \<open>base64_url_encode\<close> throws
  exactly for the strings with a code unit that is no byte. For every other one the encoded text
  is a single path segment exactly when its Base64 text has at most one \<open>/\<close>, since only the first
  is replaced; and the string that the backend decodes the whole of it to is the identifier, in
  UTF-8, exactly when the identifier is ASCII: beyond it \<open>btoa\<close> gives one byte, Latin-1, where the
  backend expects two. (That only the first \<open>+\<close> and \<open>=\<close> are replaced does not disturb the decoder.)\<close>

theorem base64_url_roundtrip:
  "case base64_url_encode s of
     Inl e \<Rightarrow> \<not> latin1 s \<and> e = InvalidCharacterError
   | Inr t \<Rightarrow> latin1 s
       \<and> (js_char CHR ''/'' \<notin> set t \<longleftrightarrow> count_list (b64_bytes (bytes_of s)) (js_char CHR ''/'') \<le> 1)
       \<and> (Base64UrlDecode t = utf8 s \<longleftrightarrow> seven_bit s)"
proof (cases "base64_url_encode s")
  case (Inl e)
  then show ?thesis by (cases "latin1 s") (simp_all add: base64_url_encode_def btoa_def Let_def)
next
  case (Inr t)
  then have latin1: "latin1 s" by (simp add: base64_url_encode_Inr)
  have "js_char CHR ''/'' \<notin> set t \<longleftrightarrow> count_list t (js_char CHR ''/'') = 0"
    by (simp add: count_list_0_iff)
  also have "count_list t (js_char CHR ''/'') = count_list (b64_bytes (bytes_of s)) (js_char CHR ''/'') - 1"
    using Inr by (simp add: base64_url_encode_Inr count_replace_first count_replace_first_other)
  finally show ?thesis
    using Inr latin1 decode_encoded [OF Inr] utf8_bytes_of [OF latin1] by auto
qed

text \<open>So a mail address comes back, and an e with an acute accent does not.\<close>

lemma base64_url_examples:
  "\<exists>t. base64_url_encode (js ''ada@example.org'') = Inr t \<and> Base64UrlDecode t = utf8 (js ''ada@example.org'')"
  "\<exists>t. base64_url_encode [233] = Inr t \<and> Base64UrlDecode t = [233] \<and> utf8 [233] = [195, 169]"
proof -
  have "seven_bit (js ''ada@example.org'')" by (simp add: seven_bit_def js_def unat_js_char)
  then have "bytes_of (js ''ada@example.org'') = utf8 (js ''ada@example.org'')"
    by (simp add: utf8_bytes_of)
  moreover obtain t where t: "base64_url_encode (js ''ada@example.org'') = Inr t"
    by (simp add: base64_url_encode_Inr)
  ultimately show "\<exists>t. base64_url_encode (js ''ada@example.org'') = Inr t
      \<and> Base64UrlDecode t = utf8 (js ''ada@example.org'')"
    using decode_encoded [OF t] by auto
  obtain u where u: "base64_url_encode [233] = Inr u" by (simp add: base64_url_encode_Inr latin1_def)
  then show "\<exists>t. base64_url_encode [233] = Inr t \<and> Base64UrlDecode t = [233] \<and> utf8 [233] = [195, 169]"
    using decode_encoded [OF u] by (auto simp: bytes_of_def high_surrogate_def low_surrogate_def utf8_char_def)
qed

text \<open>Seven-bit identifiers without \<open>>\<close>, \<open>?\<close>, \<open>~\<close> and DEL (in particular WireGuard
  keys, interface names and mail addresses) encode to a single path segment: no \<open>/\<close> and no
  \<open>+\<close> is left.\<close>

theorem base64_url_plain_safe:
  assumes "plain_text s"
  shows "\<exists>t. base64_url_encode s = Inr t \<and> no_slash_plus t"
proof -
  have plain: "no_slash_plus (b64_bytes (bytes_of s))"
    using assms by (simp add: b64_bytes_plain plain_text_def)
  let ?t = "replace_first (js_char CHR ''='') (js_char CHR ''-'') (b64_bytes (bytes_of s))"
  have "base64_url_encode s = Inr ?t"
    using assms plain
    by (simp add: base64_url_encode_Inr plain_text_latin1 no_slash_plus_def replace_first_absent)
  moreover have "no_slash_plus ?t"
    using plain set_replace_first [of "js_char CHR ''=''" "js_char CHR ''-''" "b64_bytes (bytes_of s)"]
    by (auto simp: no_slash_plus_def)
  ultimately show ?thesis by blast
qed

theorem base64_url_plain_safe_witness:
  "\<exists>t. base64_url_encode (js ''wg0'') = Inr t \<and> no_slash_plus t"
  by (rule base64_url_plain_safe) (simp add: plain_text_def bytes_of_js plain_byte_def)

text \<open>Only the first \<open>/\<close> is replaced: when the Base64 text of an identifier holds two of
  them, the encoded identifier still holds a \<open>/\<close> and falls apart into two path segments.\<close>

theorem base64_url_second_slash:
  assumes "base64_url_encode s = Inr t"
    and "2 \<le> count_list (b64_bytes (bytes_of s)) (js_char CHR ''/'')"
  shows "count_list t (js_char CHR ''/'') = count_list (b64_bytes (bytes_of s)) (js_char CHR ''/'') - 1
    \<and> js_char CHR ''/'' \<in> set t"
proof -
  have "count_list t (js_char CHR ''/'') = count_list (b64_bytes (bytes_of s)) (js_char CHR ''/'') - 1"
    using assms(1)
    by (simp add: base64_url_encode_Inr count_replace_first count_replace_first_other)
  moreover from this have "count_list t (js_char CHR ''/'') \<noteq> 0" using assms(2) by simp
  ultimately show ?thesis by (metis count_list_0_iff)
qed

theorem base64_url_second_slash_witness:
  "base64_url_encode (js ''??????'') = Inr (js ''Pz8_Pz8/'')
   \<and> js_char CHR ''/'' \<in> set (js ''Pz8_Pz8/'')"
proof -
  have enc: "base64_url_encode (js ''??????'') = Inr (js ''Pz8_Pz8/'')"
    by (simp add: base64_url_encode_Inr encode_questions) (simp add: js_def)
  have "2 \<le> count_list (b64_bytes (bytes_of (js ''??????''))) (js_char CHR ''/'')"
    by (simp add: encode_questions) (simp add: js_def)
  from base64_url_second_slash [OF enc this] enc show ?thesis by blast
qed

text \<open>C40. The key generator's conversion: \<open>b64urlToB64\<close> turns the unpadded URL-safe text of
  the bytes of a key, as the Web Crypto API exports it, into their standard padded Base64;
  its padding loop ends with a length that is a multiple of four for every input.\<close>

theorem b64urlToB64_padded:
  assumes "\<forall>a \<in> set bs. is_byte a"
  shows "b64urlToB64 (b64url_bytes bs) = b64_bytes bs \<and> 4 dvd length (b64urlToB64 s)"
  using b64urlToB64_bytes [OF assms] by (simp add: b64urlToB64_def length_pad_to_4)

theorem b64urlToB64_padded_witness:
  "b64urlToB64 (b64url_bytes [251, 255]) = js ''+/8=''"
proof -
  have "b64urlToB64 (b64url_bytes [251, 255]) = b64_bytes [251, 255]"
    using b64urlToB64_padded [of "[251, 255]" "[]"] by (simp add: is_byte_def)
  then show ?thesis by (simp add: b64_digit_js b64_pad_def js_def)
qed

lemma arrayBufferToBase64_decodes:
  "\<exists>t. arrayBufferToBase64 buffer = Inr t
     \<and> length t = (length buffer + 2) div 3 * 4
     \<and> StdEncoding_DecodeString t = map unat buffer"
proof -
  have "bytes_of (binary_string buffer []) = map unat buffer"
    by (simp add: bytes_of_def binary_string_eq unat_byte_unit)
  moreover have bytes: "\<forall>a \<in> set (map unat buffer). is_byte a"
    by simp
  moreover have "latin1 (binary_string buffer [])"
    by (auto simp: latin1_def binary_string_eq unat_byte_unit simp flip: is_byte_def)
  ultimately show ?thesis
    by (simp add: arrayBufferToBase64_def btoa_def length_b64_bytes StdEncoding_DecodeString_def
        no_line_end [OF set_b64_bytes] b64_quanta_bytes)
qed

text \<open>The pre-shared key of the key generator: encoding a buffer never throws, gives four
  digits for every three bytes, and decodes to the buffer.\<close>

theorem arrayBufferToBase64_roundtrip:
  "\<exists>t. arrayBufferToBase64 buffer = Inr t
     \<and> length t = (length buffer + 2) div 3 * 4
     \<and> StdEncoding_DecodeString t = map unat buffer"
  by (rule arrayBufferToBase64_decodes)

end
