(* ===== verification/Auth.thy ===== *)
theory Auth
  imports Encoding
begin

text \<open>
  The session of the user: \<open>stores/security.js\<close> (the CSRF token) and \<open>stores/auth.js\<close> (the
  logged-in user, the return URL, the passkeys), with the part of the browser's local storage
  that makes the session survive a page refresh.

  An asynchronous action is split at its \<open>await\<close>: \<open>X_begin\<close> runs up to the request, which it
  returns, and \<open>X_settle\<close> is the rest, given what the request settled to. The automatic logout that a
  denial starts before the promise settles belongs to the HTTP layer (\<open>receive\<close> in \<open>Fetch\<close>); in the
  store it is the step \<open>Logout_begin\<close>. The two ceremonies with a passkey, which await several answers,
  are given for answers that start none.
\<close>

section \<open>The security store\<close>

record security_store =
  csrfToken :: jsstr

definition security_init :: security_store where
  "security_init = \<lparr>csrfToken = []\<rparr>"

definition CsrfToken :: "security_store \<Rightarrow> jsstr" where
  "CsrfToken s = csrfToken s"

definition SetCsrfToken :: "jsstr \<Rightarrow> (security_store, unit) comp" where
  "SetCsrfToken token = modify (\<lambda>s. s\<lparr>csrfToken := token\<rparr>)"

definition LoadSecurityProperties_begin :: "(security_store, unit request) comp" where
  "LoadSecurityProperties_begin = return (Request GET (js ''/csrf'') None)"

definition LoadSecurityProperties_settle :: "jsstr settled \<Rightarrow> (security_store, unit) comp" where
  "LoadSecurityProperties_settle reply =
     then_catch reply (\<lambda>token. SetCsrfToken token)
       (\<lambda>error. andThen (SetCsrfToken [])
          (emit (Notify (js ''Backend Connection Failure'')
             (Text (js ''Failed to load csrf token!'')) None)))"

section \<open>The state of the auth store\<close>

text \<open>
  The kept user has the properties the code copies; one that the server left out is undefined
  (\<open>None\<close>). \<open>webAuthnCredentials\<close> holds whatever the server sent, possibly nothing.
\<close>

record auth_user =
  au_Identifier :: "jsstr option"
  au_Firstname :: "jsstr option"
  au_Lastname :: "jsstr option"
  au_Email :: "jsstr option"
  au_IsAdmin :: "bool option"

record provider =
  pr_Identifier :: jsstr
  pr_Name :: jsstr
  pr_ProviderUrl :: jsstr
  pr_CallbackUrl :: jsstr

record credential =
  cr_ID :: jsstr
  cr_Name :: jsstr
  cr_CreatedAt :: jsstr

type_synonym local_storage = "jsstr \<rightharpoonup> jsstr"

record auth_store =
  auth_user :: "auth_user option"
  providers :: "provider list"
  returnUrl :: "jsstr option"
  webAuthnCredentials :: "credential list option"
  auth_fetching :: bool
  storage :: local_storage

text \<open>
  What the server answers: a session object, with its own property names, or the user object
  of a successful login.
\<close>

record session =
  se_LoggedIn :: bool
  se_IsAdmin :: "bool option"
  se_UserIdentifier :: "jsstr option"
  se_UserFirstname :: "jsstr option"
  se_UserLastname :: "jsstr option"
  se_UserEmail :: "jsstr option"

datatype user_info = NoUser | SessionInfo session | UserInfo auth_user

text \<open>
  The store starts from the local storage; \<open>JSON.parse\<close> and \<open>JSON.stringify\<close> on the user are
  the arguments \<open>readUser\<close> (\<open>None\<close> is a syntax error) and \<open>showUser\<close>.
\<close>

definition auth_init ::
  "(jsstr \<Rightarrow> auth_user option option) \<Rightarrow> local_storage \<Rightarrow> auth_store settled" where
  "auth_init readUser st =
     (case (case st (js ''user'') of None \<Rightarrow> Some None | Some text \<Rightarrow> readUser text) of
        None \<Rightarrow> Inl (Exc (js ''SyntaxError'') [])
      | Some u \<Rightarrow> Inr \<lparr>auth_user = u, providers = [], returnUrl = st (js ''returnUrl''),
                       webAuthnCredentials = Some [], auth_fetching = False, storage = st\<rparr>)"

section \<open>Getters\<close>

definition UserIdentifier :: "auth_store \<Rightarrow> jsstr" where
  "UserIdentifier s = (case auth_user s of
      None \<Rightarrow> js ''unknown''
    | Some u \<Rightarrow> (case au_Identifier u of
        None \<Rightarrow> js ''unknown''
      | Some uid \<Rightarrow> if uid = [] then js ''unknown'' else uid))"

definition IsAuthenticated :: "auth_store \<Rightarrow> bool" where
  "IsAuthenticated s = (auth_user s \<noteq> None)"

definition IsAdmin :: "auth_store \<Rightarrow> bool" where
  "IsAdmin s = (case auth_user s of None \<Rightarrow> False | Some u \<Rightarrow> au_IsAdmin u = Some True)"

definition ReturnUrl :: "auth_store \<Rightarrow> jsstr" where
  "ReturnUrl s = (case returnUrl s of
      None \<Rightarrow> js ''/''
    | Some link \<Rightarrow> if link = [] then js ''/'' else link)"

definition IsWebAuthnEnabled :: "auth_store \<Rightarrow> bool" where
  "IsWebAuthnEnabled s =
     (case webAuthnCredentials s of None \<Rightarrow> False | Some creds \<Rightarrow> 0 < length creds)"

definition WebAuthnCredentials :: "auth_store \<Rightarrow> credential list" where
  "WebAuthnCredentials s = (case webAuthnCredentials s of None \<Rightarrow> [] | Some creds \<Rightarrow> creds)"

section \<open>Setters\<close>

definition SetReturnUrl :: "jsstr \<Rightarrow> (auth_store, unit) comp" where
  "SetReturnUrl link =
     modify (\<lambda>s. s\<lparr>returnUrl := Some link, storage := (storage s)(js ''returnUrl'' \<mapsto> link)\<rparr>)"

definition ResetReturnUrl :: "(auth_store, unit) comp" where
  "ResetReturnUrl =
     modify (\<lambda>s. s\<lparr>returnUrl := None, storage := (storage s)(js ''returnUrl'' := None)\<rparr>)"

text \<open>
  \<open>'UserIdentifier' in userInfo\<close> tells a session from a user object; a session without that
  property is read as a user object and has none of its properties but \<open>IsAdmin\<close>.
\<close>

fun stored_user :: "user_info \<Rightarrow> auth_user option" where
  "stored_user NoUser = None"
| "stored_user (SessionInfo se) =
     (if se_UserIdentifier se \<noteq> None
      then Some \<lparr>au_Identifier = se_UserIdentifier se, au_Firstname = se_UserFirstname se,
                 au_Lastname = se_UserLastname se, au_Email = se_UserEmail se,
                 au_IsAdmin = se_IsAdmin se\<rparr>
      else Some \<lparr>au_Identifier = None, au_Firstname = None, au_Lastname = None,
                 au_Email = None, au_IsAdmin = se_IsAdmin se\<rparr>)"
| "stored_user (UserInfo u) = Some u"

definition setUserInfo ::
  "(auth_user \<Rightarrow> jsstr) \<Rightarrow> user_info \<Rightarrow> (auth_store, unit) comp" where
  "setUserInfo showUser userInfo =
     (case stored_user userInfo of
        Some u \<Rightarrow> modify (\<lambda>s. s\<lparr>auth_user := Some u,
                                storage := (storage s)(js ''user'' \<mapsto> showUser u)\<rparr>)
      | None \<Rightarrow> modify (\<lambda>s. s\<lparr>auth_user := None, storage := (storage s)(js ''user'' := None)\<rparr>))"

definition setWebAuthnCredentials :: "credential list option \<Rightarrow> (auth_store, unit) comp" where
  "setWebAuthnCredentials credentials =
     modify (\<lambda>s. s\<lparr>auth_fetching := False, webAuthnCredentials := credentials\<rparr>)"

definition set_auth_fetching :: "bool \<Rightarrow> (auth_store, unit) comp" where
  "set_auth_fetching b = modify (\<lambda>s. s\<lparr>auth_fetching := b\<rparr>)"

definition notify_error :: "string \<Rightarrow> reason \<Rightarrow> ('s, unit) comp" where
  "notify_error head text = emit (Notify (js head) text (Some (js ''error'')))"

definition notify_success :: "string \<Rightarrow> string \<Rightarrow> ('s, unit) comp" where
  "notify_success head text = emit (Notify (js head) (Text (js text)) (Some (js ''success'')))"

section \<open>Loading\<close>

text \<open>
  \<open>LoadProviders\<close> returns before its request is answered, so the promise it returns is always
  fulfilled; its \<open>settle\<close> part runs later.
\<close>

definition LoadProviders_begin :: "(auth_store, unit) comp" where
  "LoadProviders_begin = emit (Send GET (js ''/auth/providers''))"

definition LoadProviders_settle :: "provider list settled \<Rightarrow> (auth_store, unit) comp" where
  "LoadProviders_settle reply =
     then_catch reply (\<lambda>ps. modify (\<lambda>s. s\<lparr>providers := ps\<rparr>))
       (\<lambda>error. andThen (modify (\<lambda>s. s\<lparr>providers := []\<rparr>))
          (emit (Notify (js ''Backend Connection Failure'')
             (Text (js ''Failed to load external authentication providers!'')) None)))"

definition LoadSession_begin :: "(auth_store, unit request) comp" where
  "LoadSession_begin = return (Request GET (js ''/auth/session'') None)"

definition LoadSession_settle ::
  "(auth_user \<Rightarrow> jsstr) \<Rightarrow> session settled \<Rightarrow> (auth_store, jsstr option) comp" where
  "LoadSession_settle showUser reply =
     then_catch reply
       (\<lambda>session.
          if se_LoggedIn session
          then andThen ResetReturnUrl
                 (andThen (setUserInfo showUser (SessionInfo session))
                    (return (se_UserIdentifier session)))
          else andThen (setUserInfo showUser NoUser)
                 (throw (new_Error (Text (js ''session not authenticated'')))))
       (\<lambda>err. andThen (setUserInfo showUser NoUser) (throw err))"

definition LoadWebAuthnCredentials_begin :: "(auth_store, unit request) comp" where
  "LoadWebAuthnCredentials_begin =
     andThen (set_auth_fetching True) (return (Request GET (js ''/auth/webauthn/credentials'') None))"

definition LoadWebAuthnCredentials_settle ::
  "credential list option settled \<Rightarrow> (auth_store, unit) comp" where
  "LoadWebAuthnCredentials_settle reply =
     then_catch reply (\<lambda>credentials. setWebAuthnCredentials credentials)
       (\<lambda>error. andThen (setWebAuthnCredentials (Some []))
          (notify_error ''Backend Connection Failure'' error))"

section \<open>Login and logout\<close>

definition Login_begin :: "jsstr \<Rightarrow> jsstr \<Rightarrow> (auth_store, (jsstr \<times> jsstr) request) comp" where
  "Login_begin username password =
     return (Request POST (js ''/auth/login'') (Some (username, password)))"

definition login_failed :: reason where
  "login_failed = new_Error (Text (js ''login failed''))"

definition Login_settle ::
  "(auth_user \<Rightarrow> jsstr) \<Rightarrow> auth_user settled \<Rightarrow> (auth_store, jsstr option) comp" where
  "Login_settle showUser reply =
     then_catch reply
       (\<lambda>user. andThen ResetReturnUrl
                 (andThen (setUserInfo showUser (UserInfo user)) (return (au_Identifier user))))
       (\<lambda>err. andThen (setUserInfo showUser NoUser) (throw login_failed))"

definition Logout_begin :: "(auth_user \<Rightarrow> jsstr) \<Rightarrow> (auth_store, unit request) comp" where
  "Logout_begin showUser =
     andThen (setUserInfo showUser NoUser)
       (andThen ResetReturnUrl (return (Request POST (js ''/auth/logout'') None)))"

text \<open>The answer is awaited inside \<open>try\<close>, so it does not matter what it is.\<close>

definition Logout_settle :: "'d settled \<Rightarrow> (auth_store, unit) comp" where
  "Logout_settle reply =
     andThen (catch (bind (lift_settled reply) (\<lambda>_. return ())) (\<lambda>e. return ()))
       (andThen (emit (Notify (js ''Logged Out'') (Text (js ''Logout successful!'')) (Some (js ''warn''))))
          (emit (Push (js ''/login''))))"

section \<open>Passkeys\<close>

text \<open>
  The registration and the login with a passkey await three promises each: the server's
  options, the authenticator of the browser, the server's verdict. The last two are functions
  of what came before, consulted only when the run gets there.
\<close>

definition webauthn_unsupported :: "(auth_store, 'a) comp" where
  "webauthn_unsupported =
     andThen (notify_error ''WebAuthn not supported''
        (Text (js ''This browser does not support WebAuthn.'')))
       (throw (new_Error (Text (js ''WebAuthn not supported''))))"

definition RegisterWebAuthn ::
  "bool \<Rightarrow> 'o settled \<Rightarrow> ('o \<Rightarrow> 'r settled) \<Rightarrow> ('r \<Rightarrow> credential list option settled)
     \<Rightarrow> (auth_store, unit) comp" where
  "RegisterWebAuthn browserSupportsWebAuthn started startRegistration finish =
     (if \<not> browserSupportsWebAuthn then webauthn_unsupported
      else andThen (set_auth_fetching True)
        (then_catch started
          (\<lambda>optionsJSON.
            andThen (emit (Notify (js ''Passkey registration'')
                (Text (js ''Starting passkey registration, follow the instructions in the browser.''))
                None))
              (then_catch (startRegistration optionsJSON)
                (\<lambda>attResp.
                  then_catch (finish attResp)
                    (\<lambda>credentials. andThen (setWebAuthnCredentials credentials)
                       (notify_success ''Passkey registration''
                          ''A new passkey has been registered successfully!''))
                    (\<lambda>err. andThen (set_auth_fetching False)
                       (notify_error ''Passkey registration failed'' err)))
                (\<lambda>err. andThen (set_auth_fetching False)
                   (notify_error ''Failed to start Passkey registration'' err))))
          (\<lambda>err. andThen (set_auth_fetching False)
             (notify_error ''Failed to start WebAuthn registration'' err))))"

definition LoginWebAuthn ::
  "(auth_user \<Rightarrow> jsstr) \<Rightarrow> bool \<Rightarrow> 'o settled \<Rightarrow> ('o \<Rightarrow> 'r settled) \<Rightarrow> ('r \<Rightarrow> auth_user settled)
     \<Rightarrow> (auth_store, unit) comp" where
  "LoginWebAuthn showUser browserSupportsWebAuthn started startAuthentication finish =
     (if \<not> browserSupportsWebAuthn then webauthn_unsupported
      else andThen (set_auth_fetching True)
        (bind (then_catch started
          (\<lambda>optionsJSON.
            then_catch (startAuthentication optionsJSON)
              (\<lambda>asseResp.
                then_catch (finish asseResp)
                  (\<lambda>user. andThen ResetReturnUrl
                     (andThen (setUserInfo showUser (UserInfo user)) (return (au_Identifier user))))
                  (\<lambda>err. andThen (setUserInfo showUser NoUser) (throw login_failed)))
              (\<lambda>err. andThen (setUserInfo showUser NoUser) (throw login_failed)))
          (\<lambda>err. andThen (setUserInfo showUser NoUser) (throw login_failed)))
        (\<lambda>_. return ())))"

text \<open>
  Deleting and renaming a passkey. The path is made before the request is, so an identifier
  that cannot be encoded makes the action throw after \<open>fetching\<close> was set.
\<close>

definition DeleteWebAuthnCredential_begin :: "jsstr \<Rightarrow> (auth_store, jsstr request) comp" where
  "DeleteWebAuthnCredential_begin credentialId =
     andThen (set_auth_fetching True)
       (bind (lift_settled (base64_url_encode credentialId))
          (\<lambda>i. return (Request DELETE (js ''/auth/webauthn/credential/'' @ i) None)))"

definition DeleteWebAuthnCredential_settle ::
  "credential list option settled \<Rightarrow> (auth_store, unit) comp" where
  "DeleteWebAuthnCredential_settle reply =
     then_catch reply
       (\<lambda>credentials. andThen (setWebAuthnCredentials credentials)
          (notify_success ''Success'' ''Passkey deleted successfully!''))
       (\<lambda>err. andThen (set_auth_fetching False)
          (notify_error ''Backend Connection Failure'' err))"

definition RenameWebAuthnCredential_begin :: "credential \<Rightarrow> (auth_store, jsstr request) comp" where
  "RenameWebAuthnCredential_begin credential =
     andThen (set_auth_fetching True)
       (bind (lift_settled (base64_url_encode (cr_ID credential)))
          (\<lambda>i. return (Request PUT (js ''/auth/webauthn/credential/'' @ i)
                         (Some (cr_Name credential)))))"

definition RenameWebAuthnCredential_settle ::
  "credential list option settled \<Rightarrow> (auth_store, unit) comp" where
  "RenameWebAuthnCredential_settle reply =
     then_catch reply
       (\<lambda>credentials. andThen (setWebAuthnCredentials credentials)
          (notify_success ''Success'' ''Passkey renamed successfully!''))
       (\<lambda>err. andThen (set_auth_fetching False)
          (notify_error ''Backend Connection Failure'' err))"

section \<open>The store and the local storage agree\<close>

text \<open>
  What the code keeps between the store and the browser's storage, and the operations as one
  type of step, with the settled promises they were given.
\<close>

definition storage_agrees :: "(auth_user \<Rightarrow> jsstr) \<Rightarrow> auth_store \<Rightarrow> bool" where
  "storage_agrees showUser s \<longleftrightarrow>
     storage s (js ''user'') = map_option showUser (auth_user s)
     \<and> storage s (js ''returnUrl'') = returnUrl s"

inductive auth_step :: "(auth_user \<Rightarrow> jsstr) \<Rightarrow> auth_store \<Rightarrow> auth_store \<Rightarrow> bool" for showUser where
  auth_SetReturnUrl: "ends_in (SetReturnUrl link s) t \<Longrightarrow> auth_step showUser s t"
| auth_ResetReturnUrl: "ends_in (ResetReturnUrl s) t \<Longrightarrow> auth_step showUser s t"
| auth_LoadProviders: "ends_in (LoadProviders_settle ps s) t \<Longrightarrow> auth_step showUser s t"
| auth_LoadSession: "ends_in (LoadSession_settle showUser se s) t \<Longrightarrow> auth_step showUser s t"
| auth_LoadCredentials_begin: "ends_in (LoadWebAuthnCredentials_begin s) t \<Longrightarrow> auth_step showUser s t"
| auth_LoadCredentials: "ends_in (LoadWebAuthnCredentials_settle cs s) t \<Longrightarrow> auth_step showUser s t"
| auth_Login: "ends_in (Login_settle showUser u s) t \<Longrightarrow> auth_step showUser s t"
| auth_Logout_begin: "ends_in (Logout_begin showUser s) t \<Longrightarrow> auth_step showUser s t"
| auth_Logout: "ends_in (Logout_settle (r :: jsval settled) s) t \<Longrightarrow> auth_step showUser s t"
| auth_Register: "ends_in (RegisterWebAuthn b (o1 :: jsval settled) (reg :: jsval \<Rightarrow> jsval settled) fin s) t \<Longrightarrow> auth_step showUser s t"
| auth_LoginWebAuthn: "ends_in (LoginWebAuthn showUser b (o1 :: jsval settled)
    (ath :: jsval \<Rightarrow> jsval settled) fin s) t \<Longrightarrow> auth_step showUser s t"
| auth_Delete_begin: "ends_in (DeleteWebAuthnCredential_begin i s) t \<Longrightarrow> auth_step showUser s t"
| auth_Delete: "ends_in (DeleteWebAuthnCredential_settle cs s) t \<Longrightarrow> auth_step showUser s t"
| auth_Rename_begin: "ends_in (RenameWebAuthnCredential_begin c s) t \<Longrightarrow> auth_step showUser s t"
| auth_Rename: "ends_in (RenameWebAuthnCredential_settle cs s) t \<Longrightarrow> auth_step showUser s t"

lemma agrees_setUserInfo [keep]: "keeps (storage_agrees showUser) (setUserInfo showUser u)"
  unfolding setUserInfo_def
  by (cases "stored_user u") (auto simp: storage_agrees_def intro!: keeps_modify)

lemma agrees_SetReturnUrl [keep]: "keeps (storage_agrees showUser) (SetReturnUrl link)"
  unfolding SetReturnUrl_def by (rule keeps_modify) (simp add: storage_agrees_def)

lemma agrees_ResetReturnUrl [keep]: "keeps (storage_agrees showUser) ResetReturnUrl"
  unfolding ResetReturnUrl_def by (rule keeps_modify) (simp add: storage_agrees_def)

lemma agrees_setWebAuthnCredentials [keep]:
  "keeps (storage_agrees showUser) (setWebAuthnCredentials cs)"
  unfolding setWebAuthnCredentials_def by (rule keeps_modify) (simp add: storage_agrees_def)

lemma agrees_set_auth_fetching [keep]: "keeps (storage_agrees showUser) (set_auth_fetching b)"
  unfolding set_auth_fetching_def by (rule keeps_modify) (simp add: storage_agrees_def)

lemma agrees_providers [keep]:
  "keeps (storage_agrees showUser) (modify (\<lambda>s. s\<lparr>providers := ps\<rparr>))"
  by (rule keeps_modify) (simp add: storage_agrees_def)

lemmas auth_action_defs =
  LoadProviders_settle_def LoadSession_settle_def LoadWebAuthnCredentials_begin_def
  LoadWebAuthnCredentials_settle_def Login_settle_def Logout_begin_def Logout_settle_def
  RegisterWebAuthn_def LoginWebAuthn_def DeleteWebAuthnCredential_begin_def
  DeleteWebAuthnCredential_settle_def RenameWebAuthnCredential_begin_def
  RenameWebAuthnCredential_settle_def webauthn_unsupported_def notify_error_def notify_success_def

lemma auth_step_agrees:
  "auth_step showUser s t \<Longrightarrow> storage_agrees showUser s \<Longrightarrow> storage_agrees showUser t"
  by (induction rule: auth_step.induct) (erule keepsD [rotated], assumption, simp add: auth_action_defs keep)+

text \<open>C11. Whatever the user does and the server answers, in any order, the local storage
  holds the logged-in user and the return URL of the store, so that a store made anew from it
  after a page refresh has the same user and return URL. \<open>readUser\<close> and \<open>showUser\<close> are
  \<open>JSON.parse\<close> and \<open>JSON.stringify\<close>, of which only the round trip is used.\<close>

theorem auth_survives_refresh:
  assumes "\<And>u. auth_user s = Some u \<Longrightarrow> readUser (showUser u) = Some (Some u)"
    and "auth_init readUser st = Inr s0"
    and "st (js ''user'') = map_option showUser (auth_user s0)"
    and "(auth_step showUser)\<^sup>*\<^sup>* s0 s"
  shows "\<exists>s'. auth_init readUser (storage s) = Inr s'
    \<and> auth_user s' = auth_user s \<and> returnUrl s' = returnUrl s \<and> storage s' = storage s"
proof -
  have "storage_agrees showUser s0"
    using assms(2,3) by (auto simp: storage_agrees_def auth_init_def split: option.splits)
  with assms(4) have "storage_agrees showUser s"
    by (induction rule: rtranclp_induct) (auto intro: auth_step_agrees)
  then show ?thesis
    using assms(1) by (cases "auth_user s") (auto simp: storage_agrees_def auth_init_def)
qed

definition sample_user :: auth_user where
  "sample_user = \<lparr>au_Identifier = Some (js ''ada''), au_Firstname = None, au_Lastname = None,
     au_Email = None, au_IsAdmin = Some True\<rparr>"

theorem auth_survives_refresh_witness:
  "\<exists>s'. auth_init (\<lambda>_. Some (Some sample_user)) [js ''user'' \<mapsto> js ''u''] = Inr s'
    \<and> auth_user s' = Some sample_user \<and> returnUrl s' = None"
proof -
  let ?read = "\<lambda>_ :: jsstr. Some (Some sample_user)" and ?show = "\<lambda>_ :: auth_user. js ''u''"
  let ?s0 = "\<lparr>auth_user = None, providers = [], returnUrl = None, webAuthnCredentials = Some [],
    auth_fetching = False, storage = Map.empty\<rparr>"
  let ?s = "?s0\<lparr>auth_user := Some sample_user, storage := [js ''user'' \<mapsto> js ''u'']\<rparr>"
  have "ends_in (Login_settle ?show (Inr sample_user) ?s0) ?s"
    by (simp add: Login_settle_def setUserInfo_def ResetReturnUrl_def js_run fun_upd_idem)
  then have "(auth_step ?show)\<^sup>*\<^sup>* ?s0 ?s"
    by (intro r_into_rtranclp auth_Login)
  then show ?thesis
    using auth_survives_refresh [of ?s ?read ?show Map.empty ?s0] by (simp add: auth_init_def)
qed

text \<open>A login, whether it succeeds or fails, leaves no return URL behind: after a success
  the user is authenticated and \<open>ReturnUrl\<close> is \<open>/\<close>, whatever page was asked for before.
  After a failure nobody is logged in and the return URL is the one stored before.\<close>

theorem Login_outcome:
  "case reply of
     Inr user \<Rightarrow> (\<exists>t. Login_settle showUser reply s = Returns (au_Identifier user) t []
        \<and> auth_user t = Some user \<and> IsAuthenticated t \<and> ReturnUrl t = js ''/''
        \<and> storage t (js ''returnUrl'') = None)
   | Inl err \<Rightarrow> (\<exists>t. Login_settle showUser reply s = Throws login_failed t []
        \<and> \<not> IsAuthenticated t \<and> ReturnUrl t = ReturnUrl s \<and> storage t (js ''user'') = None)"
  by (auto simp: Login_settle_def setUserInfo_def ResetReturnUrl_def IsAuthenticated_def
      ReturnUrl_def js_run split: sum.split)

text \<open>Loading the session authenticates exactly when the server says so: the promise is
  fulfilled with the session's user and the store holds that user, or it is rejected and
  nobody is logged in.\<close>

theorem LoadSession_outcome:
  "case LoadSession_settle showUser reply s of
     Returns uid t es \<Rightarrow> (\<exists>se. reply = Inr se \<and> se_LoggedIn se \<and> uid = se_UserIdentifier se
        \<and> IsAuthenticated t \<and> ReturnUrl t = js ''/'' \<and> es = []
        \<and> (\<exists>u. auth_user t = Some u \<and> au_Identifier u = se_UserIdentifier se))
   | Throws e t es \<Rightarrow> \<not> IsAuthenticated t \<and> es = [] \<and> returnUrl t = returnUrl s
        \<and> storage t (js ''user'') = None
        \<and> (reply = Inl e \<or> (\<exists>se. reply = Inr se \<and> \<not> se_LoggedIn se))
   | Diverges \<Rightarrow> False"
  by (cases reply) (auto simp: LoadSession_settle_def setUserInfo_def ResetReturnUrl_def
      IsAuthenticated_def ReturnUrl_def js_run split: option.split)

text \<open>Registering a passkey never throws once the browser supports it, and the store is
  not fetching any more when it is over, whichever of the three awaited promises is rejected;
  the credentials change only when all three are fulfilled.\<close>

theorem RegisterWebAuthn_not_stuck:
  "\<exists>t es. RegisterWebAuthn True started startRegistration finish s = Returns () t es
     \<and> \<not> auth_fetching t
     \<and> (webAuthnCredentials t = webAuthnCredentials s \<or>
        (\<exists>opts att creds. started = Inr opts \<and> startRegistration opts = Inr att
           \<and> finish att = Inr creds \<and> webAuthnCredentials t = creds))"
  by (auto simp: RegisterWebAuthn_def set_auth_fetching_def setWebAuthnCredentials_def
      notify_error_def notify_success_def js_run split: sum.split)

text \<open>The login with a passkey, in contrast, never clears the fetching flag it sets.\<close>

theorem LoginWebAuthn_keeps_fetching:
  "case LoginWebAuthn showUser True started startAuthentication finish s of
     Returns _ t es \<Rightarrow> auth_fetching t \<and> IsAuthenticated t \<and> ReturnUrl t = js ''/''
   | Throws e t es \<Rightarrow> auth_fetching t \<and> \<not> IsAuthenticated t \<and> e = login_failed
   | Diverges \<Rightarrow> False"
  by (auto simp: LoginWebAuthn_def set_auth_fetching_def setUserInfo_def ResetReturnUrl_def
      IsAuthenticated_def ReturnUrl_def js_run split: sum.split)

end
