(* ===== verification/Fetch.thy ===== *)
theory Fetch
  imports Auth
begin

text \<open>
  The HTTP layer (\<open>helpers/fetch-wrapper.js\<close>): the headers of a request, the two wrappers
  around the browser's \<open>fetch\<close>, and the treatment of an answer, which may log the user out.
  The base URL of the backend (a constant of the build), \<open>JSON.stringify\<close> on the bodies and
  \<open>JSON.parse\<close> are arguments.
\<close>

section \<open>Requests\<close>

fun method_name :: "http_method \<Rightarrow> jsstr" where
  "method_name GET = js ''GET''"
| "method_name POST = js ''POST''"
| "method_name PUT = js ''PUT''"
| "method_name DELETE = js ''DELETE''"

record http_call =
  call_url :: jsstr
  call_method :: jsstr
  call_headers :: "jsstr \<rightharpoonup> jsstr"
  call_body :: "jsstr option"

text \<open>A missing argument is \<open>undefined\<close>, which has no method \<open>startsWith\<close>.\<close>

definition getHeaders ::
  "jsstr \<Rightarrow> auth_store \<Rightarrow> security_store \<Rightarrow> jsstr \<Rightarrow> jsstr option \<Rightarrow> (jsstr \<rightharpoonup> jsstr) settled" where
  "getHeaders base auth sec verb url = (case url of
      None \<Rightarrow> Inl TypeError
    | Some u \<Rightarrow>
       (let isApiUrl = startsWith u base;
            headers1 =
              (if isApiUrl \<and> verb \<in> set [js ''POST'', js ''PUT'', js ''PATCH'', js ''DELETE'']
               then [js ''X-CSRF-TOKEN'' \<mapsto> CsrfToken sec] else Map.empty);
            headers2 =
              (if isApiUrl \<and> IsAuthenticated auth
               then headers1(js ''X-FRONTEND-UID'' \<mapsto> UserIdentifier auth) else headers1)
        in Inr headers2))"

definition with_body ::
  "('b \<Rightarrow> jsstr) \<Rightarrow> 'b option \<Rightarrow> http_call \<Rightarrow> http_call" where
  "with_body stringify body c = (case body of
      None \<Rightarrow> c
    | Some b \<Rightarrow> c\<lparr>call_headers := (call_headers c)(js ''Content-Type'' \<mapsto> js ''application/json''),
                 call_body := Some (stringify b)\<rparr>)"

text \<open>\<open>request\<close> calls \<open>getHeaders(url)\<close>: the URL takes the place of the method.\<close>

definition fetch_request ::
  "jsstr \<Rightarrow> ('b \<Rightarrow> jsstr) \<Rightarrow> auth_store \<Rightarrow> security_store \<Rightarrow> http_method \<Rightarrow> jsstr \<Rightarrow> 'b option
     \<Rightarrow> http_call settled" where
  "fetch_request base stringify auth sec verb url body =
     (case getHeaders base auth sec url None of
        Inl e \<Rightarrow> Inl e
      | Inr headers \<Rightarrow> Inr (with_body stringify body
          \<lparr>call_url = url, call_method = method_name verb, call_headers = headers,
           call_body = None\<rparr>))"

definition apiRequest ::
  "jsstr \<Rightarrow> ('b \<Rightarrow> jsstr) \<Rightarrow> auth_store \<Rightarrow> security_store \<Rightarrow> http_method \<Rightarrow> jsstr \<Rightarrow> 'b option
     \<Rightarrow> http_call settled" where
  "apiRequest base stringify auth sec verb path body =
     (let url = base @ path in
      case getHeaders base auth sec (method_name verb) (Some url) of
        Inl e \<Rightarrow> Inl e
      | Inr headers \<Rightarrow> Inr (with_body stringify body
          \<lparr>call_url = url, call_method = method_name verb, call_headers = headers,
           call_body = None\<rparr>))"

definition apiUrl :: "jsstr \<Rightarrow> jsstr \<Rightarrow> jsstr" where
  "apiUrl base path = base @ path"

section \<open>Answers\<close>

record response =
  status :: int
  statusText :: jsstr
  body_text :: jsstr

definition response_ok :: "response \<Rightarrow> bool" where
  "response_ok r = (200 \<le> status r \<and> status r \<le> 299)"

text \<open>
  \<open>text && JSON.parse(text)\<close>: the empty text stays the empty string. The message of an error
  is a string in the backend's error model. (The code would reject with any other truthy value in
  its place, which \<open>reason\<close> has no case for; here another value counts as missing.)
\<close>

definition response_data :: "(jsstr \<Rightarrow> jsval option) \<Rightarrow> response \<Rightarrow> jsval option" where
  "response_data parse r = (if body_text r = [] then Some (JStr []) else parse (body_text r))"

definition error_text :: "jsval \<Rightarrow> jsstr \<Rightarrow> jsstr" where
  "error_text data fallback = (case data of
      JObj props \<Rightarrow> (case map_of props (js ''Message'') of
          Some (JStr m) \<Rightarrow> if m = [] then fallback else m
        | _ \<Rightarrow> fallback)
    | _ \<Rightarrow> fallback)"

definition SyntaxError :: reason where
  "SyntaxError = Exc (js ''SyntaxError'') []"

text \<open>
  The automatic logout is not awaited: its first part runs at once and its request is sent.
\<close>

definition handleResponse ::
  "(jsstr \<Rightarrow> jsval option) \<Rightarrow> (auth_user \<Rightarrow> jsstr) \<Rightarrow> response \<Rightarrow> (auth_store, jsval) comp" where
  "handleResponse parse showUser r =
     (case response_data parse r of
        None \<Rightarrow> throw SyntaxError
      | Some data \<Rightarrow>
         (if response_ok r then return data
          else bind (gets IsAuthenticated) (\<lambda>authenticated.
            andThen
              (if status r \<in> set [401, 403] \<and> authenticated
               then bind (Logout_begin showUser) (\<lambda>q. emit (Send (req_method q) (req_path q)))
               else return ())
              (throw (Text (error_text data (statusText r)))))))"

text \<open>
  The same with the data of the answer already read: what a caller whose model has the data as a
  type of its own gets. A request is accepted with its data, refused with a status and the reason
  its promise is rejected with, or lost: it could not be sent, or its body is no JSON.
\<close>

datatype 'a reply = Accepted 'a | Refused int reason | Lost reason

definition denial :: "'a reply \<Rightarrow> bool" where
  "denial a \<longleftrightarrow> (case a of Refused code e \<Rightarrow> code \<in> set [401, 403] | _ \<Rightarrow> False)"

definition receive :: "(auth_user \<Rightarrow> jsstr) \<Rightarrow> 'a reply \<Rightarrow> (auth_store, 'a) comp" where
  "receive showUser a = (case a of
      Accepted x \<Rightarrow> return x
    | Refused code e \<Rightarrow> bind (gets IsAuthenticated) (\<lambda>authenticated.
        andThen
          (if code \<in> set [401, 403] \<and> authenticated
           then bind (Logout_begin showUser) (\<lambda>q. emit (Send (req_method q) (req_path q)))
           else return ())
          (throw e))
    | Lost e \<Rightarrow> throw e)"

definition read_reply :: "(jsstr \<Rightarrow> jsval option) \<Rightarrow> response \<Rightarrow> jsval reply" where
  "read_reply parse r = (case response_data parse r of
      None \<Rightarrow> Lost SyntaxError
    | Some data \<Rightarrow> if response_ok r then Accepted data
        else Refused (status r) (Text (error_text data (statusText r))))"

text \<open>An awaited request: what its promise settles to, after the automatic logout, if there is one,
  has changed the store, goes to the rest of the action.\<close>

definition attempt :: "('s, 'a) comp \<Rightarrow> ('s, 'a settled) comp" where
  "attempt m = catch (bind m (\<lambda>a. return (Inr a))) (\<lambda>e. return (Inl e))"

definition answered ::
  "(auth_user \<Rightarrow> jsstr) \<Rightarrow> 'a reply \<Rightarrow> ('a settled \<Rightarrow> (auth_store, 'b) comp) \<Rightarrow> (auth_store, 'b) comp" where
  "answered showUser a k = bind (attempt (receive showUser a)) k"

text \<open>
  Answers arriving one after the other, each with the callers of its promise left out.
\<close>

fun handle_all ::
  "(jsstr \<Rightarrow> jsval option) \<Rightarrow> (auth_user \<Rightarrow> jsstr) \<Rightarrow> response list \<Rightarrow> (auth_store, unit) comp" where
  "handle_all parse showUser [] = return ()"
| "handle_all parse showUser (r # rs) =
     andThen (catch (bind (handleResponse parse showUser r) (\<lambda>_. return ())) (\<lambda>_. return ()))
       (handle_all parse showUser rs)"

definition denies :: "(jsstr \<Rightarrow> jsval option) \<Rightarrow> response \<Rightarrow> bool" where
  "denies parse r \<longleftrightarrow> (status r = 401 \<or> status r = 403) \<and> response_data parse r \<noteq> None"

definition logout_sent :: "effect list \<Rightarrow> nat" where
  "logout_sent es = length (filter (\<lambda>e. e = Send POST (js ''/auth/logout'')) es)"

lemma handleResponse_receive: "handleResponse parse showUser r = receive showUser (read_reply parse r)"
  by (simp add: handleResponse_def receive_def read_reply_def split: option.split)

definition settled_reply :: "'a reply \<Rightarrow> 'a settled" where
  "settled_reply a = (case a of Accepted x \<Rightarrow> Inr x | Refused code e \<Rightarrow> Inl e | Lost e \<Rightarrow> Inl e)"

definition logged_out :: "auth_store \<Rightarrow> auth_store" where
  "logged_out s = s\<lparr>auth_user := None, returnUrl := None,
     storage := (storage s)(js ''user'' := None, js ''returnUrl'' := None)\<rparr>"

lemma logged_out_facts [simp]:
  "\<not> IsAuthenticated (logged_out s)" "ReturnUrl (logged_out s) = js ''/''" "returnUrl (logged_out s) = None"
  by (simp_all add: logged_out_def IsAuthenticated_def ReturnUrl_def)

lemma Logout_begin_run:
  "Logout_begin showUser s = Returns (Request POST (js ''/auth/logout'') None) (logged_out s) []"
  by (simp add: Logout_begin_def setUserInfo_def ResetReturnUrl_def logged_out_def js_run)

text \<open>The rest of a logout changes nothing in the store, whatever its answer is.\<close>

lemma Logout_settle_run:
  "Logout_settle reply s = Returns () s
     [Notify (js ''Logged Out'') (Text (js ''Logout successful!'')) (Some (js ''warn'')), Push (js ''/login'')]"
  by (cases reply) (simp_all add: Logout_settle_def js_run)

lemma attempt_receive:
  "attempt (receive showUser a) s =
     (if denial a \<and> IsAuthenticated s
      then Returns (settled_reply a) (logged_out s) [Send POST (js ''/auth/logout'')]
      else Returns (settled_reply a) s [])"
  by (cases a) (auto simp: attempt_def receive_def denial_def settled_reply_def Logout_begin_run js_run)

lemma answered_run:
  "answered showUser a k s =
     (if denial a \<and> IsAuthenticated s
      then prepend_effects [Send POST (js ''/auth/logout'')] (k (settled_reply a) (logged_out s))
      else k (settled_reply a) s)"
  by (simp add: answered_def bind_def attempt_receive)

lemma handleResponse_denied:
  assumes "response_data parse r = Some data" "denies parse r" "IsAuthenticated s"
  shows "\<exists>t. handleResponse parse showUser r s
      = Throws (Text (error_text data (statusText r))) t [Send POST (js ''/auth/logout'')]
    \<and> \<not> IsAuthenticated t \<and> ReturnUrl t = js ''/''"
  using assms
  by (auto simp: handleResponse_def denies_def response_ok_def Logout_begin_def setUserInfo_def
      ResetReturnUrl_def IsAuthenticated_def ReturnUrl_def js_run)

lemma handleResponse_rejected:
  assumes "response_data parse r = Some data" "\<not> response_ok r" "\<not> (denies parse r \<and> IsAuthenticated s)"
  shows "handleResponse parse showUser r s = Throws (Text (error_text data (statusText r))) s []"
  using assms by (auto simp: handleResponse_def denies_def js_run)

section \<open>Properties\<close>

text \<open>Every request through \<open>apiWrapper\<close> is built without an error and carries what the
  backend checks: the CSRF token exactly with the methods that change something, the user's
  identifier exactly when somebody is logged in, and a content type exactly with a body.\<close>

theorem apiRequest_headers:
  "\<exists>c. apiRequest base stringify auth sec verb path body = Inr c
     \<and> call_url c = base @ path \<and> call_method c = method_name verb
     \<and> call_headers c (js ''X-CSRF-TOKEN'') = (if verb = GET then None else Some (CsrfToken sec))
     \<and> call_headers c (js ''X-FRONTEND-UID'')
         = (if IsAuthenticated auth then Some (UserIdentifier auth) else None)
     \<and> call_headers c (js ''Content-Type'')
         = map_option (\<lambda>_. js ''application/json'') body
     \<and> call_body c = map_option stringify body"
  by (cases verb; cases body)
    (simp_all add: apiRequest_def getHeaders_def with_body_def startsWith_def Let_def)

text \<open>The wrapper for arbitrary URLs never sends anything: every call throws a
  \<open>TypeError\<close>, because it passes the URL as the method and no URL.\<close>

theorem fetch_request_throws:
  "fetch_request base stringify auth sec verb url body = Inl TypeError"
  by (simp add: fetch_request_def getHeaders_def)

text \<open>An answer is handed on exactly when it is a success with a readable body; every
  other answer rejects the promise with the server's message or the status text, or with a
  syntax error, which takes precedence over everything else, the logout included.\<close>

theorem handleResponse_outcome:
  "case response_data parse r of
     None \<Rightarrow> handleResponse parse showUser r s = Throws SyntaxError s []
   | Some data \<Rightarrow>
      (if response_ok r then handleResponse parse showUser r s = Returns data s []
       else \<exists>t es. handleResponse parse showUser r s
              = Throws (Text (error_text data (statusText r))) t es
            \<and> (if denies parse r \<and> IsAuthenticated s
               then \<not> IsAuthenticated t \<and> ReturnUrl t = js ''/''
                 \<and> es = [Send POST (js ''/auth/logout'')]
               else t = s \<and> es = []))"
proof (cases "response_data parse r")
  case None
  then show ?thesis by (simp add: handleResponse_def js_run)
next
  case (Some data)
  consider "response_ok r" | "\<not> response_ok r" "denies parse r \<and> IsAuthenticated s"
    | "\<not> response_ok r" "\<not> (denies parse r \<and> IsAuthenticated s)" by blast
  then show ?thesis
  proof cases
    case 1
    with Some show ?thesis by (simp add: handleResponse_def js_run)
  next
    case 2
    with Some handleResponse_denied [of parse r data s showUser] show ?thesis by auto
  next
    case 3
    with Some handleResponse_rejected [of parse r data s showUser] show ?thesis by auto
  qed
qed

lemma handleResponse_step:
  "\<exists>t es. catch (bind (handleResponse parse showUser r) (\<lambda>_. return ())) (\<lambda>_. return ()) s
       = Returns () t es
     \<and> IsAuthenticated t = (IsAuthenticated s \<and> \<not> denies parse r)
     \<and> logout_sent es = (if IsAuthenticated s \<and> denies parse r then 1 else 0)"
  by (auto simp: handleResponse_def denies_def response_ok_def Logout_begin_def setUserInfo_def
      ResetReturnUrl_def IsAuthenticated_def logout_sent_def js_run split: option.split)

text \<open>C35. However many answers deny access, the user is logged out by the first of them and
  the logout request is sent once, and the denial of the logout request itself starts no
  further one; without a denial nobody is logged out.\<close>

theorem automatic_logout_once:
  "\<exists>t es. handle_all parse showUser rs s = Returns () t es
     \<and> IsAuthenticated t = (IsAuthenticated s \<and> \<not> list_ex (denies parse) rs)
     \<and> logout_sent es = (if IsAuthenticated s \<and> list_ex (denies parse) rs then 1 else 0)"
proof (induction rs arbitrary: s)
  case Nil
  then show ?case by (simp add: js_run logout_sent_def)
next
  case (Cons r rs)
  obtain t es where step:
    "catch (bind (handleResponse parse showUser r) (\<lambda>_. return ())) (\<lambda>_. return ()) s
       = Returns () t es"
    "IsAuthenticated t = (IsAuthenticated s \<and> \<not> denies parse r)"
    "logout_sent es = (if IsAuthenticated s \<and> denies parse r then 1 else 0)"
    using handleResponse_step by blast
  obtain t' es' where rest: "handle_all parse showUser rs t = Returns () t' es'"
    "IsAuthenticated t' = (IsAuthenticated t \<and> \<not> list_ex (denies parse) rs)"
    "logout_sent es' = (if IsAuthenticated t \<and> list_ex (denies parse) rs then 1 else 0)"
    using Cons.IH [of t] by blast
  have "handle_all parse showUser (r # rs) s = Returns () t' (es @ es')"
    using step(1) rest(1) by (simp add: andThen_def bind_def [of "catch _ _"])
  moreover have "logout_sent (es @ es') = logout_sent es + logout_sent es'"
    by (simp add: logout_sent_def)
  ultimately show ?case using step(2,3) rest(2,3) by auto
qed

end
