(* ===== verification/Utils.thy ===== *)
theory Utils
  imports JS_Base Complex_Main
begin

text \<open>
  \<open>helpers/utils.js\<close> and \<open>helpers/validators.js\<close>. The address packages they import
  (\<open>ip-address\<close>, \<open>is-cidr\<close>, \<open>is-ip\<close>) are arguments, and so is the quotient of logarithms in
  \<open>humanFileSize\<close>, which the language leaves to the engine; the sizes are byte counts.
\<close>

section \<open>Addresses\<close>

text \<open>
  The third-party functions: the big integer of an IPv4 or IPv6 address (the constructors
  throw on a text they do not accept), the version of a CIDR (0 for none), and whether a text
  is an IP address.
\<close>

record ip_library =
  Address4 :: "jsstr \<Rightarrow> int settled"
  Address6 :: "jsstr \<Rightarrow> int settled"
  isCidr :: "jsstr \<Rightarrow> int"
  isIP :: "jsstr \<Rightarrow> bool"

text \<open>A library that accepts nothing, for the witnesses.\<close>

definition no_library :: ip_library where
  "no_library = \<lparr>Address4 = (\<lambda>_. Inl TypeError), Address6 = (\<lambda>_. Inl TypeError),
     isCidr = (\<lambda>_. 0), isIP = (\<lambda>_. False)\<rparr>"

definition ipToBigInt :: "ip_library \<Rightarrow> jsstr \<Rightarrow> int settled" where
  "ipToBigInt lib ip = (if strIncludes ip (js ''.'') then Address4 lib ip else Address6 lib ip)"

section \<open>Validators of the tag inputs\<close>

text \<open>
  A rule that holds marks the tag with its class, and with \<open>disableAdd\<close> keeps it out of the
  list.
\<close>

record tag_rule =
  classes :: jsstr
  rule :: "jsstr \<Rightarrow> bool"
  disableAdd :: bool

definition validateCIDR :: "ip_library \<Rightarrow> tag_rule list" where
  "validateCIDR lib =
     [\<lparr>classes = js ''invalid-cidr'', rule = (\<lambda>text. isCidr lib text = 0), disableAdd = True\<rparr>]"

definition validateIP :: "ip_library \<Rightarrow> tag_rule list" where
  "validateIP lib = [\<lparr>classes = js ''invalid-ip'', rule = (\<lambda>text. \<not> isIP lib text), disableAdd = True\<rparr>]"

definition validateDomain :: "tag_rule list" where
  "validateDomain =
     [\<lparr>classes = js ''invalid-domain'', rule = (\<lambda>text. length text < 3), disableAdd = True\<rparr>]"

section \<open>File sizes\<close>

text \<open>The decimal digits of a natural number, as JavaScript's string conversion writes them.\<close>

fun decimal :: "nat \<Rightarrow> jsstr" where
  "decimal n = (if n < 10 then [js_char (char_of (48 + n))]
                else decimal (n div 10) @ [js_char (char_of (48 + n mod 10))])"

declare decimal.simps [simp del]

definition size_units :: "jsstr list" where
  "size_units = map js [''B'', ''KB'', ''MB'', ''GB'', ''TB'', ''PB'', ''EB'', ''ZB'', ''YB'']"

definition Math_round :: "real \<Rightarrow> int" where
  "Math_round x = \<lfloor>x + 1 / 2\<rfloor>"

text \<open>
  \<open>logs n\<close> is what the engine computes for \<open>Math.log(n) / Math.log(1024)\<close>: the language calls the
  result of \<open>Math.log\<close> an approximation, and the quotient is rounded once more. The other
  operations on a double are exact here: \<open>Math.floor\<close>, the division by a power of two, and
  \<open>Math.round\<close>, whose second argument the language ignores. An index outside of the units gives
  \<open>undefined\<close>, which added to the number is \<open>NaN\<close>.
\<close>

definition size_index :: "(nat \<Rightarrow> real) \<Rightarrow> nat \<Rightarrow> int" where
  "size_index logs n = \<lfloor>logs n\<rfloor>"

definition humanFileSize :: "(nat \<Rightarrow> real) \<Rightarrow> nat \<Rightarrow> jsstr" where
  "humanFileSize logs n =
     (if n = 0 then js ''0B''
      else (let i = size_index logs n
            in if 0 \<le> i \<and> i < int (length size_units)
               then decimal (nat (Math_round (real n / 1024 ^ nat i))) @ size_units ! nat i
               else js ''NaN''))"

text \<open>
  What is required of the engine: the quotient is exact for 1, whose logarithm is 0, and at most
  \<open>1 / 2 ^ 40\<close> off elsewhere. (With a logarithm that is one unit in the last place off the error
  for numbers below \<open>1024 ^ 9\<close> is less than \<open>1 / 2 ^ 46\<close>.)
\<close>

definition log_error :: real where
  "log_error = 1 / 2 ^ 40"

definition close_logs :: "(nat \<Rightarrow> real) \<Rightarrow> bool" where
  "close_logs logs \<longleftrightarrow> logs 1 = 0 \<and> (\<forall>n > 1. \<bar>logs n - log 1024 (real n)\<bar> \<le> log_error)"

lemma ln_1024: "0 < ln (1024 :: real)" "ln (1024 :: real) \<le> 10"
proof -
  have "ln (1024 :: real) = 10 * ln 2"
    using ln_realpow [of "2 :: real" 10] by simp
  with ln_le_minus_one [of "2 :: real"] show "ln (1024 :: real) \<le> 10" by simp
qed simp

text \<open>An error of the logarithm is a relative error of the number.\<close>

lemma powr_error:
  "1 - 1 / 2 ^ 36 \<le> (1024 :: real) powr - log_error" "(1024 :: real) powr log_error \<le> 1 + 1 / 2 ^ 36"
proof -
  let ?x = "log_error * ln (1024 :: real)"
  have x: "0 \<le> ?x" "?x \<le> 10 / 2 ^ 40"
    using ln_1024 by (simp_all add: log_error_def)
  have "1 - ?x \<le> exp (- ?x)" using exp_ge_add_one_self [of "- ?x"] by simp
  also have "\<dots> = 1024 powr - log_error" by (simp add: powr_def)
  finally show "1 - 1 / 2 ^ 36 \<le> (1024 :: real) powr - log_error"
    using x(2) by simp
  have "?x\<^sup>2 \<le> (10 / 2 ^ 40)\<^sup>2" by (rule power_mono [OF x(2,1)])
  then have "1 + ?x + ?x\<^sup>2 \<le> 1 + 1 / 2 ^ 36" using x(2) by (simp add: power2_eq_square)
  moreover have "exp ?x \<le> 1 + ?x + ?x\<^sup>2" using x by (intro exp_bound) simp_all
  ultimately show "(1024 :: real) powr log_error \<le> 1 + 1 / 2 ^ 36" by (simp add: powr_def mult.commute)
qed

lemma size_index_bounds:
  assumes "close_logs logs" "0 < n"
  shows "0 \<le> size_index logs n
    \<and> 1024 ^ nat (size_index logs n) * (1 - 1 / 2 ^ 36) \<le> real n
    \<and> real n < 1024 ^ (nat (size_index logs n) + 1) * (1 + 1 / 2 ^ 36)"
proof (cases "n = 1")
  case True
  then show ?thesis using assms(1) by (simp add: close_logs_def size_index_def)
next
  case False
  with assms have n: "1 < n" by simp
  let ?l = "log 1024 (real n)" and ?i = "size_index logs n"
  have close: "\<bar>logs n - ?l\<bar> \<le> log_error" using assms(1) n by (auto simp: close_logs_def)
  have "log 1024 2 \<le> ?l" using n by simp
  moreover have "log 1024 (2 :: real) = 1 / 10"
    using log_pow_cancel [of "2 :: real" 10] log_base_pow [of 2 10 2] by simp
  ultimately have "1 / 10 \<le> ?l" by simp
  moreover have "log_error \<le> 1 / 10" by (simp add: log_error_def)
  ultimately have "0 \<le> logs n" using close by linarith
  then have nn: "0 \<le> ?i" by (simp add: size_index_def)
  have fl: "real (nat ?i) \<le> logs n" "logs n < real (nat ?i + 1)"
    using nn unfolding size_index_def by linarith+
  have power: "(1024 :: real) powr real k = 1024 ^ k" for k by (simp add: powr_realpow)
  have whole: "1024 powr ?l = real n" using n by simp
  have "real (nat ?i) - log_error \<le> ?l" using fl(1) close by linarith
  then have "1024 powr (real (nat ?i) - log_error) \<le> 1024 powr ?l" by (intro powr_mono) simp_all
  then have "1024 powr (real (nat ?i) - log_error) \<le> real n" unfolding whole .
  then have "1024 ^ nat ?i * 1024 powr - log_error \<le> real n"
    by (simp add: powr_diff powr_minus_divide power)
  moreover have "1024 ^ nat ?i * (1 - 1 / 2 ^ 36) \<le> 1024 ^ nat ?i * 1024 powr - log_error"
    by (intro mult_left_mono powr_error) simp
  ultimately have low: "1024 ^ nat ?i * (1 - 1 / 2 ^ 36) \<le> real n" by linarith
  have "?l < real (nat ?i + 1) + log_error" using fl(2) close by linarith
  then have "1024 powr ?l < 1024 powr (real (nat ?i + 1) + log_error)" by (intro powr_less_mono) simp_all
  then have "real n < 1024 powr (real (nat ?i + 1) + log_error)" unfolding whole .
  then have "real n < 1024 ^ (nat ?i + 1) * 1024 powr log_error"
    unfolding powr_add power .
  moreover have "1024 ^ (nat ?i + 1) * 1024 powr log_error \<le> 1024 ^ (nat ?i + 1) * (1 + 1 / 2 ^ 36)"
    by (intro mult_left_mono powr_error) simp
  ultimately have "real n < 1024 ^ (nat ?i + 1) * (1 + 1 / 2 ^ 36)" by linarith
  with nn low show ?thesis by blast
qed

text \<open>The reverse of \<open>decimal\<close>.\<close>

definition undecimal :: "jsstr \<Rightarrow> nat" where
  "undecimal s = foldl (\<lambda>v u. 10 * v + (unat u - 48)) 0 s"

lemma unat_digit: "d < 10 \<Longrightarrow> unat (js_char (char_of (48 + d))) = 48 + d"
  by (simp add: unat_js_char of_char_of)

lemma undecimal_decimal: "undecimal (decimal n) = n"
proof (induction n rule: decimal.induct)
  case (1 n)
  show ?case
  proof (cases "n < 10")
    case True
    then show ?thesis by (subst decimal.simps) (simp add: undecimal_def unat_digit)
  next
    case False
    with 1 have "undecimal (decimal (n div 10)) = n div 10" by simp
    with False show ?thesis by (subst decimal.simps) (simp add: undecimal_def unat_digit)
  qed
qed

section \<open>Properties\<close>

text \<open>C39. With an engine whose logarithms are close, a byte count up to \<open>1023 * 1024 ^ 8\<close> is displayed as
  a whole number between 1 and 1024, at most half a unit off, in a unit that exceeds the count by
  no more than the \<open>2 ^ 36\<close>-th part and is the largest such but for the same tolerance. (Just
  below a power of 1024 the quotient is rounded up, so that the next unit may be shown.)\<close>

theorem humanFileSize_rounds:
  assumes "close_logs logs" "0 < n" "n \<le> 1023 * 1024 ^ 8"
  shows "\<exists>v i. humanFileSize logs n = decimal v @ size_units ! i \<and> i < length size_units
    \<and> 1024 ^ i * (1 - 1 / 2 ^ 36) \<le> real n \<and> real n < 1024 ^ (i + 1) * (1 + 1 / 2 ^ 36)
    \<and> 1 \<le> v \<and> v \<le> 1024
    \<and> 2 * n \<le> (2 * v + 1) * 1024 ^ i \<and> 2 * v * 1024 ^ i \<le> 2 * n + 1024 ^ i"
proof -
  let ?i = "nat (size_index logs n)" and ?x = "real n / 1024 ^ nat (size_index logs n)"
  have b: "0 \<le> size_index logs n" "1024 ^ ?i * (1 - 1 / 2 ^ 36) \<le> real n"
    "real n < 1024 ^ (?i + 1) * (1 + 1 / 2 ^ 36)"
    using size_index_bounds [OF assms(1,2)] by auto
  have i: "?i < 9"
  proof (rule ccontr)
    assume "\<not> ?i < 9"
    then have "(1024 :: real) ^ 9 \<le> 1024 ^ ?i" by (intro power_increasing) simp_all
    then have "(1024 :: real) ^ 9 * (1 - 1 / 2 ^ 36) \<le> 1024 ^ ?i * (1 - 1 / 2 ^ 36)"
      by (intro mult_right_mono) simp_all
    moreover have "real n \<le> 1023 * 1024 ^ 8"
      using assms(3) of_nat_le_iff [where 'a = real, of n "1023 * 1024 ^ 8"] by simp
    ultimately show False using b(2) by simp
  qed
  let ?v = "nat (Math_round ?x)"
  have x: "1 - 1 / 2 ^ 36 \<le> ?x" "?x < 1024 * (1 + 1 / 2 ^ 36)"
    using b(2,3) by (simp_all add: pos_le_divide_eq pos_divide_less_eq mult_ac)
  moreover have "9 / 10 \<le> (1 :: real) - 1 / 2 ^ 36" "1024 * (1 + 1 / 2 ^ 36) < (1024 :: real) + 1 / 4"
    by simp_all
  ultimately have "9 / 10 \<le> ?x" "?x < 1024 + 1 / 4" by linarith+
  then have v: "1 \<le> ?v" "?v \<le> 1024" "?x \<le> real ?v + 1 / 2" "real ?v \<le> ?x + 1 / 2"
    unfolding Math_round_def by linarith+
  have "real (2 * n) \<le> real ((2 * ?v + 1) * 1024 ^ ?i)"
    using v(3) by (simp add: divide_simps algebra_simps)
  moreover have "real (2 * ?v * 1024 ^ ?i) \<le> real (2 * n + 1024 ^ ?i)"
    using v(4) by (simp add: divide_simps algebra_simps)
  ultimately have "2 * n \<le> (2 * ?v + 1) * 1024 ^ ?i" "2 * ?v * 1024 ^ ?i \<le> 2 * n + 1024 ^ ?i"
    by (simp_all only: of_nat_le_iff)
  moreover have "humanFileSize logs n = decimal ?v @ size_units ! ?i" "?i < length size_units"
    using assms(2) b(1) i nat_less_iff [of "size_index logs n" 9]
    by (simp_all add: humanFileSize_def Let_def size_units_def)
  ultimately show ?thesis using b(2,3) v(1,2) by blast
qed

text \<open>The quotient of a byte below a petabyte, which doubles round up to 5.\<close>

definition rounded_logs :: "nat \<Rightarrow> real" where
  "rounded_logs n = (if n = 1024 ^ 5 - 1 then 5 else log 1024 (real n))"

lemma rounded_logs_close: "close_logs rounded_logs"
proof -
  let ?d = "1 / 1024 ^ 5 :: real"
  have mult: "log 1024 (1024 ^ 5 * e) = 5 + log 1024 e" if "0 < e" for e :: real
    using that log_mult [of 1024 "1024 ^ 5" e] log_pow_cancel [of 1024 5] by auto
  have "real (1024 ^ 5 - 1) = 1024 ^ 5 * (1 - ?d)" by simp
  then have "log 1024 (real (1024 ^ 5 - 1)) = log 1024 (1024 ^ 5 * (1 - ?d))" by (rule arg_cong)
  also have "\<dots> = 5 + log 1024 (1 - ?d)" by (rule mult) simp
  finally have "log 1024 (real (1024 ^ 5 - 1)) = 5 + ln (1 - ?d) / ln 1024"
    by (simp only: log_def [of 1024 "1 - ?d"])
  moreover have "\<bar>ln (1 - ?d) / ln 1024\<bar> \<le> log_error"
  proof -
    have "exp (1 :: real) \<le> 1024" using exp_le by linarith
    then have one: "1 \<le> ln (1024 :: real)" by (subst ln_ge_iff) simp_all
    have "\<bar>ln (1 - ?d)\<bar> \<le> ?d + 2 * ?d\<^sup>2" using ln_one_minus_pos_lower_bound [of ?d] by simp
    also have "\<dots> \<le> log_error" by (simp add: log_error_def power2_eq_square)
    finally have "\<bar>ln (1 - ?d)\<bar> \<le> log_error" .
    moreover have "\<bar>a / ln 1024\<bar> \<le> \<bar>a\<bar>" for a :: real
      using one mult_left_mono [OF one, of "\<bar>a\<bar>"] by (simp add: abs_divide pos_divide_le_eq)
    ultimately show ?thesis by (rule order_trans [rotated])
  qed
  ultimately have "\<bar>5 - log 1024 (real (1024 ^ 5 - 1))\<bar> \<le> log_error" by linarith
  then show ?thesis by (auto simp: close_logs_def rounded_logs_def log_error_def)
qed

theorem humanFileSize_rounds_witness:
  "humanFileSize rounded_logs (1024 ^ 5 - 1) = js ''1PB''
   \<and> (\<exists>v i. humanFileSize rounded_logs (1024 ^ 5 - 1) = decimal v @ size_units ! i \<and> i < length size_units
       \<and> 1 \<le> v \<and> v \<le> 1024)"
proof
  have "Math_round (real (1024 ^ 5 - 1) / 1024 ^ 5) = 1"
    unfolding Math_round_def by (rule floor_unique) simp_all
  moreover have "size_index rounded_logs (1024 ^ 5 - 1) = 5" by (simp add: size_index_def rounded_logs_def)
  moreover have one: "char_of (49 :: nat) = CHR ''1''" by code_simp
  ultimately show "humanFileSize rounded_logs (1024 ^ 5 - 1) = js ''1PB''"
    using one by (simp add: humanFileSize_def Let_def size_units_def decimal.simps) (simp add: js_def)
  show "\<exists>v i. humanFileSize rounded_logs (1024 ^ 5 - 1) = decimal v @ size_units ! i \<and> i < length size_units
      \<and> 1 \<le> v \<and> v \<le> 1024"
    using humanFileSize_rounds [OF rounded_logs_close, of "1024 ^ 5 - 1"] by auto
qed

end
