(* ===== verification/Paging.thy ===== *)
theory Paging
  imports JS_Base Complex_Main
begin

text \<open>
  Pagination, which four of the stores share (\<open>stores/audit.js\<close>, \<open>users.js\<close>, \<open>peers.js\<close>,
  \<open>profile.js\<close>, each with its own copy of the code): the loop of \<open>calculatePages\<close>, the window
  of rows a page shows, the interface of a paged store as a record of its operations, the
  events of its table, and, in the locale \<open>pager_laws\<close>, what holds of
  every store that meets the interface.
\<close>

section \<open>The fields every paged store has\<close>

record paged =
  filter_text :: jsstr
  pageSize :: int
  pageOffset :: int
  pages :: "int list"
  fetching :: bool

section \<open>The loop of calculatePages\<close>

text \<open>
  \<open>for (let i = 0; i < FilteredCount; i += pageSize) pages.push(pageCounter++)\<close>. The loop does
  not end when the page size is not positive and there is something to page: \<open>None\<close>.
\<close>

partial_function (option) pages_loop ::
  "int \<Rightarrow> int \<Rightarrow> int \<Rightarrow> int \<Rightarrow> int list \<Rightarrow> int list option" where
  "pages_loop i n k pageCounter ps =
     (if i < n then pages_loop (i + k) n k (pageCounter + 1) (ps @ [pageCounter]) else Some ps)"

definition calculate_pages :: "int \<Rightarrow> int \<Rightarrow> int list option" where
  "calculate_pages n k = pages_loop 0 n k 1 []"

definition page_count :: "int \<Rightarrow> int \<Rightarrow> int" where
  "page_count n k = (n + k - 1) div k"

lemma page_count_step: "0 < k \<Longrightarrow> page_count n k = page_count (n - k) k + 1"
proof -
  assume "0 < k"
  have "n + k - 1 = (n - k + k - 1) + k" by simp
  then show ?thesis
    using \<open>0 < k\<close> unfolding page_count_def by (metis div_add_self2 less_irrefl)
qed

lemma page_count_small: "0 < n \<Longrightarrow> n \<le> k \<Longrightarrow> page_count n k = 1"
  unfolding page_count_def by (rule int_div_pos_eq [where r = "n - 1"]) auto

lemma page_count_0 [simp]: "0 < k \<Longrightarrow> page_count 0 k = 0"
  by (simp add: page_count_def)

lemma page_count_nonneg: "0 < k \<Longrightarrow> 0 \<le> n \<Longrightarrow> 0 \<le> page_count n k"
  unfolding page_count_def by (simp add: pos_imp_zdiv_nonneg_iff)

lemma page_count_mult_le:
  assumes "0 < k"
  shows "page_count n k * k \<le> n + k - 1"
proof -
  have "page_count n k * k = (n + k - 1) - (n + k - 1) mod k"
    by (simp only: page_count_def minus_mod_eq_div_mult)
  with pos_mod_sign [OF assms, of "n + k - 1"] show ?thesis by linarith
qed

lemma page_count_gt:
  assumes "0 < k" "k * q < n"
  shows "q < page_count n k"
proof -
  have "k * (q + 1) \<le> n + k - 1" using assms by (simp add: algebra_simps)
  then have "k * (q + 1) div k \<le> page_count n k"
    unfolding page_count_def using assms(1) by (rule zdiv_mono1)
  then show ?thesis using assms(1) by simp
qed

lemma page_count_multiple: "0 < k \<Longrightarrow> page_count (k * q) k = q \<and> page_count (k * q + 1) k = q + 1"
proof -
  assume k: "0 < k"
  have "(k * q + (k - 1)) div k = q" using k by (simp add: div_add1_eq)
  moreover have "(k * (q + 1)) div k = q + 1" using k by simp
  ultimately show ?thesis by (simp add: page_count_def algebra_simps)
qed

lemma pages_loop_done: "n \<le> i \<Longrightarrow> pages_loop i n k c ps = Some ps"
  by (subst pages_loop.simps) simp

lemma pages_loop_step:
  "i < n \<Longrightarrow> pages_loop i n k c ps = pages_loop (i + k) n k (c + 1) (ps @ [c])"
  by (subst pages_loop.simps) simp

lemma pages_loop_pos:
  assumes "0 < k" and "i \<le> n"
  shows "pages_loop i n k c ps = Some (ps @ [c..c + page_count (n - i) k - 1])"
  using assms(2)
proof (induction "nat (n - i)" arbitrary: i c ps rule: less_induct)
  case less
  consider "i = n" | "i < n" "n \<le> i + k" | "i + k < n" using less.prems by linarith
  then show ?case
  proof cases
    case 1
    then show ?thesis using assms(1) by (simp add: pages_loop_done)
  next
    case 2
    then have "page_count (n - i) k = 1" by (intro page_count_small) simp_all
    with 2 show ?thesis by (simp add: pages_loop_step pages_loop_done)
  next
    case 3
    with assms(1) have "i < n" and dec: "nat (n - (i + k)) < nat (n - i)" by linarith+
    have count: "page_count (n - i) k = page_count (n - (i + k)) k + 1"
      using page_count_step [OF assms(1), of "n - i"] by (simp add: algebra_simps)
    have nn: "0 \<le> page_count (n - (i + k)) k"
      using 3 assms(1) by (intro page_count_nonneg) auto
    have "pages_loop i n k c ps = pages_loop (i + k) n k (c + 1) (ps @ [c])"
      by (rule pages_loop_step) fact
    also have "\<dots> = Some ((ps @ [c]) @ [c + 1..c + 1 + page_count (n - (i + k)) k - 1])"
      using 3 by (intro less.hyps [OF dec]) simp
    finally show ?thesis using nn by (simp add: count upto_rec1 [of c])
  qed
qed

lemma pages_loop_stuck:
  assumes "pages_loop i n k c ps = Some r"
  shows "\<not> (i < n \<and> k \<le> 0)"
  by (rule pages_loop.raw_induct [where P = "\<lambda>i n k c ps r. \<not> (i < n \<and> k \<le> 0)", OF _ assms])
    (auto split: if_splits, smt (verit))

text \<open>The loop ends exactly when the size is positive or there is nothing to page.\<close>

lemma calculate_pages_pos:
  "0 < k \<Longrightarrow> 0 \<le> n \<Longrightarrow> calculate_pages n k = Some [1..page_count n k]"
  using pages_loop_pos [of k 0 n 1 "[]"] by (simp add: calculate_pages_def)

lemma calculate_pages_None: "0 < n \<Longrightarrow> k \<le> 0 \<Longrightarrow> calculate_pages n k = None"
  using pages_loop_stuck [of 0 n k 1 "[]"] by (cases "calculate_pages n k") (auto simp: calculate_pages_def)

section \<open>The rows of a page\<close>

definition page_rows :: "'e list \<Rightarrow> int \<Rightarrow> int \<Rightarrow> 'e list" where
  "page_rows xs off k = slice xs off (off + k)"

lemma page_rows_nonneg:
  "0 \<le> off \<Longrightarrow> 0 \<le> k \<Longrightarrow> page_rows xs off k = take (nat k) (drop (nat off) xs)"
  by (simp add: page_rows_def slice_window)

lemma upto_shift: "map (\<lambda>p. p + d) [a..b] = [a + d..b + (d :: int)]"
  by (rule nth_equalityI) (auto simp: nth_upto)

lemma concat_rows_from:
  assumes "0 < k" "0 \<le> off" "off \<le> int (length xs)"
  shows "concat (map (\<lambda>p. page_rows xs (off + (p - 1) * k) k) [1..page_count (int (length xs) - off) k])
    = drop (nat off) xs"
  using assms(2,3)
proof (induction "nat (int (length xs) - off)" arbitrary: off rule: less_induct)
  case less
  let ?n = "int (length xs)"
  consider "off = ?n" | "off < ?n" "?n \<le> off + k" | "off + k < ?n" using less.prems by linarith
  then show ?case
  proof cases
    case 1
    then show ?thesis using assms(1) by simp
  next
    case 2
    then have "page_count (?n - off) k = 1" by (intro page_count_small) simp_all
    with 2 less.prems assms(1) show ?thesis by (simp add: page_rows_nonneg)
  next
    case 3
    with assms(1) have dec: "nat (?n - (off + k)) < nat (?n - off)" by linarith
    have count: "page_count (?n - off) k = page_count (?n - (off + k)) k + 1"
      using page_count_step [OF assms(1), of "?n - off"] by (simp add: algebra_simps)
    have nn: "0 \<le> page_count (?n - (off + k)) k"
      using 3 assms(1) by (intro page_count_nonneg) auto
    let ?m = "page_count (?n - (off + k)) k"
    have cons: "[1..?m + 1] = 1 # map (\<lambda>p. p + 1) [1..?m]"
      using nn upto_rec1 [of 1 "?m + 1"] upto_shift [of 1 1 ?m] by simp
    have "concat (map (\<lambda>p. page_rows xs (off + (p - 1) * k) k) [1..page_count (?n - off) k])
        = page_rows xs off k
          @ concat (map (\<lambda>p. page_rows xs (off + k + (p - 1) * k) k) [1..?m])"
      unfolding count cons by (simp add: comp_def algebra_simps)
    also have "\<dots> = take (nat k) (drop (nat off) xs) @ drop (nat (off + k)) xs"
      using less.hyps [OF dec] 3 less.prems assms(1) by (simp add: page_rows_nonneg)
    also have "\<dots> = drop (nat off) xs"
      using less.prems assms(1) by (simp add: nat_add_distrib add.commute flip: drop_drop)
    finally show ?thesis .
  qed
qed

text \<open>The pages cut the list into consecutive pieces: nothing is lost, repeated or moved.\<close>

lemma concat_page_rows:
  "0 < k \<Longrightarrow> concat (map (\<lambda>p. page_rows xs ((p - 1) * k) k) [1..page_count (int (length xs)) k]) = xs"
  using concat_rows_from [of k 0 xs] by simp

section \<open>A paged store and its pagination bar\<close>

text \<open>
  The operations a view uses of a paged store. \<open>pg_rows\<close> is \<open>FilteredAndPaged\<close>, which sorts
  first in the peer stores and may then throw; \<open>pg_currentPage\<close> is \<open>None\<close> when the division
  by the page size has no finite result.
\<close>

record ('s, 'e) pager =
  pg_count :: "'s \<Rightarrow> int"
  pg_offset :: "'s \<Rightarrow> int"
  pg_size :: "'s \<Rightarrow> int"
  pg_pages :: "'s \<Rightarrow> int list"
  pg_rows :: "'s \<Rightarrow> 'e list settled"
  pg_hasNextPage :: "'s \<Rightarrow> bool"
  pg_hasPrevPage :: "'s \<Rightarrow> bool"
  pg_currentPage :: "'s \<Rightarrow> rat option"
  pg_afterPageSizeChange :: "('s, unit) comp"
  pg_gotoPage :: "int \<Rightarrow> ('s, unit) comp"
  pg_nextPage :: "('s, unit) comp"
  pg_previousPage :: "('s, unit) comp"
  pg_set_size :: "int \<Rightarrow> 's \<Rightarrow> 's"
  pg_set_filter :: "jsstr \<Rightarrow> 's \<Rightarrow> 's"

definition page_sizes :: "int list" where
  "page_sizes = [10, 25, 50, 100, 999999999]"

text \<open>
  The events of a table, one by one. The arrows are disabled at the first page and when there is
  no next page, and the page links are the entries of \<open>pages\<close>. The two bindings (\<open>v-model\<close>) write
  the page size and the text of the search; their handlers are events of their own: the \<open>click\<close>
  on the selector and the \<open>keyup\<close> in the field, which both run \<open>afterPageSizeChange\<close>. A size that
  is chosen with the keyboard, and a text that is pasted or dropped, have no handler of their own.
  The flag says whether every write has been followed by a handler.
\<close>

inductive bar_event :: "('s, 'e) pager \<Rightarrow> bool \<Rightarrow> 's \<Rightarrow> bool \<Rightarrow> 's \<Rightarrow> bool" for P where
  event_previous: "pg_offset P s \<noteq> 0 \<Longrightarrow> pg_previousPage P s = Returns () t es \<Longrightarrow> bar_event P ok s ok t"
| event_next: "pg_hasNextPage P s \<Longrightarrow> pg_nextPage P s = Returns () t es \<Longrightarrow> bar_event P ok s ok t"
| event_goto: "p \<in> set (pg_pages P s) \<Longrightarrow> pg_gotoPage P p s = Returns () t es \<Longrightarrow> bar_event P ok s ok t"
| event_size: "k \<in> set page_sizes \<Longrightarrow> bar_event P ok s False (pg_set_size P k s)"
| event_click: "pg_afterPageSizeChange P s = Returns () t es \<Longrightarrow> bar_event P ok s True t"
| event_input: "bar_event P ok s False (pg_set_filter P f s)"
| event_keyup: "pg_afterPageSizeChange P s = Returns () t es \<Longrightarrow> bar_event P ok s True t"

text \<open>A sequence of events from a state in which nothing waits for its handler.\<close>

inductive bar_run :: "('s, 'e) pager \<Rightarrow> 's \<Rightarrow> bool \<Rightarrow> 's \<Rightarrow> bool" for P s where
  bar_start: "bar_run P s True s"
| bar_step: "bar_run P s ok t \<Longrightarrow> bar_event P ok t ok' u \<Longrightarrow> bar_run P s ok' u"

text \<open>The bar and the list agree: the offset is the start of one of the listed pages.\<close>

definition pager_inv :: "('s, 'e) pager \<Rightarrow> 's \<Rightarrow> bool" where
  "pager_inv P s \<longleftrightarrow>
     0 < pg_size P s \<and> 0 \<le> pg_offset P s \<and> pg_size P s dvd pg_offset P s
     \<and> (pg_offset P s = 0 \<or> pg_offset P s < pg_count P s)
     \<and> pg_pages P s = [1..page_count (pg_count P s) (pg_size P s)]"

section \<open>What holds of every paged store\<close>

locale pager_laws =
  fixes P :: "('s, 'e) pager"
    and items :: "'s \<Rightarrow> 'e list settled"
    and set_offset :: "int \<Rightarrow> 's \<Rightarrow> 's"
    and set_pages :: "int list \<Rightarrow> 's \<Rightarrow> 's"
    and calculatePages :: "('s, unit) comp"
  assumes count_nonneg: "0 \<le> pg_count P s"
    and items_count: "items s = Inr xs \<Longrightarrow> int (length xs) = pg_count P s"
    and rows: "pg_rows P s = map_sum id (\<lambda>xs. page_rows xs (pg_offset P s) (pg_size P s)) (items s)"
    and hasNextPage: "pg_hasNextPage P s \<longleftrightarrow> pg_offset P s < pg_count P s - pg_size P s"
    and hasPrevPage: "pg_hasPrevPage P s \<longleftrightarrow> 0 < pg_offset P s"
    and currentPage: "pg_currentPage P s =
      (if pg_size P s = 0 then None else Some (of_int (pg_offset P s) / of_int (pg_size P s) + 1))"
    and calculate: "calculatePages s =
      (case calculate_pages (pg_count P s) (pg_size P s) of
         None \<Rightarrow> Diverges | Some ps \<Rightarrow> Returns () (set_pages ps s) [])"
    and afterPageSizeChange: "pg_afterPageSizeChange P s = calculatePages (set_offset 0 s)"
    and gotoPage: "pg_gotoPage P p s = calculatePages (set_offset ((p - 1) * pg_size P s) s)"
    and nextPage: "pg_nextPage P s = calculatePages (set_offset (pg_offset P s + pg_size P s) s)"
    and previousPage:
      "pg_previousPage P s = calculatePages (set_offset (pg_offset P s - pg_size P s) s)"
    and offset_frame [simp]: "pg_offset P (set_offset k s) = k" "pg_size P (set_offset k s) = pg_size P s"
      "pg_count P (set_offset k s) = pg_count P s" "items (set_offset k s) = items s"
    and pages_frame [simp]: "pg_offset P (set_pages ps s) = pg_offset P s"
      "pg_size P (set_pages ps s) = pg_size P s" "pg_count P (set_pages ps s) = pg_count P s"
      "pg_pages P (set_pages ps s) = ps" "items (set_pages ps s) = items s"
    and size_frame [simp]: "pg_size P (pg_set_size P k s) = k" "pg_count P (pg_set_size P k s) = pg_count P s"
    and filter_frame [simp]: "pg_size P (pg_set_filter P f s) = pg_size P s"
begin

lemma calculate_returns:
  "0 < pg_size P s \<Longrightarrow>
     calculatePages s = Returns () (set_pages [1..page_count (pg_count P s) (pg_size P s)] s) []"
  by (simp add: calculate calculate_pages_pos count_nonneg)

lemma calculate_diverges: "0 < pg_count P s \<Longrightarrow> pg_size P s \<le> 0 \<Longrightarrow> calculatePages s = Diverges"
  by (simp add: calculate calculate_pages_None)

lemma goto_inv:
  assumes "0 < pg_size P s" "p \<in> set [1..page_count (pg_count P s) (pg_size P s)]"
  shows "\<exists>t. pg_gotoPage P p s = Returns () t [] \<and> pager_inv P t \<and> items t = items s
     \<and> pg_offset P t = (p - 1) * pg_size P s \<and> pg_size P t = pg_size P s \<and> pg_count P t = pg_count P s"
proof -
  have "(p - 1) * pg_size P s < pg_count P s"
  proof -
    have "p * pg_size P s \<le> page_count (pg_count P s) (pg_size P s) * pg_size P s"
      using assms by (intro mult_right_mono) auto
    also have "\<dots> \<le> pg_count P s + pg_size P s - 1"
      using assms(1) by (rule page_count_mult_le)
    finally show ?thesis by (simp add: algebra_simps)
  qed
  with assms show ?thesis by (simp add: gotoPage calculate_returns pager_inv_def)
qed

lemma afterPageSizeChange_inv:
  assumes "0 < pg_size P s"
  shows "\<exists>t. pg_afterPageSizeChange P s = Returns () t [] \<and> pager_inv P t \<and> items t = items s
     \<and> pg_offset P t = 0 \<and> pg_size P t = pg_size P s \<and> pg_count P t = pg_count P s"
  using assms by (simp add: afterPageSizeChange calculate_returns pager_inv_def)

lemma nextPage_inv:
  assumes "pager_inv P s" "pg_hasNextPage P s"
  shows "\<exists>t. pg_nextPage P s = Returns () t [] \<and> pager_inv P t \<and> items t = items s
     \<and> pg_offset P t = pg_offset P s + pg_size P s \<and> pg_size P t = pg_size P s
     \<and> pg_count P t = pg_count P s"
  using assms by (simp add: nextPage hasNextPage calculate_returns pager_inv_def)

lemma previousPage_inv:
  assumes "pager_inv P s" "pg_offset P s \<noteq> 0"
  shows "\<exists>t. pg_previousPage P s = Returns () t [] \<and> pager_inv P t \<and> items t = items s
     \<and> pg_offset P t = pg_offset P s - pg_size P s \<and> pg_size P t = pg_size P s
     \<and> pg_count P t = pg_count P s"
proof -
  have "pg_size P s \<le> pg_offset P s"
    using assms by (auto simp: pager_inv_def intro: zdvd_imp_le)
  with assms show ?thesis
    by (simp add: previousPage calculate_returns pager_inv_def)
qed

text \<open>Whatever the events are, the size stays positive and the bar agrees with the list whenever
  nothing waits for its handler.\<close>

lemma event_inv:
  "bar_event P ok s ok' t \<Longrightarrow> 0 < pg_size P s \<and> (ok \<longrightarrow> pager_inv P s) \<Longrightarrow>
     0 < pg_size P t \<and> (ok' \<longrightarrow> pager_inv P t)"
proof (induction rule: bar_event.induct)
  case (event_previous s t es ok)
  then have "0 < pg_size P t" by (simp add: previousPage calculate_returns) auto
  with event_previous previousPage_inv [of s] show ?case by auto
next
  case (event_next s t es ok)
  then have "0 < pg_size P t" by (simp add: nextPage calculate_returns) auto
  with event_next nextPage_inv [of s] show ?case by auto
next
  case (event_goto p s t es ok)
  then have "0 < pg_size P t" by (simp add: gotoPage calculate_returns) auto
  with event_goto goto_inv [of s p] show ?case by (auto simp: pager_inv_def)
next
  case (event_size k ok s)
  then show ?case by (auto simp: page_sizes_def)
next
  case (event_click s t es ok)
  then show ?case using afterPageSizeChange_inv [of s] by (auto simp: pager_inv_def)
next
  case (event_input ok s f)
  then show ?case by simp
next
  case (event_keyup s t es ok)
  then show ?case using afterPageSizeChange_inv [of s] by (auto simp: pager_inv_def)
qed

lemma run_inv:
  "bar_run P s ok t \<Longrightarrow> pager_inv P s \<Longrightarrow> 0 < pg_size P t \<and> (ok \<longrightarrow> pager_inv P t)"
  by (induction rule: bar_run.induct) (simp add: pager_inv_def, blast dest: event_inv)

text \<open>A control of the bar makes the page links anew, whatever the state.\<close>

lemma controls_relink:
  assumes "0 < pg_size P s" "m \<in> {pg_previousPage P, pg_nextPage P, pg_gotoPage P p}"
  shows "\<exists>t. m s = Returns () t [] \<and> pg_pages P t = [1..page_count (pg_count P t) (pg_size P t)]
    \<and> items t = items s \<and> pg_size P t = pg_size P s \<and> pg_count P t = pg_count P s"
  using assms by (auto simp: previousPage nextPage gotoPage calculate_returns)

lemma rows_nonempty:
  assumes "pager_inv P s" "items s = Inr xs" "xs \<noteq> []"
  shows "\<exists>r rs. pg_rows P s = Inr (r # rs)"
proof -
  have "pg_offset P s < int (length xs)"
    using assms items_count [of s xs] by (cases xs) (auto simp: pager_inv_def)
  then have "page_rows xs (pg_offset P s) (pg_size P s) \<noteq> []"
    using assms(1) by (auto simp: pager_inv_def page_rows_nonneg)
  with assms(2) show ?thesis by (auto simp: rows neq_Nil_conv)
qed

text \<open>Where the bar is: the number of the current page, and what it says about the arrows.\<close>

lemma current_page:
  assumes "pager_inv P s" "0 < pg_count P s"
  shows "\<exists>p. 1 \<le> p \<and> p \<le> page_count (pg_count P s) (pg_size P s)
    \<and> pg_currentPage P s = Some (of_int p) \<and> (p - 1) * pg_size P s = pg_offset P s
    \<and> (pg_offset P s = 0 \<longleftrightarrow> p = 1)
    \<and> (pg_hasNextPage P s \<longleftrightarrow> p < page_count (pg_count P s) (pg_size P s))"
proof -
  let ?k = "pg_size P s" and ?n = "pg_count P s"
  from assms(1) obtain q where q: "pg_offset P s = ?k * q" and k: "0 < ?k"
    by (auto simp: pager_inv_def dvd_def)
  have off: "?k * q < ?n" "0 \<le> q"
    using assms q k by (auto simp: pager_inv_def zero_le_mult_iff)
  then have "q < page_count ?n ?k"
    using k by (intro page_count_gt)
  moreover have "?k * q < ?n - ?k \<longleftrightarrow> q + 1 < page_count ?n ?k"
  proof
    assume "?k * q < ?n - ?k"
    then have "?k * (q + 1) < ?n" by (simp add: algebra_simps)
    with k show "q + 1 < page_count ?n ?k" by (intro page_count_gt)
  next
    assume "q + 1 < page_count ?n ?k"
    then have "(q + 2) * ?k \<le> page_count ?n ?k * ?k" using k by (intro mult_right_mono) auto
    with page_count_mult_le [OF k, of ?n] show "?k * q < ?n - ?k" by (simp add: algebra_simps)
  qed
  ultimately show ?thesis
    using k off by (intro exI [of _ "q + 1"]) (simp add: currentPage hasNextPage q mult.commute)
qed

lemma currentPage_listed:
  assumes "pager_inv P s" "0 < pg_count P s"
  shows "\<exists>p \<in> set (pg_pages P s). pg_currentPage P s = Some (of_int p)"
  using current_page [OF assms] assms(1) by (auto simp: pager_inv_def)

lemma pages_cover:
  assumes "pager_inv P s" "items s = Inr xs"
  shows "concat (map (\<lambda>p. page_rows xs ((p - 1) * pg_size P s) (pg_size P s)) (pg_pages P s)) = xs"
  using assms concat_page_rows [of "pg_size P s" xs] items_count [of s xs]
  by (simp add: pager_inv_def)

lemma goto_rows:
  assumes "pager_inv P s" "items s = Inr xs" "p \<in> set (pg_pages P s)"
  shows "\<exists>t. pg_gotoPage P p s = Returns () t []
     \<and> pg_rows P t = Inr (page_rows xs ((p - 1) * pg_size P s) (pg_size P s))
     \<and> pg_currentPage P t = Some (of_int p)"
proof -
  from assms goto_inv [of s p] obtain t where t: "pg_gotoPage P p s = Returns () t []" "items t = items s"
    "pg_offset P t = (p - 1) * pg_size P s" "pg_size P t = pg_size P s"
    by (auto simp: pager_inv_def)
  with assms show ?thesis by (simp add: rows currentPage pager_inv_def)
qed

end

end
