(* ===== verification/Audit_Log.thy ===== *)
theory Audit_Log
  imports Paging
begin

text \<open>The audit log viewer's store, \<open>stores/audit.js\<close>: a filtered, paged list.\<close>

section \<open>State\<close>

record audit_entry =
  e_Id :: int
  e_Timestamp :: jsstr
  e_ContextUser :: jsstr
  e_Severity :: jsstr
  e_Origin :: jsstr
  e_Message :: jsstr

record audit_store = paged +
  entries :: "audit_entry list"

definition audit_init :: audit_store where
  "audit_init = \<lparr>filter_text = [], pageSize = 10, pageOffset = 0, pages = [], fetching = False,
     entries = []\<rparr>"

section \<open>Getters\<close>

definition audit_Count :: "audit_store \<Rightarrow> int" where
  "audit_Count s = int (length (entries s))"

definition audit_Filtered :: "audit_store \<Rightarrow> audit_entry list" where
  "audit_Filtered s =
     (if filter_text s = [] then entries s
      else filter (\<lambda>e. strIncludes (e_Timestamp e) (filter_text s)
        \<or> strIncludes (e_Message e) (filter_text s)
        \<or> strIncludes (e_Severity e) (filter_text s)
        \<or> strIncludes (e_Origin e) (filter_text s)) (entries s))"

definition audit_FilteredCount :: "audit_store \<Rightarrow> int" where
  "audit_FilteredCount s = int (length (audit_Filtered s))"

definition audit_FilteredAndPaged :: "audit_store \<Rightarrow> audit_entry list" where
  "audit_FilteredAndPaged s = slice (audit_Filtered s) (pageOffset s) (pageOffset s + pageSize s)"

definition audit_hasNextPage :: "audit_store \<Rightarrow> bool" where
  "audit_hasNextPage s = (pageOffset s < audit_FilteredCount s - pageSize s)"

definition audit_hasPrevPage :: "audit_store \<Rightarrow> bool" where
  "audit_hasPrevPage s = (pageOffset s > 0)"

definition audit_currentPage :: "audit_store \<Rightarrow> rat option" where
  "audit_currentPage s =
     (if pageSize s = 0 then None else Some (of_int (pageOffset s) / of_int (pageSize s) + 1))"

section \<open>Actions\<close>

definition audit_calculatePages :: "(audit_store, unit) comp" where
  "audit_calculatePages s =
     bind (lift_option (calculate_pages (audit_FilteredCount s) (pageSize s)))
       (\<lambda>ps. modify (\<lambda>s. s\<lparr>pages := ps\<rparr>)) s"

definition audit_afterPageSizeChange :: "(audit_store, unit) comp" where
  "audit_afterPageSizeChange = andThen (modify (\<lambda>s. s\<lparr>pageOffset := 0\<rparr>)) audit_calculatePages"

definition audit_gotoPage :: "int \<Rightarrow> (audit_store, unit) comp" where
  "audit_gotoPage page =
     andThen (modify (\<lambda>s. s\<lparr>pageOffset := (page - 1) * pageSize s\<rparr>)) audit_calculatePages"

definition audit_nextPage :: "(audit_store, unit) comp" where
  "audit_nextPage =
     andThen (modify (\<lambda>s. s\<lparr>pageOffset := pageOffset s + pageSize s\<rparr>)) audit_calculatePages"

definition audit_previousPage :: "(audit_store, unit) comp" where
  "audit_previousPage =
     andThen (modify (\<lambda>s. s\<lparr>pageOffset := pageOffset s - pageSize s\<rparr>)) audit_calculatePages"

definition setEntries :: "audit_entry list \<Rightarrow> (audit_store, unit) comp" where
  "setEntries es =
     andThen (modify (\<lambda>s. s\<lparr>entries := es\<rparr>))
       (andThen audit_calculatePages (modify (\<lambda>s. s\<lparr>fetching := False\<rparr>)))"

definition LoadEntries_begin :: "(audit_store, unit request) comp" where
  "LoadEntries_begin =
     andThen (modify (\<lambda>s. s\<lparr>fetching := True\<rparr>)) (return (Request GET (js ''/audit/entries'') None))"

definition LoadEntries_settle :: "audit_entry list settled \<Rightarrow> (audit_store, unit) comp" where
  "LoadEntries_settle reply =
     then_catch reply setEntries
       (\<lambda>error. andThen (setEntries [])
          (emit (Notify (js ''Backend Connection Failure'')
             (Text (js ''Failed to load audit entries!'')) None)))"

section \<open>The store as a paged store\<close>

definition audit_pager :: "(audit_store, audit_entry) pager" where
  "audit_pager = \<lparr>
     pg_count = audit_FilteredCount, pg_offset = pageOffset, pg_size = pageSize, pg_pages = pages,
     pg_rows = (\<lambda>s. Inr (audit_FilteredAndPaged s)),
     pg_hasNextPage = audit_hasNextPage, pg_hasPrevPage = audit_hasPrevPage,
     pg_currentPage = audit_currentPage,
     pg_afterPageSizeChange = audit_afterPageSizeChange, pg_gotoPage = audit_gotoPage,
     pg_nextPage = audit_nextPage, pg_previousPage = audit_previousPage,
     pg_set_size = (\<lambda>k s. s\<lparr>pageSize := k\<rparr>), pg_set_filter = (\<lambda>f s. s\<lparr>filter_text := f\<rparr>)\<rparr>"

lemmas audit_pager_defs =
  audit_pager_def audit_FilteredCount_def audit_FilteredAndPaged_def audit_hasNextPage_def
  audit_hasPrevPage_def audit_currentPage_def audit_afterPageSizeChange_def audit_gotoPage_def
  audit_nextPage_def audit_previousPage_def audit_calculatePages_def

interpretation audit: pager_laws audit_pager "\<lambda>s. Inr (audit_Filtered s)"
  "\<lambda>k s. s\<lparr>pageOffset := k\<rparr>" "\<lambda>ps s. s\<lparr>pages := ps\<rparr>" audit_calculatePages
  by unfold_locales
    (auto simp: audit_pager_defs audit_Filtered_def page_rows_def js_run split: option.split)

lemma setEntries_returns:
  assumes "0 < pageSize s"
  shows "\<exists>t. setEntries es s = Returns () t [] \<and> entries t = es \<and> \<not> fetching t
    \<and> pageSize t = pageSize s \<and> pageOffset t = pageOffset s
    \<and> pages t = [1..page_count (audit_FilteredCount t) (pageSize t)]"
proof -
  let ?s = "s\<lparr>entries := es\<rparr>"
  have "audit_calculatePages ?s
      = Returns () (?s\<lparr>pages := [1..page_count (audit_FilteredCount ?s) (pageSize ?s)]\<rparr>) []"
    using audit.calculate_returns [of ?s] assms by (simp add: audit_pager_def)
  then show ?thesis
    by (simp add: setEntries_def js_run audit_FilteredCount_def audit_Filtered_def)
qed

section \<open>Properties\<close>

text \<open>C24. From a freshly loaded audit log, whatever sequence of page links, arrows, page sizes
  and searches the user goes through, the pagination bar is right whenever the size and the search
  that were written last have been followed by a \<open>click\<close> or \<open>keyup\<close>: the page links are
  \<open>1..n\<close>, the offset is the start of one of these pages, the current page is one of the links,
  and a page is empty only when nothing matches the search.\<close>

theorem audit_navigation:
  assumes "0 < pageSize s" "pageOffset s = 0"
    and "LoadEntries_settle reply s = Returns () t0 es" "bar_run audit_pager t0 True t"
  shows "pages t = [1..page_count (audit_FilteredCount t) (pageSize t)]
    \<and> 0 \<le> pageOffset t \<and> pageSize t dvd pageOffset t
    \<and> (audit_Filtered t \<noteq> [] \<longrightarrow> audit_FilteredAndPaged t \<noteq> []
        \<and> (\<exists>p \<in> set (pages t). audit_currentPage t = Some (of_int p)))"
proof -
  obtain t1 where t1: "setEntries (case reply of Inl _ \<Rightarrow> [] | Inr es \<Rightarrow> es) s = Returns () t1 []"
    "pager_inv audit_pager t1"
    using setEntries_returns [OF assms(1), of "case reply of Inl _ \<Rightarrow> [] | Inr es \<Rightarrow> es"] assms(1,2)
    by (auto simp: audit_pager_def pager_inv_def)
  then have "t0 = t1"
    using assms(3) by (cases reply) (simp_all add: LoadEntries_settle_def js_run)
  with t1 have "pager_inv audit_pager t0" by simp
  with audit.run_inv [OF assms(4)] have inv: "pager_inv audit_pager t" by simp
  have "audit_FilteredAndPaged t \<noteq> [] \<and> (\<exists>p \<in> set (pages t). audit_currentPage t = Some (of_int p))"
    if "audit_Filtered t \<noteq> []"
    using audit.rows_nonempty [OF inv refl that] audit.currentPage_listed [OF inv] that
    by (auto simp: audit_pager_def audit_FilteredCount_def)
  with inv show ?thesis by (simp add: pager_inv_def audit_pager_def)
qed

definition sample_entry :: audit_entry where
  "sample_entry = \<lparr>e_Id = 1, e_Timestamp = [], e_ContextUser = [], e_Severity = [], e_Origin = [],
     e_Message = js ''login''\<rparr>"

theorem audit_navigation_witness:
  "\<exists>t. LoadEntries_settle (Inr (replicate 11 sample_entry)) audit_init = Returns () t []
     \<and> pages t = [1, 2] \<and> audit_FilteredAndPaged t \<noteq> []"
proof -
  obtain t where t: "setEntries (replicate 11 sample_entry) audit_init = Returns () t []"
    "entries t = replicate 11 sample_entry" "pageSize t = 10" "filter_text t = []"
    by (simp add: setEntries_def audit_calculatePages_def audit_FilteredCount_def audit_Filtered_def
        audit_init_def calculate_pages_pos js_run)
  then have load: "LoadEntries_settle (Inr (replicate 11 sample_entry)) audit_init = Returns () t []"
    by (simp add: LoadEntries_settle_def js_run)
  have "pages t = [1..page_count (audit_FilteredCount t) (pageSize t)] \<and> audit_FilteredAndPaged t \<noteq> []"
    using audit_navigation [OF _ _ load bar_start] t
    by (simp add: audit_init_def audit_Filtered_def)
  moreover have "page_count (audit_FilteredCount t) (pageSize t) = 2"
    using t by (simp add: audit_FilteredCount_def audit_Filtered_def page_count_def)
  ultimately show ?thesis using load by (simp add: upto_rec1)
qed

end
