(* ===== verification/Keyed_Store.thy ===== *)
theory Keyed_Store
  imports Paging Encoding
begin

text \<open>
  The stores that hold a list of entities with an identifier (\<open>stores/users.js\<close>,
  \<open>interfaces.js\<close>, \<open>peers.js\<close>) delete, update and create them the same way. This theory has the
  request path with an encoded identifier, the interface of such a store as a record of its
  operations, the abstract store (a map from identifiers to entities) with the changes the
  backend acknowledges, and, in the locale \<open>keyed_laws\<close>, the refinement between the two.
\<close>

section \<open>Steps the actions share\<close>

definition set_fetching :: "bool \<Rightarrow> ('a paged_scheme, unit) comp" where
  "set_fetching b = modify (\<lambda>s. s\<lparr>fetching := b\<rparr>)"

text \<open>A request to \<open>pre + base64_url_encode(id) + post\<close>; the encoding may throw.\<close>

definition encoded_request ::
  "http_method \<Rightarrow> string \<Rightarrow> jsstr \<Rightarrow> jsstr \<Rightarrow> 'b option \<Rightarrow> ('s, 'b request) comp" where
  "encoded_request verb pre i post body =
     bind (lift_settled (base64_url_encode i))
       (\<lambda>seg. return (Request verb (js pre @ seg @ post) body))"

definition notify_backend :: "string \<Rightarrow> ('s, unit) comp" where
  "notify_backend text = emit (Notify (js ''Backend Connection Failure'') (Text (js text)) None)"

lemma encoded_request_cases:
  "encoded_request verb pre i post body s =
     (if latin1 i
      then Returns (Request verb (js pre @ projr (base64_url_encode i) @ post) body) s []
      else Throws InvalidCharacterError s [])"
  by (simp add: encoded_request_def base64_url_encode_def btoa_def js_run Let_def)

text \<open>
  The request of an action that first sets a flag: with an encodable identifier its path holds a
  segment that the backend decodes to the identifier; with any other the action throws and the
  flag stays set.
\<close>

definition addressed :: "'s \<Rightarrow> http_method \<Rightarrow> string \<Rightarrow> jsstr \<Rightarrow> jsstr \<Rightarrow> 'b option
    \<Rightarrow> ('b request, 's) run \<Rightarrow> bool" where
  "addressed t verb pre i post body r =
     (if latin1 i
      then (case r of Returns q t' es \<Rightarrow> t' = t \<and> es = [] \<and> req_method q = verb \<and> req_body q = body
              \<and> (\<exists>seg. req_path q = js pre @ seg @ post \<and> Base64UrlDecode seg = bytes_of i)
            | _ \<Rightarrow> False)
      else r = Throws InvalidCharacterError t [])"

lemma addressed_encoded_request:
  "addressed (f s) verb pre i post body
     (andThen (modify f) (encoded_request verb pre i post body) s)"
proof (cases "latin1 i")
  case True
  then obtain seg where "base64_url_encode i = Inr seg"
    by (auto simp: base64_url_encode_def btoa_def Let_def)
  with True show ?thesis
    by (simp add: addressed_def js_run encoded_request_cases decode_encoded)
next
  case False
  then show ?thesis by (simp add: addressed_def js_run encoded_request_cases)
qed

section \<open>The interface of the stores\<close>

record ('s, 'e) keyed =
  k_key :: "'e \<Rightarrow> jsstr"
  k_items :: "'s \<Rightarrow> 'e list"
  k_Find :: "'s \<Rightarrow> jsstr \<Rightarrow> 'e option"
  k_busy :: "'s \<Rightarrow> bool"
  k_delete :: "jsstr \<Rightarrow> unit settled \<Rightarrow> ('s, unit) comp"
  k_update :: "jsstr \<Rightarrow> 'e settled \<Rightarrow> ('s, unit) comp"
  k_create :: "'e settled \<Rightarrow> ('s, unit) comp"

section \<open>The abstract store\<close>

text \<open>
  A change asked of the backend, what it does to the map of entities, and when it makes sense
  there: an update names an existing entity and keeps its identifier, a created entity is new.
\<close>

datatype 'e change = Deleted jsstr | Updated jsstr 'e | Created 'e

fun apply_change :: "('e \<Rightarrow> jsstr) \<Rightarrow> 'e change \<Rightarrow> (jsstr \<rightharpoonup> 'e) \<Rightarrow> (jsstr \<rightharpoonup> 'e)" where
  "apply_change key (Deleted i) m = m(i := None)"
| "apply_change key (Updated i e) m = m(i \<mapsto> e)"
| "apply_change key (Created e) m = m(key e \<mapsto> e)"

fun sound_change :: "('e \<Rightarrow> jsstr) \<Rightarrow> 'e change \<Rightarrow> (jsstr \<rightharpoonup> 'e) \<Rightarrow> bool" where
  "sound_change key (Deleted i) m = True"
| "sound_change key (Updated i e) m = (m i \<noteq> None \<and> key e = i)"
| "sound_change key (Created e) m = (m (key e) = None)"

text \<open>A session: each change with the error it was refused with, when it was.\<close>

fun accepted :: "('e change \<times> reason option) list \<Rightarrow> 'e change list" where
  "accepted [] = []"
| "accepted ((c, None) # cs) = c # accepted cs"
| "accepted ((c, Some e) # cs) = accepted cs"

fun sound_changes :: "('e \<Rightarrow> jsstr) \<Rightarrow> 'e change list \<Rightarrow> (jsstr \<rightharpoonup> 'e) \<Rightarrow> bool" where
  "sound_changes key [] m = True"
| "sound_changes key (c # cs) m = (sound_change key c m \<and> sound_changes key cs (apply_change key c m))"

text \<open>The store's side of a session; the dialogs catch the error of a refused change.\<close>

definition answer :: "reason option \<Rightarrow> 'a \<Rightarrow> 'a settled" where
  "answer refused a = (case refused of None \<Rightarrow> Inr a | Some e \<Rightarrow> Inl e)"

fun settle_change :: "('s, 'e) keyed \<Rightarrow> 'e change \<times> reason option \<Rightarrow> ('s, unit) comp" where
  "settle_change K (Deleted i, r) = k_delete K i (answer r ())"
| "settle_change K (Updated i e, r) = k_update K i (answer r e)"
| "settle_change K (Created e, r) = k_create K (answer r e)"

fun settle_changes :: "('s, 'e) keyed \<Rightarrow> ('e change \<times> reason option) list \<Rightarrow> ('s, unit) comp" where
  "settle_changes K [] = return ()"
| "settle_changes K (c # cs) =
     andThen (catch (settle_change K c) (\<lambda>_. return ())) (settle_changes K cs)"

definition distinct_keys :: "('e \<Rightarrow> jsstr) \<Rightarrow> 'e list \<Rightarrow> bool" where
  "distinct_keys key xs = distinct (map key xs)"

section \<open>Lists of entities as maps\<close>

definition lookup :: "('e \<Rightarrow> jsstr) \<Rightarrow> 'e list \<Rightarrow> jsstr \<rightharpoonup> 'e" where
  "lookup key xs i = List.find (\<lambda>e. key e = i) xs"

lemma lookup_Nil [simp]: "lookup key [] = Map.empty"
  by (simp add: lookup_def fun_eq_iff)

lemma lookup_Cons: "lookup key (x # xs) = (lookup key xs)(key x \<mapsto> x)"
  by (auto simp: lookup_def fun_eq_iff)

lemma lookup_None: "lookup key xs i = None \<longleftrightarrow> i \<notin> key ` set xs"
  by (auto simp: lookup_def find_None_iff)

lemma lookup_key: "lookup key xs i = Some e \<Longrightarrow> key e = i \<and> e \<in> set xs"
  by (auto simp: lookup_def find_Some_iff)

lemma lookup_filter: "lookup key (filter (\<lambda>e. key e \<noteq> i) xs) = (lookup key xs)(i := None)"
  by (induction xs) (auto simp: lookup_Cons fun_eq_iff)

lemma lookup_append: "lookup key (xs @ ys) = lookup key ys ++ lookup key xs"
  by (induction xs) (auto simp: lookup_Cons fun_eq_iff map_add_def)

lemma lookup_push: "key e \<notin> key ` set xs \<Longrightarrow> lookup key (xs @ [e]) = (lookup key xs)(key e \<mapsto> e)"
  using lookup_None [of key xs "key e"]
  by (auto simp: lookup_append lookup_Cons fun_eq_iff map_add_def split: option.split)

lemma lookup_replace:
  assumes "key e = key x" "key x \<notin> key ` set pre"
  shows "lookup key (pre @ e # post) = (lookup key (pre @ x # post))(key x \<mapsto> e)"
  using assms lookup_None [of key pre "key x"]
  by (auto simp: lookup_append lookup_Cons fun_eq_iff map_add_def split: option.split)

lemma setIndex_lookup:
  assumes "lookup key xs i \<noteq> None" "key e = i"
  shows "lookup key (setIndex xs (findIndex (\<lambda>x. key x = i) xs) e) = (lookup key xs)(i \<mapsto> e)"
    and "map key (setIndex xs (findIndex (\<lambda>x. key x = i) xs) e) = map key xs"
proof -
  have "\<exists>x \<in> set xs. key x = i" using assms(1) by (auto simp: lookup_None)
  then obtain pre x post where split: "xs = pre @ x # post" "key x = i"
    "\<forall>y \<in> set pre. key y \<noteq> i" "findIndex (\<lambda>x. key x = i) xs = int (length pre)"
    by (rule findIndex_split)
  have new: "setIndex xs (findIndex (\<lambda>x. key x = i) xs) e = pre @ e # post"
    using split(4) by (simp add: split(1) setIndex_length)
  from split(3) have "i \<notin> key ` set pre" by blast
  with new split assms(2) lookup_replace [of key e x pre post]
  show "lookup key (setIndex xs (findIndex (\<lambda>x. key x = i) xs) e) = (lookup key xs)(i \<mapsto> e)"
    by simp
  from new split assms(2)
  show "map key (setIndex xs (findIndex (\<lambda>x. key x = i) xs) e) = map key xs" by simp
qed

lemma setIndex_unknown:
  "lookup key xs i = None \<Longrightarrow> setIndex xs (findIndex (\<lambda>x. key x = i) xs) e = xs"
  using findIndex_none [of "\<lambda>x. key x = i" xs] by (auto simp: lookup_None)

section \<open>What holds of every such store\<close>

locale keyed_laws =
  fixes K :: "('s, 'e) keyed"
  assumes find: "k_Find K s = lookup (k_key K) (k_items K s)"
    and delete_ok: "\<exists>t. k_delete K i (Inr ()) s = Returns () t [] \<and> \<not> k_busy K t
      \<and> k_items K t = filter (\<lambda>e. k_key K e \<noteq> i) (k_items K s)"
    and update_ok: "\<exists>t. k_update K i (Inr e) s = Returns () t [] \<and> \<not> k_busy K t
      \<and> k_items K t = setIndex (k_items K s) (findIndex (\<lambda>x. k_key K x = i) (k_items K s)) e"
    and create_ok: "\<exists>t. k_create K (Inr e) s = Returns () t [] \<and> \<not> k_busy K t
      \<and> k_items K t = k_items K s @ [e]"
    and delete_refused: "\<exists>t. k_delete K i (Inl err) s = Throws (new_Error err) t []
      \<and> \<not> k_busy K t \<and> k_items K t = k_items K s"
    and update_refused: "\<exists>t. k_update K i (Inl err) s = Throws (new_Error err) t []
      \<and> \<not> k_busy K t \<and> k_items K t = k_items K s"
    and create_refused: "\<exists>t. k_create K (Inl err) s = Throws (new_Error err) t []
      \<and> \<not> k_busy K t \<and> k_items K t = k_items K s"
begin

lemma delete_lookup:
  "\<exists>t. k_delete K i (Inr ()) s = Returns () t [] \<and> \<not> k_busy K t \<and> k_Find K t = (k_Find K s)(i := None)"
  using delete_ok [of i s] by (auto simp: find lookup_filter)

lemma update_unknown:
  "k_Find K s i = None \<Longrightarrow> \<exists>t. k_update K i (Inr e) s = Returns () t [] \<and> k_items K t = k_items K s"
  using update_ok [of i e s] by (auto simp: find setIndex_unknown)

lemma change_accepted:
  assumes "distinct_keys (k_key K) (k_items K s)" "sound_change (k_key K) c (k_Find K s)"
  shows "\<exists>t. settle_change K (c, None) s = Returns () t [] \<and> \<not> k_busy K t
    \<and> distinct_keys (k_key K) (k_items K t) \<and> k_Find K t = apply_change (k_key K) c (k_Find K s)"
proof (cases c)
  case (Deleted i)
  with assms delete_ok [of i s] show ?thesis
    by (auto simp: answer_def find lookup_filter distinct_keys_def distinct_map_filter)
next
  case (Updated i e)
  with assms update_ok [of i e s] setIndex_lookup [of "k_key K" "k_items K s" i e] show ?thesis
    by (auto simp: answer_def find distinct_keys_def)
next
  case (Created e)
  with assms create_ok [of e s] lookup_push [of "k_key K" e "k_items K s"] show ?thesis
    by (auto simp: answer_def find distinct_keys_def lookup_None)
qed

lemma change_refused:
  "\<exists>t. settle_change K (c, Some err) s = Throws (new_Error err) t [] \<and> \<not> k_busy K t
     \<and> k_items K t = k_items K s"
  using delete_refused update_refused create_refused by (cases c) (simp_all add: answer_def)

text \<open>The refinement: a session on the store is the session's accepted changes on the map.\<close>

lemma session_refines:
  "distinct_keys (k_key K) (k_items K s) \<Longrightarrow> sound_changes (k_key K) (accepted cs) (k_Find K s) \<Longrightarrow>
     \<exists>t. settle_changes K cs s = Returns () t []
       \<and> k_Find K t = fold (apply_change (k_key K)) (accepted cs) (k_Find K s)
       \<and> distinct_keys (k_key K) (k_items K t)"
proof (induction cs arbitrary: s)
  case Nil
  then show ?case by (simp add: js_run)
next
  case (Cons cr cs)
  obtain c r where cr: "cr = (c, r)" by (cases cr)
  show ?case
  proof (cases r)
    case None
    with Cons.prems cr obtain t where t: "settle_change K (c, None) s = Returns () t []"
      "distinct_keys (k_key K) (k_items K t)" "k_Find K t = apply_change (k_key K) c (k_Find K s)"
      using change_accepted [of s c] by auto
    with Cons.prems cr None have "sound_changes (k_key K) (accepted cs) (k_Find K t)" by simp
    from Cons.IH [OF t(2) this] t None cr show ?thesis by (auto simp: js_run)
  next
    case (Some err)
    obtain t where t: "settle_change K (c, Some err) s = Throws (new_Error err) t []"
      "k_items K t = k_items K s"
      using change_refused [of c err s] by auto
    then have "k_Find K t = k_Find K s" by (simp add: find)
    with Cons.prems cr Some t have "sound_changes (k_key K) (accepted cs) (k_Find K t)"
      "distinct_keys (k_key K) (k_items K t)" by simp_all
    from Cons.IH [OF this(2,1)] t Some cr \<open>k_Find K t = k_Find K s\<close> show ?thesis
      by (auto simp: js_run)
  qed
qed

end

end
