(* ===== verification/Users.thy ===== *)
theory Users
  imports Keyed_Store Models
begin

text \<open>
  The user administration's store, \<open>stores/users.js\<close>: the users as a paged list with a search,
  their creation, update and deletion, and the peers of one user. An action is split at its
  \<open>await\<close>: \<open>X_begin\<close> runs up to the request, \<open>X_settle\<close> is the rest.
\<close>

section \<open>State\<close>

record user_store = paged +
  userPeers :: "peer list"
  users :: "user list"

definition users_init :: user_store where
  "users_init = \<lparr>filter_text = [], pageSize = 10, pageOffset = 0, pages = [], fetching = False,
     userPeers = [], users = []\<rparr>"

section \<open>Getters\<close>

definition users_Find :: "user_store \<Rightarrow> jsstr \<Rightarrow> user option" where
  "users_Find s i = List.find (\<lambda>p. u_Identifier p = i) (users s)"

definition users_Count :: "user_store \<Rightarrow> int" where
  "users_Count s = int (length (users s))"

definition users_Filtered :: "user_store \<Rightarrow> user list" where
  "users_Filtered s =
     (if filter_text s = [] then users s
      else filter (\<lambda>u. strIncludes (u_Firstname u) (filter_text s)
        \<or> strIncludes (u_Lastname u) (filter_text s)
        \<or> strIncludes (u_Email u) (filter_text s)
        \<or> strIncludes (u_Identifier u) (filter_text s)) (users s))"

definition users_FilteredCount :: "user_store \<Rightarrow> int" where
  "users_FilteredCount s = int (length (users_Filtered s))"

definition users_FilteredAndPaged :: "user_store \<Rightarrow> user list" where
  "users_FilteredAndPaged s = slice (users_Filtered s) (pageOffset s) (pageOffset s + pageSize s)"

definition users_hasNextPage :: "user_store \<Rightarrow> bool" where
  "users_hasNextPage s = (pageOffset s < users_FilteredCount s - pageSize s)"

definition users_hasPrevPage :: "user_store \<Rightarrow> bool" where
  "users_hasPrevPage s = (pageOffset s > 0)"

definition users_currentPage :: "user_store \<Rightarrow> rat option" where
  "users_currentPage s =
     (if pageSize s = 0 then None else Some (of_int (pageOffset s) / of_int (pageSize s) + 1))"

section \<open>Paging\<close>

definition users_calculatePages :: "(user_store, unit) comp" where
  "users_calculatePages s =
     bind (lift_option (calculate_pages (users_FilteredCount s) (pageSize s)))
       (\<lambda>ps. modify (\<lambda>s. s\<lparr>pages := ps\<rparr>)) s"

definition users_afterPageSizeChange :: "(user_store, unit) comp" where
  "users_afterPageSizeChange = andThen (modify (\<lambda>s. s\<lparr>pageOffset := 0\<rparr>)) users_calculatePages"

definition users_gotoPage :: "int \<Rightarrow> (user_store, unit) comp" where
  "users_gotoPage page =
     andThen (modify (\<lambda>s. s\<lparr>pageOffset := (page - 1) * pageSize s\<rparr>)) users_calculatePages"

definition users_nextPage :: "(user_store, unit) comp" where
  "users_nextPage =
     andThen (modify (\<lambda>s. s\<lparr>pageOffset := pageOffset s + pageSize s\<rparr>)) users_calculatePages"

definition users_previousPage :: "(user_store, unit) comp" where
  "users_previousPage =
     andThen (modify (\<lambda>s. s\<lparr>pageOffset := pageOffset s - pageSize s\<rparr>)) users_calculatePages"

section \<open>Actions\<close>

definition setUsers :: "user list \<Rightarrow> (user_store, unit) comp" where
  "setUsers us =
     andThen (modify (\<lambda>s. s\<lparr>users := us\<rparr>)) (andThen users_calculatePages (set_fetching False))"

definition setUserPeers :: "peer list \<Rightarrow> (user_store, unit) comp" where
  "setUserPeers ps = andThen (modify (\<lambda>s. s\<lparr>userPeers := ps\<rparr>)) (set_fetching False)"

definition LoadUsers_begin :: "(user_store, unit request) comp" where
  "LoadUsers_begin = andThen (set_fetching True) (return (Request GET (js ''/user/all'') None))"

definition LoadUsers_settle :: "user list settled \<Rightarrow> (user_store, unit) comp" where
  "LoadUsers_settle reply =
     then_catch reply setUsers
       (\<lambda>error. andThen (setUsers []) (notify_backend ''Failed to load users!''))"

definition DeleteUser_begin :: "jsstr \<Rightarrow> (user_store, unit request) comp" where
  "DeleteUser_begin i = andThen (set_fetching True) (encoded_request DELETE ''/user/'' i [] None)"

definition DeleteUser_settle :: "jsstr \<Rightarrow> unit settled \<Rightarrow> (user_store, unit) comp" where
  "DeleteUser_settle i reply =
     then_catch reply
       (\<lambda>_. andThen (modify (\<lambda>s. s\<lparr>users := filter (\<lambda>u. u_Identifier u \<noteq> i) (users s)\<rparr>))
              (set_fetching False))
       (\<lambda>error. andThen (set_fetching False) (throw (new_Error error)))"

definition UpdateUser_begin :: "jsstr \<Rightarrow> user \<Rightarrow> (user_store, user request) comp" where
  "UpdateUser_begin i formData =
     andThen (set_fetching True) (encoded_request PUT ''/user/'' i [] (Some formData))"

definition UpdateUser_settle :: "jsstr \<Rightarrow> user settled \<Rightarrow> (user_store, unit) comp" where
  "UpdateUser_settle i reply =
     then_catch reply
       (\<lambda>user. andThen (modify (\<lambda>s.
            let idx = findIndex (\<lambda>u. u_Identifier u = i) (users s)
            in s\<lparr>users := setIndex (users s) idx user\<rparr>))
          (set_fetching False))
       (\<lambda>error. andThen (set_fetching False) (throw (new_Error error)))"

definition CreateUser_begin :: "user \<Rightarrow> (user_store, user request) comp" where
  "CreateUser_begin formData =
     andThen (set_fetching True) (return (Request POST (js ''/user/new'') (Some formData)))"

definition CreateUser_settle :: "user settled \<Rightarrow> (user_store, unit) comp" where
  "CreateUser_settle reply =
     then_catch reply
       (\<lambda>user. andThen (modify (\<lambda>s. s\<lparr>users := users s @ [user]\<rparr>)) (set_fetching False))
       (\<lambda>error. andThen (set_fetching False) (throw (new_Error error)))"

definition LoadUserPeers_begin :: "jsstr \<Rightarrow> (user_store, unit request) comp" where
  "LoadUserPeers_begin i =
     andThen (set_fetching True) (encoded_request GET ''/user/'' i (js ''/peers'') None)"

definition LoadUserPeers_settle :: "peer list settled \<Rightarrow> (user_store, unit) comp" where
  "LoadUserPeers_settle reply =
     then_catch reply setUserPeers
       (\<lambda>error. andThen (setUserPeers []) (notify_backend ''Failed to load user peers!''))"

section \<open>The store as a paged store\<close>

definition users_pager :: "(user_store, user) pager" where
  "users_pager = \<lparr>
     pg_count = users_FilteredCount, pg_offset = pageOffset, pg_size = pageSize, pg_pages = pages,
     pg_rows = (\<lambda>s. Inr (users_FilteredAndPaged s)),
     pg_hasNextPage = users_hasNextPage, pg_hasPrevPage = users_hasPrevPage,
     pg_currentPage = users_currentPage,
     pg_afterPageSizeChange = users_afterPageSizeChange, pg_gotoPage = users_gotoPage,
     pg_nextPage = users_nextPage, pg_previousPage = users_previousPage,
     pg_set_size = (\<lambda>k s. s\<lparr>pageSize := k\<rparr>), pg_set_filter = (\<lambda>f s. s\<lparr>filter_text := f\<rparr>)\<rparr>"

lemmas users_pager_defs =
  users_pager_def users_FilteredCount_def users_FilteredAndPaged_def users_hasNextPage_def
  users_hasPrevPage_def users_currentPage_def users_afterPageSizeChange_def users_gotoPage_def
  users_nextPage_def users_previousPage_def users_calculatePages_def

interpretation users: pager_laws users_pager "\<lambda>s. Inr (users_Filtered s)"
  "\<lambda>k s. s\<lparr>pageOffset := k\<rparr>" "\<lambda>ps s. s\<lparr>pages := ps\<rparr>" users_calculatePages
  by unfold_locales
    (auto simp: users_pager_defs users_Filtered_def page_rows_def js_run split: option.split)

section \<open>The store as a keyed store\<close>

definition users_keyed :: "(user_store, user) keyed" where
  "users_keyed = \<lparr>k_key = u_Identifier, k_items = users, k_Find = users_Find, k_busy = fetching,
     k_delete = DeleteUser_settle, k_update = UpdateUser_settle, k_create = CreateUser_settle\<rparr>"

lemmas users_keyed_defs =
  users_keyed_def DeleteUser_settle_def UpdateUser_settle_def CreateUser_settle_def set_fetching_def

interpretation users_k: keyed_laws users_keyed
  by unfold_locales
    (auto simp: users_keyed_defs users_Find_def lookup_def fun_eq_iff js_run Let_def)

section \<open>Properties\<close>

lemma setUsers_returns:
  assumes "0 < pageSize s \<or> us = []"
  shows "\<exists>t. setUsers us s = Returns () t [] \<and> users t = us \<and> \<not> fetching t \<and> userPeers t = userPeers s
    \<and> pageSize t = pageSize s \<and> pageOffset t = pageOffset s \<and> filter_text t = filter_text s
    \<and> (0 < pageSize s \<longrightarrow> pages t = [1..page_count (users_FilteredCount t) (pageSize t)])"
proof -
  let ?s = "s\<lparr>users := us\<rparr>"
  consider "0 < pageSize s" | "us = []" "pageSize s \<le> 0" using assms by linarith
  then show ?thesis
  proof cases
    case 1
    then have "users_calculatePages ?s
        = Returns () (?s\<lparr>pages := [1..page_count (users_FilteredCount ?s) (pageSize ?s)]\<rparr>) []"
      using users.calculate_returns [of ?s] by (simp add: users_pager_def)
    then show ?thesis
      by (simp add: setUsers_def set_fetching_def js_run users_FilteredCount_def users_Filtered_def)
  next
    case 2
    then show ?thesis
      by (simp add: setUsers_def set_fetching_def users_calculatePages_def calculate_pages_def
          pages_loop_done users_FilteredCount_def users_Filtered_def js_run)
  qed
qed

text \<open>Whatever the backend answers, loading the users ends with the flag cleared, the list
  that was sent (none on an error) and the page links that belong to it, and the user is
  told exactly when it failed.\<close>

theorem LoadUsers_outcome:
  assumes "0 < pageSize s"
  shows "\<exists>t es. LoadUsers_settle reply s = Returns () t es \<and> \<not> fetching t
    \<and> users t = (case reply of Inr us \<Rightarrow> us | Inl _ \<Rightarrow> [])
    \<and> pages t = [1..page_count (users_FilteredCount t) (pageSize t)]
    \<and> pageOffset t = pageOffset s \<and> (es \<noteq> [] \<longleftrightarrow> isl reply)"
proof (cases reply)
  case (Inl e)
  obtain t where "setUsers [] s = Returns () t []" "users t = []" "\<not> fetching t"
    "pages t = [1..page_count (users_FilteredCount t) (pageSize t)]" "pageOffset t = pageOffset s"
    using setUsers_returns [of s "[]"] assms by auto
  with Inl show ?thesis by (simp add: LoadUsers_settle_def notify_backend_def js_run)
next
  case (Inr us)
  obtain t where "setUsers us s = Returns () t []" "users t = us" "\<not> fetching t"
    "pages t = [1..page_count (users_FilteredCount t) (pageSize t)]" "pageOffset t = pageOffset s"
    using setUsers_returns [of s us] assms by auto
  with Inr show ?thesis by (simp add: LoadUsers_settle_def js_run)
qed

definition sample_user_named :: "string \<Rightarrow> user" where
  "sample_user_named n = freshUser\<lparr>u_Identifier := js n\<rparr>"

theorem LoadUsers_outcome_witness:
  "\<exists>t. LoadUsers_settle (Inr [sample_user_named ''a'']) users_init = Returns () t []
     \<and> users t = [sample_user_named ''a''] \<and> \<not> fetching t"
  using LoadUsers_outcome [of users_init "Inr [sample_user_named ''a'']"]
  by (auto simp: users_init_def)

text \<open>C1. The store is a faithful copy of the backend's table of users: after loading a table
  with distinct identifiers, any session of deletions, updates and creations, each accepted or
  refused, leaves the store with the loaded table changed by exactly the accepted ones, and
  identifiers stay distinct.\<close>

theorem users_sync:
  assumes "LoadUsers_settle (Inr us) s = Returns () t es" "distinct_keys u_Identifier us"
    and "sound_changes u_Identifier (accepted cs) (lookup u_Identifier us)"
  shows "\<exists>v. settle_changes users_keyed cs t = Returns () v []
    \<and> users_Find v = fold (apply_change u_Identifier) (accepted cs) (lookup u_Identifier us)
    \<and> distinct_keys u_Identifier (users v)"
proof -
  have t: "users t = us"
    using assms(1) by (auto simp: LoadUsers_settle_def setUsers_def set_fetching_def
        users_calculatePages_def notify_backend_def js_run split: run.splits option.splits)
  then have "users_Find t = lookup u_Identifier us"
    by (simp add: users_Find_def lookup_def fun_eq_iff)
  with t assms(2,3) show ?thesis
    using users_k.session_refines [of t cs] by (simp add: users_keyed_def)
qed

theorem users_sync_witness:
  "\<exists>t v. LoadUsers_settle (Inr [sample_user_named ''a'', sample_user_named ''b'']) users_init
       = Returns () t []
     \<and> settle_changes users_keyed
         [(Deleted (js ''a''), None), (Deleted (js ''b''), Some TypeError),
          (Created (sample_user_named ''c''), None)] t = Returns () v []
     \<and> users_Find v (js ''a'') = None \<and> users_Find v (js ''b'') = Some (sample_user_named ''b'')
     \<and> users_Find v (js ''c'') = Some (sample_user_named ''c'')"
proof -
  let ?us = "[sample_user_named ''a'', sample_user_named ''b'']"
  let ?cs = "[(Deleted (js ''a''), None), (Deleted (js ''b''), Some TypeError),
    (Created (sample_user_named ''c''), None)]"
  obtain t where load: "LoadUsers_settle (Inr ?us) users_init = Returns () t []"
    using setUsers_returns [of users_init ?us]
    by (auto simp: LoadUsers_settle_def users_init_def js_run)
  from users_sync [OF load, of ?cs] load show ?thesis
    by (simp add: distinct_keys_def lookup_Cons sample_user_named_def) fastforce
qed

text \<open>The rows that a click on a page link shows, when it makes the link the current page.\<close>

definition shown_by :: "user_store \<Rightarrow> int \<Rightarrow> user list" where
  "shown_by s p = (case users_gotoPage p s of
      Returns _ t _ \<Rightarrow> if users_currentPage t = Some (of_int p) then users_FilteredAndPaged t else []
    | _ \<Rightarrow> [])"

text \<open>The page links partition the search result, when no size and no search waits for its handler: following the links one after the other
  shows every matching user exactly once and in order, and each click makes its link the
  current page.\<close>

theorem users_pages_partition:
  assumes "LoadUsers_settle reply s = Returns () t0 es" "0 < pageSize s" "pageOffset s = 0"
    and "bar_run users_pager t0 True t"
  shows "concat (map (shown_by t) (pages t)) = users_Filtered t"
proof -
  let ?us = "case reply of Inl _ \<Rightarrow> [] | Inr us \<Rightarrow> us"
  obtain t1 where "setUsers ?us s = Returns () t1 []" "pager_inv users_pager t1"
    using setUsers_returns [of s ?us] assms(2,3)
    by (auto simp: users_pager_def pager_inv_def)
  moreover from this have "t0 = t1"
    using assms(1) by (cases reply) (simp_all add: LoadUsers_settle_def notify_backend_def js_run)
  ultimately have inv: "pager_inv users_pager t"
    using users.run_inv [OF assms(4)] by simp
  have "shown_by t p = page_rows (users_Filtered t) ((p - 1) * pageSize t) (pageSize t)"
    if "p \<in> set (pages t)" for p
  proof -
    from users.goto_rows [OF inv refl, of p] that
    obtain v where "users_gotoPage p t = Returns () v []"
      "users_FilteredAndPaged v = page_rows (users_Filtered t) ((p - 1) * pageSize t) (pageSize t)"
      "users_currentPage v = Some (of_int p)"
      by (auto simp: users_pager_def)
    then show ?thesis by (simp add: shown_by_def)
  qed
  then have "concat (map (shown_by t) (pages t))
      = concat (map (\<lambda>p. page_rows (users_Filtered t) ((p - 1) * pageSize t) (pageSize t)) (pages t))"
    by (metis (no_types, lifting) map_eq_conv)
  with users.pages_cover [OF inv refl] show ?thesis by (simp add: users_pager_def)
qed

theorem users_pages_partition_witness:
  "\<exists>t. LoadUsers_settle (Inr [sample_user_named ''a'', sample_user_named ''b'']) users_init
       = Returns () t []
     \<and> concat (map (shown_by t) (pages t)) = [sample_user_named ''a'', sample_user_named ''b'']"
proof -
  let ?us = "[sample_user_named ''a'', sample_user_named ''b'']"
  obtain t where t: "LoadUsers_settle (Inr ?us) users_init = Returns () t []" "users t = ?us"
    "filter_text t = []"
    using setUsers_returns [of users_init ?us]
    by (auto simp: LoadUsers_settle_def users_init_def js_run)
  from users_pages_partition [OF t(1) _ _ bar_start] t show ?thesis
    by (simp add: users_init_def users_Filtered_def)
qed

text \<open>Deleting the only user of the last page leaves the table empty although users
  remain: the offset and the page links are not recomputed, so the bar still offers the page
  that no longer exists.\<close>

theorem DeleteUser_stale_page:
  assumes "pager_inv users_pager s" "pageOffset s \<noteq> 0" "\<not> users_hasNextPage s"
    and "users_FilteredAndPaged s = [u]" "distinct_keys u_Identifier (users s)"
  shows "\<exists>t. DeleteUser_settle (u_Identifier u) (Inr ()) s = Returns () t []
    \<and> users_Filtered t \<noteq> [] \<and> users_FilteredAndPaged t = []
    \<and> int (length (pages t)) = page_count (users_FilteredCount t) (pageSize t) + 1"
proof -
  let ?xs = "users_Filtered s" and ?k = "pageSize s" and ?off = "pageOffset s"
  let ?t = "s\<lparr>users := filter (\<lambda>x. u_Identifier x \<noteq> u_Identifier u) (users s), fetching := False\<rparr>"
  have inv: "0 < ?k" "0 \<le> ?off" "?k dvd ?off" "?off < int (length ?xs)"
    "pages s = [1..page_count (int (length ?xs)) ?k]"
    using assms(1,2) by (auto simp: pager_inv_def users_pager_def users_FilteredCount_def)
  have "int (length ?xs) \<le> ?off + ?k"
    using assms(3) by (simp add: users_hasNextPage_def users_FilteredCount_def)
  then have "drop (nat ?off) ?xs = [u]"
    using assms(4) inv by (simp add: users_FilteredAndPaged_def slice_window)
  then obtain ys where xs: "?xs = ys @ [u]" "length ys = nat ?off"
    using inv(4) by (metis append_take_drop_id length_take min.absorb2 nat_le_iff less_imp_le)
  have "distinct (map u_Identifier ?xs)"
    using assms(5) by (auto simp: users_Filtered_def distinct_keys_def distinct_map_filter)
  then have "filter (\<lambda>x. u_Identifier x \<noteq> u_Identifier u) ?xs = ys"
    by (auto simp: xs(1) filter_id_conv image_iff)
  moreover have "users_Filtered ?t = filter (\<lambda>x. u_Identifier x \<noteq> u_Identifier u) ?xs"
    by (auto simp: users_Filtered_def conj_commute)
  ultimately have ys: "users_Filtered ?t = ys" by simp
  obtain q where q: "?off = ?k * q" using inv(3) by (auto simp: dvd_def)
  have "0 \<le> q" using inv(1,2) q by (simp add: zero_le_mult_iff)
  have "int (length ?xs) = ?k * q + 1" "int (length ys) = ?k * q"
    using xs inv(2) q by simp_all
  then have "int (length (pages ?t)) = page_count (users_FilteredCount ?t) ?k + 1"
    using page_count_multiple [OF inv(1), of q] inv(5) \<open>0 \<le> q\<close>
    by (simp add: users_FilteredCount_def ys)
  moreover have "users_FilteredAndPaged ?t = []"
    using inv xs(2) ys by (simp add: users_FilteredAndPaged_def slice_window)
  moreover have "ys \<noteq> []" using xs(2) assms(2) inv(2) by auto
  ultimately show ?thesis
    using ys by (simp add: DeleteUser_settle_def set_fetching_def js_run)
qed

definition numbered_user :: "nat \<Rightarrow> user" where
  "numbered_user n = freshUser\<lparr>u_Identifier := replicate n 0\<rparr>"

theorem DeleteUser_stale_page_witness:
  "\<exists>s t. length (users s) = 11 \<and> pages s = [1, 2]
     \<and> DeleteUser_settle (u_Identifier (numbered_user 10)) (Inr ()) s = Returns () t []
     \<and> users_Filtered t \<noteq> [] \<and> users_FilteredAndPaged t = []"
proof -
  let ?us = "map numbered_user [0..<10] @ [numbered_user 10]"
  let ?s = "users_init\<lparr>users := ?us, pageOffset := 10, pages := [1, 2]\<rparr>"
  have ids: "map u_Identifier ?us = map (\<lambda>n. replicate n 0) ([0..<10] @ [10])"
    by (simp add: numbered_user_def)
  have "distinct_keys u_Identifier ?us"
    unfolding distinct_keys_def ids by (auto simp: distinct_map inj_on_def)
  moreover have "users_FilteredAndPaged ?s = [numbered_user 10]"
    by (simp add: users_FilteredAndPaged_def users_Filtered_def users_init_def slice_window)
  moreover have "pager_inv users_pager ?s" "\<not> users_hasNextPage ?s"
    by (simp_all add: pager_inv_def users_pager_def users_hasNextPage_def users_FilteredCount_def
        users_Filtered_def users_init_def page_count_def upto_rec1)
  ultimately obtain t where
    "DeleteUser_settle (u_Identifier (numbered_user 10)) (Inr ()) ?s = Returns () t []"
    "users_Filtered t \<noteq> []" "users_FilteredAndPaged t = []"
    using DeleteUser_stale_page [of ?s "numbered_user 10"] by auto
  then show ?thesis by (intro exI [of _ ?s] exI [of _ t]) (simp add: users_init_def)
qed

text \<open>The requests about one user name that user: with an identifier of Latin-1 characters
  the path holds a segment the backend decodes to the identifier; with any other the action
  throws before it sends anything and leaves the store marked as fetching.\<close>

theorem users_requests_addressed:
  "addressed (s\<lparr>fetching := True\<rparr>) DELETE ''/user/'' i [] None (DeleteUser_begin i s)
   \<and> addressed (s\<lparr>fetching := True\<rparr>) PUT ''/user/'' i [] (Some formData) (UpdateUser_begin i formData s)
   \<and> addressed (s\<lparr>fetching := True\<rparr>) GET ''/user/'' i (js ''/peers'') None (LoadUserPeers_begin i s)"
  unfolding DeleteUser_begin_def UpdateUser_begin_def LoadUserPeers_begin_def set_fetching_def
  by (intro conjI addressed_encoded_request)

end
