(* ===== verification/Interfaces.thy ===== *)
theory Interfaces
  imports Keyed_Store Models
begin

text \<open>
  The interface administration's store, \<open>stores/interfaces.js\<close>: the interfaces, the selected
  one, a prepared one for the creation dialog and the configuration file on display.
\<close>

section \<open>State\<close>

record interface_store =
  interfaces :: "iface list"
  if_prepared :: iface
  if_configuration :: jsstr
  selected :: jsstr
  if_fetching :: bool

definition interfaces_init :: interface_store where
  "interfaces_init = \<lparr>interfaces = [], if_prepared = freshInterface, if_configuration = [],
     selected = [], if_fetching = False\<rparr>"

section \<open>Getters\<close>

definition if_Count :: "interface_store \<Rightarrow> int" where
  "if_Count s = int (length (interfaces s))"

definition if_Find :: "interface_store \<Rightarrow> jsstr \<Rightarrow> iface option" where
  "if_Find s i = List.find (\<lambda>p. i_Identifier p = i) (interfaces s)"

text \<open>\<open>find(...) || interfaces[0]\<close>: without any interface the result is undefined.\<close>

definition first :: "'a list \<Rightarrow> 'a option" where
  "first xs = (case xs of [] \<Rightarrow> None | x # _ \<Rightarrow> Some x)"

definition GetSelected :: "interface_store \<Rightarrow> iface option" where
  "GetSelected s =
     (case List.find (\<lambda>i. i_Identifier i = selected s) (interfaces s) of
        Some i \<Rightarrow> Some i
      | None \<Rightarrow> first (interfaces s))"

section \<open>Actions\<close>

definition set_if_fetching :: "bool \<Rightarrow> (interface_store, unit) comp" where
  "set_if_fetching b = modify (\<lambda>s. s\<lparr>if_fetching := b\<rparr>)"

definition select_first :: "(interface_store, unit) comp" where
  "select_first = modify (\<lambda>s.
     if 0 < length (interfaces s) then s\<lparr>selected := i_Identifier (hd (interfaces s))\<rparr>
     else s\<lparr>selected := []\<rparr>)"

definition setInterfaces :: "iface list \<Rightarrow> (interface_store, unit) comp" where
  "setInterfaces ifs =
     andThen (modify (\<lambda>s. s\<lparr>interfaces := ifs\<rparr>)) (andThen select_first (set_if_fetching False))"

definition LoadInterfaces_begin :: "(interface_store, unit request) comp" where
  "LoadInterfaces_begin =
     andThen (set_if_fetching True) (return (Request GET (js ''/interface/all'') None))"

definition LoadInterfaces_settle :: "iface list settled \<Rightarrow> (interface_store, unit) comp" where
  "LoadInterfaces_settle reply =
     then_catch reply setInterfaces
       (\<lambda>error. andThen (setInterfaces []) (notify_backend ''Failed to load interfaces!''))"

definition setPreparedInterface :: "iface \<Rightarrow> (interface_store, unit) comp" where
  "setPreparedInterface i = modify (\<lambda>s. s\<lparr>if_prepared := i\<rparr>)"

definition setInterfaceConfig :: "jsstr \<Rightarrow> (interface_store, unit) comp" where
  "setInterfaceConfig config = modify (\<lambda>s. s\<lparr>if_configuration := config\<rparr>)"

definition PrepareInterface_begin :: "(interface_store, unit request) comp" where
  "PrepareInterface_begin = return (Request GET (js ''/interface/prepare'') None)"

definition PrepareInterface_settle :: "iface settled \<Rightarrow> (interface_store, unit) comp" where
  "PrepareInterface_settle reply =
     then_catch reply setPreparedInterface
       (\<lambda>error. andThen (modify (\<lambda>s. s\<lparr>if_prepared := freshInterface\<rparr>))
          (notify_backend ''Failed to load prepared interface!''))"

definition LoadInterfaceConfig_begin :: "jsstr \<Rightarrow> (interface_store, unit request) comp" where
  "LoadInterfaceConfig_begin i = encoded_request GET ''/interface/config/'' i [] None"

definition LoadInterfaceConfig_settle :: "jsstr settled \<Rightarrow> (interface_store, unit) comp" where
  "LoadInterfaceConfig_settle reply =
     then_catch reply setInterfaceConfig
       (\<lambda>error. andThen (modify (\<lambda>s. s\<lparr>if_configuration := []\<rparr>))
          (notify_backend ''Failed to load interface configuration!''))"

definition DeleteInterface_begin :: "jsstr \<Rightarrow> (interface_store, unit request) comp" where
  "DeleteInterface_begin i =
     andThen (set_if_fetching True) (encoded_request DELETE ''/interface/'' i [] None)"

definition DeleteInterface_settle :: "jsstr \<Rightarrow> unit settled \<Rightarrow> (interface_store, unit) comp" where
  "DeleteInterface_settle i reply =
     then_catch reply
       (\<lambda>_. andThen (modify (\<lambda>s. s\<lparr>interfaces := filter (\<lambda>x. i_Identifier x \<noteq> i) (interfaces s)\<rparr>))
              (andThen select_first (set_if_fetching False)))
       (\<lambda>error. andThen (set_if_fetching False) (throw (new_Error error)))"

definition UpdateInterface_begin :: "jsstr \<Rightarrow> iface \<Rightarrow> (interface_store, iface request) comp" where
  "UpdateInterface_begin i formData =
     andThen (set_if_fetching True) (encoded_request PUT ''/interface/'' i [] (Some formData))"

definition UpdateInterface_settle :: "jsstr \<Rightarrow> iface settled \<Rightarrow> (interface_store, unit) comp" where
  "UpdateInterface_settle i reply =
     then_catch reply
       (\<lambda>v. andThen (modify (\<lambda>s.
            let idx = findIndex (\<lambda>x. i_Identifier x = i) (interfaces s)
            in s\<lparr>interfaces := setIndex (interfaces s) idx v\<rparr>))
          (set_if_fetching False))
       (\<lambda>error. andThen (set_if_fetching False) (throw (new_Error error)))"

definition CreateInterface_begin :: "iface \<Rightarrow> (interface_store, iface request) comp" where
  "CreateInterface_begin formData =
     andThen (set_if_fetching True) (return (Request POST (js ''/interface/new'') (Some formData)))"

definition CreateInterface_settle :: "iface settled \<Rightarrow> (interface_store, unit) comp" where
  "CreateInterface_settle reply =
     then_catch reply
       (\<lambda>v. andThen (modify (\<lambda>s. s\<lparr>interfaces := interfaces s @ [v]\<rparr>)) (set_if_fetching False))
       (\<lambda>error. andThen (set_if_fetching False) (throw (new_Error error)))"

definition ApplyPeerDefaults_begin :: "jsstr \<Rightarrow> iface \<Rightarrow> (interface_store, iface request) comp" where
  "ApplyPeerDefaults_begin i formData =
     andThen (set_if_fetching True)
       (encoded_request POST ''/interface/'' i (js ''/apply-peer-defaults'') (Some formData))"

definition ApplyPeerDefaults_settle :: "unit settled \<Rightarrow> (interface_store, unit) comp" where
  "ApplyPeerDefaults_settle reply =
     then_catch reply (\<lambda>_. set_if_fetching False)
       (\<lambda>error. andThen (set_if_fetching False) (throw (new_Error error)))"

definition SaveConfiguration_begin :: "jsstr \<Rightarrow> (interface_store, unit request) comp" where
  "SaveConfiguration_begin i =
     andThen (set_if_fetching True) (encoded_request POST ''/interface/'' i (js ''/save-config'') None)"

definition SaveConfiguration_settle :: "unit settled \<Rightarrow> (interface_store, unit) comp" where
  "SaveConfiguration_settle reply =
     then_catch reply (\<lambda>_. set_if_fetching False)
       (\<lambda>error. andThen (set_if_fetching False) (throw (new_Error error)))"

section \<open>The store as a keyed store\<close>

definition interfaces_keyed :: "(interface_store, iface) keyed" where
  "interfaces_keyed = \<lparr>k_key = i_Identifier, k_items = interfaces, k_Find = if_Find,
     k_busy = if_fetching, k_delete = DeleteInterface_settle, k_update = UpdateInterface_settle,
     k_create = CreateInterface_settle\<rparr>"

lemmas interfaces_keyed_defs =
  interfaces_keyed_def DeleteInterface_settle_def UpdateInterface_settle_def
  CreateInterface_settle_def set_if_fetching_def select_first_def

interpretation interfaces_k: keyed_laws interfaces_keyed
  by unfold_locales
    (auto simp: interfaces_keyed_defs if_Find_def lookup_def fun_eq_iff js_run Let_def)

lemmas if_action_defs =
  LoadInterfaces_begin_def LoadInterfaces_settle_def setInterfaces_def
  PrepareInterface_settle_def setPreparedInterface_def LoadInterfaceConfig_settle_def
  setInterfaceConfig_def DeleteInterface_begin_def DeleteInterface_settle_def
  UpdateInterface_begin_def CreateInterface_begin_def CreateInterface_settle_def
  ApplyPeerDefaults_begin_def ApplyPeerDefaults_settle_def SaveConfiguration_begin_def
  SaveConfiguration_settle_def

section \<open>The selection\<close>

text \<open>
  What happens to the store while the page is open: the actions with their answers (an update
  keeps the identifier, as the backend insists) and the user's choice in the drop-down.
\<close>

inductive if_step :: "interface_store \<Rightarrow> interface_store \<Rightarrow> bool" where
  if_Load_begin: "ends_in (LoadInterfaces_begin s) t \<Longrightarrow> if_step s t"
| if_Load: "ends_in (LoadInterfaces_settle reply s) t \<Longrightarrow> if_step s t"
| if_Prepare: "ends_in (PrepareInterface_settle p s) t \<Longrightarrow> if_step s t"
| if_Config: "ends_in (LoadInterfaceConfig_settle c s) t \<Longrightarrow> if_step s t"
| if_Delete_begin: "ends_in (DeleteInterface_begin i s) t \<Longrightarrow> if_step s t"
| if_Delete: "ends_in (DeleteInterface_settle i d s) t \<Longrightarrow> if_step s t"
| if_Update_begin: "ends_in (UpdateInterface_begin i v s) t \<Longrightarrow> if_step s t"
| if_Update: "(case u of Inr v \<Rightarrow> i_Identifier v = i | Inl _ \<Rightarrow> True) \<Longrightarrow>
    ends_in (UpdateInterface_settle i u s) t \<Longrightarrow> if_step s t"
| if_Create_begin: "ends_in (CreateInterface_begin v s) t \<Longrightarrow> if_step s t"
| if_Create: "ends_in (CreateInterface_settle u s) t \<Longrightarrow> if_step s t"
| if_Defaults_begin: "ends_in (ApplyPeerDefaults_begin i v s) t \<Longrightarrow> if_step s t"
| if_Defaults: "ends_in (ApplyPeerDefaults_settle d s) t \<Longrightarrow> if_step s t"
| if_Save_begin: "ends_in (SaveConfiguration_begin i s) t \<Longrightarrow> if_step s t"
| if_Save: "ends_in (SaveConfiguration_settle d s) t \<Longrightarrow> if_step s t"
| if_Select: "v \<in> set (interfaces s) \<Longrightarrow> t = s\<lparr>selected := i_Identifier v\<rparr> \<Longrightarrow> if_step s t"

definition selection_ok :: "interface_store \<Rightarrow> bool" where
  "selection_ok s \<longleftrightarrow> selected s = [] \<or> selected s \<in> i_Identifier ` set (interfaces s)"

lemma selection_set_if_fetching [keep]: "keeps selection_ok (set_if_fetching b)"
  unfolding set_if_fetching_def by (rule keeps_modify) (simp add: selection_ok_def)

lemma selection_prepared [keep]: "keeps selection_ok (modify (\<lambda>s. s\<lparr>if_prepared := p\<rparr>))"
  by (rule keeps_modify) (simp add: selection_ok_def)

lemma selection_configuration [keep]: "keeps selection_ok (modify (\<lambda>s. s\<lparr>if_configuration := c\<rparr>))"
  by (rule keeps_modify) (simp add: selection_ok_def)

lemma selection_create [keep]:
  "keeps selection_ok (modify (\<lambda>s. s\<lparr>interfaces := interfaces s @ [v]\<rparr>))"
  by (rule keeps_modify) (auto simp: selection_ok_def)

lemma selection_notify [keep]: "keeps selection_ok (notify_backend text)"
  by (simp add: notify_backend_def keep)

lemma selection_request [keep]: "keeps selection_ok (encoded_request m pre i post body)"
  by (simp add: encoded_request_def keep)

lemma selection_select_first:
  "keeps selection_ok (andThen (modify f) (andThen select_first (set_if_fetching False)))"
  by (auto simp: keeps_def select_first_def set_if_fetching_def selection_ok_def js_run)

lemma set_replaced:
  fixes key :: "'e \<Rightarrow> jsstr"
  assumes "key v = i" "y \<in> key ` set xs"
  shows "y \<in> key ` set (setIndex xs (findIndex (\<lambda>x. key x = i) xs) v)"
proof (cases "lookup key xs i = None")
  case True
  then show ?thesis using assms(2) by (simp add: setIndex_unknown)
next
  case False
  have "key ` set (setIndex xs (findIndex (\<lambda>x. key x = i) xs) v) = key ` set xs"
    using setIndex_lookup(2) [OF False assms(1)] by (metis set_map)
  with assms(2) show ?thesis by simp
qed

lemma selection_update:
  "(case u of Inr v \<Rightarrow> i_Identifier v = i | Inl _ \<Rightarrow> True) \<Longrightarrow>
     keeps selection_ok (UpdateInterface_settle i u)"
  using set_replaced [of i_Identifier _ i]
  by (cases u) (auto simp: keeps_def UpdateInterface_settle_def set_if_fetching_def
      selection_ok_def js_run Let_def)

lemma if_step_ok: "if_step s t \<Longrightarrow> selection_ok s \<Longrightarrow> selection_ok t"
proof (induction rule: if_step.induct)
  case (if_Update u i s t)
  then show ?case using keepsD [OF selection_update] by blast
next
  case (if_Select v s t)
  then show ?case by (auto simp: selection_ok_def)
qed (unfold if_action_defs, (drule keepsD [rotated 2]; (rule keep selection_select_first | assumption)+)+)

lemma GetSelected_lookup:
  "GetSelected s = (case lookup i_Identifier (interfaces s) (selected s) of
     Some i \<Rightarrow> Some i | None \<Rightarrow> first (interfaces s))"
  by (simp add: GetSelected_def lookup_def)

lemma i_Identifier_fresh: "i_Identifier freshInterface = []"
  by (simp add: freshInterface_def)

section \<open>Properties\<close>

text \<open>C22. The page is about the interface the drop-down shows: after any sequence of actions,
  answers and choices from the start, when an interface is selected the getter yields a
  listed interface with that identifier, and it yields nothing only when there is none.\<close>

theorem selected_is_listed:
  assumes "if_step\<^sup>*\<^sup>* interfaces_init s"
  shows "case GetSelected s of
      None \<Rightarrow> interfaces s = [] \<and> selected s = []
    | Some v \<Rightarrow> v \<in> set (interfaces s) \<and> (selected s = [] \<or> i_Identifier v = selected s)"
proof -
  have "selection_ok interfaces_init" by (simp add: selection_ok_def interfaces_init_def)
  with assms have "selection_ok s"
    by (induction rule: rtranclp_induct) (auto intro: if_step_ok)
  then show ?thesis
    using lookup_key [of i_Identifier "interfaces s" "selected s"]
      lookup_None [of i_Identifier "interfaces s" "selected s"]
    by (auto simp: GetSelected_lookup selection_ok_def first_def split: option.splits list.splits)
qed

theorem selected_is_listed_witness:
  "\<exists>s. if_step\<^sup>*\<^sup>* interfaces_init s \<and> GetSelected s = Some (freshInterface\<lparr>i_Identifier := js ''wg0''\<rparr>)
     \<and> selected s = js ''wg0''"
proof -
  let ?v = "freshInterface\<lparr>i_Identifier := js ''wg0''\<rparr>"
  let ?s = "interfaces_init\<lparr>interfaces := [?v], selected := js ''wg0''\<rparr>"
  have "ends_in (LoadInterfaces_settle (Inr [?v]) interfaces_init) ?s"
    by (simp add: LoadInterfaces_settle_def setInterfaces_def select_first_def set_if_fetching_def
        interfaces_init_def js_run)
  then have step: "if_step\<^sup>*\<^sup>* interfaces_init ?s" by (intro r_into_rtranclp if_Load)
  from selected_is_listed [OF this] have "GetSelected ?s \<noteq> None" by (auto split: option.splits)
  then have "GetSelected ?s = Some ?v" by (simp add: GetSelected_def)
  with step show ?thesis by (intro exI [of _ ?s]) simp
qed

text \<open>Deleting an interface makes the first remaining one the selected one, whichever was
  selected before; an accepted update or creation leaves the identifier of the selected one as
  it was; a refusal changes neither and reaches the caller as an error.\<close>

theorem selection_after_changes:
  assumes "selected s \<in> i_Identifier ` set (interfaces s)" "i_Identifier v = i"
  shows "\<exists>d u c. DeleteInterface_settle i (Inr ()) s = Returns () d []
    \<and> GetSelected d = first (filter (\<lambda>x. i_Identifier x \<noteq> i) (interfaces s))
    \<and> UpdateInterface_settle i (Inr v) s = Returns () u []
    \<and> map_option i_Identifier (GetSelected u) = Some (selected s)
    \<and> CreateInterface_settle (Inr w) s = Returns () c []
    \<and> map_option i_Identifier (GetSelected c) = Some (selected s)"
proof -
  let ?rest = "filter (\<lambda>x. i_Identifier x \<noteq> i) (interfaces s)"
  let ?xs = "setIndex (interfaces s) (findIndex (\<lambda>x. i_Identifier x = i) (interfaces s)) v"
  have picks: "map_option i_Identifier (GetSelected t) = Some (selected t)"
    if "selected t \<in> i_Identifier ` set (interfaces t)" for t
    using that by (auto simp: GetSelected_def find_None_iff find_Some_iff split: option.split)
  have "\<exists>d. DeleteInterface_settle i (Inr ()) s = Returns () d []
      \<and> GetSelected d = first (filter (\<lambda>x. i_Identifier x \<noteq> i) (interfaces s))"
    by (cases ?rest) (simp_all add: DeleteInterface_settle_def select_first_def set_if_fetching_def
        GetSelected_def first_def js_run)
  moreover have "selected s \<in> i_Identifier ` set ?xs"
    using assms by (intro set_replaced)
  then have "\<exists>u. UpdateInterface_settle i (Inr v) s = Returns () u []
      \<and> map_option i_Identifier (GetSelected u) = Some (selected s)"
    using picks [of "s\<lparr>interfaces := ?xs, if_fetching := False\<rparr>"]
    by (simp add: UpdateInterface_settle_def set_if_fetching_def js_run Let_def)
  moreover have "\<exists>c. CreateInterface_settle (Inr w) s = Returns () c []
      \<and> map_option i_Identifier (GetSelected c) = Some (selected s)"
    using picks [of "s\<lparr>interfaces := interfaces s @ [w], if_fetching := False\<rparr>"] assms(1)
    by (auto simp: CreateInterface_settle_def set_if_fetching_def js_run)
  ultimately show ?thesis by blast
qed

theorem selection_after_changes_witness:
  "\<exists>d. DeleteInterface_settle (js ''b'') (Inr ())
      (interfaces_init\<lparr>interfaces := [freshInterface\<lparr>i_Identifier := js ''a''\<rparr>,
         freshInterface\<lparr>i_Identifier := js ''b''\<rparr>, freshInterface\<lparr>i_Identifier := js ''c''\<rparr>],
         selected := js ''c''\<rparr>) = Returns () d []
     \<and> GetSelected d = Some (freshInterface\<lparr>i_Identifier := js ''a''\<rparr>)"
  using selection_after_changes [of "interfaces_init\<lparr>interfaces :=
      [freshInterface\<lparr>i_Identifier := js ''a''\<rparr>, freshInterface\<lparr>i_Identifier := js ''b''\<rparr>,
       freshInterface\<lparr>i_Identifier := js ''c''\<rparr>], selected := js ''c''\<rparr>"
      "freshInterface\<lparr>i_Identifier := js ''b''\<rparr>" "js ''b''" freshInterface]
  by (simp add: first_def) blast

text \<open>The list of interfaces is a faithful copy of the backend's table: any session of
  accepted and refused changes leaves it changed by exactly the accepted ones.\<close>

theorem interfaces_sync:
  assumes "distinct_keys i_Identifier (interfaces s)"
    and "sound_changes i_Identifier (accepted cs) (if_Find s)"
  shows "\<exists>t. settle_changes interfaces_keyed cs s = Returns () t []
    \<and> if_Find t = fold (apply_change i_Identifier) (accepted cs) (if_Find s)
    \<and> distinct_keys i_Identifier (interfaces t)"
  using interfaces_k.session_refines [of s cs] assms by (simp add: interfaces_keyed_def)

theorem interfaces_sync_witness:
  "\<exists>t. settle_changes interfaces_keyed [(Created freshInterface, None), (Deleted [], Some TypeError)]
         interfaces_init = Returns () t []
     \<and> if_Find t [] = Some freshInterface"
proof -
  let ?cs = "[(Created freshInterface, None), (Deleted [], Some TypeError)]"
  have "distinct_keys i_Identifier (interfaces interfaces_init)"
    "sound_changes i_Identifier (accepted ?cs) (if_Find interfaces_init)"
    by (simp_all add: interfaces_init_def distinct_keys_def if_Find_def)
  from interfaces_sync [OF this] obtain t where "settle_changes interfaces_keyed ?cs interfaces_init
      = Returns () t []"
    "if_Find t = fold (apply_change i_Identifier) (accepted ?cs) (if_Find interfaces_init)" by blast
  then show ?thesis by (intro exI [of _ t]) (simp add: i_Identifier_fresh del: settle_changes.simps)
qed

end
