(* ===== verification/Table_Sort.thy ===== *)
theory Table_Sort
  imports Models Paging Utils "HOL-Library.Multiset"
begin

text \<open>
  Sorting the rows of a peer table (the \<open>Sorted\<close> getters of \<open>stores/peers.js\<close> and
  \<open>stores/profile.js\<close>): JavaScript's relational comparison on the values a column can have,
  the comparator built from it, \<open>Array.prototype.sort\<close>, and the result as an ordinary sort by
  a key where the comparator is consistent.
\<close>

section \<open>Values of a column\<close>

text \<open>
  A column holds numbers (traffic, connection state, addresses as integers), strings, or
  null (a peer that does not expire).
\<close>

datatype sort_value = SNull | SNum int | SStr jsstr

text \<open>
  \<open>a < b\<close> in JavaScript: two strings by their code units, anything else as numbers, where
  null is 0 and a comparison with NaN is false. \<open>toNum\<close> is the language's conversion of a
  string to a number, \<open>None\<close> for NaN.
\<close>

fun number_of :: "(jsstr \<Rightarrow> int option) \<Rightarrow> sort_value \<Rightarrow> int option" where
  "number_of toNum SNull = Some 0"
| "number_of toNum (SNum n) = Some n"
| "number_of toNum (SStr s) = toNum s"

fun js_less :: "(jsstr \<Rightarrow> int option) \<Rightarrow> sort_value \<Rightarrow> sort_value \<Rightarrow> bool" where
  "js_less toNum (SStr s) (SStr t) = (s < t)"
| "js_less toNum a b = (case (number_of toNum a, number_of toNum b) of
      (Some m, Some n) \<Rightarrow> m < n
    | _ \<Rightarrow> False)"

definition compare_values ::
  "(jsstr \<Rightarrow> int option) \<Rightarrow> int \<Rightarrow> sort_value \<Rightarrow> sort_value \<Rightarrow> int" where
  "compare_values toNum sortOrder aValue bValue =
     (let result1 = (0 :: int);
          result2 = (if js_less toNum bValue aValue then 1 else result1);
          result3 = (if js_less toNum aValue bValue then -1 else result2)
      in if sortOrder = 1 then result3 else - result3)"

section \<open>The library's sort\<close>

text \<open>
  \<open>Array.prototype.sort\<close> with a comparator is stable; for a consistent comparator the result
  is determined by that (\<open>js_sort_unique\<close> below), so an insertion sort stands for it.
\<close>

fun js_insert :: "('a \<Rightarrow> 'a \<Rightarrow> int) \<Rightarrow> 'a \<Rightarrow> 'a list \<Rightarrow> 'a list" where
  "js_insert cmp x [] = [x]"
| "js_insert cmp x (y # ys) = (if cmp x y \<le> 0 then x # y # ys else y # js_insert cmp x ys)"

fun js_sort :: "('a \<Rightarrow> 'a \<Rightarrow> int) \<Rightarrow> 'a list \<Rightarrow> 'a list" where
  "js_sort cmp [] = []"
| "js_sort cmp (x # xs) = js_insert cmp x (js_sort cmp xs)"

text \<open>
  Sorting rows by a key that may throw. With fewer than two rows the comparator is never
  called; with two or more every row takes part in a comparison, so a key that throws makes
  the sort throw.
\<close>

fun keyed :: "('a \<Rightarrow> 'k settled) \<Rightarrow> 'a list \<Rightarrow> ('k \<times> 'a) list settled" where
  "keyed key [] = Inr []"
| "keyed key (x # xs) = (case key x of
      Inl e \<Rightarrow> Inl e
    | Inr k \<Rightarrow> (case keyed key xs of Inl e \<Rightarrow> Inl e | Inr kxs \<Rightarrow> Inr ((k, x) # kxs)))"

definition sort_rows ::
  "(jsstr \<Rightarrow> int option) \<Rightarrow> int \<Rightarrow> ('a \<Rightarrow> sort_value settled) \<Rightarrow> 'a list \<Rightarrow> 'a list settled" where
  "sort_rows toNum sortOrder key xs =
     (if length xs < 2 then Inr xs
      else (case keyed key xs of
          Inl e \<Rightarrow> Inl e
        | Inr kxs \<Rightarrow> Inr (map snd
            (js_sort (\<lambda>a b. compare_values toNum sortOrder (fst a) (fst b)) kxs))))"

section \<open>A linear order on the values\<close>

instantiation sort_value :: linorder
begin

fun less_eq_sort_value :: "sort_value \<Rightarrow> sort_value \<Rightarrow> bool" where
  "less_eq_sort_value SNull b = True"
| "less_eq_sort_value (SNum m) SNull = False"
| "less_eq_sort_value (SNum m) (SNum n) = (m \<le> n)"
| "less_eq_sort_value (SNum m) (SStr t) = True"
| "less_eq_sort_value (SStr s) (SStr t) = (s \<le> t)"
| "less_eq_sort_value (SStr s) b = False"

definition less_sort_value :: "sort_value \<Rightarrow> sort_value \<Rightarrow> bool" where
  "less_sort_value a b = (a \<le> b \<and> \<not> b \<le> a)"

instance
proof
  fix a b c :: sort_value
  show "a < b \<longleftrightarrow> a \<le> b \<and> \<not> b \<le> a" by (rule less_sort_value_def)
  show "a \<le> a" by (cases a) simp_all
  show "a \<le> b \<Longrightarrow> b \<le> c \<Longrightarrow> a \<le> c" by (cases a; cases b; cases c) auto
  show "a \<le> b \<Longrightarrow> b \<le> a \<Longrightarrow> a = b" by (cases a; cases b) auto
  show "a \<le> b \<or> b \<le> a" by (cases a; cases b) auto
qed

end

text \<open>Two values of one kind; on these JavaScript's comparison is the linear order.\<close>

fun same_kind :: "sort_value \<Rightarrow> sort_value \<Rightarrow> bool" where
  "same_kind SNull SNull = True"
| "same_kind (SNum m) (SNum n) = True"
| "same_kind (SStr s) (SStr t) = True"
| "same_kind _ _ = False"

lemma js_less_same_kind: "same_kind a b \<Longrightarrow> js_less toNum a b \<longleftrightarrow> a < b"
  by (cases a; cases b) (auto simp: less_sort_value_def)

lemma same_kind_sym: "same_kind a b = same_kind b a"
  by (cases a; cases b) simp_all

lemma compare_same_kind:
  assumes "same_kind a b"
  shows "compare_values toNum sortOrder a b \<le> 0 \<longleftrightarrow> (if sortOrder = 1 then a \<le> b else b \<le> a)"
  using assms js_less_same_kind [of a b] js_less_same_kind [of b a]
  by (auto simp: compare_values_def Let_def same_kind_sym [of b a])

section \<open>The sort, for a comparator that agrees with a key\<close>

lemma mset_js_insert [simp]: "mset (js_insert cmp x xs) = add_mset x (mset xs)"
  by (induction xs) auto

lemma mset_js_sort [simp]: "mset (js_sort cmp xs) = mset xs"
  by (induction xs) auto

lemma set_js_sort [simp]: "set (js_sort cmp xs) = set xs"
  by (metis mset_js_sort set_mset_mset)

lemma set_js_insert [simp]: "set (js_insert cmp x xs) = insert x (set xs)"
  by (metis mset_js_insert set_mset_add_mset_insert set_mset_mset)

lemma js_insert_cong:
  "(\<And>y. y \<in> set xs \<Longrightarrow> cmp x y \<le> 0 \<longleftrightarrow> cmp' x y \<le> 0) \<Longrightarrow> js_insert cmp x xs = js_insert cmp' x xs"
  by (induction xs) auto

lemma js_sort_cong:
  assumes "\<And>x y. x \<in> set xs \<Longrightarrow> y \<in> set xs \<Longrightarrow> cmp x y \<le> 0 \<longleftrightarrow> cmp' x y \<le> 0"
  shows "js_sort cmp xs = js_sort cmp' xs"
  using assms
proof (induction xs)
  case (Cons x xs)
  then have "js_sort cmp xs = js_sort cmp' xs" by simp
  then show ?case using Cons.prems by (auto intro!: js_insert_cong)
qed simp

text \<open>
  What it takes for a comparator to follow an order, and when two rows tie in it.
\<close>

definition follows :: "('a \<Rightarrow> 'a \<Rightarrow> bool) \<Rightarrow> ('a \<Rightarrow> 'a \<Rightarrow> int) \<Rightarrow> bool" where
  "follows le cmp \<longleftrightarrow> (\<forall>a b. cmp a b \<le> 0 \<longleftrightarrow> le a b)"

definition ties :: "('a \<Rightarrow> 'a \<Rightarrow> bool) \<Rightarrow> 'a \<Rightarrow> 'a \<Rightarrow> bool" where
  "ties le a b \<longleftrightarrow> le a b \<and> le b a"

text \<open>A comparator that follows a total preorder is consistent in the sense of the standard.\<close>

locale consistent =
  fixes le :: "'a \<Rightarrow> 'a \<Rightarrow> bool"
  assumes total: "le a b \<or> le b a"
    and trans: "le a b \<Longrightarrow> le b c \<Longrightarrow> le a c"
begin

lemma sorted_js_insert:
  "follows le cmp \<Longrightarrow> sorted_wrt le xs \<Longrightarrow> sorted_wrt le (js_insert cmp x xs)"
proof (induction xs)
  case (Cons y ys)
  show ?case
  proof (cases "le x y")
    case True
    then have "\<forall>z \<in> set ys. le x z" using Cons.prems(2) trans [OF True] by simp
    with True Cons.prems show ?thesis unfolding follows_def by simp
  next
    case False
    then have "le y x" using total by blast
    with False Cons show ?thesis unfolding follows_def by simp
  qed
qed simp

lemma sorted_js_sort: "follows le cmp \<Longrightarrow> sorted_wrt le (js_sort cmp xs)"
  by (induction xs) (auto intro: sorted_js_insert)

lemma filter_js_insert:
  "follows le cmp \<Longrightarrow> sorted_wrt le xs \<Longrightarrow>
     filter (ties le k) (js_insert cmp x xs) = filter (ties le k) (x # xs)"
proof (induction xs)
  case (Cons y ys)
  have "\<not> (ties le k x \<and> ties le k y)" if "\<not> le x y"
    using that trans [of x k y] unfolding ties_def by blast
  with Cons show ?case by (simp add: follows_def) blast
qed simp

lemma filter_js_sort: "follows le cmp \<Longrightarrow> filter (ties le k) (js_sort cmp xs) = filter (ties le k) xs"
  by (induction xs) (simp_all add: filter_js_insert sorted_js_sort)

text \<open>Sorted and stable determines the result, whatever algorithm computes it.\<close>

lemma sorted_stable_unique:
  "mset ys = mset xs \<Longrightarrow> sorted_wrt le ys \<Longrightarrow> sorted_wrt le xs \<Longrightarrow>
     (\<And>k. filter (ties le k) ys = filter (ties le k) xs) \<Longrightarrow> ys = xs"
proof (induction ys arbitrary: xs)
  case (Cons y ys)
  then obtain x xs' where xs: "xs = x # xs'" by (cases xs) auto
  have "x \<in> set (y # ys)" "y \<in> set xs" using Cons.prems(1) xs by (metis list.set_intros(1) mset_eq_setD)+
  then have "le y x" "le x y"
    using Cons.prems(2,3) xs total [of x x] total [of y y] by auto
  then have eq: "ties le y y" "ties le y x" using total [of y y] by (auto simp: ties_def)
  with Cons.prems(4) [of y] xs have "y = x" by simp
  have "mset ys = mset xs'" "sorted_wrt le ys" "sorted_wrt le xs'"
    using Cons.prems xs \<open>y = x\<close> by simp_all
  moreover have "filter (ties le k) ys = filter (ties le k) xs'" for k
    using Cons.prems(4) [of k] xs \<open>y = x\<close> by (simp split: if_splits)
  ultimately show ?case using Cons.IH xs \<open>y = x\<close> by blast
qed simp

lemma js_sort_unique:
  assumes "follows le cmp" "mset ys = mset xs" "sorted_wrt le ys"
    and "\<And>k. filter (ties le k) ys = filter (ties le k) xs"
  shows "ys = js_sort cmp xs"
proof (rule sorted_stable_unique)
  show "mset ys = mset (js_sort cmp xs)" using assms(2) by simp
  show "sorted_wrt le (js_sort cmp xs)" using assms(1) by (rule sorted_js_sort)
  show "filter (ties le k) ys = filter (ties le k) (js_sort cmp xs)" for k
    using assms(4) [of k] filter_js_sort [OF assms(1), of k xs] by simp
qed (rule assms(3))

end

text \<open>The rows of a table, in the direction of the click, for a key that is defined on all.\<close>

definition row_le :: "('a \<Rightarrow> sort_value) \<Rightarrow> int \<Rightarrow> 'a \<Rightarrow> 'a \<Rightarrow> bool" where
  "row_le k sortOrder a b \<longleftrightarrow> (if sortOrder = 1 then k a \<le> k b else k b \<le> k a)"

interpretation rows: consistent "row_le k sortOrder" for k :: "'a \<Rightarrow> sort_value" and sortOrder
  by unfold_locales (auto simp: row_le_def split: if_splits)

lemma ties_row_le: "ties (row_le k sortOrder) a b \<longleftrightarrow> k b = k a"
  by (auto simp: ties_def row_le_def)

definition reference_sort :: "('a \<Rightarrow> sort_value) \<Rightarrow> int \<Rightarrow> 'a list \<Rightarrow> 'a list" where
  "reference_sort k sortOrder xs =
     (if sortOrder = 1 then sort_key k xs else rev (sort_key k (rev xs)))"

lemma reference_sort_spec:
  "mset (reference_sort k sortOrder xs) = mset xs"
  "sorted_wrt (row_le k sortOrder) (reference_sort k sortOrder xs)"
  "filter (ties (row_le k sortOrder) c) (reference_sort k sortOrder xs)
     = filter (ties (row_le k sortOrder) c) xs"
proof -
  show "mset (reference_sort k sortOrder xs) = mset xs"
    by (simp add: reference_sort_def)
  have "sorted_wrt (\<lambda>a b. k a \<le> k b) (sort_key k zs)" for zs :: "'a list"
    using sorted_sort_key [of k zs] by (simp add: sorted_map)
  then show "sorted_wrt (row_le k sortOrder) (reference_sort k sortOrder xs)"
    by (auto simp: reference_sort_def row_le_def [abs_def] sorted_wrt_rev)
  have "filter (\<lambda>b. k b = k c) (sort_key k zs) = filter (\<lambda>b. k b = k c) zs" for zs :: "'a list"
    by (rule sort_key_stable)
  then show "filter (ties (row_le k sortOrder) c) (reference_sort k sortOrder xs)
     = filter (ties (row_le k sortOrder) c) xs"
    by (simp add: reference_sort_def ties_row_le [abs_def] rev_filter [symmetric])
qed

lemma js_insert_map: "js_insert cmp (f x) (map f xs) = map f (js_insert (\<lambda>a b. cmp (f a) (f b)) x xs)"
  by (induction xs) auto

lemma js_sort_map: "js_sort cmp (map f xs) = map f (js_sort (\<lambda>a b. cmp (f a) (f b)) xs)"
  by (induction xs) (simp_all add: js_insert_map)

lemma keyed_Inr:
  "\<forall>x \<in> set xs. key x = Inr (k x) \<Longrightarrow> keyed key xs = Inr (map (\<lambda>x. (k x, x)) xs)"
  by (induction xs) auto

lemma keyed_Inl: "x \<in> set xs \<Longrightarrow> key x = Inl e \<Longrightarrow> \<exists>e'. keyed key xs = Inl e'"
  by (induction xs) (auto split: sum.splits)

text \<open>
  When no key throws and all keys are of one kind, the table is sorted by the key, ties
  keep their order, and the result is that of the library's stable sort by a key.
\<close>

lemma sort_rows_reference:
  assumes "\<forall>x \<in> set xs. key x = Inr (k x)"
    and "\<forall>x \<in> set xs. \<forall>y \<in> set xs. same_kind (k x) (k y)"
  shows "sort_rows toNum sortOrder key xs = Inr (reference_sort k sortOrder xs)"
proof (cases "length xs < 2")
  case True
  then have "xs = [] \<or> (\<exists>x. xs = [x])" by (cases xs; cases "tl xs") auto
  then show ?thesis by (auto simp: sort_rows_def reference_sort_def)
next
  case False
  let ?le = "row_le k sortOrder"
  let ?cmp = "\<lambda>a b. if ?le a b then 0 else 1 :: int"
  have "js_sort (\<lambda>a b. compare_values toNum sortOrder (fst a) (fst b)) (map (\<lambda>x. (k x, x)) xs)
      = map (\<lambda>x. (k x, x)) (js_sort (\<lambda>a b. compare_values toNum sortOrder (k a) (k b)) xs)"
    by (simp add: js_sort_map)
  also have "js_sort (\<lambda>a b. compare_values toNum sortOrder (k a) (k b)) xs = js_sort ?cmp xs"
    using assms(2) by (intro js_sort_cong) (simp add: compare_same_kind row_le_def)
  also have "js_sort ?cmp xs = reference_sort k sortOrder xs"
    using reference_sort_spec [where k = k and sortOrder = sortOrder and xs = xs]
    by (intro rows.js_sort_unique [symmetric]) (simp_all add: follows_def)
  finally show ?thesis
    using False by (simp add: sort_rows_def keyed_Inr [OF assms(1)] comp_def)
qed

lemma sort_rows_throws:
  "2 \<le> length xs \<Longrightarrow> x \<in> set xs \<Longrightarrow> key x = Inl e \<Longrightarrow> \<exists>e'. sort_rows toNum sortOrder key xs = Inl e'"
  using keyed_Inl [of x xs key e] by (auto simp: sort_rows_def)

lemma sort_rows_mset: "sort_rows toNum sortOrder key xs = Inr ys \<Longrightarrow> mset ys = mset xs"
proof -
  have "keyed key zs = Inr kxs \<Longrightarrow> map snd kxs = zs" for zs kxs
    by (induction zs arbitrary: kxs) (auto split: sum.splits)
  then show "sort_rows toNum sortOrder key xs = Inr ys \<Longrightarrow> mset ys = mset xs"
    by (auto simp: sort_rows_def mset_map split: if_splits sum.splits) (metis mset_map)
qed

section \<open>The state of a peer table\<close>

text \<open>
  The columns the table headers offer, and the fields the peer store and the profile store
  have in common: the statistics by peer, the column and the direction of the sort.
\<close>

datatype sort_key = IsConnected | Traffic | Addresses | DisplayName | UserIdentifier_key | ExpiresAt

record peer_table = paged +
  tb_stats :: "jsstr \<rightharpoonup> stats"
  statsEnabled :: bool
  sortKey :: sort_key
  sortOrder :: int

text \<open>
  \<open>setStats\<close>, in both stores: without a response the reset is followed by the access to a
  property of undefined, which throws. \<open>Statistics\<close>, in both stores: the entry of the peer, or
  fresh statistics.
\<close>

definition setStats :: "stats_response option \<Rightarrow> ('a peer_table_scheme, unit) comp" where
  "setStats statsResponse =
     andThen (if statsResponse = None
              then modify (\<lambda>s. s\<lparr>tb_stats := Map.empty, statsEnabled := False\<rparr>) else return ())
       (case statsResponse of
          None \<Rightarrow> throw TypeError
        | Some r \<Rightarrow> modify (\<lambda>s. s\<lparr>tb_stats := r_Stats r, statsEnabled := r_Enabled r\<rparr>))"

definition Statistics :: "'a peer_table_scheme \<Rightarrow> jsstr \<Rightarrow> stats" where
  "Statistics s i = (if statsEnabled s then (case tb_stats s i of Some st \<Rightarrow> st | None \<Rightarrow> freshStats)
     else freshStats)"

definition hasStatistics :: "'a peer_table_scheme \<Rightarrow> bool" where
  "hasStatistics s = statsEnabled s"

text \<open>\<open>statsEnabled && stats[id]?.IsConnected ? 1 : 0\<close>, the same in both stores.\<close>

definition connected_value :: "'a peer_table_scheme \<Rightarrow> jsstr \<Rightarrow> int" where
  "connected_value s i =
     (if statsEnabled s \<and> (case tb_stats s i of Some st \<Rightarrow> s_IsConnected st | None \<Rightarrow> False)
      then 1 else 0)"

definition address_value :: "ip_library \<Rightarrow> jsstr list \<Rightarrow> int settled" where
  "address_value lib addrs = (case addrs of [] \<Rightarrow> Inr 0 | a # _ \<Rightarrow> ipToBigInt lib a)"

lemma setStats_response [simp]:
  "setStats (Some r) s = Returns () (s\<lparr>tb_stats := r_Stats r, statsEnabled := r_Enabled r\<rparr>) []"
  by (simp add: setStats_def js_run)

lemma setStats_undefined [simp]:
  "setStats None s = Throws TypeError (s\<lparr>tb_stats := Map.empty, statsEnabled := False\<rparr>) []"
  by (simp add: setStats_def js_run)

end
