(* ===== verification/Peers.thy ===== *)
theory Peers
  imports Interfaces Fetch Table_Sort
begin

text \<open>
  The peer administration's store, \<open>stores/peers.js\<close>: the peers of the selected interface as a
  searched, sorted and paged table, their statistics, the peer and the prepared peer of the
  dialogs, the configuration on display, and the actions on them.
\<close>

section \<open>State\<close>

record peer_store = peer_table +
  peers :: "peer list"
  the_peer :: peer
  prepared :: peer
  configuration :: jsstr

definition peers_init :: peer_store where
  "peers_init = \<lparr>filter_text = [], pageSize = 10, pageOffset = 0, pages = [], fetching = False,
     tb_stats = Map.empty, statsEnabled = False, sortKey = IsConnected, sortOrder = -1,
     peers = [], the_peer = freshPeer, prepared = freshPeer, configuration = []\<rparr>"

section \<open>Getters\<close>

text \<open>A counter that is missing counts as 0; the record always has it.\<close>

definition getTotalTraffic :: "stats option \<Rightarrow> bool \<Rightarrow> int" where
  "getTotalTraffic stat isReceived = (case stat of
      None \<Rightarrow> 0
    | Some st \<Rightarrow> if isReceived then s_BytesReceived st else s_BytesTransmitted st)"

definition peers_Find :: "peer_store \<Rightarrow> jsstr \<Rightarrow> peer option" where
  "peers_Find s i = List.find (\<lambda>p. p_Identifier p = i) (peers s)"

definition peers_Count :: "peer_store \<Rightarrow> int" where
  "peers_Count s = int (length (peers s))"

definition peers_Filtered :: "peer_store \<Rightarrow> peer list" where
  "peers_Filtered s =
     (if filter_text s = [] then peers s
      else filter (\<lambda>p. strIncludes (p_DisplayName p) (filter_text s)
        \<or> strIncludes (p_Identifier p) (filter_text s)) (peers s))"

definition peers_FilteredCount :: "peer_store \<Rightarrow> int" where
  "peers_FilteredCount s = int (length (peers_Filtered s))"

fun peers_value :: "ip_library \<Rightarrow> peer_store \<Rightarrow> sort_key \<Rightarrow> peer \<Rightarrow> sort_value settled" where
  "peers_value lib s Addresses p = map_sum id SNum (address_value lib (p_Addresses p))"
| "peers_value lib s IsConnected p = Inr (SNum (connected_value s (p_Identifier p)))"
| "peers_value lib s Traffic p = Inr (SNum
     (if statsEnabled s
      then getTotalTraffic (tb_stats s (p_Identifier p)) True
         + getTotalTraffic (tb_stats s (p_Identifier p)) False
      else 0))"
| "peers_value lib s DisplayName p = Inr (SStr (p_DisplayName p))"
| "peers_value lib s UserIdentifier_key p = Inr (SStr (p_UserIdentifier p))"
| "peers_value lib s ExpiresAt p = Inr (case p_ExpiresAt p of None \<Rightarrow> SNull | Some t \<Rightarrow> SStr t)"

definition peers_Sorted ::
  "ip_library \<Rightarrow> (jsstr \<Rightarrow> int option) \<Rightarrow> peer_store \<Rightarrow> peer list settled" where
  "peers_Sorted lib toNum s =
     sort_rows toNum (sortOrder s) (peers_value lib s (sortKey s)) (peers_Filtered s)"

definition peers_FilteredAndPaged ::
  "ip_library \<Rightarrow> (jsstr \<Rightarrow> int option) \<Rightarrow> peer_store \<Rightarrow> peer list settled" where
  "peers_FilteredAndPaged lib toNum s =
     map_sum id (\<lambda>xs. slice xs (pageOffset s) (pageOffset s + pageSize s)) (peers_Sorted lib toNum s)"

definition ConfigQrUrl :: "jsstr \<Rightarrow> peer_store \<Rightarrow> jsstr \<Rightarrow> jsstr settled" where
  "ConfigQrUrl base s i =
     (if peers_Find s i = None then Inr []
      else map_sum id (\<lambda>seg. apiUrl base (js ''/peer/config-qr/'' @ seg)) (base64_url_encode i))"

definition peers_hasNextPage :: "peer_store \<Rightarrow> bool" where
  "peers_hasNextPage s = (pageOffset s < peers_FilteredCount s - pageSize s)"

definition peers_hasPrevPage :: "peer_store \<Rightarrow> bool" where
  "peers_hasPrevPage s = (pageOffset s > 0)"

definition peers_currentPage :: "peer_store \<Rightarrow> rat option" where
  "peers_currentPage s =
     (if pageSize s = 0 then None else Some (of_int (pageOffset s) / of_int (pageSize s) + 1))"

section \<open>Paging\<close>

definition peers_calculatePages :: "(peer_store, unit) comp" where
  "peers_calculatePages s =
     bind (lift_option (calculate_pages (peers_FilteredCount s) (pageSize s)))
       (\<lambda>ps. modify (\<lambda>s. s\<lparr>pages := ps\<rparr>)) s"

definition peers_afterPageSizeChange :: "(peer_store, unit) comp" where
  "peers_afterPageSizeChange = andThen (modify (\<lambda>s. s\<lparr>pageOffset := 0\<rparr>)) peers_calculatePages"

definition peers_gotoPage :: "int \<Rightarrow> (peer_store, unit) comp" where
  "peers_gotoPage page =
     andThen (modify (\<lambda>s. s\<lparr>pageOffset := (page - 1) * pageSize s\<rparr>)) peers_calculatePages"

definition peers_nextPage :: "(peer_store, unit) comp" where
  "peers_nextPage =
     andThen (modify (\<lambda>s. s\<lparr>pageOffset := pageOffset s + pageSize s\<rparr>)) peers_calculatePages"

definition peers_previousPage :: "(peer_store, unit) comp" where
  "peers_previousPage =
     andThen (modify (\<lambda>s. s\<lparr>pageOffset := pageOffset s - pageSize s\<rparr>)) peers_calculatePages"

section \<open>Setters\<close>

definition setPeers :: "peer list \<Rightarrow> (peer_store, unit) comp" where
  "setPeers ps =
     andThen (modify (\<lambda>s. s\<lparr>peers := ps\<rparr>)) (andThen peers_calculatePages (set_fetching False))"

definition setPeer :: "peer \<Rightarrow> (peer_store, unit) comp" where
  "setPeer p = andThen (modify (\<lambda>s. s\<lparr>the_peer := p\<rparr>)) (set_fetching False)"

definition setPreparedPeer :: "peer \<Rightarrow> (peer_store, unit) comp" where
  "setPreparedPeer p = modify (\<lambda>s. s\<lparr>prepared := p\<rparr>)"

definition setPeerConfig :: "jsstr \<Rightarrow> (peer_store, unit) comp" where
  "setPeerConfig config = modify (\<lambda>s. s\<lparr>configuration := config\<rparr>)"

section \<open>Loading\<close>

definition PreparePeer_begin :: "jsstr \<Rightarrow> (peer_store, unit request) comp" where
  "PreparePeer_begin interfaceId =
     encoded_request GET ''/peer/iface/'' interfaceId (js ''/prepare'') None"

definition PreparePeer_settle :: "peer settled \<Rightarrow> (peer_store, unit) comp" where
  "PreparePeer_settle reply =
     then_catch reply setPreparedPeer
       (\<lambda>error. andThen (modify (\<lambda>s. s\<lparr>prepared := freshPeer\<rparr>))
          (notify_backend ''Failed to load prepared peer!''))"

record mail_request =
  mr_Identifiers :: "jsstr list"
  mr_LinkOnly :: bool

definition MailPeerConfig_begin ::
  "bool \<Rightarrow> jsstr \<Rightarrow> jsstr list \<Rightarrow> (peer_store, mail_request request) comp" where
  "MailPeerConfig_begin linkOnly style ids =
     return (Request POST (js ''/peer/config-mail?style='' @ style)
       (Some \<lparr>mr_Identifiers = ids, mr_LinkOnly = linkOnly\<rparr>))"

definition MailPeerConfig_settle :: "unit settled \<Rightarrow> (peer_store, unit) comp" where
  "MailPeerConfig_settle reply =
     then_catch reply
       (\<lambda>_. emit (Notify (js ''Peer Configuration sent'') (Text (js ''Email sent to linked user!''))
              None))
       (\<lambda>error. throw (new_Error error))"

definition LoadPeerConfig_begin :: "jsstr \<Rightarrow> jsstr \<Rightarrow> (peer_store, unit request) comp" where
  "LoadPeerConfig_begin i style =
     encoded_request GET ''/peer/config/'' i (js ''?style='' @ style) None"

definition LoadPeerConfig_settle :: "jsstr settled \<Rightarrow> (peer_store, unit) comp" where
  "LoadPeerConfig_settle reply =
     then_catch reply setPeerConfig
       (\<lambda>error. andThen (modify (\<lambda>s. s\<lparr>configuration := []\<rparr>))
          (notify_backend ''Failed to load peer configuration!''))"

definition LoadPeer_begin :: "jsstr \<Rightarrow> (peer_store, unit request) comp" where
  "LoadPeer_begin i = andThen (set_fetching True) (encoded_request GET ''/peer/'' i [] None)"

definition LoadPeer_settle :: "peer settled \<Rightarrow> (peer_store, unit) comp" where
  "LoadPeer_settle reply =
     then_catch reply setPeer
       (\<lambda>error. andThen (setPeers []) (notify_backend ''Failed to load peer!''))"

text \<open>
  The interface of a load: the one given, or the selected one, whose absence throws and whose
  empty identifier ends the action.
\<close>

definition resolve_interface ::
  "interface_store \<Rightarrow> jsstr option \<Rightarrow> (peer_store, jsstr option) comp" where
  "resolve_interface ifs interfaceId =
     (if interfaceId = None \<or> interfaceId = Some []
      then (case GetSelected ifs of
          None \<Rightarrow> throw TypeError
        | Some v \<Rightarrow> if i_Identifier v = [] then return None else return (Some (i_Identifier v)))
      else return interfaceId)"

definition LoadStats_begin ::
  "interface_store \<Rightarrow> jsstr option \<Rightarrow> (peer_store, unit request option) comp" where
  "LoadStats_begin ifs interfaceId =
     bind (resolve_interface ifs interfaceId) (\<lambda>r. case r of
         None \<Rightarrow> return None
       | Some i \<Rightarrow> andThen (set_fetching True)
           (bind (encoded_request GET ''/peer/iface/'' i (js ''/stats'') None)
              (\<lambda>q. return (Some q))))"

definition LoadStats_settle :: "stats_response option settled \<Rightarrow> (peer_store, unit) comp" where
  "LoadStats_settle reply =
     then_catch reply setStats
       (\<lambda>error. andThen (setStats None) (notify_backend ''Failed to load peer stats!''))"

definition LoadPeers_begin ::
  "interface_store \<Rightarrow> jsstr option \<Rightarrow> (peer_store, unit request option) comp" where
  "LoadPeers_begin ifs interfaceId =
     bind (resolve_interface ifs interfaceId) (\<lambda>r. case r of
         None \<Rightarrow> return None
       | Some i \<Rightarrow> andThen (set_fetching True)
           (bind (encoded_request GET ''/peer/iface/'' i (js ''/all'') None)
              (\<lambda>q. return (Some q))))"

definition LoadPeers_settle :: "peer list settled \<Rightarrow> (peer_store, unit) comp" where
  "LoadPeers_settle reply =
     then_catch reply setPeers
       (\<lambda>error. andThen (setPeers []) (notify_backend ''Failed to load peers!''))"

section \<open>Changes\<close>

definition DeletePeer_begin :: "jsstr \<Rightarrow> (peer_store, unit request) comp" where
  "DeletePeer_begin i = andThen (set_fetching True) (encoded_request DELETE ''/peer/'' i [] None)"

definition DeletePeer_settle :: "jsstr \<Rightarrow> unit settled \<Rightarrow> (peer_store, unit) comp" where
  "DeletePeer_settle i reply =
     then_catch reply
       (\<lambda>_. andThen (modify (\<lambda>s. s\<lparr>peers := filter (\<lambda>p. p_Identifier p \<noteq> i) (peers s)\<rparr>))
              (set_fetching False))
       (\<lambda>error. andThen (set_fetching False) (throw (new_Error error)))"

definition UpdatePeer_begin :: "jsstr \<Rightarrow> peer \<Rightarrow> (peer_store, peer request) comp" where
  "UpdatePeer_begin i formData =
     andThen (set_fetching True) (encoded_request PUT ''/peer/'' i [] (Some formData))"

definition UpdatePeer_settle :: "jsstr \<Rightarrow> peer settled \<Rightarrow> (peer_store, unit) comp" where
  "UpdatePeer_settle i reply =
     then_catch reply
       (\<lambda>p. andThen (modify (\<lambda>s.
            let idx = findIndex (\<lambda>x. p_Identifier x = i) (peers s)
            in s\<lparr>peers := setIndex (peers s) idx p\<rparr>))
          (set_fetching False))
       (\<lambda>error. andThen (set_fetching False) (throw (new_Error error)))"

definition CreatePeer_begin :: "jsstr \<Rightarrow> peer \<Rightarrow> (peer_store, peer request) comp" where
  "CreatePeer_begin interfaceId formData =
     andThen (set_fetching True)
       (encoded_request POST ''/peer/iface/'' interfaceId (js ''/new'') (Some formData))"

definition CreatePeer_settle :: "peer settled \<Rightarrow> (peer_store, unit) comp" where
  "CreatePeer_settle reply =
     then_catch reply
       (\<lambda>p. andThen (modify (\<lambda>s. s\<lparr>peers := peers s @ [p]\<rparr>)) (set_fetching False))
       (\<lambda>error. andThen (set_fetching False) (throw (new_Error error)))"

definition CreateMultiplePeers_begin :: "jsstr \<Rightarrow> 'b \<Rightarrow> (peer_store, 'b request) comp" where
  "CreateMultiplePeers_begin interfaceId formData =
     andThen (set_fetching True)
       (encoded_request POST ''/peer/iface/'' interfaceId (js ''/multiplenew'') (Some formData))"

definition CreateMultiplePeers_settle :: "peer list settled \<Rightarrow> (peer_store, unit) comp" where
  "CreateMultiplePeers_settle reply =
     then_catch reply
       (\<lambda>ps. andThen (modify (\<lambda>s. s\<lparr>peers := peers s @ ps\<rparr>)) (set_fetching False))
       (\<lambda>error. andThen (set_fetching False) (throw (new_Error error)))"

section \<open>The store as a paged store\<close>

definition peers_pager :: "ip_library \<Rightarrow> (jsstr \<Rightarrow> int option) \<Rightarrow> (peer_store, peer) pager" where
  "peers_pager lib toNum = \<lparr>
     pg_count = peers_FilteredCount, pg_offset = pageOffset, pg_size = pageSize, pg_pages = pages,
     pg_rows = peers_FilteredAndPaged lib toNum,
     pg_hasNextPage = peers_hasNextPage, pg_hasPrevPage = peers_hasPrevPage,
     pg_currentPage = peers_currentPage,
     pg_afterPageSizeChange = peers_afterPageSizeChange, pg_gotoPage = peers_gotoPage,
     pg_nextPage = peers_nextPage, pg_previousPage = peers_previousPage,
     pg_set_size = (\<lambda>k s. s\<lparr>pageSize := k\<rparr>), pg_set_filter = (\<lambda>f s. s\<lparr>filter_text := f\<rparr>)\<rparr>"

lemmas peers_pager_defs =
  peers_pager_def peers_FilteredCount_def peers_FilteredAndPaged_def peers_hasNextPage_def
  peers_hasPrevPage_def peers_currentPage_def peers_afterPageSizeChange_def peers_gotoPage_def
  peers_nextPage_def peers_previousPage_def peers_calculatePages_def

lemma peers_value_frame:
  "peers_value lib (s\<lparr>pageOffset := k\<rparr>) = peers_value lib s"
  "peers_value lib (s\<lparr>pages := ps\<rparr>) = peers_value lib s"
  by (rule ext, rule ext, case_tac x, simp_all add: connected_value_def)+

lemma peers_Sorted_frame [simp]:
  "peers_Sorted lib toNum (s\<lparr>pageOffset := k\<rparr>) = peers_Sorted lib toNum s"
  "peers_Sorted lib toNum (s\<lparr>pages := ps\<rparr>) = peers_Sorted lib toNum s"
  by (simp_all add: peers_Sorted_def peers_value_frame peers_Filtered_def)

lemma length_peers_Sorted: "peers_Sorted lib toNum s = Inr xs \<Longrightarrow> length xs = length (peers_Filtered s)"
  unfolding peers_Sorted_def by (drule sort_rows_mset) (rule mset_eq_length)

interpretation peers: pager_laws "peers_pager lib toNum" "peers_Sorted lib toNum"
  "\<lambda>k s. s\<lparr>pageOffset := k\<rparr>" "\<lambda>ps s. s\<lparr>pages := ps\<rparr>" peers_calculatePages for lib toNum
  by unfold_locales
    (auto simp: peers_pager_defs peers_Filtered_def page_rows_def js_run length_peers_Sorted
      split: option.split)

section \<open>The store as a keyed store\<close>

definition peers_keyed :: "(peer_store, peer) keyed" where
  "peers_keyed = \<lparr>k_key = p_Identifier, k_items = peers, k_Find = peers_Find, k_busy = fetching,
     k_delete = DeletePeer_settle, k_update = UpdatePeer_settle, k_create = CreatePeer_settle\<rparr>"

lemmas peers_keyed_defs =
  peers_keyed_def DeletePeer_settle_def UpdatePeer_settle_def CreatePeer_settle_def set_fetching_def

interpretation peers_k: keyed_laws peers_keyed
  by unfold_locales
    (auto simp: peers_keyed_defs peers_Find_def lookup_def fun_eq_iff js_run Let_def)

section \<open>Properties\<close>

text \<open>The column of a peer, where it is defined: what the table is meant to be sorted by.\<close>

definition column :: "ip_library \<Rightarrow> peer_store \<Rightarrow> peer \<Rightarrow> sort_value" where
  "column lib s p = (case peers_value lib s (sortKey s) p of Inr v \<Rightarrow> v | Inl _ \<Rightarrow> SNull)"

definition sortable :: "ip_library \<Rightarrow> peer_store \<Rightarrow> bool" where
  "sortable lib s \<longleftrightarrow>
     (sortKey s = Addresses \<longrightarrow> (\<forall>p \<in> set (peers_Filtered s). \<not> isl (address_value lib (p_Addresses p))))
     \<and> (sortKey s = ExpiresAt \<longrightarrow> (\<forall>p \<in> set (peers_Filtered s). p_ExpiresAt p = None)
         \<or> (\<forall>p \<in> set (peers_Filtered s). p_ExpiresAt p \<noteq> None))"

lemma peers_Sorted_reference:
  assumes "sortable lib s"
  shows "peers_Sorted lib toNum s = Inr (reference_sort (column lib s) (sortOrder s) (peers_Filtered s))"
  unfolding peers_Sorted_def
proof (rule sort_rows_reference)
  show "\<forall>p \<in> set (peers_Filtered s). peers_value lib s (sortKey s) p = Inr (column lib s p)"
    using assms by (cases "sortKey s") (auto simp: column_def sortable_def isl_def split: sum.split)
  show "\<forall>x \<in> set (peers_Filtered s). \<forall>y \<in> set (peers_Filtered s).
      same_kind (column lib s x) (column lib s y)"
    using assms by (cases "sortKey s")
      (auto simp: column_def sortable_def isl_def split: sum.split option.split)
qed

text \<open>C15. The peer table shows the matching peers sorted by the chosen column in the chosen
  direction, each exactly once, and peers that tie keep their order, as long as the addresses
  can be read and the peers either all expire or all do not.\<close>

theorem peers_table_sorted:
  assumes "sortable lib s"
  shows "\<exists>rows. peers_Sorted lib toNum s = Inr rows \<and> mset rows = mset (peers_Filtered s)
    \<and> sorted_wrt (row_le (column lib s) (sortOrder s)) rows
    \<and> (\<forall>p. filter (\<lambda>q. column lib s q = column lib s p) rows
         = filter (\<lambda>q. column lib s q = column lib s p) (peers_Filtered s))"
  using peers_Sorted_reference [OF assms]
    reference_sort_spec [where k = "column lib s" and sortOrder = "sortOrder s" and xs = "peers_Filtered s"]
  by (simp add: ties_row_le [abs_def])

definition sample_peer :: "string \<Rightarrow> jsstr option \<Rightarrow> peer" where
  "sample_peer n expiry = freshPeer\<lparr>p_Identifier := js n, p_DisplayName := js n, p_ExpiresAt := expiry\<rparr>"

theorem peers_table_sorted_witness:
  "\<exists>rows. peers_Sorted no_library (\<lambda>_. None)
       (peers_init\<lparr>peers := [sample_peer ''b'' None, sample_peer ''a'' None], sortKey := DisplayName\<rparr>)
       = Inr rows
     \<and> mset rows = {#sample_peer ''a'' None, sample_peer ''b'' None#}"
  using peers_table_sorted [of no_library
      "peers_init\<lparr>peers := [sample_peer ''b'' None, sample_peer ''a'' None], sortKey := DisplayName\<rparr>"]
  by (auto simp: sortable_def peers_Filtered_def peers_init_def add_mset_commute)

text \<open>With peers that expire and peers that do not the column of the expiry date has no
  consistent order: a peer without a date ties with every date, so a table that lists it
  between a later and an earlier date counts as sorted and stays as it is.\<close>

theorem ExpiresAt_unsorted:
  assumes "toNum late = None" "toNum early = None"
    and "peers s = [sample_peer a (Some late), sample_peer b None, sample_peer c (Some early)]"
    and "filter_text s = []" "sortKey s = ExpiresAt"
  shows "peers_Sorted lib toNum s = Inr (peers s)"
  using assms
  by (simp add: peers_Sorted_def peers_Filtered_def sort_rows_def sample_peer_def
      compare_values_def Let_def)

theorem ExpiresAt_unsorted_witness:
  "js ''2024'' < js ''2030''
   \<and> peers_Sorted no_library (\<lambda>_. None) (peers_init\<lparr>sortKey := ExpiresAt, sortOrder := 1,
        peers := [sample_peer ''a'' (Some (js ''2030'')), sample_peer ''b'' None,
                  sample_peer ''c'' (Some (js ''2024''))]\<rparr>)
      = Inr [sample_peer ''a'' (Some (js ''2030'')), sample_peer ''b'' None,
             sample_peer ''c'' (Some (js ''2024''))]"
proof -
  have "js ''2024'' < js ''2030''" by (simp add: js_def js_char_def)
  then show ?thesis
    using ExpiresAt_unsorted [of "\<lambda>_. None" "js ''2030''" "js ''2024''" _ "''a''" "''b''" "''c''"]
    by (simp add: peers_init_def)
qed

text \<open>One unreadable address makes the whole table throw: with at least two matching peers
  and the addresses as the column, an address the library rejects is enough, whatever page is
  shown. An IPv6 address with an embedded IPv4 address is such a one, for it is given to the
  IPv4 parser.\<close>

theorem unreadable_address_breaks_table:
  assumes "sortKey s = Addresses" "2 \<le> length (peers_Filtered s)" "p \<in> set (peers_Filtered s)"
    and "p_Addresses p = a # as" "strIncludes a (js ''.'')" "Address4 lib a = Inl err"
  shows "isl (peers_FilteredAndPaged lib toNum s)"
proof -
  have "peers_value lib s (sortKey s) p = Inl err"
    using assms by (simp add: address_value_def ipToBigInt_def)
  from sort_rows_throws [of "peers_Filtered s" p "peers_value lib s (sortKey s)", OF assms(2,3) this]
  obtain e where "peers_Sorted lib toNum s = Inl e" unfolding peers_Sorted_def by blast
  then show ?thesis by (simp add: peers_FilteredAndPaged_def)
qed

theorem unreadable_address_breaks_table_witness:
  "isl (peers_FilteredAndPaged no_library (\<lambda>_. None) (peers_init\<lparr>sortKey := Addresses,
     peers := [freshPeer\<lparr>p_Addresses := [js ''::ffff:10.0.0.1'']\<rparr>, freshPeer]\<rparr>))"
proof -
  have "js ''::ffff:10.0.0.1'' = js ''::ffff:10'' @ js ''.'' @ js ''0.0.1''"
    by (simp add: js_append)
  then have dot: "strIncludes (js ''::ffff:10.0.0.1'') (js ''.'')"
    unfolding strIncludes_iff by blast
  let ?p = "freshPeer\<lparr>p_Addresses := [js ''::ffff:10.0.0.1'']\<rparr>"
  let ?s = "peers_init\<lparr>sortKey := Addresses, peers := [?p, freshPeer]\<rparr>"
  have f: "peers_Filtered ?s = [?p, freshPeer]" by (simp add: peers_Filtered_def peers_init_def)
  have "sortKey ?s = Addresses" "2 \<le> length (peers_Filtered ?s)" "?p \<in> set (peers_Filtered ?s)"
    "p_Addresses ?p = [js ''::ffff:10.0.0.1'']"
    unfolding f by simp_all
  moreover have "Address4 no_library (js ''::ffff:10.0.0.1'') = Inl TypeError"
    by (simp add: no_library_def)
  ultimately show ?thesis
    using unreadable_address_breaks_table [OF _ _ _ _ dot] by blast
qed

lemma setPeers_returns:
  assumes "0 < pageSize s"
  shows "\<exists>t. setPeers ps s = Returns () t [] \<and> peers t = ps \<and> \<not> fetching t
    \<and> the_peer t = the_peer s \<and> pageSize t = pageSize s \<and> pageOffset t = pageOffset s
    \<and> filter_text t = filter_text s \<and> sortKey t = sortKey s
    \<and> pages t = [1..page_count (peers_FilteredCount t) (pageSize t)]"
proof -
  let ?s = "s\<lparr>peers := ps\<rparr>"
  have "peers_calculatePages ?s
      = Returns () (?s\<lparr>pages := [1..page_count (peers_FilteredCount ?s) (pageSize ?s)]\<rparr>) []"
    using peers.calculate_returns [of no_library "\<lambda>_. None" ?s] assms by (simp add: peers_pager_def)
  then show ?thesis
    by (simp add: setPeers_def set_fetching_def js_run peers_FilteredCount_def peers_Filtered_def)
qed

text \<open>Which peers are asked for: those of the interface given, else those of the selected
  one. Without any interface the action throws before anything is marked as fetching, and an
  interface with an empty identifier ends it without a request.\<close>

theorem LoadPeers_interface:
  "case interfaceId of
     Some (u # us) \<Rightarrow> LoadPeers_begin ifs interfaceId s
       = bind (andThen (set_fetching True)
           (encoded_request GET ''/peer/iface/'' (u # us) (js ''/all'') None)) (\<lambda>q. return (Some q)) s
   | _ \<Rightarrow> (case GetSelected ifs of
         None \<Rightarrow> LoadPeers_begin ifs interfaceId s = Throws TypeError s []
       | Some v \<Rightarrow> if i_Identifier v = [] then LoadPeers_begin ifs interfaceId s = Returns None s []
           else LoadPeers_begin ifs interfaceId s = LoadPeers_begin ifs (Some (i_Identifier v)) s)"
  by (auto simp: LoadPeers_begin_def resolve_interface_def js_run set_fetching_def
      encoded_request_cases split: option.split list.split)

text \<open>A failed load of the statistics is never reported: clearing them throws in its turn,
  so the action rejects with a type error and shows no message; and whatever the answer is,
  the store stays marked as fetching.\<close>

theorem LoadStats_outcome:
  "case reply of
     Inr (Some r) \<Rightarrow> (\<exists>t. LoadStats_settle reply s = Returns () t [] \<and> fetching t = fetching s
        \<and> tb_stats t = r_Stats r \<and> statsEnabled t = r_Enabled r)
   | _ \<Rightarrow> (\<exists>t. LoadStats_settle reply s = Throws TypeError t [] \<and> fetching t = fetching s
        \<and> tb_stats t = Map.empty \<and> \<not> statsEnabled t)"
  by (auto simp: LoadStats_settle_def js_run split: sum.split option.split)

text \<open>A failed load of one peer empties the list of all peers, next to the message; a
  successful one leaves the list alone and clears the flag.\<close>

theorem LoadPeer_outcome:
  assumes "0 < pageSize s"
  shows "case reply of
      Inr p \<Rightarrow> (\<exists>t. LoadPeer_settle reply s = Returns () t [] \<and> the_peer t = p
        \<and> peers t = peers s \<and> \<not> fetching t)
    | Inl e \<Rightarrow> (\<exists>t es. LoadPeer_settle reply s = Returns () t es \<and> peers t = [] \<and> pages t = []
        \<and> the_peer t = the_peer s \<and> \<not> fetching t \<and> length es = 1)"
proof (cases reply)
  case (Inl e)
  obtain t where "setPeers [] s = Returns () t []" "peers t = []" "\<not> fetching t"
    "the_peer t = the_peer s" "pages t = [1..page_count (peers_FilteredCount t) (pageSize t)]"
    "pageSize t = pageSize s"
    using setPeers_returns [OF assms, of "[]"] by blast
  then show ?thesis using Inl assms
    by (simp add: LoadPeer_settle_def notify_backend_def js_run peers_FilteredCount_def
        peers_Filtered_def)
next
  case (Inr p)
  then show ?thesis by (simp add: LoadPeer_settle_def setPeer_def set_fetching_def js_run)
qed

theorem LoadPeer_outcome_witness:
  "\<exists>t es. LoadPeer_settle (Inl TypeError) (peers_init\<lparr>peers := [freshPeer]\<rparr>) = Returns () t es
     \<and> peers t = []"
  using LoadPeer_outcome [of "peers_init\<lparr>peers := [freshPeer]\<rparr>" "Inl TypeError"]
  by (auto simp: peers_init_def)

text \<open>The list of peers is a faithful copy of the backend's table of the interface: a
  session of accepted and refused changes leaves it changed by exactly the accepted ones, and
  several peers created at once are appended in order.\<close>

theorem peers_sync:
  assumes "distinct_keys p_Identifier (peers s)"
    and "sound_changes p_Identifier (accepted cs) (peers_Find s)"
  shows "\<exists>t u. settle_changes peers_keyed cs s = Returns () t []
    \<and> peers_Find t = fold (apply_change p_Identifier) (accepted cs) (peers_Find s)
    \<and> distinct_keys p_Identifier (peers t)
    \<and> CreateMultiplePeers_settle (Inr new) t = Returns () u [] \<and> \<not> fetching u
    \<and> peers_Find u = lookup p_Identifier new ++ peers_Find t"
proof -
  obtain t where "settle_changes peers_keyed cs s = Returns () t []"
    "peers_Find t = fold (apply_change p_Identifier) (accepted cs) (peers_Find s)"
    "distinct_keys p_Identifier (peers t)"
    using peers_k.session_refines [of s cs] assms by (auto simp: peers_keyed_def)
  moreover have "peers_Find (t\<lparr>peers := peers t @ new, fetching := False\<rparr>)
      = lookup p_Identifier new ++ peers_Find t"
    using lookup_append [of p_Identifier "peers t" new]
    by (simp add: peers_Find_def lookup_def fun_eq_iff map_add_def)
  ultimately show ?thesis
    by (simp add: CreateMultiplePeers_settle_def set_fetching_def js_run)
qed

theorem peers_sync_witness:
  "\<exists>t. settle_changes peers_keyed [(Created (sample_peer ''a'' None), None),
         (Updated (js ''a'') (sample_peer ''a'' (Some [])), None)] peers_init = Returns () t []
     \<and> peers_Find t (js ''a'') = Some (sample_peer ''a'' (Some []))"
proof -
  let ?cs = "[(Created (sample_peer ''a'' None), None),
    (Updated (js ''a'') (sample_peer ''a'' (Some [])), None)]"
  have "distinct_keys p_Identifier (peers peers_init)"
    "sound_changes p_Identifier (accepted ?cs) (peers_Find peers_init)"
    by (simp_all add: peers_init_def distinct_keys_def peers_Find_def sample_peer_def)
  from peers_sync [OF this] obtain t where "settle_changes peers_keyed ?cs peers_init = Returns () t []"
    "peers_Find t = fold (apply_change p_Identifier) (accepted ?cs) (peers_Find peers_init)" by blast
  then show ?thesis by (intro exI [of _ t]) (simp add: sample_peer_def del: settle_changes.simps)
qed

text \<open>
  What happens to the table: the events of its bar and of its search, a click on a heading,
  statistics that arrive, a load, of the peers of the same interface or of another, and a peer
  that is deleted, changed or created. The flag tells whether bar and list are known to agree:
  a load makes the page links anew but keeps the offset, and a change leaves both as they are.
\<close>

inductive table_run :: "ip_library \<Rightarrow> (jsstr \<Rightarrow> int option) \<Rightarrow> peer_store \<Rightarrow> bool \<Rightarrow> peer_store \<Rightarrow> bool"
  for lib toNum s where
  table_start: "table_run lib toNum s False s"
| table_bar: "table_run lib toNum s ok t \<Longrightarrow> bar_event (peers_pager lib toNum) ok t ok' u \<Longrightarrow>
    table_run lib toNum s ok' u"
| table_sort: "table_run lib toNum s ok t \<Longrightarrow> o' \<in> {1, -1} \<Longrightarrow>
    table_run lib toNum s ok (t\<lparr>sortKey := k, sortOrder := o'\<rparr>)"
| table_stats: "table_run lib toNum s ok t \<Longrightarrow> ends_in (LoadStats_settle stats t) u \<Longrightarrow> table_run lib toNum s ok u"
| table_load: "table_run lib toNum s ok t \<Longrightarrow> ends_in (LoadPeers_settle reply t) u \<Longrightarrow>
    table_run lib toNum s (pageOffset t = 0) u"
| table_change: "table_run lib toNum s ok t \<Longrightarrow> ends_in (settle_change peers_keyed c t) u \<Longrightarrow>
    table_run lib toNum s False u"
| table_multi: "table_run lib toNum s ok t \<Longrightarrow> ends_in (CreateMultiplePeers_settle new t) u \<Longrightarrow>
    table_run lib toNum s False u"

lemma table_load_inv:
  assumes "0 < pageSize t" "ends_in (LoadPeers_settle reply t) u"
  shows "0 < pageSize u \<and> (pageOffset t = 0 \<longrightarrow> pager_inv (peers_pager lib toNum) u)"
proof -
  let ?ps = "case reply of Inl _ \<Rightarrow> [] | Inr ps \<Rightarrow> ps"
  obtain v where "setPeers ?ps t = Returns () v []" "0 < pageSize v"
    "pageOffset t = 0 \<longrightarrow> pager_inv (peers_pager lib toNum) v"
    using setPeers_returns [of t ?ps] assms(1) by (auto simp: peers_pager_def pager_inv_def)
  moreover from this have "u = v"
    using assms(2) by (cases reply) (simp_all add: LoadPeers_settle_def notify_backend_def js_run)
  ultimately show ?thesis by simp
qed

lemma change_keeps_size: "ends_in (settle_change peers_keyed c t) u \<Longrightarrow> pageSize u = pageSize t"
proof -
  obtain d r where c: "c = (d, r)" by (cases c)
  show "ends_in (settle_change peers_keyed c t) u \<Longrightarrow> pageSize u = pageSize t"
    by (cases d; cases r) (auto simp: c peers_keyed_defs answer_def js_run Let_def)
qed

lemma table_run_inv:
  "table_run lib toNum s ok t \<Longrightarrow> 0 < pageSize s \<Longrightarrow>
     0 < pageSize t \<and> (ok \<longrightarrow> pager_inv (peers_pager lib toNum) t)"
proof (induction rule: table_run.induct)
  case table_start
  then show ?case by simp
next
  case (table_bar ok t ok' u)
  then show ?case using peers.event_inv [OF table_bar.hyps(2)] by (simp add: peers_pager_def)
next
  case (table_sort ok t o' k)
  then show ?case
    by (cases "filter_text t = []")
      (simp_all add: pager_inv_def peers_pager_def peers_FilteredCount_def peers_Filtered_def)
next
  case (table_stats ok t stats u)
  then show ?case
    by (cases stats; cases "projr stats")
      (auto simp: LoadStats_settle_def js_run pager_inv_def peers_pager_def peers_FilteredCount_def
        peers_Filtered_def split: option.splits)
next
  case (table_load ok t reply u)
  then show ?case using table_load_inv by blast
next
  case (table_change ok t c u)
  then show ?case using change_keeps_size by fastforce
next
  case (table_multi ok t new u)
  then show ?case
    by (cases new) (auto simp: CreateMultiplePeers_settle_def set_fetching_def js_run)
qed

text \<open>C3. In every session with the table of the peers, with searches, page sizes, page links, arrows,
  headings, loads of the peers of any interface, changes of peers and statistics in any order:
  the size of the pages stays positive, and the \<open>click\<close> on the selector and the \<open>keyup\<close> in the
  search field always end in a state in which every row of the sorted table is on exactly one
  page, the page links cutting it into consecutive pieces, and the page on display is not empty
  when there is a row. The same holds of every state with the flag: since the last handler, or
  the last load on the first page, no size, search, change or load on a later page has come.\<close>

theorem peers_pages_partition:
  assumes "0 < pageSize s" "table_run lib toNum s ok t"
  shows "0 < pageSize t \<and> (\<exists>u. peers_afterPageSizeChange t = Returns () u []
      \<and> peers_Sorted lib toNum u = peers_Sorted lib toNum t \<and> table_run lib toNum s True u)
    \<and> (ok \<longrightarrow> (\<forall>rows. peers_Sorted lib toNum t = Inr rows \<longrightarrow>
        concat (map (\<lambda>p. page_rows rows ((p - 1) * pageSize t) (pageSize t)) (pages t)) = rows
        \<and> peers_FilteredAndPaged lib toNum t = Inr (page_rows rows (pageOffset t) (pageSize t))
        \<and> (rows \<noteq> [] \<longrightarrow> page_rows rows (pageOffset t) (pageSize t) \<noteq> [])))"
proof -
  let ?P = "peers_pager lib toNum"
  from table_run_inv [OF assms(2,1)] have size: "0 < pageSize t" and inv: "ok \<Longrightarrow> pager_inv ?P t" by auto
  have "0 < pg_size ?P t" using size by (simp add: peers_pager_def)
  from peers.afterPageSizeChange_inv [OF this] obtain u where u:
    "pg_afterPageSizeChange ?P t = Returns () u []" "peers_Sorted lib toNum u = peers_Sorted lib toNum t" by blast
  from table_bar [OF assms(2) event_click [OF u(1)]] have "table_run lib toNum s True u" .
  moreover have "concat (map (\<lambda>p. page_rows rows ((p - 1) * pageSize t) (pageSize t)) (pages t)) = rows
      \<and> peers_FilteredAndPaged lib toNum t = Inr (page_rows rows (pageOffset t) (pageSize t))
      \<and> (rows \<noteq> [] \<longrightarrow> page_rows rows (pageOffset t) (pageSize t) \<noteq> [])"
    if ok and rows: "peers_Sorted lib toNum t = Inr rows" for rows
  proof -
    have "peers_FilteredAndPaged lib toNum t = Inr (page_rows rows (pageOffset t) (pageSize t))"
      using rows by (simp add: peers_FilteredAndPaged_def page_rows_def)
    with peers.pages_cover [OF inv rows] peers.rows_nonempty [OF inv rows] \<open>ok\<close>
    show ?thesis by (auto simp: peers_pager_def)
  qed
  ultimately show ?thesis using size u by (auto simp: peers_pager_def)
qed

lemma table_loaded:
  assumes "0 < pageSize s" "pageOffset s = 0" "sortKey s = DisplayName"
  shows "\<exists>t rows. LoadPeers_settle (Inr ps) s = Returns () t [] \<and> table_run lib toNum s True t
    \<and> sortKey t = DisplayName \<and> peers_Sorted lib toNum t = Inr rows"
proof -
  obtain t where t: "setPeers ps s = Returns () t []" "sortKey t = DisplayName"
    using setPeers_returns [OF assms(1), of ps] assms(3) by auto
  then have load: "LoadPeers_settle (Inr ps) s = Returns () t []" by (simp add: LoadPeers_settle_def js_run)
  have "table_run lib toNum s True t"
    using table_load [OF table_start, of "Inr ps" s t] load assms(2) by simp
  then show ?thesis
    using load t(2) peers_Sorted_reference [of lib t] by (auto simp: sortable_def)
qed

theorem peers_pages_partition_witness:
  "\<exists>t rows. table_run no_library (\<lambda>_. None) (peers_init\<lparr>sortKey := DisplayName\<rparr>) True t
     \<and> peers_Sorted no_library (\<lambda>_. None) t = Inr rows
     \<and> concat (map (\<lambda>p. page_rows rows ((p - 1) * pageSize t) (pageSize t)) (pages t)) = rows"
proof -
  have start: "0 < pageSize (peers_init\<lparr>sortKey := DisplayName\<rparr>)" by (simp add: peers_init_def)
  obtain t rows where t: "table_run no_library (\<lambda>_. None) (peers_init\<lparr>sortKey := DisplayName\<rparr>) True t"
    "peers_Sorted no_library (\<lambda>_. None) t = Inr rows"
    using table_loaded [of "peers_init\<lparr>sortKey := DisplayName\<rparr>" "[sample_peer ''a'' None]"
        no_library "\<lambda>_. None"] by (auto simp: peers_init_def)
  with peers_pages_partition [OF start t(1)] show ?thesis by blast
qed

end
