(* ===== verification/Profile.thy ===== *)
theory Profile
  imports Keyed_Store Auth Table_Sort
begin

text \<open>
  The page of the logged-in user: \<open>stores/profile.js\<close> (the user's own peers as a searched,
  sorted and paged table, their statistics, the user's data and interfaces, the switches of the
  API access) and the start-up of \<open>views/ProfileView.vue\<close>.
\<close>

section \<open>State\<close>

text \<open>The empty object that stands for a user not loaded is \<open>None\<close>.\<close>

record profile_store = peer_table +
  prof_peers :: "peer list"
  prof_interfaces :: "iface list"
  selectedInterfaceId :: jsstr
  prof_user :: "user option"

definition profile_init :: profile_store where
  "profile_init = \<lparr>filter_text = [], pageSize = 10, pageOffset = 0, pages = [], fetching = False,
     tb_stats = Map.empty, statsEnabled = False, sortKey = IsConnected, sortOrder = -1,
     prof_peers = [], prof_interfaces = [], selectedInterfaceId = [], prof_user = None\<rparr>"

section \<open>Getters\<close>

definition FindPeers :: "profile_store \<Rightarrow> jsstr \<Rightarrow> peer option" where
  "FindPeers s i = List.find (\<lambda>p. p_Identifier p = i) (prof_peers s)"

definition CountPeers :: "profile_store \<Rightarrow> int" where
  "CountPeers s = int (length (prof_peers s))"

definition CountInterfaces :: "profile_store \<Rightarrow> int" where
  "CountInterfaces s = int (length (prof_interfaces s))"

definition FilteredPeers :: "profile_store \<Rightarrow> peer list" where
  "FilteredPeers s =
     (if filter_text s = [] then prof_peers s
      else filter (\<lambda>p. strIncludes (p_DisplayName p) (filter_text s)
        \<or> strIncludes (p_Identifier p) (filter_text s)) (prof_peers s))"

definition FilteredPeerCount :: "profile_store \<Rightarrow> int" where
  "FilteredPeerCount s = int (length (FilteredPeers s))"

text \<open>
  The traffic reads the counters of the peer's entry without the guard the peer store has, so a
  peer without an entry makes it throw.
\<close>

fun profile_value :: "ip_library \<Rightarrow> profile_store \<Rightarrow> sort_key \<Rightarrow> peer \<Rightarrow> sort_value settled" where
  "profile_value lib s Addresses p = map_sum id SNum (address_value lib (p_Addresses p))"
| "profile_value lib s IsConnected p = Inr (SNum (connected_value s (p_Identifier p)))"
| "profile_value lib s Traffic p =
     (if statsEnabled s
      then (case tb_stats s (p_Identifier p) of
          None \<Rightarrow> Inl TypeError
        | Some st \<Rightarrow> Inr (SNum (s_BytesReceived st + s_BytesTransmitted st)))
      else Inr (SNum 0))"
| "profile_value lib s DisplayName p = Inr (SStr (p_DisplayName p))"
| "profile_value lib s UserIdentifier_key p = Inr (SStr (p_UserIdentifier p))"
| "profile_value lib s ExpiresAt p = Inr (case p_ExpiresAt p of None \<Rightarrow> SNull | Some t \<Rightarrow> SStr t)"

definition profile_Sorted ::
  "ip_library \<Rightarrow> (jsstr \<Rightarrow> int option) \<Rightarrow> profile_store \<Rightarrow> peer list settled" where
  "profile_Sorted lib toNum s =
     sort_rows toNum (sortOrder s) (profile_value lib s (sortKey s)) (FilteredPeers s)"

definition FilteredAndPagedPeers ::
  "ip_library \<Rightarrow> (jsstr \<Rightarrow> int option) \<Rightarrow> profile_store \<Rightarrow> peer list settled" where
  "FilteredAndPagedPeers lib toNum s =
     map_sum id (\<lambda>xs. slice xs (pageOffset s) (pageOffset s + pageSize s)) (profile_Sorted lib toNum s)"

definition profile_hasNextPage :: "profile_store \<Rightarrow> bool" where
  "profile_hasNextPage s = (pageOffset s < FilteredPeerCount s - pageSize s)"

definition profile_hasPrevPage :: "profile_store \<Rightarrow> bool" where
  "profile_hasPrevPage s = (pageOffset s > 0)"

definition profile_currentPage :: "profile_store \<Rightarrow> rat option" where
  "profile_currentPage s =
     (if pageSize s = 0 then None else Some (of_int (pageOffset s) / of_int (pageSize s) + 1))"

section \<open>Paging\<close>

definition profile_calculatePages :: "(profile_store, unit) comp" where
  "profile_calculatePages s =
     bind (lift_option (calculate_pages (FilteredPeerCount s) (pageSize s)))
       (\<lambda>ps. modify (\<lambda>s. s\<lparr>pages := ps\<rparr>)) s"

definition profile_afterPageSizeChange :: "(profile_store, unit) comp" where
  "profile_afterPageSizeChange =
     andThen (modify (\<lambda>s. s\<lparr>pageOffset := 0\<rparr>)) profile_calculatePages"

definition profile_gotoPage :: "int \<Rightarrow> (profile_store, unit) comp" where
  "profile_gotoPage page =
     andThen (modify (\<lambda>s. s\<lparr>pageOffset := (page - 1) * pageSize s\<rparr>)) profile_calculatePages"

definition profile_nextPage :: "(profile_store, unit) comp" where
  "profile_nextPage =
     andThen (modify (\<lambda>s. s\<lparr>pageOffset := pageOffset s + pageSize s\<rparr>)) profile_calculatePages"

definition profile_previousPage :: "(profile_store, unit) comp" where
  "profile_previousPage =
     andThen (modify (\<lambda>s. s\<lparr>pageOffset := pageOffset s - pageSize s\<rparr>)) profile_calculatePages"

section \<open>Setters\<close>

text \<open>Unlike its namesakes, this \<open>setPeers\<close> leaves the page links as they are.\<close>

definition profile_setPeers :: "peer list \<Rightarrow> (profile_store, unit) comp" where
  "profile_setPeers ps = andThen (modify (\<lambda>s. s\<lparr>prof_peers := ps\<rparr>)) (set_fetching False)"

definition setUser :: "user option \<Rightarrow> (profile_store, unit) comp" where
  "setUser u = andThen (modify (\<lambda>s. s\<lparr>prof_user := u\<rparr>)) (set_fetching False)"

definition profile_setInterfaces :: "iface list \<Rightarrow> (profile_store, unit) comp" where
  "profile_setInterfaces ifs =
     andThen (modify (\<lambda>s. s\<lparr>prof_interfaces := ifs\<rparr>))
       (andThen (modify (\<lambda>s. s\<lparr>selectedInterfaceId :=
            (if 0 < length ifs then i_Identifier (hd ifs) else [])\<rparr>))
          (set_fetching False))"

section \<open>Actions\<close>

text \<open>
  The path of every request has the identifier of the logged-in user. Without a user the access
  to it throws; an identifier that is undefined is encoded as the text of that word.
\<close>

definition currentUser :: "auth_store \<Rightarrow> jsstr settled" where
  "currentUser auth = (case auth_user auth of
      None \<Rightarrow> Inl TypeError
    | Some u \<Rightarrow> Inr (case au_Identifier u of None \<Rightarrow> js ''undefined'' | Some i \<Rightarrow> i))"

definition own_request ::
  "auth_store \<Rightarrow> http_method \<Rightarrow> string \<Rightarrow> (profile_store, unit request) comp" where
  "own_request auth verb post =
     andThen (set_fetching True)
       (bind (lift_settled (currentUser auth))
          (\<lambda>i. encoded_request verb ''/user/'' i (js post) None))"

definition enableApi_begin :: "auth_store \<Rightarrow> (profile_store, unit request) comp" where
  "enableApi_begin auth = own_request auth POST ''/api/enable''"

definition enableApi_settle :: "user settled \<Rightarrow> (profile_store, unit) comp" where
  "enableApi_settle reply =
     then_catch reply (\<lambda>u. setUser (Some u))
       (\<lambda>error. andThen (set_fetching False) (notify_backend ''Failed to activate API!''))"

definition disableApi_begin :: "auth_store \<Rightarrow> (profile_store, unit request) comp" where
  "disableApi_begin auth = own_request auth POST ''/api/disable''"

definition disableApi_settle :: "user settled \<Rightarrow> (profile_store, unit) comp" where
  "disableApi_settle reply =
     then_catch reply (\<lambda>u. setUser (Some u))
       (\<lambda>error. andThen (set_fetching False) (notify_backend ''Failed to deactivate API!''))"

definition profile_LoadPeers_begin :: "auth_store \<Rightarrow> (profile_store, unit request) comp" where
  "profile_LoadPeers_begin auth = own_request auth GET ''/peers''"

definition profile_LoadPeers_settle :: "peer list settled \<Rightarrow> (profile_store, unit) comp" where
  "profile_LoadPeers_settle reply =
     then_catch reply profile_setPeers
       (\<lambda>error. andThen (profile_setPeers []) (notify_backend ''Failed to load user peers!''))"

definition profile_LoadStats_begin :: "auth_store \<Rightarrow> (profile_store, unit request) comp" where
  "profile_LoadStats_begin auth = own_request auth GET ''/stats''"

definition profile_LoadStats_settle :: "stats_response option settled \<Rightarrow> (profile_store, unit) comp" where
  "profile_LoadStats_settle reply =
     then_catch reply setStats
       (\<lambda>error. andThen (setStats None) (notify_backend ''Failed to load peer stats!''))"

definition LoadUser_begin :: "auth_store \<Rightarrow> (profile_store, unit request) comp" where
  "LoadUser_begin auth = own_request auth GET []"

definition LoadUser_settle :: "user settled \<Rightarrow> (profile_store, unit) comp" where
  "LoadUser_settle reply =
     then_catch reply (\<lambda>u. setUser (Some u))
       (\<lambda>error. andThen (setUser None) (notify_backend ''Failed to load user!''))"

definition profile_LoadInterfaces_begin :: "auth_store \<Rightarrow> (profile_store, unit request) comp" where
  "profile_LoadInterfaces_begin auth = own_request auth GET ''/interfaces''"

definition profile_LoadInterfaces_settle :: "iface list settled \<Rightarrow> (profile_store, unit) comp" where
  "profile_LoadInterfaces_settle reply =
     then_catch reply profile_setInterfaces
       (\<lambda>error. andThen (profile_setInterfaces []) (notify_backend ''Failed to load interfaces!''))"

section \<open>The view\<close>

text \<open>
  \<open>onMounted\<close> of \<open>views/ProfileView.vue\<close>: the loads one after the other, each awaited, then the
  page links. A rejection ends it. \<open>sortBy\<close>: the view keeps the column and direction itself
  and copies them to the store.
\<close>

record profile_replies =
  re_user :: "user settled"
  re_peers :: "peer list settled"
  re_stats :: "stats_response option settled"
  re_interfaces :: "iface list settled"

definition profile_mounted :: "auth_store \<Rightarrow> profile_replies \<Rightarrow> (profile_store, unit) comp" where
  "profile_mounted auth r =
     andThen (bind (LoadUser_begin auth) (\<lambda>_. LoadUser_settle (re_user r)))
    (andThen (bind (profile_LoadPeers_begin auth) (\<lambda>_. profile_LoadPeers_settle (re_peers r)))
    (andThen (bind (profile_LoadStats_begin auth) (\<lambda>_. profile_LoadStats_settle (re_stats r)))
    (andThen (bind (profile_LoadInterfaces_begin auth)
                (\<lambda>_. profile_LoadInterfaces_settle (re_interfaces r)))
       profile_calculatePages)))"

section \<open>The store as a paged store\<close>

definition profile_pager :: "ip_library \<Rightarrow> (jsstr \<Rightarrow> int option) \<Rightarrow> (profile_store, peer) pager" where
  "profile_pager lib toNum = \<lparr>
     pg_count = FilteredPeerCount, pg_offset = pageOffset, pg_size = pageSize, pg_pages = pages,
     pg_rows = FilteredAndPagedPeers lib toNum,
     pg_hasNextPage = profile_hasNextPage, pg_hasPrevPage = profile_hasPrevPage,
     pg_currentPage = profile_currentPage,
     pg_afterPageSizeChange = profile_afterPageSizeChange, pg_gotoPage = profile_gotoPage,
     pg_nextPage = profile_nextPage, pg_previousPage = profile_previousPage,
     pg_set_size = (\<lambda>k s. s\<lparr>pageSize := k\<rparr>), pg_set_filter = (\<lambda>f s. s\<lparr>filter_text := f\<rparr>)\<rparr>"

lemmas profile_pager_defs =
  profile_pager_def FilteredPeerCount_def FilteredAndPagedPeers_def profile_hasNextPage_def
  profile_hasPrevPage_def profile_currentPage_def profile_afterPageSizeChange_def
  profile_gotoPage_def profile_nextPage_def profile_previousPage_def profile_calculatePages_def

lemma profile_value_frame:
  "profile_value lib (s\<lparr>pageOffset := k\<rparr>) = profile_value lib s"
  "profile_value lib (s\<lparr>pages := ps\<rparr>) = profile_value lib s"
  by (rule ext, rule ext, case_tac x, simp_all add: connected_value_def)+

lemma profile_Sorted_frame [simp]:
  "profile_Sorted lib toNum (s\<lparr>pageOffset := k\<rparr>) = profile_Sorted lib toNum s"
  "profile_Sorted lib toNum (s\<lparr>pages := ps\<rparr>) = profile_Sorted lib toNum s"
  by (simp_all add: profile_Sorted_def profile_value_frame FilteredPeers_def)

lemma length_profile_Sorted:
  "profile_Sorted lib toNum s = Inr xs \<Longrightarrow> length xs = length (FilteredPeers s)"
  unfolding profile_Sorted_def by (drule sort_rows_mset) (rule mset_eq_length)

interpretation profile: pager_laws "profile_pager lib toNum" "profile_Sorted lib toNum"
  "\<lambda>k s. s\<lparr>pageOffset := k\<rparr>" "\<lambda>ps s. s\<lparr>pages := ps\<rparr>" profile_calculatePages for lib toNum
  by unfold_locales
    (auto simp: profile_pager_defs FilteredPeers_def page_rows_def js_run length_profile_Sorted
      split: option.split)

section \<open>Properties\<close>

lemma profile_calculate:
  "0 < pageSize s \<Longrightarrow> profile_calculatePages s
     = Returns () (s\<lparr>pages := [1..page_count (FilteredPeerCount s) (pageSize s)]\<rparr>) []"
  using profile.calculate_returns [of no_library "\<lambda>_. None" s]
  by (simp add: profile_pager_def)

lemma own_request_run:
  "own_request auth verb post s =
     (case currentUser auth of
        Inl e \<Rightarrow> Throws e (s\<lparr>fetching := True\<rparr>) []
      | Inr i \<Rightarrow> encoded_request verb ''/user/'' i (js post) None (s\<lparr>fetching := True\<rparr>))"
  by (simp add: own_request_def set_fetching_def js_run encoded_request_cases split: sum.split)

text \<open>Opening the profile: for a logged-in user with a plain identifier the page loads the
  user, the peers, the statistics and the interfaces and computes the page links. When the
  statistics fail to load, the start-up ends there with a type error: the interfaces are not
  loaded and the page links are not computed, although the peers are there.\<close>

theorem profile_mounted_outcome:
  assumes "auth_user auth = Some u" "au_Identifier u = Some i" "latin1 i"
    and "0 < pageSize s" "re_peers r = Inr ps"
  shows "case re_stats r of
      Inr (Some st) \<Rightarrow> (\<exists>t es. profile_mounted auth r s = Returns () t es \<and> prof_peers t = ps
        \<and> tb_stats t = r_Stats st \<and> \<not> fetching t
        \<and> prof_interfaces t = (case re_interfaces r of Inr ifs \<Rightarrow> ifs | Inl _ \<Rightarrow> [])
        \<and> prof_user t = (case re_user r of Inr v \<Rightarrow> Some v | Inl _ \<Rightarrow> None)
        \<and> pages t = [1..page_count (FilteredPeerCount t) (pageSize t)])
    | _ \<Rightarrow> (\<exists>t es. profile_mounted auth r s = Throws TypeError t es \<and> prof_peers t = ps
        \<and> prof_interfaces t = prof_interfaces s \<and> pages t = pages s \<and> fetching t)"
proof -
  have cur: "currentUser auth = Inr i" using assms by (simp add: currentUser_def)
  show ?thesis
    using assms(3-5)
    by (cases "re_user r"; cases "re_interfaces r")
      (auto simp: profile_mounted_def LoadUser_begin_def profile_LoadPeers_begin_def
        profile_LoadStats_begin_def profile_LoadInterfaces_begin_def own_request_run cur
        encoded_request_cases LoadUser_settle_def profile_LoadPeers_settle_def
        profile_LoadStats_settle_def profile_LoadInterfaces_settle_def setUser_def
        profile_setPeers_def profile_setInterfaces_def set_fetching_def notify_backend_def
        profile_calculate FilteredPeerCount_def FilteredPeers_def js_run
        split: sum.split option.split)
qed

definition logged_in :: auth_store where
  "logged_in = \<lparr>auth_user = Some \<lparr>au_Identifier = Some (js ''admin''), au_Firstname = None,
     au_Lastname = None, au_Email = None, au_IsAdmin = None\<rparr>, providers = [], returnUrl = None,
     webAuthnCredentials = Some [], auth_fetching = False, storage = Map.empty\<rparr>"

theorem profile_mounted_outcome_witness:
  "\<exists>t es. profile_mounted logged_in \<lparr>re_user = Inr freshUser, re_peers = Inr [freshPeer],
       re_stats = Inl TypeError, re_interfaces = Inr []\<rparr> profile_init = Throws TypeError t es
     \<and> prof_peers t = [freshPeer] \<and> pages t = []"
  using profile_mounted_outcome [of logged_in _ "js ''admin''" profile_init "\<lparr>re_user = Inr freshUser,
      re_peers = Inr [freshPeer], re_stats = Inl TypeError, re_interfaces = Inr []\<rparr>" "[freshPeer]"]
  by (auto simp: logged_in_def profile_init_def)

text \<open>Sorted by traffic, the profile's table throws as soon as one of at least two matching
  peers has no entry in the statistics, which the peer administration's table takes as no
  traffic.\<close>

theorem profile_traffic_throws:
  assumes "sortKey s = Traffic" "statsEnabled s" "2 \<le> length (FilteredPeers s)"
    and "p \<in> set (FilteredPeers s)" "tb_stats s (p_Identifier p) = None"
  shows "isl (FilteredAndPagedPeers lib toNum s)"
proof -
  have "profile_value lib s (sortKey s) p = Inl TypeError" using assms by simp
  from sort_rows_throws [of "FilteredPeers s" p "profile_value lib s (sortKey s)", OF assms(3,4) this]
  show ?thesis by (auto simp: FilteredAndPagedPeers_def profile_Sorted_def isl_def)
qed

theorem profile_traffic_throws_witness:
  "isl (FilteredAndPagedPeers no_library (\<lambda>_. None) (profile_init\<lparr>sortKey := Traffic, statsEnabled := True,
     prof_peers := [freshPeer, freshPeer]\<rparr>))"
  using profile_traffic_throws [of "profile_init\<lparr>sortKey := Traffic, statsEnabled := True,
     prof_peers := [freshPeer, freshPeer]\<rparr>" freshPeer no_library "\<lambda>_. None"]
  by (simp add: profile_init_def FilteredPeers_def)

definition profile_column :: "ip_library \<Rightarrow> profile_store \<Rightarrow> peer \<Rightarrow> sort_value" where
  "profile_column lib s p = (case profile_value lib s (sortKey s) p of Inr v \<Rightarrow> v | Inl _ \<Rightarrow> SNull)"

text \<open>When every matching peer has a value in the column, and with the expiry date as the
  column all have a date or none has, the profile's table is the matching peers sorted by the
  column, each exactly once, ties in order.\<close>

theorem profile_table_sorted:
  assumes "\<forall>p \<in> set (FilteredPeers s). \<not> isl (profile_value lib s (sortKey s) p)"
    and "sortKey s \<noteq> ExpiresAt \<or> (\<forall>p \<in> set (FilteredPeers s). p_ExpiresAt p = None)
      \<or> (\<forall>p \<in> set (FilteredPeers s). p_ExpiresAt p \<noteq> None)"
  shows "\<exists>rows. profile_Sorted lib toNum s = Inr rows \<and> mset rows = mset (FilteredPeers s)
    \<and> sorted_wrt (row_le (profile_column lib s) (sortOrder s)) rows
    \<and> (\<forall>p. filter (\<lambda>q. profile_column lib s q = profile_column lib s p) rows
         = filter (\<lambda>q. profile_column lib s q = profile_column lib s p) (FilteredPeers s))"
proof -
  let ?k = "profile_column lib s" and ?xs = "FilteredPeers s"
  have "\<forall>p \<in> set ?xs. profile_value lib s (sortKey s) p = Inr (?k p)"
    using assms(1) by (auto simp: profile_column_def isl_def split: sum.split)
  moreover have "same_kind (?k x) (?k y)" if xy: "x \<in> set ?xs" "y \<in> set ?xs" for x y
  proof -
    from assms(1) xy have "\<not> isl (profile_value lib s (sortKey s) x)"
      "\<not> isl (profile_value lib s (sortKey s) y)" by simp_all
    with assms(2) xy show ?thesis by (cases "sortKey s")
      (auto simp: profile_column_def isl_def split: sum.splits option.splits if_splits)
  qed
  ultimately have "profile_Sorted lib toNum s = Inr (reference_sort ?k (sortOrder s) ?xs)"
    unfolding profile_Sorted_def by (intro sort_rows_reference) auto
  then show ?thesis
    using reference_sort_spec [where k = ?k and sortOrder = "sortOrder s" and xs = ?xs]
    by (simp add: ties_row_le [abs_def])
qed

theorem profile_table_sorted_witness:
  "\<exists>rows. profile_Sorted no_library (\<lambda>_. None)
       (profile_init\<lparr>sortKey := DisplayName, prof_peers := [freshPeer]\<rparr>) = Inr rows
     \<and> mset rows = {#freshPeer#}"
  using profile_table_sorted [of "profile_init\<lparr>sortKey := DisplayName, prof_peers := [freshPeer]\<rparr>"
      no_library "\<lambda>_. None"]
  by (auto simp: profile_init_def FilteredPeers_def)

text \<open>Switching the API access on or off ends in one of two ways: with the backend's new user
  shown, or with the old one kept and one message; the flag is cleared either way.\<close>

theorem api_switch_outcome:
  "\<exists>t es. (if on then enableApi_settle reply s else disableApi_settle reply s) = Returns () t es
     \<and> \<not> fetching t \<and> prof_peers t = prof_peers s
     \<and> (case reply of Inr v \<Rightarrow> prof_user t = Some v \<and> es = []
        | Inl _ \<Rightarrow> prof_user t = prof_user s \<and> length es = 1)"
  by (cases reply) (simp_all add: enableApi_settle_def disableApi_settle_def setUser_def
      set_fetching_def notify_backend_def js_run)

text \<open>The profile's requests are about the logged-in user and nobody else; without one they
  throw before anything is sent.\<close>

theorem own_requests_addressed:
  "case auth_user auth of
     None \<Rightarrow> enableApi_begin auth s = Throws TypeError (s\<lparr>fetching := True\<rparr>) []
       \<and> disableApi_begin auth s = Throws TypeError (s\<lparr>fetching := True\<rparr>) []
       \<and> LoadUser_begin auth s = Throws TypeError (s\<lparr>fetching := True\<rparr>) []
   | Some u \<Rightarrow> (case au_Identifier u of None \<Rightarrow> True | Some i \<Rightarrow>
       addressed (s\<lparr>fetching := True\<rparr>) POST ''/user/'' i (js ''/api/enable'') None (enableApi_begin auth s)
       \<and> addressed (s\<lparr>fetching := True\<rparr>) POST ''/user/'' i (js ''/api/disable'') None
            (disableApi_begin auth s)
       \<and> addressed (s\<lparr>fetching := True\<rparr>) GET ''/user/'' i (js []) None (LoadUser_begin auth s))"
  using addressed_encoded_request [of "\<lambda>s. s\<lparr>fetching := True\<rparr>" s]
  by (auto simp: enableApi_begin_def disableApi_begin_def LoadUser_begin_def own_request_run
      currentUser_def andThen_def bind_def modify_def simp del: js_Nil split: option.split)

end
