(* ===== verification/Settings.thy ===== *)
theory Settings
  imports JS_Base
begin

text \<open>The settings the backend publishes to the frontend, \<open>stores/settings.js\<close>.\<close>

record settings_store =
  settings :: "(jsstr \<times> jsval) list"

definition settings_init :: settings_store where
  "settings_init = \<lparr>settings = []\<rparr>"

definition Setting :: "settings_store \<Rightarrow> jsstr \<Rightarrow> jsval option" where
  "Setting s key = map_of (settings s) key"

definition setSettings :: "(jsstr \<times> jsval) list \<Rightarrow> (settings_store, unit) comp" where
  "setSettings data = modify (\<lambda>s. s\<lparr>settings := data\<rparr>)"

definition LoadSettings_begin :: "(settings_store, unit request) comp" where
  "LoadSettings_begin = return (Request GET (js ''/config/settings'') None)"

definition LoadSettings_settle :: "(jsstr \<times> jsval) list settled \<Rightarrow> (settings_store, unit) comp" where
  "LoadSettings_settle reply =
     then_catch reply (\<lambda>data. setSettings data)
       (\<lambda>error. andThen (setSettings [])
          (emit (Notify (js ''Backend Connection Failure'') (Text (js ''Failed to load settings!''))
             None)))"

lemma LoadSettings_settle_cases:
  "LoadSettings_settle reply s = (case reply of
     Inr data \<Rightarrow> Returns () (s\<lparr>settings := data\<rparr>) []
   | Inl _ \<Rightarrow> Returns () (s\<lparr>settings := []\<rparr>)
       [Notify (js ''Backend Connection Failure'') (Text (js ''Failed to load settings!'')) None])"
  by (cases reply) (simp_all add: LoadSettings_settle_def setSettings_def js_run)

end
