(* ===== verification/Router.thy ===== *)
theory Router
  imports Auth
begin

text \<open>
  Navigation, \<open>router/index.js\<close>: the route table, the guard that runs before every navigation
  (the end of an OAuth login, and the redirection of visitors to the login page) and the hook
  that runs after it. The router library's part is the parameter \<open>resolve\<close>, which turns a path
  into a location, and the loop that runs the guard again on the target of a redirection.
\<close>

section \<open>Locations and routes\<close>

record location =
  to_path :: jsstr
  to_fullPath :: jsstr
  to_query :: "jsstr \<rightharpoonup> jsstr"

definition routes :: "(jsstr \<times> jsstr) list" where
  "routes = map (map_prod js js)
     [(''/'', ''home''), (''/login'', ''login''), (''/interface'', ''interface''),
      (''/interfaces'', ''interfaces''), (''/users'', ''users''), (''/profile'', ''profile''),
      (''/settings'', ''settings''), (''/audit'', ''audit''), (''/key-generator'', ''key-generator'')]"

definition publicPages :: "jsstr list" where
  "publicPages = map js [''/'', ''/login'', ''/key-generator'']"

definition csrfPages :: "jsstr list" where
  "csrfPages = map js [''/'', ''/login'']"

definition authRequired :: "location \<Rightarrow> bool" where
  "authRequired to = (to_path to \<notin> set publicPages)"

section \<open>The guard\<close>

text \<open>
  The guard lets the navigation pass or redirects it. \<open>session\<close> is what the request for the
  session would settle to; it is sent only after a successful OAuth login and while nobody is
  logged in, so that a denial of it logs nobody out.
\<close>

datatype verdict = Proceed | Redirect jsstr

definition beforeEach ::
  "(auth_user \<Rightarrow> jsstr) \<Rightarrow> session settled \<Rightarrow> location \<Rightarrow> (auth_store, verdict) comp" where
  "beforeEach showUser session to =
     bind (gets IsAuthenticated) (\<lambda>authenticated.
     bind (gets ReturnUrl) (\<lambda>returnUrl.
       (case to_query to (js ''wgLoginState'') of
          Some state \<Rightarrow>
            if \<not> authenticated
            then (if state = js ''success''
              then catch
                (bind LoadSession_begin (\<lambda>_. bind (LoadSession_settle showUser session) (\<lambda>uid.
                  andThen (notify_success ''Logged in'' ''Authentication suceeded!'')
                    (andThen ResetReturnUrl (return (Redirect returnUrl))))))
                (\<lambda>e. andThen (notify_error ''Login failed!'' (Text (js ''Oauth session is invalid!'')))
                  (return (Redirect (js ''/login''))))
              else andThen (notify_error ''Login failed!'' (Text (js ''Authentication via Oauth failed!'')))
                (return (Redirect (js ''/login''))))
            else return Proceed
        | None \<Rightarrow>
            if authRequired to \<and> \<not> authenticated
            then andThen (SetReturnUrl (to_fullPath to)) (return (Redirect (js ''/login'')))
            else return Proceed)))"

text \<open>
  After the navigation: a page in \<open>csrfPages\<close> waits for a fresh CSRF token.
\<close>

definition afterEach :: "location \<Rightarrow> jsstr settled \<Rightarrow> (security_store, unit) comp" where
  "afterEach to reply =
     (if to_path to \<in> set csrfPages
      then bind LoadSecurityProperties_begin (\<lambda>_. LoadSecurityProperties_settle reply)
      else return ())"

text \<open>
  A navigation: the guard is run on the target, and again on the target of each redirection.
  The fuel bounds the number of guards; \<open>None\<close> is running out of it.
\<close>

fun navigate :: "nat \<Rightarrow> (auth_user \<Rightarrow> jsstr) \<Rightarrow> (jsstr \<Rightarrow> location) \<Rightarrow> session settled
    \<Rightarrow> location \<Rightarrow> (auth_store, location option) comp" where
  "navigate 0 showUser resolve session to = return None"
| "navigate (Suc n) showUser resolve session to =
     bind (beforeEach showUser session to) (\<lambda>v. case v of
         Proceed \<Rightarrow> return (Some to)
       | Redirect p \<Rightarrow> navigate n showUser resolve session (resolve p))"

section \<open>Properties\<close>

definition login_page :: "(jsstr \<Rightarrow> location) \<Rightarrow> bool" where
  "login_page resolve \<longleftrightarrow> to_path (resolve (js ''/login'')) = js ''/login''
     \<and> to_query (resolve (js ''/login'')) (js ''wgLoginState'') = None"

lemma login_public: "js ''/login'' \<in> set publicPages"
  by (simp add: publicPages_def)

lemma guard_authenticated: "IsAuthenticated s \<Longrightarrow> beforeEach showUser se to s = Returns Proceed s []"
  by (simp add: beforeEach_def js_run split: option.split)

lemma guard_login: "login_page resolve \<Longrightarrow>
    beforeEach showUser se (resolve (js ''/login'')) s = Returns Proceed s []"
  by (simp add: beforeEach_def login_page_def authRequired_def login_public js_run)

lemma guard_restricted:
  "\<not> IsAuthenticated s \<Longrightarrow> to_query to (js ''wgLoginState'') = None \<Longrightarrow> authRequired to \<Longrightarrow>
     beforeEach showUser se to s = Returns (Redirect (js ''/login''))
       (s\<lparr>returnUrl := Some (to_fullPath to),
          storage := (storage s)(js ''returnUrl'' \<mapsto> to_fullPath to)\<rparr>) []"
  by (simp add: beforeEach_def SetReturnUrl_def js_run)

lemma guard_public:
  "to_query to (js ''wgLoginState'') = None \<Longrightarrow> \<not> authRequired to \<Longrightarrow>
     beforeEach showUser se to s = Returns Proceed s []"
  by (simp add: beforeEach_def js_run)

lemma guard_oauth:
  assumes "\<not> IsAuthenticated s" "to_query to (js ''wgLoginState'') = Some state"
  shows "\<exists>t es. if state = js ''success'' \<and> (\<exists>se. session = Inr se \<and> se_LoggedIn se)
    then beforeEach showUser session to s = Returns (Redirect (ReturnUrl s)) t es
      \<and> IsAuthenticated t \<and> ReturnUrl t = js ''/'' \<and> storage t (js ''returnUrl'') = None
    else beforeEach showUser session to s = Returns (Redirect (js ''/login'')) t es
      \<and> \<not> IsAuthenticated t \<and> returnUrl t = returnUrl s"
  using assms
  by (cases session; cases "se_LoggedIn (projr session)"; cases "state = js ''success''")
    (auto simp: beforeEach_def LoadSession_begin_def LoadSession_settle_def
      setUserInfo_def ResetReturnUrl_def notify_success_def notify_error_def IsAuthenticated_def
      ReturnUrl_def js_run)

lemma navigation_ends:
  assumes "login_page resolve"
  shows "\<exists>loc t es. navigate 2 showUser resolve session to s = Returns (Some loc) t es
    \<and> (IsAuthenticated t \<or> \<not> authRequired loc)
    \<and> (loc = to \<or> loc = resolve (js ''/login'')
       \<or> (\<not> IsAuthenticated s \<and> IsAuthenticated t \<and> loc = resolve (ReturnUrl s)))"
proof -
  have two: "navigate 2 showUser resolve session to s =
      bind (beforeEach showUser session to) (\<lambda>v. case v of
         Proceed \<Rightarrow> return (Some to)
       | Redirect p \<Rightarrow> bind (beforeEach showUser session (resolve p)) (\<lambda>v. case v of
           Proceed \<Rightarrow> return (Some (resolve p)) | Redirect q \<Rightarrow> return None)) s"
    by (simp add: numeral_2_eq_2 cong: verdict.case_cong)
  have login: "\<not> authRequired (resolve (js ''/login''))"
    using assms by (simp add: authRequired_def login_page_def login_public)
  consider "IsAuthenticated s"
    | state where "\<not> IsAuthenticated s" "to_query to (js ''wgLoginState'') = Some state"
    | "\<not> IsAuthenticated s" "to_query to (js ''wgLoginState'') = None" by blast
  then show ?thesis
  proof cases
    case 1
    then show ?thesis by (auto simp: two guard_authenticated js_run)
  next
    case 2
    with guard_oauth [of s to state session showUser] obtain t es where
      "beforeEach showUser session to s = Returns (Redirect (ReturnUrl s)) t es \<and> IsAuthenticated t
       \<or> beforeEach showUser session to s = Returns (Redirect (js ''/login'')) t es"
      by (metis (full_types))
    then show ?thesis
    proof
      assume "beforeEach showUser session to s = Returns (Redirect (ReturnUrl s)) t es \<and> IsAuthenticated t"
      then show ?thesis using 2 by (auto simp: two guard_authenticated js_run)
    next
      assume "beforeEach showUser session to s = Returns (Redirect (js ''/login'')) t es"
      then show ?thesis using login by (auto simp: two guard_login [OF assms] js_run)
    qed
  next
    case 3
    then show ?thesis
      using login
      by (cases "authRequired to")
        (auto simp: two guard_restricted guard_public guard_login [OF assms] js_run)
  qed
qed

text \<open>C13. Every navigation ends after at most one redirection, on the page asked for, on the
  login page, or, at the end of an OAuth login, on the remembered one; and it never ends on a
  restricted page without a logged-in user.\<close>

theorem navigation_safe:
  assumes "login_page resolve"
  shows "\<exists>loc t es. navigate 2 showUser resolve session to s = Returns (Some loc) t es
    \<and> (IsAuthenticated t \<or> \<not> authRequired loc)
    \<and> (loc = to \<or> loc = resolve (js ''/login'')
       \<or> (\<not> IsAuthenticated s \<and> IsAuthenticated t \<and> loc = resolve (ReturnUrl s)))"
  using assms by (rule navigation_ends)

definition simple_resolve :: "jsstr \<Rightarrow> location" where
  "simple_resolve p = \<lparr>to_path = p, to_fullPath = p, to_query = Map.empty\<rparr>"

definition visitor :: auth_store where
  "visitor = \<lparr>auth_user = None, providers = [], returnUrl = None, webAuthnCredentials = Some [],
     auth_fetching = False, storage = Map.empty\<rparr>"

lemma simple_login_page: "login_page simple_resolve"
  by (simp add: login_page_def simple_resolve_def)

theorem navigation_safe_witness:
  "\<exists>loc t es. navigate 2 (\<lambda>_. []) simple_resolve (Inl TypeError) (simple_resolve (js ''/users'')) visitor
       = Returns (Some loc) t es \<and> (IsAuthenticated t \<or> \<not> authRequired loc)"
  using navigation_safe [OF simple_login_page, of "\<lambda>_. []" "Inl TypeError"
      "simple_resolve (js ''/users'')" visitor] by blast

text \<open>C37. An OAuth login leads back to where the visitor wanted to go: the restricted page is
  remembered, in the store and in the local storage, when the visitor is sent to the login page,
  and the successful callback ends on it and forgets it.\<close>

theorem oauth_returns_to_destination:
  assumes "login_page resolve" "\<not> IsAuthenticated s"
    and "authRequired to" "to_query to (js ''wgLoginState'') = None" "to_fullPath to \<noteq> []"
    and "to_query callback (js ''wgLoginState'') = Some (js ''success'')" "se_LoggedIn se"
  shows "\<exists>t es u fs. navigate 2 showUser resolve r to s = Returns (Some (resolve (js ''/login''))) t es
    \<and> ReturnUrl t = to_fullPath to \<and> storage t (js ''returnUrl'') = Some (to_fullPath to)
    \<and> navigate 2 showUser resolve (Inr se) callback t = Returns (Some (resolve (to_fullPath to))) u fs
    \<and> IsAuthenticated u \<and> ReturnUrl u = js ''/''"
proof -
  let ?t = "s\<lparr>returnUrl := Some (to_fullPath to),
    storage := (storage s)(js ''returnUrl'' \<mapsto> to_fullPath to)\<rparr>"
  have first: "navigate 2 showUser resolve r to s = Returns (Some (resolve (js ''/login''))) ?t []"
    using assms by (simp add: numeral_2_eq_2 guard_restricted guard_login bind_def return_def)
  have t: "\<not> IsAuthenticated ?t" "ReturnUrl ?t = to_fullPath to"
    using assms(2,5) by (simp_all add: IsAuthenticated_def ReturnUrl_def)
  from guard_oauth [OF t(1) assms(6), of "Inr se" showUser] assms(7) t(2)
  obtain u es where "beforeEach showUser (Inr se) callback ?t = Returns (Redirect (to_fullPath to)) u es"
    "IsAuthenticated u" "ReturnUrl u = js ''/''" by auto
  then have "navigate 2 showUser resolve (Inr se) callback ?t
      = Returns (Some (resolve (to_fullPath to))) u es"
    by (simp add: numeral_2_eq_2 guard_authenticated bind_def return_def)
  with first t \<open>IsAuthenticated u\<close> \<open>ReturnUrl u = js ''/''\<close> show ?thesis by auto
qed

definition sample_session :: session where
  "sample_session = \<lparr>se_LoggedIn = True, se_IsAdmin = Some False,
     se_UserIdentifier = Some (js ''u''), se_UserFirstname = None, se_UserLastname = None,
     se_UserEmail = None\<rparr>"

theorem oauth_returns_to_destination_witness:
  "\<exists>t es u fs. navigate 2 (\<lambda>_. []) simple_resolve (Inl TypeError) (simple_resolve (js ''/users'')) visitor
       = Returns (Some (simple_resolve (js ''/login''))) t es
     \<and> navigate 2 (\<lambda>_. []) simple_resolve (Inr sample_session)
         \<lparr>to_path = js ''/'', to_fullPath = js ''/'', to_query = [js ''wgLoginState'' \<mapsto> js ''success'']\<rparr> t
       = Returns (Some (simple_resolve (js ''/users''))) u fs"
  using oauth_returns_to_destination [OF simple_login_page, of visitor "simple_resolve (js ''/users'')"
      "\<lparr>to_path = js ''/'', to_fullPath = js ''/'', to_query = [js ''wgLoginState'' \<mapsto> js ''success'']\<rparr>"
      sample_session "\<lambda>_. []" "Inl TypeError"]
  by (auto simp: visitor_def IsAuthenticated_def authRequired_def publicPages_def simple_resolve_def
      sample_session_def)

text \<open>The CSRF token is renewed on the start page and on the login page, whatever the answer,
  and on no other page.\<close>

theorem afterEach_outcome:
  "\<exists>t es. afterEach to reply s = Returns () t es
     \<and> CsrfToken t = (if to_path to \<in> {js ''/'', js ''/login''}
         then (case reply of Inr token \<Rightarrow> token | Inl _ \<Rightarrow> []) else CsrfToken s)"
  by (auto simp: afterEach_def csrfPages_def LoadSecurityProperties_begin_def
      LoadSecurityProperties_settle_def SetCsrfToken_def CsrfToken_def js_run split: sum.split)

end
