(* ===== verification/Portal.thy ===== *)
theory Portal
  imports Router Settings Fetch
begin

text \<open>
  The frame of the application and its entrance: the start-up of \<open>App.vue\<close>, the user's name in
  the menu, and \<open>views/LoginView.vue\<close>. Their state is the stores they use, side by side.
\<close>

section \<open>State\<close>

record portal =
  po_auth :: auth_store
  po_security :: security_store
  po_settings :: settings_store
  po_loggingIn :: bool

definition on_auth :: "(auth_store, 'a) comp \<Rightarrow> (portal, 'a) comp" where
  "on_auth = zoom po_auth (\<lambda>a s. s\<lparr>po_auth := a\<rparr>)"

definition on_security :: "(security_store, 'a) comp \<Rightarrow> (portal, 'a) comp" where
  "on_security = zoom po_security (\<lambda>a s. s\<lparr>po_security := a\<rparr>)"

definition on_settings :: "(settings_store, 'a) comp \<Rightarrow> (portal, 'a) comp" where
  "on_settings = zoom po_settings (\<lambda>a s. s\<lparr>po_settings := a\<rparr>)"

section \<open>Start-up\<close>



section \<open>The user's name in the menu\<close>

text \<open>
  A property that is undefined differs from the empty text, and is written out as its name when
  it is joined with a text; the length of an undefined name throws. \<open>wide\<close> is the width test of
  the window; the padding is no-break spaces.
\<close>

definition shown :: "jsstr option \<Rightarrow> jsstr" where
  "shown t = (case t of None \<Rightarrow> js ''undefined'' | Some u \<Rightarrow> u)"

definition padStart :: "nat \<Rightarrow> 16 word \<Rightarrow> jsstr \<Rightarrow> jsstr" where
  "padStart n c t = replicate (n - length t) c @ t"

definition chosen_name :: "auth_user option \<Rightarrow> jsstr option" where
  "chosen_name au = (case au of
      None \<Rightarrow> Some (js ''Unknown'')
    | Some u \<Rightarrow>
       (if au_Firstname u = Some [] \<and> au_Lastname u = Some [] then au_Identifier u
        else if au_Firstname u = Some [] \<and> au_Lastname u \<noteq> Some [] then au_Lastname u
        else if au_Firstname u \<noteq> Some [] \<and> au_Lastname u = Some [] then au_Firstname u
        else Some (shown (au_Firstname u) @ js '' '' @ shown (au_Lastname u))))"

definition userDisplayName :: "bool \<Rightarrow> auth_store \<Rightarrow> jsstr settled" where
  "userDisplayName wide s = (case chosen_name (auth_user s) of
      None \<Rightarrow> Inl TypeError
    | Some t \<Rightarrow> if length t < 20 \<and> wide then Inr (padStart 20 160 t) else Inr t)"

section \<open>The login view\<close>

definition usernameInvalid :: "jsstr \<Rightarrow> bool" where
  "usernameInvalid username = (username = [])"

definition passwordInvalid :: "jsstr \<Rightarrow> bool" where
  "passwordInvalid password = (password = [])"

definition disableLoginBtn :: "portal \<Rightarrow> jsstr \<Rightarrow> jsstr \<Rightarrow> bool" where
  "disableLoginBtn s username password = (username = [] \<or> password = [] \<or> po_loggingIn s)"

definition showLoginForm :: "portal \<Rightarrow> (jsstr \<rightharpoonup> jsstr) \<Rightarrow> bool" where
  "showLoginForm s query \<longleftrightarrow>
     (case Setting (po_settings s) (js ''LoginFormVisible'') of Some v \<Rightarrow> truthy v | None \<Rightarrow> False)
     \<or> query (js ''all'') \<noteq> None"

definition set_loggingIn :: "bool \<Rightarrow> (portal, unit) comp" where
  "set_loggingIn b = modify (\<lambda>s. s\<lparr>po_loggingIn := b\<rparr>)"

text \<open>
  What follows a login, by password and by passkey alike: on success a message, the reload of
  the settings, which is not awaited, and the navigation to the return URL; on failure a message
  and, a second later, \<open>login_timeout\<close>.
\<close>

definition login_succeeded :: "(portal, unit) comp" where
  "login_succeeded =
     andThen (notify_success ''Logged in'' ''Authentication succeeded!'')
    (andThen (set_loggingIn False)
    (andThen (bind (on_settings LoadSettings_begin) (\<lambda>q. emit (Send (req_method q) (req_path q))))
       (bind (on_auth (gets ReturnUrl)) (\<lambda>link. emit (Push link)))))"

definition login_rejected :: "(portal, unit) comp" where
  "login_rejected = notify_error ''Login failed!'' (Text (js ''Authentication failed!''))"

definition login_timeout :: "(portal, unit) comp" where
  "login_timeout = set_loggingIn False"

definition login ::
  "(auth_user \<Rightarrow> jsstr) \<Rightarrow> jsstr \<Rightarrow> jsstr \<Rightarrow> auth_user reply \<Rightarrow> (portal, unit) comp" where
  "login showUser username password reply =
     andThen (set_loggingIn True)
       (catch
         (bind (on_auth (bind (Login_begin username password) (\<lambda>_.
              answered showUser reply (Login_settle showUser))))
            (\<lambda>uid. login_succeeded))
         (\<lambda>error. login_rejected))"

text \<open>The passkey button of the login page; here nobody is logged in, so no automatic logout.\<close>

definition loginWebAuthn ::
  "(auth_user \<Rightarrow> jsstr) \<Rightarrow> bool \<Rightarrow> 'o settled \<Rightarrow> ('o \<Rightarrow> 'r settled) \<Rightarrow> ('r \<Rightarrow> auth_user settled)
     \<Rightarrow> (portal, unit) comp" where
  "loginWebAuthn showUser supported started startAuthentication finish =
     andThen (set_loggingIn True)
       (catch
         (bind (on_auth (LoginWebAuthn showUser supported started startAuthentication finish))
            (\<lambda>uid. login_succeeded))
         (\<lambda>error. login_rejected))"

text \<open>
  The address of an external login: the provider's, with the current page to come back to.
  \<open>encodeURIComponent\<close> is an argument.
\<close>

definition externalLogin ::
  "(jsstr \<Rightarrow> jsstr) \<Rightarrow> jsstr \<Rightarrow> jsstr \<Rightarrow> location \<Rightarrow> provider \<Rightarrow> (portal, jsstr) comp" where
  "externalLogin encodeURIComponent base origin route p =
     andThen (set_loggingIn True)
       (let currentUri = origin @ js ''/#'' @ to_fullPath route;
            redirectUrl1 = base @ pr_ProviderUrl p;
            redirectUrl2 = redirectUrl1 @ js ''?redirect=true'';
            redirectUrl3 = redirectUrl2 @ js ''&return='' @ encodeURIComponent currentUri
        in return redirectUrl3)"

lemmas portal_defs =
  on_auth_def on_security_def on_settings_def set_loggingIn_def login_succeeded_def
  login_rejected_def LoadSettings_begin_def notify_success_def notify_error_def

section \<open>Properties\<close>


text \<open>A login with the form, or with a passkey whose ceremony succeeds, always leads to the
  start page: the login resets the return URL before the view reads it, so the page the guard
  remembered is never reached this way. A failed login leaves nobody logged in and the button
  disabled until the timeout; it keeps the remembered page, unless it is denied while somebody is
  logged in, which sends a logout as well.\<close>

theorem login_outcome:
  "case reply of
     Accepted user \<Rightarrow> (\<exists>t. login showUser username password reply s = Returns () t
          [Notify (js ''Logged in'') (Text (js ''Authentication succeeded!'')) (Some (js ''success'')),
           Send GET (js ''/config/settings''), Push (js ''/'')]
        \<and> loginWebAuthn showUser True (Inr opts) (\<lambda>_. Inr resp) (\<lambda>_. Inr user) s = Returns ()
            (t\<lparr>po_auth := (po_auth t)\<lparr>auth_fetching := True\<rparr>\<rparr>)
          [Notify (js ''Logged in'') (Text (js ''Authentication succeeded!'')) (Some (js ''success'')),
           Send GET (js ''/config/settings''), Push (js ''/'')]
        \<and> IsAuthenticated (po_auth t) \<and> \<not> po_loggingIn t)
   | _ \<Rightarrow> (\<exists>t. login showUser username password reply s = Returns () t
          ((if denial reply \<and> IsAuthenticated (po_auth s) then [Send POST (js ''/auth/logout'')] else [])
           @ [Notify (js ''Login failed!'') (Text (js ''Authentication failed!'')) (Some (js ''error''))])
        \<and> \<not> IsAuthenticated (po_auth t)
        \<and> ReturnUrl (po_auth t) = (if denial reply \<and> IsAuthenticated (po_auth s) then js ''/'' else ReturnUrl (po_auth s))
        \<and> disableLoginBtn t username password
        \<and> (\<exists>u. login_timeout t = Returns () u [] \<and> \<not> po_loggingIn u))"
  by (cases reply) (auto simp: login_def loginWebAuthn_def login_timeout_def portal_defs answered_run
      settled_reply_def denial_def logged_out_def
      Login_begin_def Login_settle_def LoginWebAuthn_def set_auth_fetching_def setUserInfo_def
      ResetReturnUrl_def IsAuthenticated_def ReturnUrl_def disableLoginBtn_def js_run)

text \<open>The name in the menu of a user with an identifier and both names given, possibly
  empty, is what the profile says and fills the menu's width; without the names it reads
  \<open>undefined undefined\<close>, and with empty names and no identifier it throws.\<close>

theorem userDisplayName_outcome:
  "(case auth_user s of
     None \<Rightarrow> userDisplayName False s = Inr (js ''Unknown'')
   | Some u \<Rightarrow> (case (au_Firstname u, au_Lastname u) of
       (Some f, Some l) \<Rightarrow> userDisplayName False s = (if f = [] \<and> l = []
          then (case au_Identifier u of None \<Rightarrow> Inl TypeError | Some i \<Rightarrow> Inr i)
          else Inr (f @ (if f = [] \<or> l = [] then [] else js '' '') @ l))
     | (None, None) \<Rightarrow> userDisplayName False s = Inr (js ''undefined undefined'')
     | _ \<Rightarrow> True))
   \<and> (case userDisplayName True s of Inr t \<Rightarrow> 20 \<le> length t
        \<and> (\<exists>v. userDisplayName False s = Inr v \<and> suffix v t) | Inl e \<Rightarrow> e = TypeError)"
proof -
  have "suffix v (padStart 20 160 v)" for v by (simp add: padStart_def suffix_def)
  then have wide: "case userDisplayName True s of Inr t \<Rightarrow> 20 \<le> length t
        \<and> (\<exists>v. userDisplayName False s = Inr v \<and> suffix v t) | Inl e \<Rightarrow> e = TypeError"
    by (auto simp: userDisplayName_def padStart_def split: option.split)
  have "js ''undefined'' @ js '' '' @ js ''undefined'' = js ''undefined undefined''"
    by (simp add: js_append)
  then show ?thesis
    using wide
    by (auto simp: userDisplayName_def chosen_name_def shown_def split: option.split)
qed

end
