(* ===== verification/Datetime.thy ===== *)
theory Datetime
  imports Utils
begin

text \<open>
  \<open>helpers/datetime.js\<close>, with the parts of JavaScript's \<open>Date\<close> it uses: the calendar of the
  language's standard, the simplified ISO format, and local time. A date is its number of
  milliseconds since 1970 in UTC, \<open>None\<close> for an invalid one. The local time zone is a fixed
  offset with a name; a change of the offset within the year is not modelled.
\<close>

section \<open>Calendar\<close>

definition DayFromYear :: "int \<Rightarrow> int" where
  "DayFromYear y = 365 * (y - 1970) + (y - 1969) div 4 - (y - 1901) div 100 + (y - 1601) div 400"

definition leap :: "int \<Rightarrow> bool" where
  "leap y = (4 dvd y \<and> (\<not> 100 dvd y \<or> 400 dvd y))"

definition month_lengths :: "bool \<Rightarrow> int list" where
  "month_lengths l = [31, if l then 29 else 28, 31, 30, 31, 30, 31, 31, 30, 31, 30, 31]"

lemma div_Suc_int:
  assumes "0 < (n :: int)"
  shows "(x + 1) div n = x div n + (if n dvd x + 1 then 1 else 0)"
proof (cases "n dvd x + 1")
  case True
  then obtain q where q: "x + 1 = n * q" by (auto simp: dvd_def)
  then have x: "x = n * (q - 1) + (n - 1)" by (simp add: algebra_simps)
  have "x div n = q - 1" using assms by (subst x) (simp add: div_add1_eq)
  with q assms True show ?thesis by simp
next
  case False
  have "(x + 1) mod n = x mod n + 1"
    using False assms by (smt (verit) dvd_eq_mod_eq_0 mod_add_left_eq mod_pos_pos_trivial
        pos_mod_bound pos_mod_sign mod_self)
  then have "n * ((x + 1) div n) = n * (x div n)"
    using minus_mod_eq_mult_div [of "x + 1" n] minus_mod_eq_mult_div [of x n] by linarith
  with False assms show ?thesis by simp
qed

lemma dvd_shift: "(n :: int) dvd y - n * k \<longleftrightarrow> n dvd y"
proof -
  have "n dvd y + n * (- k) \<longleftrightarrow> n dvd y" by (rule dvd_add_left_iff) simp
  then show ?thesis by simp
qed

lemma div_shift: "0 < (n :: int) \<Longrightarrow>
    (y + 1 - (n * k + 1)) div n = (y - (n * k + 1)) div n + (if n dvd y then 1 else 0)"
  using div_Suc_int [of n "y - (n * k + 1)"] dvd_shift [of n y k] by (simp add: algebra_simps)

lemma year_length: "DayFromYear (y + 1) = DayFromYear y + (if leap y then 366 else 365)"
proof -
  define a b c where "a = (y - 1969) div 4" and "b = (y - 1901) div 100" and "c = (y - 1601) div 400"
  have next_year: "(y + 1 - 1969) div 4 = a + (if 4 dvd y then 1 else 0)"
    "(y + 1 - 1901) div 100 = b + (if 100 dvd y then 1 else 0)"
    "(y + 1 - 1601) div 400 = c + (if 400 dvd y then 1 else 0)"
    unfolding a_def b_def c_def
    using div_shift [of 4 y 492] div_shift [of 100 y 19] div_shift [of 400 y 4] by simp_all
  have this_year: "DayFromYear y = 365 * (y - 1970) + a - b + c"
    by (simp only: DayFromYear_def a_def b_def c_def)
  have "DayFromYear (y + 1) = 365 * (y - 1970) + 365 + (a + (if 4 dvd y then 1 else 0))
      - (b + (if 100 dvd y then 1 else 0)) + (c + (if 400 dvd y then 1 else 0))"
    unfolding DayFromYear_def next_year by simp
  moreover have "400 dvd y \<Longrightarrow> 100 dvd y" by (rule dvd_trans [of 100 400]) simp_all
  moreover have "100 dvd y \<Longrightarrow> 4 dvd y" by (rule dvd_trans [of 4 100]) simp_all
  ultimately show ?thesis
    unfolding this_year leap_def by (cases "4 dvd y"; cases "100 dvd y"; cases "400 dvd y") simp_all
qed

text \<open>The year of a day: search from an estimate, down or up.\<close>

function year_search :: "int \<Rightarrow> int \<Rightarrow> int" where
  "year_search d y =
     (if d < DayFromYear y then year_search d (y - 1)
      else if DayFromYear (y + 1) \<le> d then year_search d (y + 1)
      else y)"
  by pat_completeness auto
termination
proof (relation "measures [\<lambda>(d, y). if d < DayFromYear y then 1 else 0, \<lambda>(d, y). nat \<bar>d - DayFromYear y\<bar>]")
  fix d y :: int
  assume "d < DayFromYear y"
  then show "((d, y - 1), d, y)
      \<in> measures [\<lambda>(d, y). if d < DayFromYear y then 1 else 0, \<lambda>(d, y). nat \<bar>d - DayFromYear y\<bar>]"
    using year_length [of "y - 1"] by (auto split: if_splits)
next
  fix d y :: int
  assume "\<not> d < DayFromYear y" "DayFromYear (y + 1) \<le> d"
  then show "((d, y + 1), d, y)
      \<in> measures [\<lambda>(d, y). if d < DayFromYear y then 1 else 0, \<lambda>(d, y). nat \<bar>d - DayFromYear y\<bar>]"
    using year_length [of y] by (auto split: if_splits)
qed simp

declare year_search.simps [simp del]

definition YearOfDay :: "int \<Rightarrow> int" where
  "YearOfDay d = year_search d (1970 + 400 * d div 146097)"

lemma year_search_bounds:
  "DayFromYear (year_search d y) \<le> d \<and> d < DayFromYear (year_search d y + 1)"
  by (induction d y rule: year_search.induct) (subst (1 2) year_search.simps, simp)

lemma YearOfDay_bounds: "DayFromYear (YearOfDay d) \<le> d \<and> d < DayFromYear (YearOfDay d + 1)"
  by (simp add: YearOfDay_def year_search_bounds)

text \<open>Month and day of the month, from the day of the year; and back.\<close>

fun split_month :: "int \<Rightarrow> int list \<Rightarrow> int \<Rightarrow> int \<times> int" where
  "split_month m [] n = (m, n + 1)"
| "split_month m (l # ls) n = (if n < l then (m, n + 1) else split_month (m + 1) ls (n - l))"

definition civil :: "int \<Rightarrow> int \<times> int \<times> int" where
  "civil d = (let y = YearOfDay d in (y, split_month 1 (month_lengths (leap y)) (d - DayFromYear y)))"

definition day_number :: "int \<Rightarrow> int \<Rightarrow> int \<Rightarrow> int" where
  "day_number y m dd =
     DayFromYear y + sum_list (take (nat (m - 1)) (month_lengths (leap y))) + (dd - 1)"

definition valid_civil :: "int \<Rightarrow> int \<Rightarrow> int \<Rightarrow> bool" where
  "valid_civil y m dd \<longleftrightarrow> 1 \<le> m \<and> m \<le> 12 \<and> 1 \<le> dd \<and> dd \<le> month_lengths (leap y) ! nat (m - 1)"

lemma split_month_spec:
  assumes "0 \<le> n" "n < sum_list ls"
  shows "case split_month m ls n of (m', dd) \<Rightarrow> m \<le> m' \<and> m' < m + int (length ls) \<and> 1 \<le> dd
    \<and> dd \<le> ls ! nat (m' - m) \<and> sum_list (take (nat (m' - m)) ls) + dd - 1 = n"
  using assms
proof (induction m ls n rule: split_month.induct)
  case (2 m l ls n)
  show ?case
  proof (cases "n < l")
    case False
    obtain m' dd where s: "split_month (m + 1) ls (n - l) = (m', dd)" by fastforce
    with 2 False have "m + 1 \<le> m'" "m' < m + 1 + int (length ls)" "1 \<le> dd" "dd \<le> ls ! nat (m' - (m + 1))"
      "sum_list (take (nat (m' - (m + 1))) ls) + dd - 1 = n - l" by auto
    moreover from this(1) have "nat (m' - m) = Suc (nat (m' - (m + 1)))" by linarith
    ultimately show ?thesis using False s by simp
  qed (use 2 in simp)
qed simp

lemma month_lengths_sum: "sum_list (month_lengths l) = (if l then 366 else 365)" "length (month_lengths l) = 12"
  by (simp_all add: month_lengths_def)

lemma civil_spec:
  "case civil d of (y, m, dd) \<Rightarrow> y = YearOfDay d \<and> valid_civil y m dd \<and> day_number y m dd = d"
proof -
  let ?y = "YearOfDay d"
  obtain m dd where s: "split_month 1 (month_lengths (leap ?y)) (d - DayFromYear ?y) = (m, dd)"
    by fastforce
  have "0 \<le> d - DayFromYear ?y" "d - DayFromYear ?y < sum_list (month_lengths (leap ?y))"
    using YearOfDay_bounds [of d] year_length [of ?y] by (auto simp: month_lengths_sum)
  from split_month_spec [OF this, of 1] s have "valid_civil ?y m dd" "day_number ?y m dd = d"
    by (simp_all add: valid_civil_def day_number_def month_lengths_sum)
  with s show ?thesis by (simp add: civil_def Let_def)
qed

section \<open>Digits\<close>

text \<open>A number in a fixed count of digits, and reading digits back.\<close>

fun pad :: "nat \<Rightarrow> nat \<Rightarrow> jsstr" where
  "pad 0 n = []"
| "pad (Suc k) n = pad k (n div 10) @ [js_char (char_of (48 + n mod 10))]"

definition digit_value :: "16 word \<Rightarrow> nat option" where
  "digit_value u = (if 48 \<le> unat u \<and> unat u \<le> 57 then Some (unat u - 48) else None)"

fun parse_num :: "nat \<Rightarrow> jsstr \<Rightarrow> nat option" where
  "parse_num v [] = Some v"
| "parse_num v (u # us) = (case digit_value u of None \<Rightarrow> None | Some d \<Rightarrow> parse_num (10 * v + d) us)"

lemma length_pad [simp]: "length (pad k n) = k"
  by (induction k arbitrary: n) simp_all

lemma digit_value_digit [simp]: "d < 10 \<Longrightarrow> digit_value (js_char (char_of (48 + d))) = Some d"
  by (simp add: digit_value_def unat_digit)

lemma parse_num_append:
  "parse_num v (xs @ ys) = (case parse_num v xs of None \<Rightarrow> None | Some w \<Rightarrow> parse_num w ys)"
  by (induction v xs rule: parse_num.induct) (auto split: option.split)

lemma parse_num_pad: "parse_num v (pad k n) = Some (v * 10 ^ k + n mod 10 ^ k)"
proof (induction k arbitrary: n)
  case (Suc k)
  have "n mod (10 * 10 ^ k) = 10 * (n div 10 mod 10 ^ k) + n mod 10"
    by (rule mod_mult2_eq)
  then show ?case by (simp add: parse_num_append Suc algebra_simps)
qed simp

lemma parse_num_pad_small [simp]: "n < 10 ^ k \<Longrightarrow> parse_num 0 (pad k n) = Some n"
  by (simp add: parse_num_pad)

section \<open>Dates as texts\<close>

definition msPerDay :: int where "msPerDay = 86400000"

record zone =
  offset_minutes :: int
  zone_name :: jsstr

definition local_time :: "zone \<Rightarrow> int \<Rightarrow> int" where
  "local_time z t = t + offset_minutes z * 60000"

text \<open>Years beyond four digits carry a sign and six digits; instants are bounded (\<open>TimeClip\<close>).\<close>

definition year_text :: "int \<Rightarrow> jsstr" where
  "year_text y = (if 0 \<le> y \<and> y \<le> 9999 then pad 4 (nat y)
     else (if y < 0 then js ''-'' else js ''+'') @ pad 6 (nat \<bar>y\<bar>))"

definition TimeClip :: "int \<Rightarrow> int option" where
  "TimeClip t = (if \<bar>t\<bar> \<le> 8640000000000000 then Some t else None)"

definition date_text :: "int \<Rightarrow> jsstr" where
  "date_text d = (case civil d of (y, m, dd) \<Rightarrow>
     year_text y @ js ''-'' @ pad 2 (nat m) @ js ''-'' @ pad 2 (nat dd))"

definition clock_text :: "int \<Rightarrow> jsstr" where
  "clock_text ms = pad 2 (nat (ms div 3600000)) @ js '':'' @ pad 2 (nat (ms div 60000 mod 60)) @ js '':''
     @ pad 2 (nat (ms div 1000 mod 60))"

definition RangeError :: reason where
  "RangeError = Exc (js ''RangeError'') (js ''Invalid time value'')"

definition toISOString :: "int option \<Rightarrow> jsstr settled" where
  "toISOString date = (case date of
      None \<Rightarrow> Inl RangeError
    | Some t \<Rightarrow> Inr (date_text (t div msPerDay) @ js ''T'' @ clock_text (t mod msPerDay) @ js ''.''
        @ pad 3 (nat (t mod 1000)) @ js ''Z''))"

definition offset_text :: "int \<Rightarrow> jsstr" where
  "offset_text m = (if m < 0 then js ''-'' else js ''+'') @ pad 2 (nat (\<bar>m\<bar> div 60)) @ pad 2 (nat (\<bar>m\<bar> mod 60))"

definition toTimeString :: "zone \<Rightarrow> int option \<Rightarrow> jsstr" where
  "toTimeString z date = (case date of
      None \<Rightarrow> js ''Invalid Date''
    | Some t \<Rightarrow> clock_text (local_time z t mod msPerDay) @ js '' GMT'' @ offset_text (offset_minutes z)
        @ js '' ('' @ zone_name z @ js '')'')"

text \<open>\<open>s.split('T')[0]\<close> and \<open>s.substring(0, n)\<close>.\<close>

definition split_first :: "16 word \<Rightarrow> jsstr \<Rightarrow> jsstr" where
  "split_first u s = takeWhile (\<lambda>v. v \<noteq> u) s"

section \<open>Texts as dates\<close>

text \<open>
  \<open>new Date(text)\<close> on the standard's format: a date alone is UTC midnight; a date and time is
  local unless a zone follows; digits of the second beyond the millisecond are dropped. Other
  texts, which the standard leaves to the implementation, are invalid.
\<close>

definition char_at :: "jsstr \<Rightarrow> nat \<Rightarrow> char \<Rightarrow> bool" where
  "char_at s i c = (take 1 (drop i s) = [js_char c])"

definition num_at :: "jsstr \<Rightarrow> nat \<Rightarrow> nat \<Rightarrow> int option" where
  "num_at s i n =
     (if i + n \<le> length s then map_option int (parse_num 0 (take n (drop i s))) else None)"

definition parse_year :: "jsstr \<Rightarrow> (int \<times> jsstr) option" where
  "parse_year s =
     (if char_at s 0 CHR ''+'' then map_option (\<lambda>y. (y, drop 7 s)) (num_at s 1 6)
      else if char_at s 0 CHR ''-'' then (case num_at s 1 6 of
          None \<Rightarrow> None | Some y \<Rightarrow> if y = 0 then None else Some (- y, drop 7 s))
      else map_option (\<lambda>y. (y, drop 4 s)) (num_at s 0 4))"

definition parse_month_day :: "jsstr \<Rightarrow> (int \<times> int) option" where
  "parse_month_day s =
     (case (num_at s 1 2, num_at s 4 2) of
        (Some m, Some d) \<Rightarrow> if char_at s 0 CHR ''-'' \<and> char_at s 3 CHR ''-'' then Some (m, d) else None
      | _ \<Rightarrow> None)"

definition parse_clock :: "jsstr \<Rightarrow> int option" where
  "parse_clock s =
     (case (num_at s 1 2, num_at s 4 2, num_at s 7 2) of
        (Some h, Some i, Some sec) \<Rightarrow>
          if char_at s 0 CHR ''T'' \<and> char_at s 3 CHR '':'' \<and> char_at s 6 CHR '':'' \<and> i \<le> 59 \<and> sec \<le> 59
             \<and> (h \<le> 23 \<or> h = 24 \<and> i = 0 \<and> sec = 0)
          then Some (h * 3600000 + i * 60000 + sec * 1000) else None
      | _ \<Rightarrow> None)"

definition parse_fraction :: "jsstr \<Rightarrow> int \<times> jsstr" where
  "parse_fraction s =
     (let digits = takeWhile (\<lambda>u. digit_value u \<noteq> None) (drop 1 s)
      in if char_at s 0 CHR ''.'' \<and> digits \<noteq> []
         then (int (the (parse_num 0 (take 3 (digits @ js ''000'')))), drop (1 + length digits) s)
         else (0, s))"

definition parse_zone :: "zone \<Rightarrow> jsstr \<Rightarrow> int option" where
  "parse_zone z s =
     (if s = [] then Some (offset_minutes z)
      else if s = js ''Z'' then Some 0
      else (case (num_at s 1 2, num_at s 4 2) of
          (Some h, Some i) \<Rightarrow>
            if length s = 6 \<and> char_at s 3 CHR '':'' \<and> h \<le> 23 \<and> i \<le> 59
            then (if char_at s 0 CHR ''+'' then Some (h * 60 + i)
                  else if char_at s 0 CHR ''-'' then Some (- (h * 60 + i)) else None)
            else None
        | _ \<Rightarrow> None))"

definition new_Date :: "zone \<Rightarrow> jsstr \<Rightarrow> int option" where
  "new_Date z text =
     (case parse_year text of
        None \<Rightarrow> None
      | Some (y, s) \<Rightarrow> (case parse_month_day s of
          None \<Rightarrow> None
        | Some (m, d) \<Rightarrow>
           if \<not> valid_civil y m d then None
           else if length s = 6 then TimeClip (day_number y m d * msPerDay)
           else (case parse_clock (drop 6 s) of
               None \<Rightarrow> None
             | Some ms \<Rightarrow> (case parse_fraction (drop 15 s) of (milli, s') \<Rightarrow>
                 (case parse_zone z s' of
                    None \<Rightarrow> None
                  | Some off \<Rightarrow> TimeClip (day_number y m d * msPerDay + ms + milli - off * 60000))))))"

section \<open>The helpers\<close>

definition formatRFC3339ToDate :: "zone \<Rightarrow> jsstr \<Rightarrow> jsstr" where
  "formatRFC3339ToDate z ts =
     (if ts = [] then []
      else (case toISOString (new_Date z ts) of
          Inl e \<Rightarrow> []
        | Inr isoText \<Rightarrow> split_first (js_char CHR ''T'') isoText))"

definition formatRFC3339ToTime :: "zone \<Rightarrow> jsstr \<Rightarrow> jsstr" where
  "formatRFC3339ToTime z ts =
     (if ts = [] then [] else take 5 (toTimeString z (new_Date z ts)))"

definition formatRFC3339ToDatetime :: "zone \<Rightarrow> jsstr \<Rightarrow> jsstr \<times> jsstr" where
  "formatRFC3339ToDatetime z ts =
     (if ts = [] then ([], [])
      else (let date = new_Date z ts in
        (case toISOString date of
           Inl e \<Rightarrow> ([], [])
         | Inr isoText \<Rightarrow> (split_first (js_char CHR ''T'') isoText, take 5 (toTimeString z date)))))"

definition formatDateTimeToRFC3339 :: "zone \<Rightarrow> jsstr \<Rightarrow> jsstr \<Rightarrow> jsstr" where
  "formatDateTimeToRFC3339 z dateStr timeStr =
     (if dateStr = [] then []
      else (let time = (if timeStr = [] then js ''00:00'' else timeStr);
                datetime = new_Date z (dateStr @ js ''T'' @ time @ js '':00'')
            in (case toISOString datetime of Inl e \<Rightarrow> [] | Inr result \<Rightarrow> result)))"

definition formatDateToRFC3339 :: "zone \<Rightarrow> jsstr \<Rightarrow> jsstr" where
  "formatDateToRFC3339 z dateStr = formatDateTimeToRFC3339 z dateStr (js ''00:00'')"

section \<open>Reading back what was written\<close>

lemma pad_2: "pad 2 n = [js_char (char_of (48 + n div 10 mod 10)), js_char (char_of (48 + n mod 10))]"
  by (simp add: numeral_2_eq_2)

lemma num_at_pad: "length xs = i \<Longrightarrow> n < 10 ^ k \<Longrightarrow> num_at (xs @ pad k n @ ys) i k = Some (int n)"
  by (simp add: num_at_def)

lemma char_at_append: "length xs = i \<Longrightarrow> char_at (xs @ js [c] @ ys) i c"
  by (simp add: char_at_def js_def)

lemma digit_not: "(d :: nat) < 10 \<Longrightarrow> digit_value (js_char c) = None \<Longrightarrow> js_char (char_of (48 + d)) \<noteq> js_char c"
  using digit_value_digit [of d] by (metis option.distinct(1))

lemma digit_values [simp]: "digit_value (js_char CHR ''+'') = None" "digit_value (js_char CHR ''-'') = None"
  "digit_value (js_char CHR ''T'') = None" "digit_value (js_char CHR ''.'') = None"
  by (simp_all add: digit_value_def unat_js_char)

lemma pad_hd: "0 < k \<Longrightarrow> \<exists>(d :: nat) ds. pad k n = js_char (char_of (48 + d)) # ds \<and> d < 10"
proof (induction k arbitrary: n)
  case (Suc k)
  show ?case
  proof (cases "k = 0")
    case True
    then show ?thesis by (auto intro: exI [of _ "n mod 10"])
  next
    case False
    then obtain d :: nat and ds where "pad k (n div 10) = js_char (char_of (48 + d)) # ds" "d < 10"
      using Suc.IH [of "n div 10"] by auto
    then show ?thesis by (intro exI [of _ d]) simp
  qed
qed simp

lemma set_pad: "u \<in> set (pad k n) \<Longrightarrow> digit_value u \<noteq> None"
  by (induction k arbitrary: n) auto

lemma year_text_4: "0 \<le> y \<Longrightarrow> y \<le> 9999 \<Longrightarrow> year_text y = pad 4 (nat y)"
  by (simp add: year_text_def)

lemma parse_year_text:
  assumes "0 \<le> y" "y \<le> 9999"
  shows "parse_year (year_text y @ s) = Some (y, s)"
proof -
  obtain d :: nat and ds where d: "pad 4 (nat y) = js_char (char_of (48 + d)) # ds" "d < 10"
    using pad_hd [of 4 "nat y"] by auto
  then have "\<not> char_at (year_text y @ s) 0 CHR ''+''" "\<not> char_at (year_text y @ s) 0 CHR ''-''"
    using assms digit_not [OF d(2), of "CHR ''+''"] digit_not [OF d(2), of "CHR ''-''"]
    by (simp_all add: year_text_4 char_at_def del: js_char_eq_iff)
  moreover have "num_at (year_text y @ s) 0 4 = Some y"
    using num_at_pad [of "[]" 0 "nat y" 4 s] assms by (simp add: year_text_4)
  ultimately show ?thesis using assms by (simp add: parse_year_def year_text_4)
qed

lemma parse_month_day_text:
  assumes "1 \<le> m" "m \<le> 12" "1 \<le> d" "d \<le> 31"
  shows "parse_month_day (js ''-'' @ pad 2 (nat m) @ js ''-'' @ pad 2 (nat d) @ s) = Some (m, d)"
proof -
  let ?s = "js ''-'' @ pad 2 (nat m) @ js ''-'' @ pad 2 (nat d) @ s"
  have "num_at ?s 1 2 = Some m" using assms num_at_pad [of "js ''-''" 1 "nat m" 2] by simp
  moreover have "num_at ?s 4 2 = Some d"
    using assms num_at_pad [of "js ''-'' @ pad 2 (nat m) @ js ''-''" 4 "nat d" 2 s] by simp
  moreover have "char_at ?s 0 CHR ''-''" using char_at_append [of "[]" 0 "CHR ''-''"] by simp
  moreover have "char_at ?s 3 CHR ''-''"
    using char_at_append [of "js ''-'' @ pad 2 (nat m)" 3 "CHR ''-''" "pad 2 (nat d) @ s"] by simp
  ultimately show ?thesis by (simp add: parse_month_day_def)
qed

lemma parse_clock_text:
  assumes "0 \<le> h" "h \<le> 23" "0 \<le> i" "i \<le> 59"
  shows "parse_clock (js ''T'' @ pad 2 (nat h) @ js '':'' @ pad 2 (nat i) @ js '':00'')
    = Some (h * 3600000 + i * 60000)"
proof -
  let ?s = "js ''T'' @ pad 2 (nat h) @ js '':'' @ pad 2 (nat i) @ js '':00''"
  have "char_of (48 :: nat) = CHR ''0''" by (simp add: char_of_eq_iff)
  then have zero: "js '':00'' = js '':'' @ pad 2 0" by (simp add: pad_2 js_def)
  have "num_at ?s 1 2 = Some h" using assms num_at_pad [of "js ''T''" 1 "nat h" 2] by simp
  moreover have "num_at ?s 4 2 = Some i"
    using assms num_at_pad [of "js ''T'' @ pad 2 (nat h) @ js '':''" 4 "nat i" 2 "js '':00''"] by simp
  moreover have "num_at ?s 7 2 = Some 0"
    using num_at_pad [of "js ''T'' @ pad 2 (nat h) @ js '':'' @ pad 2 (nat i) @ js '':''" 7 0 2 "[]"]
    by (simp add: zero)
  moreover have "char_at ?s 0 CHR ''T''" using char_at_append [of "[]" 0 "CHR ''T''"] by simp
  moreover have "char_at ?s 3 CHR '':''"
    using char_at_append [of "js ''T'' @ pad 2 (nat h)" 3 "CHR '':''" "pad 2 (nat i) @ js '':00''"] by simp
  moreover have "char_at ?s 6 CHR '':''"
    using char_at_append [of "js ''T'' @ pad 2 (nat h) @ js '':'' @ pad 2 (nat i)" 6 "CHR '':''" "pad 2 0"]
    by (simp add: zero)
  ultimately show ?thesis using assms by (simp add: parse_clock_def)
qed

lemma month_lengths_le: "k < 12 \<Longrightarrow> month_lengths l ! k \<le> 31"
  by (auto simp: month_lengths_def less_Suc_eq numeral_eq_Suc)

lemma new_Date_text:
  assumes "0 \<le> YearOfDay d" "YearOfDay d \<le> 9999" "0 \<le> h" "h \<le> 23" "0 \<le> i" "i \<le> 59"
  shows "new_Date z (date_text d @ js ''T'' @ (pad 2 (nat h) @ js '':'' @ pad 2 (nat i)) @ js '':00'')
    = TimeClip (d * msPerDay + (h * 3600000 + i * 60000) - offset_minutes z * 60000)"
proof -
  obtain y m dd where c: "civil d = (y, m, dd)" by (cases "civil d") auto
  with civil_spec [of d] have v: "y = YearOfDay d" "valid_civil y m dd" "day_number y m dd = d" by auto
  then have "1 \<le> m" "m \<le> 12" "1 \<le> dd" by (auto simp: valid_civil_def)
  moreover from this have "nat (m - 1) < 12" by linarith
  from month_lengths_le [OF this, of "leap y"] v(2) have "dd \<le> 31" by (simp add: valid_civil_def)
  ultimately have dd: "1 \<le> m" "m \<le> 12" "1 \<le> dd" "dd \<le> 31" by auto
  let ?c = "js ''T'' @ pad 2 (nat h) @ js '':'' @ pad 2 (nat i) @ js '':00''"
  let ?md = "js ''-'' @ pad 2 (nat m) @ js ''-'' @ pad 2 (nat dd) @ ?c"
  have "parse_year (year_text y @ ?md) = Some (y, ?md)"
    using assms v(1) by (intro parse_year_text) simp_all
  moreover have "parse_month_day ?md = Some (m, dd)" using dd by (rule parse_month_day_text)
  moreover have "drop 6 ?md = ?c" "drop 15 ?md = []" "length ?md \<noteq> 6" by simp_all
  moreover have "parse_clock ?c = Some (h * 3600000 + i * 60000)"
    using assms by (intro parse_clock_text)
  moreover have "parse_fraction [] = (0, [])" by (simp add: parse_fraction_def char_at_def)
  moreover have "parse_zone z [] = Some (offset_minutes z)" by (simp add: parse_zone_def)
  ultimately have "new_Date z (year_text y @ ?md)
      = TimeClip (d * msPerDay + (h * 3600000 + i * 60000) + 0 - offset_minutes z * 60000)"
    unfolding new_Date_def using v(2,3) by (simp del: append_assoc)
  then show ?thesis using c by (simp add: date_text_def)
qed

lemma split_date_text:
  assumes "0 \<le> YearOfDay d" "YearOfDay d \<le> 9999"
  shows "split_first (js_char CHR ''T'') (date_text d @ js ''T'' @ s) = date_text d"
proof -
  obtain y m dd where c: "civil d = (y, m, dd)" by (cases "civil d") auto
  with civil_spec [of d] have "y = YearOfDay d" by auto
  then have "js_char CHR ''T'' \<notin> set (date_text d)"
    using assms c set_pad by (fastforce simp: date_text_def year_text_4 js_def)
  then have "\<forall>u \<in> set (date_text d). u \<noteq> js_char CHR ''T''" by auto
  then show ?thesis by (simp add: split_first_def js_def takeWhile_tail)
qed

lemma take_clock_text:
  "take 5 (clock_text ms) = pad 2 (nat (ms div 3600000)) @ js '':'' @ pad 2 (nat (ms div 60000 mod 60))"
  by (simp add: clock_text_def)

lemma length_clock_text [simp]: "length (clock_text ms) = 8"
  by (simp add: clock_text_def)

lemma datetime_parts:
  assumes "ts \<noteq> []" "new_Date z ts = Some t"
    and "0 \<le> YearOfDay (t div msPerDay)" "YearOfDay (t div msPerDay) \<le> 9999"
  shows "formatRFC3339ToDatetime z ts = (date_text (t div msPerDay),
     (let l = local_time z t mod msPerDay
      in pad 2 (nat (l div 3600000)) @ js '':'' @ pad 2 (nat (l div 60000 mod 60))))"
  using assms
  by (simp add: formatRFC3339ToDatetime_def toISOString_def toTimeString_def Let_def
      split_date_text take_clock_text)

section \<open>Properties\<close>

text \<open>The instant a dialog saves when the date of an instant is taken in UTC and its time of day
  in local time, and both are read as local.\<close>

definition resaved :: "zone \<Rightarrow> int \<Rightarrow> int" where
  "resaved z t = t - t mod 60000 + (t div msPerDay - local_time z t div msPerDay) * msPerDay"

lemma day_split:
  "0 \<le> (l :: int) \<Longrightarrow> l < msPerDay \<Longrightarrow>
     0 \<le> l div 3600000 \<and> l div 3600000 \<le> 23 \<and> 0 \<le> l div 60000 mod 60 \<and> l div 60000 mod 60 \<le> 59
     \<and> l div 3600000 * 3600000 + l div 60000 mod 60 * 60000 = l - l mod 60000"
proof -
  assume l: "0 \<le> l" "l < msPerDay"
  have "l div 60000 div 60 = l div 3600000" by (simp add: zdiv_zmult2_eq [symmetric])
  then have "l div 60000 = 60 * (l div 3600000) + l div 60000 mod 60"
    using mult_div_mod_eq [of 60 "l div 60000"] by simp
  moreover have "l = 60000 * (l div 60000) + l mod 60000" by simp
  ultimately have "l div 3600000 * 3600000 + l div 60000 mod 60 * 60000 = l - l mod 60000"
    by linarith
  moreover have "0 \<le> l div 3600000 \<and> l div 3600000 \<le> 23" using l by (auto simp: msPerDay_def)
  ultimately show ?thesis by auto
qed

text \<open>C32. Opening a peer's expiry date in a dialog and saving it unchanged keeps the instant to
  the minute only when the day is the same in UTC and in local time; else it moves by a whole
  day, because the date shown is that of UTC and the time that of the browser.\<close>

theorem expiry_resaved:
  assumes "ts \<noteq> []" "new_Date z ts = Some t"
    and "0 \<le> YearOfDay (t div msPerDay)" "YearOfDay (t div msPerDay) \<le> 9999"
    and "TimeClip (resaved z t) = Some (resaved z t)"
  shows "(case formatRFC3339ToDatetime z ts of (date, time) \<Rightarrow> formatDateTimeToRFC3339 z date time)
      = projr (toISOString (Some (resaved z t)))
    \<and> (local_time z t div msPerDay = t div msPerDay \<longleftrightarrow> resaved z t = t - t mod 60000)"
proof -
  let ?D = msPerDay and ?d = "t div msPerDay" and ?l = "local_time z t mod msPerDay"
  let ?h = "?l div 3600000" and ?i = "?l div 60000 mod 60"
  let ?time = "pad 2 (nat ?h) @ js '':'' @ pad 2 (nat ?i)"
  have pos: "0 < ?D" by (simp add: msPerDay_def)
  have l: "0 \<le> ?l" "?l < ?D" using pos by simp_all
  note hi = day_split [OF l]
  have parts: "formatRFC3339ToDatetime z ts = (date_text ?d, ?time)"
    using datetime_parts [OF assms(1-4)] by (simp add: Let_def)
  have ne: "date_text ?d \<noteq> []" "?time \<noteq> []"
    by (auto simp: date_text_def js_def split: prod.split)
  have mod_l: "?l mod 60000 = t mod 60000"
  proof -
    have "?l mod 60000 = local_time z t mod 60000"
      unfolding msPerDay_def by (rule mod_mod_cancel) simp
    then show ?thesis by (simp add: local_time_def)
  qed
  have "t + offset_minutes z * 60000 = (local_time z t div ?D) * ?D + ?l"
    by (simp add: local_time_def)
  moreover have "?h * 3600000 + ?i * 60000 = ?l - t mod 60000" using hi mod_l by linarith
  ultimately have t: "?d * ?D + (?h * 3600000 + ?i * 60000) - offset_minutes z * 60000 = resaved z t"
    unfolding resaved_def left_diff_distrib by linarith
  have "new_Date z (date_text ?d @ js ''T'' @ ?time @ js '':00'')
      = TimeClip (?d * ?D + (?h * 3600000 + ?i * 60000) - offset_minutes z * 60000)"
    using assms(3,4) hi by (intro new_Date_text) simp_all
  also have "\<dots> = Some (resaved z t)" unfolding t by (rule assms(5))
  finally have "formatDateTimeToRFC3339 z (date_text ?d) ?time = projr (toISOString (Some (resaved z t)))"
    using ne by (simp add: formatDateTimeToRFC3339_def Let_def toISOString_def del: append_assoc)
  moreover have "local_time z t div ?D = ?d \<longleftrightarrow> resaved z t = t - t mod 60000"
    using pos by (auto simp: resaved_def)
  ultimately show ?thesis using parts by simp
qed

definition new_york :: zone where
  "new_york = \<lparr>offset_minutes = -300, zone_name = js ''EST''\<rparr>"

lemma late_evening: "new_Date new_york (js ''2025-01-31T02:00:00Z'') = Some 1738288800000"
  by code_simp

lemma late_evening_parts:
  "YearOfDay (1738288800000 div msPerDay) = 2025"
  "resaved new_york 1738288800000 = 1738375200000"
  "TimeClip 1738375200000 = Some 1738375200000"
  "projr (toISOString (Some 1738375200000)) = js ''2025-02-01T02:00:00.000Z''"
  by code_simp+

theorem expiry_resaved_witness:
  "(case formatRFC3339ToDatetime new_york (js ''2025-01-31T02:00:00Z'') of
      (date, time) \<Rightarrow> formatDateTimeToRFC3339 new_york date time) = js ''2025-02-01T02:00:00.000Z''"
  using expiry_resaved [of "js ''2025-01-31T02:00:00Z''" new_york 1738288800000]
  by (simp add: late_evening late_evening_parts)

text \<open>A text that is no date is shown as an empty date, but as the time \<open>Inval\<close> by the
  function for the time alone, whose error branch is never reached.\<close>

theorem invalid_date_shown:
  assumes "ts \<noteq> []" "new_Date z ts = None"
  shows "formatRFC3339ToDate z ts = [] \<and> formatRFC3339ToDatetime z ts = ([], [])
    \<and> formatRFC3339ToTime z ts = js ''Inval''"
  using assms
  by (simp add: formatRFC3339ToDate_def formatRFC3339ToDatetime_def formatRFC3339ToTime_def
      toISOString_def toTimeString_def js_def)

theorem invalid_date_shown_witness:
  "formatRFC3339ToTime new_york (js ''soon'') = js ''Inval''"
proof -
  have "new_Date new_york (js ''soon'') = None" by code_simp
  then show ?thesis using invalid_date_shown [of "js ''soon''" new_york] by simp
qed

end
