(* ===== verification/Dialog.thy ===== *)
theory Dialog
  imports Auth Utils
begin

text \<open>
  What the edit dialogs (\<open>components/*Modal.vue\<close>) have in common: an action behind a flag that
  keeps it from being started twice, with an error turned into a message, and the check of the
  tags of an input. The locale \<open>one_in_flight\<close> is the reason for the flag.
\<close>

section \<open>Guarded actions\<close>

text \<open>
  \<open>if (busy.value) return; busy.value = true; try { ... } catch (e) { notify(...) } finally {
  busy.value = false }\<close>, split at the \<open>await\<close> of the request: the first part ends with the
  request on its way (\<open>Some\<close>) or with nothing sent (\<open>None\<close>).
\<close>

definition guarded_begin ::
  "('s \<Rightarrow> bool) \<Rightarrow> (bool \<Rightarrow> 's \<Rightarrow> 's) \<Rightarrow> string \<Rightarrow> ('s, 'q) comp \<Rightarrow> ('s, 'q option) comp" where
  "guarded_begin busy set_busy title body =
     bind (gets busy) (\<lambda>b.
       if b then return None
       else andThen (modify (set_busy True))
         (catch (bind body (\<lambda>q. return (Some q)))
           (\<lambda>e. andThen (notify_error title (Text (reason_string e)))
              (andThen (modify (set_busy False)) (return None)))))"

definition guarded_settle ::
  "(bool \<Rightarrow> 's \<Rightarrow> 's) \<Rightarrow> string \<Rightarrow> ('s, unit) comp \<Rightarrow> ('s, unit) comp" where
  "guarded_settle set_busy title body =
     try_finally (catch body (\<lambda>e. notify_error title (Text (reason_string e))))
       (modify (set_busy False))"

lemma guarded_settle_cases:
  "guarded_settle set_busy title body s = (case body s of
      Returns _ t es \<Rightarrow> Returns () (set_busy False t) es
    | Throws e t es \<Rightarrow> Returns () (set_busy False t)
        (es @ [Notify (js title) (Text (reason_string e)) (Some (js ''error''))])
    | Diverges \<Rightarrow> Diverges)"
  by (cases "body s") (simp_all add: guarded_settle_def notify_error_def js_run)

lemma guarded_begin_cases:
  "guarded_begin busy set_busy title body s =
     (if busy s then Returns None s []
      else (case body (set_busy True s) of
          Returns q t es \<Rightarrow> Returns (Some q) t es
        | Throws e t es \<Rightarrow> Returns None (set_busy False t)
            (es @ [Notify (js title) (Text (reason_string e)) (Some (js ''error''))])
        | Diverges \<Rightarrow> Diverges))"
  by (cases "body (set_busy True s)") (simp_all add: guarded_begin_def notify_error_def js_run)

section \<open>At most one request in flight\<close>

text \<open>
  A dialog with the requests of one of its actions that are on their way: a press of the button,
  an answer to any of the requests, and everything else, which is a relation of its own.
\<close>

inductive flight_step ::
  "('s, 'q option) comp \<Rightarrow> ('q \<Rightarrow> 'r \<Rightarrow> ('s, unit) comp) \<Rightarrow> ('s \<Rightarrow> 's \<Rightarrow> bool)
     \<Rightarrow> 's \<times> 'q list \<Rightarrow> 's \<times> 'q list \<Rightarrow> bool"
  for start finish other where
  flight_press: "start s = Returns v t es \<Longrightarrow>
     flight_step start finish other (s, qs) (t, (case v of None \<Rightarrow> qs | Some q \<Rightarrow> q # qs))"
| flight_answer: "q \<in> set qs \<Longrightarrow> finish q r s = Returns () t es \<Longrightarrow>
     flight_step start finish other (s, qs) (t, remove1 q qs)"
| flight_other: "other s t \<Longrightarrow> flight_step start finish other (s, qs) (t, qs)"

definition flight_ok :: "('s \<Rightarrow> bool) \<Rightarrow> 's \<times> 'q list \<Rightarrow> bool" where
  "flight_ok busy c \<longleftrightarrow> length (snd c) = (if busy (fst c) then 1 else 0)"

locale one_in_flight =
  fixes busy :: "'s \<Rightarrow> bool"
    and start :: "('s, 'q option) comp"
    and finish :: "'q \<Rightarrow> 'r \<Rightarrow> ('s, unit) comp"
    and other :: "'s \<Rightarrow> 's \<Rightarrow> bool"
  assumes start_busy: "busy s \<Longrightarrow> start s = Returns None s []"
    and start_idle: "\<not> busy s \<Longrightarrow> \<exists>v t es. start s = Returns v t es \<and> (busy t \<longleftrightarrow> v \<noteq> None)"
    and finish_idle: "\<exists>t es. finish q r s = Returns () t es \<and> \<not> busy t"
    and other_frame: "other s t \<Longrightarrow> busy t = busy s"
begin

lemma step_ok: "flight_step start finish other c d \<Longrightarrow> flight_ok busy c \<Longrightarrow> flight_ok busy d"
proof (induction rule: flight_step.induct)
  case (flight_press s v t es qs)
  then show ?case
    using start_busy [of s] start_idle [of s] by (cases "busy s") (auto simp: flight_ok_def split: option.split)
next
  case (flight_answer q qs r s t es)
  then show ?case using finish_idle [of q r s]
    by (auto simp: flight_ok_def length_remove1 split: if_splits)
next
  case (flight_other s t qs)
  then show ?case using other_frame by (simp add: flight_ok_def)
qed

lemma reachable_ok:
  "(flight_step start finish other)\<^sup>*\<^sup>* (s, []) (t, qs) \<Longrightarrow> \<not> busy s \<Longrightarrow> length qs = (if busy t then 1 else 0)"
proof -
  assume run: "(flight_step start finish other)\<^sup>*\<^sup>* (s, []) (t, qs)" and idle: "\<not> busy s"
  have "flight_ok busy (s, [] :: 'q list)" using idle by (simp add: flight_ok_def)
  with run have "flight_ok busy (t, qs)"
    by (induction rule: rtranclp_induct) (auto intro: step_ok)
  then show ?thesis by (simp add: flight_ok_def)
qed

text \<open>Nothing gets stuck: the request on its way, once answered, frees the button.\<close>

lemma answer_frees:
  "q \<in> set qs \<Longrightarrow> \<exists>t. flight_step start finish other (s, qs) (t, remove1 q qs) \<and> \<not> busy t"
  using finish_idle [of q _ s] flight_answer by metis

lemma eventually_free:
  assumes "(flight_step start finish other)\<^sup>*\<^sup>* (s, []) (t, qs)" "\<not> busy s"
  shows "\<exists>u. (flight_step start finish other)\<^sup>*\<^sup>* (t, qs) (u, []) \<and> \<not> busy u"
proof (cases "busy t")
  case True
  then obtain q where qs: "qs = [q]"
    using reachable_ok [OF assms] by (cases qs) auto
  then obtain u where "flight_step start finish other (t, qs) (u, [])" "\<not> busy u"
    using answer_frees [of q qs t] by auto
  then show ?thesis by blast
next
  case False
  then show ?thesis using reachable_ok [OF assms] by auto
qed

end

section \<open>Tag inputs\<close>

text \<open>
  The change handlers of the tag inputs: a message for each tag that does not pass, and the
  change itself only when all pass.
\<close>

fun report_tags :: "(jsstr \<Rightarrow> bool) \<Rightarrow> string \<Rightarrow> jsstr list \<Rightarrow> ('s, unit) comp" where
  "report_tags ok title [] = return ()"
| "report_tags ok title (tag # tags) =
     andThen (if ok tag then return ()
              else notify_error title (Text (tag @ js '' is not a valid IP address'')))
       (report_tags ok title tags)"

definition change_tags ::
  "(jsstr \<Rightarrow> bool) \<Rightarrow> string \<Rightarrow> (jsstr list \<Rightarrow> 's \<Rightarrow> 's) \<Rightarrow> jsstr list \<Rightarrow> ('s, unit) comp" where
  "change_tags ok title update tags =
     andThen (report_tags ok title tags)
       (if list_all ok tags then modify (update tags) else return ())"

definition cidr_ok :: "ip_library \<Rightarrow> jsstr \<Rightarrow> bool" where
  "cidr_ok lib text = (isCidr lib text \<noteq> 0)"

lemma report_tags_run:
  "report_tags ok title tags s = Returns () s
     (map (\<lambda>t. Notify (js title) (Text (t @ js '' is not a valid IP address'')) (Some (js ''error'')))
        (filter (\<lambda>t. \<not> ok t) tags))"
  by (induction tags) (simp_all add: notify_error_def js_run)

lemma change_tags_run:
  "change_tags ok title update tags s =
     (if list_all ok tags then Returns () (update tags s) []
      else Returns () s (map (\<lambda>t. Notify (js title) (Text (t @ js '' is not a valid IP address''))
        (Some (js ''error''))) (filter (\<lambda>t. \<not> ok t) tags)))"
proof -
  have "filter (\<lambda>t. \<not> ok t) tags = []" if "list_all ok tags"
    using that by (simp add: list_all_iff filter_empty_conv)
  then show ?thesis by (simp add: change_tags_def andThen_def bind_def report_tags_run modify_def return_def)
qed

end
