(* ===== verification/User_Dialog.thy ===== *)
theory User_Dialog
  imports Dialog Users Settings
begin

text \<open>
  The dialog that edits and creates users, \<open>components/UserEditModal.vue\<close>: the form, its
  validation against the settings, and the guarded saving and deletion through the user store.
\<close>

section \<open>State\<close>

record user_dialog =
  ud_users :: user_store
  ud_settings :: settings_store
  ud_userId :: jsstr
  ud_visible :: bool
  ud_form :: user
  ud_isSaving :: bool
  ud_isDeleting :: bool

definition on_users :: "(user_store, 'a) comp \<Rightarrow> (user_dialog, 'a) comp" where
  "on_users = zoom ud_users (\<lambda>u s. s\<lparr>ud_users := u\<rparr>)"

definition NEW :: jsstr where "NEW = js ''#NEW#''"

definition selectedUser :: "user_dialog \<Rightarrow> user option" where
  "selectedUser d = users_Find (ud_users d) (ud_userId d)"

text \<open>The translations of the headline are an argument.\<close>

definition user_dialog_title :: "(jsstr \<Rightarrow> jsstr) \<Rightarrow> user_dialog \<Rightarrow> jsstr" where
  "user_dialog_title tr d =
     (if \<not> ud_visible d then []
      else (case selectedUser d of
          Some u \<Rightarrow> tr (js ''modals.user-edit.headline-edit'') @ js '' '' @ u_Identifier u
        | None \<Rightarrow> tr (js ''modals.user-edit.headline-new'')))"

section \<open>Validation\<close>

text \<open>A comparison with a setting that is missing, or no number, is false.\<close>

definition passwordWeak :: "user_dialog \<Rightarrow> bool" where
  "passwordWeak d \<longleftrightarrow> u_Password (ud_form d) \<noteq> [] \<and> 0 < length (u_Password (ud_form d))
     \<and> (case Setting (ud_settings d) (js ''MinPasswordLength'') of
          Some (JNum n) \<Rightarrow> int (length (u_Password (ud_form d))) < n | _ \<Rightarrow> False)"

definition formValid :: "user_dialog \<Rightarrow> bool" where
  "formValid d =
     (if u_Source (ud_form d) \<noteq> js ''db'' then True
      else if ud_userId d \<noteq> NEW \<and> passwordWeak d then False
      else if ud_userId d = NEW \<and> (u_Password (ud_form d) = [] \<or> length (u_Password (ud_form d)) < 1)
        then False
      else if ud_userId d = NEW \<and> passwordWeak d then False
      else if u_Identifier (ud_form d) = [] \<or> length (u_Identifier (ud_form d)) < 1 then False
      else True)"

section \<open>Opening and closing\<close>

text \<open>The watch on \<open>visible\<close>, run when the dialog becomes visible: the listed properties are
  copied, the others keep what the form had.\<close>

definition user_dialog_shown :: "(user_dialog, unit) comp" where
  "user_dialog_shown = modify (\<lambda>d. case selectedUser d of
      None \<Rightarrow> d\<lparr>ud_form := freshUser\<rparr>
    | Some u \<Rightarrow> d\<lparr>ud_form := (ud_form d)\<lparr>
        u_Identifier := u_Identifier u,
        u_Email := u_Email u,
        u_Source := u_Source u,
        u_IsAdmin := u_IsAdmin u,
        u_Firstname := u_Firstname u,
        u_Lastname := u_Lastname u,
        u_Phone := u_Phone u,
        u_Department := u_Department u,
        u_Notes := u_Notes u,
        u_Password := [],
        u_Disabled := u_Disabled u,
        u_Locked := u_Locked u\<rparr>\<rparr>)"

definition open_user_dialog :: "jsstr \<Rightarrow> (user_dialog, unit) comp" where
  "open_user_dialog i = andThen (modify (\<lambda>d. d\<lparr>ud_userId := i, ud_visible := True\<rparr>)) user_dialog_shown"

definition user_dialog_close :: "(user_dialog, unit) comp" where
  "user_dialog_close = andThen (modify (\<lambda>d. d\<lparr>ud_form := freshUser\<rparr>)) (emit Close)"

section \<open>Saving and deleting\<close>

text \<open>
  What is on its way: an update of the user with an identifier, or a creation, with the request.
\<close>

datatype user_save = SaveUpdate jsstr "user request" | SaveCreate "user request"

definition user_save_begin :: "(user_dialog, user_save option) comp" where
  "user_save_begin = guarded_begin ud_isSaving (\<lambda>b d. d\<lparr>ud_isSaving := b\<rparr>) ''Failed to save user!''
     (bind (gets (\<lambda>d. d)) (\<lambda>d.
        if ud_userId d \<noteq> NEW
        then (case selectedUser d of
            None \<Rightarrow> throw TypeError
          | Some u \<Rightarrow> bind (on_users (UpdateUser_begin (u_Identifier u) (ud_form d)))
              (\<lambda>q. return (SaveUpdate (u_Identifier u) q)))
        else bind (on_users (CreateUser_begin (ud_form d))) (\<lambda>q. return (SaveCreate q))))"

definition user_save_settle :: "user_save \<Rightarrow> user settled \<Rightarrow> (user_dialog, unit) comp" where
  "user_save_settle w reply =
     guarded_settle (\<lambda>b d. d\<lparr>ud_isSaving := b\<rparr>) ''Failed to save user!''
       (andThen (on_users (case w of
            SaveUpdate i _ \<Rightarrow> UpdateUser_settle i reply
          | SaveCreate _ \<Rightarrow> CreateUser_settle reply))
          user_dialog_close)"

definition user_del_begin :: "(user_dialog, (jsstr \<times> unit request) option) comp" where
  "user_del_begin = guarded_begin ud_isDeleting (\<lambda>b d. d\<lparr>ud_isDeleting := b\<rparr>)
     ''Failed to delete user!''
     (bind (gets selectedUser) (\<lambda>u. case u of
         None \<Rightarrow> throw TypeError
       | Some u \<Rightarrow> bind (on_users (DeleteUser_begin (u_Identifier u)))
           (\<lambda>q. return (u_Identifier u, q))))"

definition user_del_settle :: "jsstr \<times> unit request \<Rightarrow> unit settled \<Rightarrow> (user_dialog, unit) comp" where
  "user_del_settle w reply =
     guarded_settle (\<lambda>b d. d\<lparr>ud_isDeleting := b\<rparr>) ''Failed to delete user!''
       (andThen (on_users (DeleteUser_settle (fst w) reply)) user_dialog_close)"

lemmas user_dialog_defs =
  on_users_def user_dialog_close_def UpdateUser_begin_def CreateUser_begin_def DeleteUser_begin_def
  UpdateUser_settle_def CreateUser_settle_def DeleteUser_settle_def set_fetching_def

section \<open>At most one save and one deletion in flight\<close>

text \<open>
  What else happens around a save: opening, editing, closing, loading the users, and the
  deletion with its answers.
\<close>

inductive around_user_save :: "user_dialog \<Rightarrow> user_dialog \<Rightarrow> bool" where
  aus_open: "ends_in (open_user_dialog i d) e \<Longrightarrow> around_user_save d e"
| aus_edit: "around_user_save d (d\<lparr>ud_form := f\<rparr>)"
| aus_close: "ends_in (user_dialog_close d) e \<Longrightarrow> around_user_save d e"
| aus_load: "ends_in (on_users (LoadUsers_settle reply) d) e \<Longrightarrow> around_user_save d e"
| aus_del_begin: "ends_in (user_del_begin d) e \<Longrightarrow> around_user_save d e"
| aus_del: "ends_in (user_del_settle w r d) e \<Longrightarrow> around_user_save d e"

inductive around_user_del :: "user_dialog \<Rightarrow> user_dialog \<Rightarrow> bool" where
  aud_open: "ends_in (open_user_dialog i d) e \<Longrightarrow> around_user_del d e"
| aud_edit: "around_user_del d (d\<lparr>ud_form := f\<rparr>)"
| aud_close: "ends_in (user_dialog_close d) e \<Longrightarrow> around_user_del d e"
| aud_load: "ends_in (on_users (LoadUsers_settle reply) d) e \<Longrightarrow> around_user_del d e"
| aud_save_begin: "ends_in (user_save_begin d) e \<Longrightarrow> around_user_del d e"
| aud_save: "ends_in (user_save_settle w r d) e \<Longrightarrow> around_user_del d e"

lemma user_save_begin_cases:
  "user_save_begin d =
     (if ud_isSaving d then Returns None d []
      else (let busy = d\<lparr>ud_isSaving := True\<rparr>;
                sent = busy\<lparr>ud_users := (ud_users d)\<lparr>fetching := True\<rparr>\<rparr>;
                failed = (\<lambda>e d. Returns None d
                  [Notify (js ''Failed to save user!'') (Text (reason_string e)) (Some (js ''error''))])
       in if ud_userId d = NEW
          then Returns (Some (SaveCreate (Request POST (js ''/user/new'') (Some (ud_form d))))) sent []
          else (case selectedUser d of
              None \<Rightarrow> failed TypeError d
            | Some u \<Rightarrow> if latin1 (u_Identifier u)
                then Returns (Some (SaveUpdate (u_Identifier u) (Request PUT
                    (js ''/user/'' @ projr (base64_url_encode (u_Identifier u)) @ [])
                    (Some (ud_form d))))) sent []
                else failed InvalidCharacterError
                  (d\<lparr>ud_users := (ud_users d)\<lparr>fetching := True\<rparr>\<rparr>))))"
  by (simp add: user_save_begin_def guarded_begin_cases user_dialog_defs selectedUser_def
      encoded_request_cases js_run Let_def split: option.split)

lemma user_del_begin_cases:
  "\<exists>v t es. user_del_begin d = Returns v t es \<and> ud_isSaving t = ud_isSaving d
     \<and> (if ud_isDeleting d then v = None \<and> t = d \<and> es = [] else (ud_isDeleting t \<longleftrightarrow> v \<noteq> None))"
  by (simp add: user_del_begin_def guarded_begin_cases user_dialog_defs selectedUser_def
      encoded_request_cases js_run Let_def split: option.split)

lemma user_save_settle_cases:
  "user_save_settle w reply d =
     (case reply of
        Inr u \<Rightarrow> Returns () (d\<lparr>ud_isSaving := False, ud_form := freshUser, ud_users :=
          (case w of
             SaveUpdate i _ \<Rightarrow> (ud_users d)\<lparr>fetching := False,
               users := setIndex (users (ud_users d)) (findIndex (\<lambda>x. u_Identifier x = i) (users (ud_users d))) u\<rparr>
           | SaveCreate _ \<Rightarrow> (ud_users d)\<lparr>fetching := False, users := users (ud_users d) @ [u]\<rparr>)\<rparr>) [Close]
      | Inl e \<Rightarrow> Returns () (d\<lparr>ud_isSaving := False, ud_users := (ud_users d)\<lparr>fetching := False\<rparr>\<rparr>)
          [Notify (js ''Failed to save user!'') (Text (reason_string (new_Error e))) (Some (js ''error''))])"
  by (cases w; cases reply)
    (simp_all add: user_save_settle_def guarded_settle_cases user_dialog_defs js_run Let_def)

lemma user_del_settle_cases:
  "user_del_settle w reply d =
     (case reply of
        Inr _ \<Rightarrow> Returns () (d\<lparr>ud_isDeleting := False, ud_form := freshUser, ud_users :=
          (ud_users d)\<lparr>fetching := False,
            users := filter (\<lambda>u. u_Identifier u \<noteq> fst w) (users (ud_users d))\<rparr>\<rparr>) [Close]
      | Inl e \<Rightarrow> Returns () (d\<lparr>ud_isDeleting := False, ud_users := (ud_users d)\<lparr>fetching := False\<rparr>\<rparr>)
          [Notify (js ''Failed to delete user!'') (Text (reason_string (new_Error e))) (Some (js ''error''))])"
  by (cases reply) (simp_all add: user_del_settle_def guarded_settle_cases user_dialog_defs js_run)

lemma on_users_frame: "ends_in (on_users m d) e \<Longrightarrow> ud_isSaving e = ud_isSaving d \<and> ud_isDeleting e = ud_isDeleting d"
  by (cases "m (ud_users d)") (auto simp: on_users_def zoom_def)

lemma open_frame: "ends_in (open_user_dialog i d) e \<Longrightarrow> ud_isSaving e = ud_isSaving d \<and> ud_isDeleting e = ud_isDeleting d"
  by (auto simp: open_user_dialog_def user_dialog_shown_def js_run split: option.splits)

lemma close_frame: "ends_in (user_dialog_close d) e \<Longrightarrow> ud_isSaving e = ud_isSaving d \<and> ud_isDeleting e = ud_isDeleting d"
  by (auto simp: user_dialog_close_def js_run)

lemma around_save_frame: "around_user_save d e \<Longrightarrow> ud_isSaving e = ud_isSaving d"
proof (induction rule: around_user_save.induct)
  case (aus_del_begin d e)
  with user_del_begin_cases [of d] show ?case by auto
next
  case (aus_del w r d e)
  then show ?case by (auto simp: user_del_settle_cases split: sum.splits)
qed (auto dest: on_users_frame open_frame close_frame)

lemma around_del_frame: "around_user_del d e \<Longrightarrow> ud_isDeleting e = ud_isDeleting d"
proof (induction rule: around_user_del.induct)
  case (aud_save_begin d e)
  then show ?case
    by (auto simp: user_save_begin_cases Let_def split: if_splits option.splits)
next
  case (aud_save w r d e)
  then show ?case by (auto simp: user_save_settle_cases split: sum.splits)
qed (auto dest: on_users_frame open_frame close_frame)

interpretation user_save: one_in_flight ud_isSaving user_save_begin user_save_settle around_user_save
proof
  fix d w reply e
  show "ud_isSaving d \<Longrightarrow> user_save_begin d = Returns None d []"
    by (simp add: user_save_begin_cases)
  show "\<not> ud_isSaving d \<Longrightarrow> \<exists>v t es. user_save_begin d = Returns v t es \<and> (ud_isSaving t \<longleftrightarrow> v \<noteq> None)"
    by (simp add: user_save_begin_cases Let_def split: option.split)
  show "\<exists>t es. user_save_settle w reply d = Returns () t es \<and> \<not> ud_isSaving t"
    by (simp add: user_save_settle_cases split: sum.split)
  show "around_user_save d e \<Longrightarrow> ud_isSaving e = ud_isSaving d" by (rule around_save_frame)
qed

interpretation user_del: one_in_flight ud_isDeleting user_del_begin user_del_settle around_user_del
proof
  fix d w reply e
  show "ud_isDeleting d \<Longrightarrow> user_del_begin d = Returns None d []"
    using user_del_begin_cases [of d] by auto
  show "\<not> ud_isDeleting d \<Longrightarrow> \<exists>v t es. user_del_begin d = Returns v t es \<and> (ud_isDeleting t \<longleftrightarrow> v \<noteq> None)"
    using user_del_begin_cases [of d] by auto
  show "\<exists>t es. user_del_settle w reply d = Returns () t es \<and> \<not> ud_isDeleting t"
    by (simp add: user_del_settle_cases split: sum.split)
  show "around_user_del d e \<Longrightarrow> ud_isDeleting e = ud_isDeleting d" by (rule around_del_frame)
qed

section \<open>Properties\<close>

definition user_dialog_init :: user_dialog where
  "user_dialog_init = \<lparr>ud_users = users_init, ud_settings = settings_init, ud_userId = [],
     ud_visible = False, ud_form = freshUser, ud_isSaving = False, ud_isDeleting = False\<rparr>"

text \<open>C23. However often the user presses the save button, and whatever happens in between (edits,
  other dialogs, deletions, loads, answers), at most one save is on its way, exactly while the
  button is disabled; the same holds of the delete button. An answer enables the button again.\<close>

theorem user_dialog_one_in_flight:
  assumes "(flight_step user_save_begin user_save_settle around_user_save)\<^sup>*\<^sup>* (user_dialog_init, []) (d, ws)"
    and "(flight_step user_del_begin user_del_settle around_user_del)\<^sup>*\<^sup>* (user_dialog_init, []) (e, vs)"
  shows "length ws = (if ud_isSaving d then 1 else 0) \<and> length vs = (if ud_isDeleting e then 1 else 0)
    \<and> (\<exists>t es. user_save_settle w r d = Returns () t es \<and> \<not> ud_isSaving t)"
proof -
  have idle: "\<not> ud_isSaving user_dialog_init" "\<not> ud_isDeleting user_dialog_init"
    by (simp_all add: user_dialog_init_def)
  show ?thesis
    using user_save.reachable_ok [OF assms(1) idle(1)] user_del.reachable_ok [OF assms(2) idle(2)]
      user_save.finish_idle [of w r d] by blast
qed

theorem user_dialog_one_in_flight_witness:
  "\<exists>d w. (flight_step user_save_begin user_save_settle around_user_save)\<^sup>*\<^sup>* (user_dialog_init, []) (d, [w])
     \<and> ud_isSaving d"
proof -
  let ?step = "flight_step user_save_begin user_save_settle around_user_save"
  let ?opened = "user_dialog_init\<lparr>ud_userId := NEW, ud_visible := True\<rparr>"
  let ?w = "SaveCreate (Request POST (js ''/user/new'') (Some freshUser))"
  let ?d = "?opened\<lparr>ud_isSaving := True, ud_users := users_init\<lparr>fetching := True\<rparr>\<rparr>"
  have "users (ud_users user_dialog_init) = []" by (simp add: user_dialog_init_def users_init_def)
  then have "open_user_dialog NEW user_dialog_init = Returns () (?opened\<lparr>ud_form := freshUser\<rparr>) []"
    by (simp add: open_user_dialog_def user_dialog_shown_def selectedUser_def users_Find_def js_run)
  moreover have "?opened\<lparr>ud_form := freshUser\<rparr> = ?opened" by (simp add: user_dialog_init_def)
  ultimately have "open_user_dialog NEW user_dialog_init = Returns () ?opened []" by simp
  then have "ends_in (open_user_dialog NEW user_dialog_init) ?opened" by simp
  then have opened: "?step (user_dialog_init, []) (?opened, [])"
    by (intro flight_other aus_open)
  have "user_save_begin ?opened = Returns (Some ?w) ?d []"
    by (simp add: user_save_begin_cases user_dialog_init_def)
  then have "?step (?opened, []) (?d, case Some ?w of None \<Rightarrow> [] | Some q \<Rightarrow> q # [])"
    by (rule flight_press)
  with opened have run: "?step\<^sup>*\<^sup>* (user_dialog_init, []) (?d, [?w])" by auto
  have "length [?w] = (if ud_isSaving ?d then 1 else 0)"
    using user_dialog_one_in_flight [OF run rtranclp.rtrancl_refl] by blast
  then have "ud_isSaving ?d" by (simp split: if_splits)
  with run show ?thesis by blast
qed

text \<open>A save ends in one of two ways. An accepted one puts the backend's user into the table
  (in place of the edited one, or at the end), closes the dialog and empties the form; a refused
  one leaves table, form and dialog as they were and shows the error.\<close>

theorem user_save_outcome:
  "case reply of
     Inr u \<Rightarrow> (\<exists>t. user_save_settle w reply d = Returns () t [Close] \<and> ud_form t = freshUser
        \<and> \<not> fetching (ud_users t) \<and> users (ud_users t) = (case w of
             SaveUpdate i _ \<Rightarrow> (case List.extract (\<lambda>x. u_Identifier x = i) (users (ud_users d)) of
               None \<Rightarrow> users (ud_users d) | Some (pre, _, post) \<Rightarrow> pre @ u # post)
           | SaveCreate _ \<Rightarrow> users (ud_users d) @ [u]))
   | Inl e \<Rightarrow> (\<exists>t. user_save_settle w reply d = Returns () t [Notify (js ''Failed to save user!'')
          (Text (reason_string (new_Error e))) (Some (js ''error''))]
        \<and> ud_form t = ud_form d \<and> ud_visible t = ud_visible d \<and> users (ud_users t) = users (ud_users d))"
  by (cases w) (simp_all add: user_save_settle_cases setIndex_findIndex split: sum.split)

text \<open>Opening a user and saving without a change does not send that user back: besides the
  password, which is not shown, the reasons of a lock or a deactivation are emptied, the API
  access is switched off and the count of peers is zero, because the form is not filled with
  them.\<close>

theorem unchanged_user_sent:
  assumes "users_Find (ud_users d) i = Some u" "ud_form d = freshUser" "\<not> ud_isSaving d"
    and "i \<noteq> NEW" "latin1 i"
  shows "\<exists>t v es q. open_user_dialog i d = Returns () t [] \<and> user_save_begin t = Returns (Some (SaveUpdate i q)) v es
    \<and> req_body q = Some (u\<lparr>u_Password := [], u_DisabledReason := [], u_LockedReason := [],
        u_ApiEnabled := False, u_ApiToken := None, u_ApiTokenCreated := None, u_PeerCount := 0, u_IsSelected := False\<rparr>)"
proof -
  let ?f = "u\<lparr>u_Password := [], u_DisabledReason := [], u_LockedReason := [],
    u_ApiEnabled := False, u_ApiToken := None, u_ApiTokenCreated := None, u_PeerCount := 0, u_IsSelected := False\<rparr>"
  let ?t = "d\<lparr>ud_userId := i, ud_visible := True, ud_form := ?f\<rparr>"
  have "u_Identifier u = i" using assms(1) by (auto simp: users_Find_def find_Some_iff)
  then have "open_user_dialog i d = Returns () ?t []" using assms(1,2)
    by (simp add: open_user_dialog_def user_dialog_shown_def selectedUser_def freshUser_def js_run)
  moreover have "\<exists>v es q. user_save_begin ?t = Returns (Some (SaveUpdate i q)) v es \<and> req_body q = Some ?f"
    using assms \<open>u_Identifier u = i\<close> by (simp add: user_save_begin_cases selectedUser_def Let_def)
  ultimately show ?thesis by blast
qed

theorem unchanged_user_sent_witness:
  "\<exists>t v es q. open_user_dialog (js ''a'')
       (user_dialog_init\<lparr>ud_users := users_init\<lparr>users := [(sample_user_named ''a'')\<lparr>u_ApiEnabled := True\<rparr>]\<rparr>\<rparr>)
       = Returns () t []
     \<and> user_save_begin t = Returns (Some (SaveUpdate (js ''a'') q)) v es
     \<and> map_option u_ApiEnabled (req_body q) = Some False"
proof -
  let ?u = "(sample_user_named ''a'')\<lparr>u_ApiEnabled := True\<rparr>"
  let ?d = "user_dialog_init\<lparr>ud_users := users_init\<lparr>users := [?u]\<rparr>\<rparr>"
  have "users_Find (ud_users ?d) (js ''a'') = Some ?u" "ud_form ?d = freshUser" "\<not> ud_isSaving ?d"
    "js ''a'' \<noteq> NEW" "latin1 (js ''a'')"
    by (simp_all add: users_Find_def sample_user_named_def user_dialog_init_def NEW_def)
  from unchanged_user_sent [OF this] show ?thesis by fastforce
qed

end
