(* ===== verification/Interface_Dialog.thy ===== *)
theory Interface_Dialog
  imports Dialog Peers Settings
begin

text \<open>
  The dialog that edits and creates interfaces, \<open>components/InterfaceEditModal.vue\<close>, and the one
  that creates several peers at once, \<open>components/PeerMultiCreateModal.vue\<close>.
\<close>

section \<open>The interface dialog: state\<close>

record interface_dialog =
  id_interfaces :: interface_store
  id_peers :: peer_store
  id_settings :: settings_store
  id_interfaceId :: jsstr
  id_visible :: bool
  id_form :: iface
  id_isSaving :: bool
  id_isDeleting :: bool
  id_isApplyingDefaults :: bool

definition on_interfaces :: "(interface_store, 'a) comp \<Rightarrow> (interface_dialog, 'a) comp" where
  "on_interfaces = zoom id_interfaces (\<lambda>u s. s\<lparr>id_interfaces := u\<rparr>)"

definition on_peers :: "(peer_store, 'a) comp \<Rightarrow> (interface_dialog, 'a) comp" where
  "on_peers = zoom id_peers (\<lambda>u s. s\<lparr>id_peers := u\<rparr>)"

definition NEW_INTERFACE :: jsstr where "NEW_INTERFACE = js ''#NEW#''"

definition selectedInterface :: "interface_dialog \<Rightarrow> iface option" where
  "selectedInterface d = if_Find (id_interfaces d) (id_interfaceId d)"

definition interface_dialog_title :: "(jsstr \<Rightarrow> jsstr) \<Rightarrow> interface_dialog \<Rightarrow> jsstr" where
  "interface_dialog_title tr d =
     (if \<not> id_visible d then []
      else (case selectedInterface d of
          Some v \<Rightarrow> tr (js ''modals.interface-edit.headline-edit'') @ js '' '' @ i_Identifier v
        | None \<Rightarrow> tr (js ''modals.interface-edit.headline-new'')))"

text \<open>
  A backend of the settings is an object with a property \<open>Id\<close>; anything else in the list has
  no such property.
\<close>

definition backend_ids :: "settings_store \<Rightarrow> jsstr list" where
  "backend_ids s = (case Setting s (js ''AvailableBackends'') of
      Some (JArr bs) \<Rightarrow> concat (map (\<lambda>b. case b of
          JObj props \<Rightarrow> (case map_of props (js ''Id'') of Some (JStr i) \<Rightarrow> [i] | _ \<Rightarrow> [])
        | _ \<Rightarrow> []) bs)
    | _ \<Rightarrow> [])"

definition dialog_isBackendValid :: "interface_dialog \<Rightarrow> bool" where
  "dialog_isBackendValid d =
     (if \<not> id_visible d then True
      else (case selectedInterface d of
          None \<Rightarrow> True
        | Some v \<Rightarrow> fold (\<lambda>i valid. if i = i_Backend v then True else valid)
            (backend_ids (id_settings d)) False))"

section \<open>Opening and closing\<close>

text \<open>
  The two branches of the watch on \<open>visible\<close> copy the same properties, but for \<open>Disabled\<close>, which
  only the second has. A new interface is filled from the prepared one, which is loaded first.
\<close>

definition fill_prepared :: "iface \<Rightarrow> iface \<Rightarrow> iface" where
  "fill_prepared v f = f\<lparr>
        i_Identifier := i_Identifier v,
        i_DisplayName := i_DisplayName v,
        i_Mode := i_Mode v,
        i_Backend := i_Backend v,
        i_PublicKey := i_PublicKey v,
        i_PrivateKey := i_PrivateKey v,
        i_ListenPort := i_ListenPort v,
        i_Addresses := i_Addresses v,
        i_Dns := i_Dns v,
        i_DnsSearch := i_DnsSearch v,
        i_Mtu := i_Mtu v,
        i_FirewallMark := i_FirewallMark v,
        i_RoutingTable := i_RoutingTable v,
        i_PreUp := i_PreUp v,
        i_PostUp := i_PostUp v,
        i_PreDown := i_PreDown v,
        i_PostDown := i_PostDown v,
        i_SaveConfig := i_SaveConfig v,
        i_PeerDefNetwork := i_PeerDefNetwork v,
        i_PeerDefDns := i_PeerDefDns v,
        i_PeerDefDnsSearch := i_PeerDefDnsSearch v,
        i_PeerDefEndpoint := i_PeerDefEndpoint v,
        i_PeerDefAllowedIPs := i_PeerDefAllowedIPs v,
        i_PeerDefMtu := i_PeerDefMtu v,
        i_PeerDefPersistentKeepalive := i_PeerDefPersistentKeepalive v,
        i_PeerDefFirewallMark := i_PeerDefFirewallMark v,
        i_PeerDefRoutingTable := i_PeerDefRoutingTable v,
        i_PeerDefPreUp := i_PeerDefPreUp v,
        i_PeerDefPostUp := i_PeerDefPostUp v,
        i_PeerDefPreDown := i_PeerDefPreDown v,
        i_PeerDefPostDown := i_PeerDefPostDown v\<rparr>"

definition fill_existing :: "iface \<Rightarrow> iface \<Rightarrow> iface" where
  "fill_existing v f = f\<lparr>
        i_Disabled := i_Disabled v,
        i_Identifier := i_Identifier v,
        i_DisplayName := i_DisplayName v,
        i_Mode := i_Mode v,
        i_Backend := i_Backend v,
        i_PublicKey := i_PublicKey v,
        i_PrivateKey := i_PrivateKey v,
        i_ListenPort := i_ListenPort v,
        i_Addresses := i_Addresses v,
        i_Dns := i_Dns v,
        i_DnsSearch := i_DnsSearch v,
        i_Mtu := i_Mtu v,
        i_FirewallMark := i_FirewallMark v,
        i_RoutingTable := i_RoutingTable v,
        i_PreUp := i_PreUp v,
        i_PostUp := i_PostUp v,
        i_PreDown := i_PreDown v,
        i_PostDown := i_PostDown v,
        i_SaveConfig := i_SaveConfig v,
        i_PeerDefNetwork := i_PeerDefNetwork v,
        i_PeerDefDns := i_PeerDefDns v,
        i_PeerDefDnsSearch := i_PeerDefDnsSearch v,
        i_PeerDefEndpoint := i_PeerDefEndpoint v,
        i_PeerDefAllowedIPs := i_PeerDefAllowedIPs v,
        i_PeerDefMtu := i_PeerDefMtu v,
        i_PeerDefPersistentKeepalive := i_PeerDefPersistentKeepalive v,
        i_PeerDefFirewallMark := i_PeerDefFirewallMark v,
        i_PeerDefRoutingTable := i_PeerDefRoutingTable v,
        i_PeerDefPreUp := i_PeerDefPreUp v,
        i_PeerDefPostUp := i_PeerDefPostUp v,
        i_PeerDefPreDown := i_PeerDefPreDown v,
        i_PeerDefPostDown := i_PeerDefPostDown v\<rparr>"

definition interface_dialog_shown :: "iface settled \<Rightarrow> (interface_dialog, unit) comp" where
  "interface_dialog_shown reply =
     bind (gets selectedInterface) (\<lambda>sel. case sel of
         None \<Rightarrow> andThen (on_interfaces (bind PrepareInterface_begin (\<lambda>_. PrepareInterface_settle reply)))
             (modify (\<lambda>d. d\<lparr>id_form := fill_prepared (if_prepared (id_interfaces d)) (id_form d)\<rparr>))
       | Some v \<Rightarrow> modify (\<lambda>d. d\<lparr>id_form := fill_existing v (id_form d)\<rparr>))"

definition open_interface_dialog :: "jsstr \<Rightarrow> iface settled \<Rightarrow> (interface_dialog, unit) comp" where
  "open_interface_dialog i reply =
     andThen (modify (\<lambda>d. d\<lparr>id_interfaceId := i, id_visible := True\<rparr>)) (interface_dialog_shown reply)"

definition interface_dialog_close :: "(interface_dialog, unit) comp" where
  "interface_dialog_close = andThen (modify (\<lambda>d. d\<lparr>id_form := freshInterface\<rparr>)) (emit Close)"

section \<open>Tag inputs\<close>

definition if_handleChangeAddresses :: "ip_library \<Rightarrow> jsstr list \<Rightarrow> (interface_dialog, unit) comp" where
  "if_handleChangeAddresses lib = change_tags (cidr_ok lib) ''Invalid CIDR''
     (\<lambda>tags d. d\<lparr>id_form := (id_form d)\<lparr>i_Addresses := tags\<rparr>\<rparr>)"

definition if_handleChangeDns :: "ip_library \<Rightarrow> jsstr list \<Rightarrow> (interface_dialog, unit) comp" where
  "if_handleChangeDns lib = change_tags (isIP lib) ''Invalid IP''
     (\<lambda>tags d. d\<lparr>id_form := (id_form d)\<lparr>i_Dns := Some tags\<rparr>\<rparr>)"

definition if_handleChangeDnsSearch :: "jsstr list \<Rightarrow> (interface_dialog, unit) comp" where
  "if_handleChangeDnsSearch tags = modify (\<lambda>d. d\<lparr>id_form := (id_form d)\<lparr>i_DnsSearch := tags\<rparr>\<rparr>)"

definition handleChangePeerDefNetwork :: "ip_library \<Rightarrow> jsstr list \<Rightarrow> (interface_dialog, unit) comp" where
  "handleChangePeerDefNetwork lib = change_tags (cidr_ok lib) ''Invalid CIDR''
     (\<lambda>tags d. d\<lparr>id_form := (id_form d)\<lparr>i_PeerDefNetwork := tags\<rparr>\<rparr>)"

definition handleChangePeerDefAllowedIPs :: "ip_library \<Rightarrow> jsstr list \<Rightarrow> (interface_dialog, unit) comp" where
  "handleChangePeerDefAllowedIPs lib = change_tags (cidr_ok lib) ''Invalid CIDR''
     (\<lambda>tags d. d\<lparr>id_form := (id_form d)\<lparr>i_PeerDefAllowedIPs := tags\<rparr>\<rparr>)"

definition handleChangePeerDefDns :: "ip_library \<Rightarrow> jsstr list \<Rightarrow> (interface_dialog, unit) comp" where
  "handleChangePeerDefDns lib = change_tags (isIP lib) ''Invalid IP''
     (\<lambda>tags d. d\<lparr>id_form := (id_form d)\<lparr>i_PeerDefDns := tags\<rparr>\<rparr>)"

definition handleChangePeerDefDnsSearch :: "jsstr list \<Rightarrow> (interface_dialog, unit) comp" where
  "handleChangePeerDefDnsSearch tags =
     modify (\<lambda>d. d\<lparr>id_form := (id_form d)\<lparr>i_PeerDefDnsSearch := tags\<rparr>\<rparr>)"

section \<open>Saving, deleting, applying the defaults\<close>

datatype interface_save = IfaceUpdate jsstr "iface request" | IfaceCreate "iface request"

definition interface_save_begin :: "(interface_dialog, interface_save option) comp" where
  "interface_save_begin =
     guarded_begin id_isSaving (\<lambda>b d. d\<lparr>id_isSaving := b\<rparr>) ''Failed to save interface!''
       (bind (gets (\<lambda>d. d)) (\<lambda>d.
          if id_interfaceId d \<noteq> NEW_INTERFACE
          then (case selectedInterface d of
              None \<Rightarrow> throw TypeError
            | Some v \<Rightarrow> bind (on_interfaces (UpdateInterface_begin (i_Identifier v) (id_form d)))
                (\<lambda>q. return (IfaceUpdate (i_Identifier v) q)))
          else bind (on_interfaces (CreateInterface_begin (id_form d))) (\<lambda>q. return (IfaceCreate q))))"

definition interface_save_settle ::
  "interface_save \<Rightarrow> iface settled \<Rightarrow> (interface_dialog, unit) comp" where
  "interface_save_settle w reply =
     guarded_settle (\<lambda>b d. d\<lparr>id_isSaving := b\<rparr>) ''Failed to save interface!''
       (andThen (on_interfaces (case w of
            IfaceUpdate i _ \<Rightarrow> UpdateInterface_settle i reply
          | IfaceCreate _ \<Rightarrow> CreateInterface_settle reply))
          interface_dialog_close)"

definition interface_del_begin :: "(interface_dialog, (jsstr \<times> unit request) option) comp" where
  "interface_del_begin =
     guarded_begin id_isDeleting (\<lambda>b d. d\<lparr>id_isDeleting := b\<rparr>) ''Failed to delete interface!''
       (bind (gets selectedInterface) (\<lambda>v. case v of
           None \<Rightarrow> throw TypeError
         | Some v \<Rightarrow> bind (on_interfaces (DeleteInterface_begin (i_Identifier v)))
             (\<lambda>q. return (i_Identifier v, q))))"

definition interface_del_settle ::
  "jsstr \<times> unit request \<Rightarrow> unit settled \<Rightarrow> (interface_dialog, unit) comp" where
  "interface_del_settle w reply =
     guarded_settle (\<lambda>b d. d\<lparr>id_isDeleting := b\<rparr>) ''Failed to delete interface!''
       (andThen (on_interfaces (DeleteInterface_settle (fst w) reply)) interface_dialog_close)"

text \<open>
  Applying the peer defaults awaits two answers; the interface whose peers are reloaded is the
  one selected when the first has come.
\<close>

definition apply_defaults_begin :: "(interface_dialog, iface request option) comp" where
  "apply_defaults_begin =
     bind (gets (\<lambda>d. id_interfaceId d)) (\<lambda>i.
       if i = NEW_INTERFACE then return None
       else guarded_begin id_isApplyingDefaults (\<lambda>b d. d\<lparr>id_isApplyingDefaults := b\<rparr>)
         ''Failed to apply peer defaults!''
         (bind (gets (\<lambda>d. d)) (\<lambda>d. case selectedInterface d of
             None \<Rightarrow> throw TypeError
           | Some v \<Rightarrow> on_interfaces (ApplyPeerDefaults_begin (i_Identifier v) (id_form d)))))"

definition apply_defaults_settle ::
  "unit settled \<Rightarrow> peer list settled \<Rightarrow> (interface_dialog, unit) comp" where
  "apply_defaults_settle reply loaded =
     guarded_settle (\<lambda>b d. d\<lparr>id_isApplyingDefaults := b\<rparr>) ''Failed to apply peer defaults!''
       (andThen (on_interfaces (ApplyPeerDefaults_settle reply))
       (andThen (notify_success ''Peer Defaults Applied''
            ''Applied current peer defaults to all available peers.'')
       (bind (gets (\<lambda>d. d)) (\<lambda>d. case selectedInterface d of
           None \<Rightarrow> throw TypeError
         | Some v \<Rightarrow> bind (on_peers (LoadPeers_begin (id_interfaces d) (Some (i_Identifier v))))
             (\<lambda>q. case q of None \<Rightarrow> return () | Some _ \<Rightarrow> on_peers (LoadPeers_settle loaded))))))"

lemmas interface_dialog_defs =
  on_interfaces_def interface_dialog_close_def UpdateInterface_begin_def CreateInterface_begin_def
  DeleteInterface_begin_def UpdateInterface_settle_def CreateInterface_settle_def
  DeleteInterface_settle_def set_if_fetching_def select_first_def

section \<open>At most one save and one deletion in flight\<close>

inductive around_interface_action :: "interface_dialog \<Rightarrow> interface_dialog \<Rightarrow> bool" where
  aia_open: "ends_in (open_interface_dialog i p d) e \<Longrightarrow> around_interface_action d e"
| aia_edit: "around_interface_action d (d\<lparr>id_form := f\<rparr>)"
| aia_close: "ends_in (interface_dialog_close d) e \<Longrightarrow> around_interface_action d e"
| aia_interfaces: "ends_in (on_interfaces (m :: (interface_store, unit) comp) d) e \<Longrightarrow>
    around_interface_action d e"
| aia_peers: "ends_in (on_peers (n :: (peer_store, unit) comp) d) e \<Longrightarrow> around_interface_action d e"

lemma on_interfaces_frame:
  "ends_in (on_interfaces m d) e \<Longrightarrow> id_isSaving e = id_isSaving d \<and> id_isDeleting e = id_isDeleting d"
  by (cases "m (id_interfaces d)") (auto simp: on_interfaces_def zoom_def)

lemma on_peers_frame:
  "ends_in (on_peers m d) e \<Longrightarrow> id_isSaving e = id_isSaving d \<and> id_isDeleting e = id_isDeleting d"
  by (cases "m (id_peers d)") (auto simp: on_peers_def zoom_def)

lemma open_interface_frame:
  "ends_in (open_interface_dialog i p d) e \<Longrightarrow>
     id_isSaving e = id_isSaving d \<and> id_isDeleting e = id_isDeleting d"
  by (cases p)
    (auto simp: open_interface_dialog_def interface_dialog_shown_def on_interfaces_def
      PrepareInterface_begin_def PrepareInterface_settle_def setPreparedInterface_def
      notify_backend_def js_run split: option.splits)

lemma around_interface_frame:
  "around_interface_action d e \<Longrightarrow> id_isSaving e = id_isSaving d \<and> id_isDeleting e = id_isDeleting d"
proof (induction rule: around_interface_action.induct)
  case (aia_open i p d e)
  then show ?case by (rule open_interface_frame)
next
  case (aia_close d e)
  then show ?case by (auto simp: interface_dialog_close_def js_run)
qed (auto dest: on_interfaces_frame on_peers_frame)

lemma interface_save_begin_cases:
  "interface_save_begin d =
     (if id_isSaving d then Returns None d []
      else (let sent = d\<lparr>id_isSaving := True, id_interfaces := (id_interfaces d)\<lparr>if_fetching := True\<rparr>\<rparr>;
                failed = (\<lambda>e d. Returns None d
                  [Notify (js ''Failed to save interface!'') (Text (reason_string e)) (Some (js ''error''))])
       in if id_interfaceId d = NEW_INTERFACE
          then Returns (Some (IfaceCreate (Request POST (js ''/interface/new'') (Some (id_form d))))) sent []
          else (case selectedInterface d of
              None \<Rightarrow> failed TypeError d
            | Some v \<Rightarrow> if latin1 (i_Identifier v)
                then Returns (Some (IfaceUpdate (i_Identifier v) (Request PUT
                    (js ''/interface/'' @ projr (base64_url_encode (i_Identifier v)) @ [])
                    (Some (id_form d))))) sent []
                else failed InvalidCharacterError
                  (d\<lparr>id_interfaces := (id_interfaces d)\<lparr>if_fetching := True\<rparr>\<rparr>))))"
  by (simp add: interface_save_begin_def guarded_begin_cases interface_dialog_defs
      selectedInterface_def encoded_request_cases js_run Let_def split: option.split)

lemma interface_save_settle_ends:
  "\<exists>t es. interface_save_settle w reply d = Returns () t es \<and> \<not> id_isSaving t
     \<and> id_isDeleting t = id_isDeleting d
     \<and> (case reply of
          Inr _ \<Rightarrow> id_form t = freshInterface \<and> es = [Close]
        | Inl e \<Rightarrow> id_form t = id_form d \<and> interfaces (id_interfaces t) = interfaces (id_interfaces d)
            \<and> es = [Notify (js ''Failed to save interface!'') (Text (reason_string (new_Error e)))
                (Some (js ''error''))])"
  by (cases w; cases reply)
    (simp_all add: interface_save_settle_def guarded_settle_cases interface_dialog_defs js_run Let_def)

lemma interface_del_begin_cases:
  "\<exists>v t es. interface_del_begin d = Returns v t es \<and> id_isSaving t = id_isSaving d
     \<and> (if id_isDeleting d then v = None \<and> t = d \<and> es = [] else (id_isDeleting t \<longleftrightarrow> v \<noteq> None))"
  by (simp add: interface_del_begin_def guarded_begin_cases interface_dialog_defs
      selectedInterface_def encoded_request_cases js_run Let_def split: option.split)

lemma interface_del_settle_ends:
  "\<exists>t es. interface_del_settle w reply d = Returns () t es \<and> \<not> id_isDeleting t"
  by (cases reply)
    (simp_all add: interface_del_settle_def guarded_settle_cases interface_dialog_defs js_run)

interpretation interface_save: one_in_flight id_isSaving interface_save_begin interface_save_settle
  around_interface_action
proof
  fix d w reply e
  show "id_isSaving d \<Longrightarrow> interface_save_begin d = Returns None d []"
    by (simp add: interface_save_begin_cases)
  show "\<not> id_isSaving d \<Longrightarrow>
      \<exists>v t es. interface_save_begin d = Returns v t es \<and> (id_isSaving t \<longleftrightarrow> v \<noteq> None)"
    by (simp add: interface_save_begin_cases Let_def split: option.split)
  show "\<exists>t es. interface_save_settle w reply d = Returns () t es \<and> \<not> id_isSaving t"
    using interface_save_settle_ends [of w reply d] by blast
  show "around_interface_action d e \<Longrightarrow> id_isSaving e = id_isSaving d"
    using around_interface_frame by blast
qed

interpretation interface_del: one_in_flight id_isDeleting interface_del_begin interface_del_settle
  around_interface_action
proof
  fix d w reply e
  show "id_isDeleting d \<Longrightarrow> interface_del_begin d = Returns None d []"
    using interface_del_begin_cases [of d] by auto
  show "\<not> id_isDeleting d \<Longrightarrow>
      \<exists>v t es. interface_del_begin d = Returns v t es \<and> (id_isDeleting t \<longleftrightarrow> v \<noteq> None)"
    using interface_del_begin_cases [of d] by auto
  show "\<exists>t es. interface_del_settle w reply d = Returns () t es \<and> \<not> id_isDeleting t"
    by (rule interface_del_settle_ends)
  show "around_interface_action d e \<Longrightarrow> id_isDeleting e = id_isDeleting d"
    using around_interface_frame by blast
qed

section \<open>Creating several peers\<close>

record multi_form =
  mf_Identifiers :: "jsstr list"
  mf_Prefix :: jsstr

record multi_dialog =
  md_interfaces :: interface_store
  md_peers :: peer_store
  md_form :: multi_form
  md_isSaving :: bool

definition freshForm :: multi_form where
  "freshForm = \<lparr>mf_Identifiers = [], mf_Prefix = []\<rparr>"

text \<open>Without any interface a fresh one stands in.\<close>

definition multi_selectedInterface :: "multi_dialog \<Rightarrow> iface" where
  "multi_selectedInterface d =
     (case GetSelected (md_interfaces d) of Some v \<Rightarrow> v | None \<Rightarrow> freshInterface)"

definition multi_title :: "(jsstr \<Rightarrow> jsstr) \<Rightarrow> bool \<Rightarrow> multi_dialog \<Rightarrow> jsstr" where
  "multi_title tr visible d =
     (if \<not> visible then []
      else if i_Mode (multi_selectedInterface d) = js ''server''
        then tr (js ''modals.peer-multi-create.headline-peer'')
        else tr (js ''modals.peer-multi-create.headline-endpoint''))"

definition multi_close :: "(multi_dialog, unit) comp" where
  "multi_close = andThen (modify (\<lambda>d. d\<lparr>md_form := freshForm\<rparr>)) (emit Close)"

definition handleChangeUserIdentifiers :: "jsstr list \<Rightarrow> (multi_dialog, unit) comp" where
  "handleChangeUserIdentifiers tags =
     modify (\<lambda>d. d\<lparr>md_form := (md_form d)\<lparr>mf_Identifiers := tags\<rparr>\<rparr>)"

text \<open>The check for identifiers stands between the flag and the \<open>try\<close>, and resets the flag.\<close>

definition multi_save_begin :: "(multi_dialog, multi_form request option) comp" where
  "multi_save_begin =
     bind (gets (\<lambda>d. d)) (\<lambda>d.
       if md_isSaving d then return None
       else if mf_Identifiers (md_form d) = []
       then andThen (modify (\<lambda>d. d\<lparr>md_isSaving := True\<rparr>))
         (andThen (notify_error ''Missing Identifiers''
            (Text (js ''At least one identifier is required to create a new peer.'')))
         (andThen (modify (\<lambda>d. d\<lparr>md_isSaving := False\<rparr>)) (return None)))
       else guarded_begin md_isSaving (\<lambda>b d. d\<lparr>md_isSaving := b\<rparr>) ''Failed to create peers!''
         (zoom md_peers (\<lambda>p d. d\<lparr>md_peers := p\<rparr>)
            (CreateMultiplePeers_begin (i_Identifier (multi_selectedInterface d)) (md_form d))))"

definition multi_save_settle :: "multi_form request \<Rightarrow> peer list settled \<Rightarrow> (multi_dialog, unit) comp" where
  "multi_save_settle w reply =
     guarded_settle (\<lambda>b d. d\<lparr>md_isSaving := b\<rparr>) ''Failed to create peers!''
       (andThen (zoom md_peers (\<lambda>p d. d\<lparr>md_peers := p\<rparr>) (CreateMultiplePeers_settle reply)) multi_close)"

lemma multi_save_begin_cases:
  "\<exists>v t es. multi_save_begin d = Returns v t es
     \<and> (if md_isSaving d then v = None \<and> t = d \<and> es = [] else (md_isSaving t \<longleftrightarrow> v \<noteq> None))
     \<and> (v \<noteq> None \<longleftrightarrow> \<not> md_isSaving d \<and> mf_Identifiers (md_form d) \<noteq> []
          \<and> latin1 (i_Identifier (multi_selectedInterface d)))"
  by (simp add: multi_save_begin_def guarded_begin_cases CreateMultiplePeers_begin_def
      set_fetching_def encoded_request_cases notify_error_def js_run)

lemma multi_save_settle_cases:
  "multi_save_settle w reply d = (case reply of
      Inr ps \<Rightarrow> Returns () (d\<lparr>md_isSaving := False, md_form := freshForm,
        md_peers := (md_peers d)\<lparr>peers := peers (md_peers d) @ ps, fetching := False\<rparr>\<rparr>) [Close]
    | Inl e \<Rightarrow> Returns () (d\<lparr>md_isSaving := False, md_peers := (md_peers d)\<lparr>fetching := False\<rparr>\<rparr>)
        [Notify (js ''Failed to create peers!'') (Text (reason_string (new_Error e))) (Some (js ''error''))])"
  by (cases reply) (simp_all add: multi_save_settle_def guarded_settle_cases
      CreateMultiplePeers_settle_def set_fetching_def multi_close_def js_run)

interpretation multi_save: one_in_flight md_isSaving multi_save_begin multi_save_settle
  "\<lambda>d e. \<exists>f p i. e = d\<lparr>md_form := f, md_peers := p, md_interfaces := i\<rparr>"
proof
  fix d w reply e
  show "md_isSaving d \<Longrightarrow> multi_save_begin d = Returns None d []"
    using multi_save_begin_cases [of d] by auto
  show "\<not> md_isSaving d \<Longrightarrow>
      \<exists>v t es. multi_save_begin d = Returns v t es \<and> (md_isSaving t \<longleftrightarrow> v \<noteq> None)"
    using multi_save_begin_cases [of d] by auto
  show "\<exists>t es. multi_save_settle w reply d = Returns () t es \<and> \<not> md_isSaving t"
    by (simp add: multi_save_settle_cases split: sum.split)
qed auto

section \<open>Properties\<close>

text \<open>The interface dialog has at most one save and one deletion on its way, and the dialog
  for several peers at most one creation, each exactly while its button is disabled, whatever
  happens around them.\<close>

theorem interface_dialogs_one_in_flight:
  assumes "\<not> id_isSaving d0" "\<not> id_isDeleting d0" "\<not> md_isSaving m0"
    and "(flight_step interface_save_begin interface_save_settle around_interface_action)\<^sup>*\<^sup>* (d0, []) (d, ws)"
    and "(flight_step interface_del_begin interface_del_settle around_interface_action)\<^sup>*\<^sup>* (d0, []) (e, vs)"
    and "(flight_step multi_save_begin multi_save_settle
      (\<lambda>d e. \<exists>f p i. e = d\<lparr>md_form := f, md_peers := p, md_interfaces := i\<rparr>))\<^sup>*\<^sup>* (m0, []) (m, us)"
  shows "length ws = (if id_isSaving d then 1 else 0) \<and> length vs = (if id_isDeleting e then 1 else 0)
    \<and> length us = (if md_isSaving m then 1 else 0)"
  using interface_save.reachable_ok [OF assms(4,1)] interface_del.reachable_ok [OF assms(5,2)]
    multi_save.reachable_ok [OF assms(6,3)] by blast

definition interface_dialog_init :: interface_dialog where
  "interface_dialog_init = \<lparr>id_interfaces = interfaces_init, id_peers = peers_init,
     id_settings = settings_init, id_interfaceId = NEW_INTERFACE, id_visible = False,
     id_form = freshInterface, id_isSaving = False, id_isDeleting = False,
     id_isApplyingDefaults = False\<rparr>"

definition multi_dialog_init :: multi_dialog where
  "multi_dialog_init = \<lparr>md_interfaces = interfaces_init, md_peers = peers_init, md_form = freshForm,
     md_isSaving = False\<rparr>"

theorem interface_dialogs_one_in_flight_witness:
  "\<exists>d w. (flight_step interface_save_begin interface_save_settle around_interface_action)\<^sup>*\<^sup>*
       (interface_dialog_init, []) (d, [w]) \<and> id_isSaving d"
proof -
  let ?step = "flight_step interface_save_begin interface_save_settle around_interface_action"
  let ?w = "IfaceCreate (Request POST (js ''/interface/new'') (Some freshInterface))"
  let ?sent = "interface_dialog_init\<lparr>id_isSaving := True,
    id_interfaces := interfaces_init\<lparr>if_fetching := True\<rparr>\<rparr>"
  have "interface_save_begin interface_dialog_init = Returns (Some ?w) ?sent []"
    by (simp add: interface_save_begin_cases interface_dialog_init_def)
  then have "?step (interface_dialog_init, []) (?sent, case Some ?w of None \<Rightarrow> [] | Some q \<Rightarrow> q # [])"
    by (rule flight_press)
  then have run: "?step\<^sup>*\<^sup>* (interface_dialog_init, []) (?sent, [?w])" by auto
  have idle: "\<not> id_isSaving interface_dialog_init" "\<not> id_isDeleting interface_dialog_init"
    "\<not> md_isSaving multi_dialog_init" by (simp_all add: interface_dialog_init_def multi_dialog_init_def)
  have "length [?w] = (if id_isSaving ?sent then 1 else 0)"
    using interface_dialogs_one_in_flight [OF idle run rtranclp.rtrancl_refl rtranclp.rtrancl_refl]
    by blast
  then have "id_isSaving ?sent" by (simp split: if_splits)
  with run show ?thesis by blast
qed

text \<open>Opening an interface and saving it unchanged sends it back with every setting the form
  edits, the deactivation included; only the counts of peers and the file name, which are not
  edited, are those of a fresh interface, and so is a property the backend does not know.\<close>

theorem unchanged_interface_sent:
  assumes "if_Find (id_interfaces d) i = Some v" "id_form d = freshInterface" "\<not> id_isSaving d"
    and "i \<noteq> NEW_INTERFACE" "latin1 i"
  shows "\<exists>t u es q. open_interface_dialog i p d = Returns () t []
    \<and> interface_save_begin t = Returns (Some (IfaceUpdate i q)) u es
    \<and> req_body q = Some (v\<lparr>i_DnsStr := Some [], i_TotalPeers := 0, i_EnabledPeers := 0, i_Filename := []\<rparr>)"
proof -
  let ?f = "v\<lparr>i_DnsStr := Some [], i_TotalPeers := 0, i_EnabledPeers := 0, i_Filename := []\<rparr>"
  let ?t = "d\<lparr>id_interfaceId := i, id_visible := True, id_form := ?f\<rparr>"
  have "i_Identifier v = i" using assms(1) by (auto simp: if_Find_def find_Some_iff)
  have "fill_existing v freshInterface = ?f" by (simp add: fill_existing_def freshInterface_def)
  then have "open_interface_dialog i p d = Returns () ?t []" using assms(1,2)
    by (simp add: open_interface_dialog_def interface_dialog_shown_def selectedInterface_def js_run)
  moreover have "\<exists>u es q. interface_save_begin ?t = Returns (Some (IfaceUpdate i q)) u es \<and> req_body q = Some ?f"
    using assms \<open>i_Identifier v = i\<close>
    by (simp add: interface_save_begin_cases selectedInterface_def Let_def)
  ultimately show ?thesis by blast
qed

theorem unchanged_interface_sent_witness:
  "\<exists>t u es q. open_interface_dialog (js ''wg0'') (Inl TypeError)
       (interface_dialog_init\<lparr>id_interfaces := interfaces_init\<lparr>interfaces :=
          [freshInterface\<lparr>i_Identifier := js ''wg0'', i_Disabled := True\<rparr>]\<rparr>\<rparr>) = Returns () t []
     \<and> interface_save_begin t = Returns (Some (IfaceUpdate (js ''wg0'') q)) u es
     \<and> map_option i_Disabled (req_body q) = Some True"
proof -
  let ?v = "freshInterface\<lparr>i_Identifier := js ''wg0'', i_Disabled := True\<rparr>"
  let ?s = "interface_dialog_init\<lparr>id_interfaces := interfaces_init\<lparr>interfaces := [?v]\<rparr>\<rparr>"
  have "if_Find (id_interfaces ?s) (js ''wg0'') = Some ?v" "id_form ?s = freshInterface"
    "\<not> id_isSaving ?s" "js ''wg0'' \<noteq> NEW_INTERFACE" "latin1 (js ''wg0'')"
    by (simp_all add: if_Find_def interface_dialog_init_def NEW_INTERFACE_def)
  from unchanged_interface_sent [OF this, of "Inl TypeError"] show ?thesis by fastforce
qed

text \<open>A tag input of the interface form changes its field only to a list whose entries all
  pass the check, and else changes nothing and shows one message for each entry that fails.\<close>

theorem interface_tags_checked:
  "\<exists>t es u fs. if_handleChangeAddresses lib tags d = Returns () t es
     \<and> handleChangePeerDefDns lib tags d = Returns () u fs
     \<and> (if filter (\<lambda>x. isCidr lib x = 0) tags = []
        then id_form t = (id_form d)\<lparr>i_Addresses := tags\<rparr> \<and> es = []
        else t = d \<and> length es = length (filter (\<lambda>x. isCidr lib x = 0) tags))
     \<and> (if filter (\<lambda>x. \<not> isIP lib x) tags = []
        then id_form u = (id_form d)\<lparr>i_PeerDefDns := tags\<rparr> \<and> fs = []
        else u = d \<and> length fs = length (filter (\<lambda>x. \<not> isIP lib x) tags))"
  by (auto simp: if_handleChangeAddresses_def handleChangePeerDefDns_def change_tags_run cidr_ok_def
      list_all_iff filter_empty_conv)

end
