(* ===== verification/Interface_View.thy ===== *)
theory Interface_View
  imports Peers Settings Datetime
begin

text \<open>
  The page of the interfaces and their peers, \<open>views/InterfaceView.vue\<close>: the sort headers, the
  names and addresses on display, the window of page links, the selection of rows, the actions
  on the selected interface and the start-up of the page.
\<close>

section \<open>State\<close>

text \<open>
  The column the view remembers is \<open>None\<close> before the first click (the empty text of the code).
\<close>

record interface_view =
  iv_interfaces :: interface_store
  iv_peers :: peer_store
  iv_settings :: settings_store
  iv_sortKey :: "sort_key option"
  iv_sortOrder :: int
  iv_selectAll :: bool

definition iv_on_interfaces :: "(interface_store, 'a) comp \<Rightarrow> (interface_view, 'a) comp" where
  "iv_on_interfaces = zoom iv_interfaces (\<lambda>u s. s\<lparr>iv_interfaces := u\<rparr>)"

definition iv_on_peers :: "(peer_store, 'a) comp \<Rightarrow> (interface_view, 'a) comp" where
  "iv_on_peers = zoom iv_peers (\<lambda>u s. s\<lparr>iv_peers := u\<rparr>)"

section \<open>Sorting\<close>

definition sortBy :: "sort_key \<Rightarrow> (interface_view, unit) comp" where
  "sortBy key =
     andThen (modify (\<lambda>v. if iv_sortKey v = Some key then v\<lparr>iv_sortOrder := iv_sortOrder v * -1\<rparr>
                          else v\<lparr>iv_sortKey := Some key, iv_sortOrder := 1\<rparr>))
       (modify (\<lambda>v. v\<lparr>iv_peers := (iv_peers v)\<lparr>sortKey := the (iv_sortKey v),
                                              sortOrder := iv_sortOrder v\<rparr>\<rparr>))"

section \<open>Names\<close>

definition formatExpiryTooltip :: "(jsstr \<Rightarrow> jsstr) \<Rightarrow> zone \<Rightarrow> jsstr option \<Rightarrow> jsstr" where
  "formatExpiryTooltip tr z expiresAt = (case expiresAt of
      None \<Rightarrow> []
    | Some e \<Rightarrow> if e = [] then []
        else (case formatRFC3339ToDatetime z e of (date, time) \<Rightarrow>
          if date \<noteq> [] \<and> time \<noteq> []
          then tr (js ''interfaces.peer-expiring'') @ js '' '' @ date @ js '' '' @ time
          else tr (js ''interfaces.peer-expiring'') @ js '' '' @ e))"

definition calculateInterfaceName :: "jsstr \<Rightarrow> jsstr \<Rightarrow> jsstr" where
  "calculateInterfaceName i name = (if name = [] then i else i @ js '' ('' @ name @ js '')'')"

text \<open>The identifier and name of a backend in the settings; the last match of a loop counts.\<close>

definition backends :: "settings_store \<Rightarrow> (jsstr \<times> jsstr) list" where
  "backends s = (case Setting s (js ''AvailableBackends'') of
      Some (JArr bs) \<Rightarrow> concat (map (\<lambda>b. case b of
          JObj props \<Rightarrow> (case (map_of props (js ''Id''), map_of props (js ''Name'')) of
              (Some (JStr i), Some (JStr n)) \<Rightarrow> [(i, n)] | _ \<Rightarrow> [])
        | _ \<Rightarrow> []) bs)
    | _ \<Rightarrow> [])"

definition calculateBackendName :: "(jsstr \<Rightarrow> jsstr) \<Rightarrow> interface_view \<Rightarrow> jsstr settled" where
  "calculateBackendName tr v = (case GetSelected (iv_interfaces v) of
      None \<Rightarrow> Inl TypeError
    | Some f \<Rightarrow> Inr (fold (\<lambda>(i, n) name.
          if i = i_Backend f then (if i = js ''local'' then tr n else n) else name)
        (backends (iv_settings v)) (tr (js ''interfaces.interface.unknown-backend''))))"

definition isBackendValid :: "interface_view \<Rightarrow> bool settled" where
  "isBackendValid v = (case GetSelected (iv_interfaces v) of
      None \<Rightarrow> Inl TypeError
    | Some f \<Rightarrow> Inr (fold (\<lambda>(i, n) valid. if i = i_Backend f then True else valid)
        (backends (iv_settings v)) False))"

section \<open>Addresses\<close>

text \<open>\<open>join(',')\<close>, \<open>split(',')\<close>, \<open>trim()\<close> with the language's white space, \<open>filter(Boolean)\<close>.\<close>

fun join_with :: "16 word \<Rightarrow> jsstr list \<Rightarrow> jsstr" where
  "join_with u [] = []"
| "join_with u [s] = s"
| "join_with u (s # t # ts) = s @ u # join_with u (t # ts)"

fun split_on :: "16 word \<Rightarrow> jsstr \<Rightarrow> jsstr list" where
  "split_on u [] = [[]]"
| "split_on u (v # s) = (if v = u then [] # split_on u s
     else (case split_on u s of [] \<Rightarrow> [[v]] | t # ts \<Rightarrow> (v # t) # ts))"

definition is_space :: "16 word \<Rightarrow> bool" where
  "is_space u = (let n = unat u in (9 \<le> n \<and> n \<le> 13) \<or> n = 32 \<or> n = 160 \<or> n = 0x1680
     \<or> (0x2000 \<le> n \<and> n \<le> 0x200A) \<or> n = 0x2028 \<or> n = 0x2029 \<or> n = 0x202F \<or> n = 0x205F
     \<or> n = 0x3000 \<or> n = 0xFEFF)"

definition trim :: "jsstr \<Rightarrow> jsstr" where
  "trim s = rev (dropWhile is_space (rev (dropWhile is_space s)))"

definition split_addresses :: "jsstr list \<Rightarrow> jsstr list" where
  "split_addresses addrs =
     filter (\<lambda>a. a \<noteq> []) (map trim (split_on (js_char CHR '','') (join_with (js_char CHR '','') addrs)))"

definition starts_with_digit :: "jsstr \<Rightarrow> bool" where
  "starts_with_digit a = (case a of [] \<Rightarrow> False | u # _ \<Rightarrow> digit_value u \<noteq> None)"

definition getAllAddresses :: "interface_view \<Rightarrow> jsstr list settled" where
  "getAllAddresses v = (case GetSelected (iv_interfaces v) of
      None \<Rightarrow> Inl TypeError
    | Some f \<Rightarrow> Inr (split_addresses (i_Addresses f)))"

definition ipv4Addresses :: "interface_view \<Rightarrow> jsstr list settled" where
  "ipv4Addresses v = map_sum id (filter starts_with_digit) (getAllAddresses v)"

definition ipv6Addresses :: "interface_view \<Rightarrow> jsstr list settled" where
  "ipv6Addresses v = map_sum id (filter (\<lambda>a. strIncludes a (js '':''))) (getAllAddresses v)"

definition getPeerAddresses :: "jsstr list \<Rightarrow> jsstr list \<times> jsstr list" where
  "getPeerAddresses addresses =
     (let addrs = split_addresses addresses
      in (filter starts_with_digit addrs, filter (\<lambda>a. strIncludes a (js '':'')) addrs))"

section \<open>The window of page links\<close>

text \<open>
  \<open>for (let i = startPage; i <= endPage; i++) result.push(i)\<close>; the current page, and with it the
  start, may be a fraction when the offset is not the start of a page.
\<close>

function window_loop :: "rat \<Rightarrow> rat \<Rightarrow> rat list \<Rightarrow> rat list" where
  "window_loop i endPage result =
     (if i \<le> endPage then window_loop (i + 1) endPage (result @ [i]) else result)"
  by pat_completeness auto
termination
proof (relation "measure (\<lambda>(i, e, r). nat (\<lfloor>e - i\<rfloor> + 1))")
  fix i e :: rat and r
  assume "i \<le> e"
  moreover have "\<lfloor>e - (i + 1)\<rfloor> = \<lfloor>e - i\<rfloor> - 1"
    by (metis diff_diff_eq floor_diff_one)
  ultimately show "((i + 1, e, r @ [i]), i, e, r) \<in> measure (\<lambda>(i, e, r). nat (\<lfloor>e - i\<rfloor> + 1))"
    by simp
qed simp

declare window_loop.simps [simp del]

text \<open>Without a finite current page the comparisons are with NaN and the window is empty.\<close>

definition visiblePages :: "int list \<Rightarrow> rat option \<Rightarrow> rat list" where
  "visiblePages ps currentPage =
     (let totalPages = of_nat (length ps); windowSize = 10 in
      if totalPages \<le> windowSize then map of_int ps
      else (case currentPage of
          None \<Rightarrow> []
        | Some current \<Rightarrow>
           (let startPage = max 1 (current - of_int \<lfloor>windowSize / 2\<rfloor>);
                endPage = startPage + windowSize - 1
            in if endPage > totalPages
               then window_loop (max 1 (totalPages - windowSize + 1)) totalPages []
               else window_loop startPage endPage [])))"

section \<open>Rows and the selected interface\<close>

text \<open>
  The rows of the page are the objects of the list, so marking them marks these; a row is found
  again by its identifier.
\<close>

definition toggleSelectAll :: "ip_library \<Rightarrow> (jsstr \<Rightarrow> int option) \<Rightarrow> (interface_view, unit) comp" where
  "toggleSelectAll lib toNum =
     bind (gets (\<lambda>v. peers_FilteredAndPaged lib toNum (iv_peers v))) (\<lambda>r. case r of
         Inl e \<Rightarrow> throw e
       | Inr rows \<Rightarrow> modify (\<lambda>v. v\<lparr>iv_peers := (iv_peers v)\<lparr>peers := map (\<lambda>p.
             if p_Identifier p \<in> set (map p_Identifier rows) then p\<lparr>p_IsSelected := iv_selectAll v\<rparr> else p)
             (peers (iv_peers v))\<rparr>\<rparr>))"

text \<open>\<open>download\<close>: the text and the name of the file the browser is given.\<close>

definition download :: "jsstr settled \<Rightarrow> (interface_view, jsstr \<times> jsstr) comp" where
  "download reply =
     bind (gets (\<lambda>v. GetSelected (iv_interfaces v))) (\<lambda>sel. case sel of
         None \<Rightarrow> throw TypeError
       | Some f \<Rightarrow> andThen (iv_on_interfaces (bind (LoadInterfaceConfig_begin (i_Identifier f))
             (\<lambda>_. LoadInterfaceConfig_settle reply)))
           (bind (gets (\<lambda>v. v)) (\<lambda>v. case GetSelected (iv_interfaces v) of
               None \<Rightarrow> throw TypeError
             | Some g \<Rightarrow> return (if_configuration (iv_interfaces v), i_Filename g))))"

definition saveConfig :: "unit settled \<Rightarrow> (interface_view, unit) comp" where
  "saveConfig reply =
     catch
       (bind (gets (\<lambda>v. GetSelected (iv_interfaces v))) (\<lambda>sel. case sel of
           None \<Rightarrow> throw TypeError
         | Some f \<Rightarrow> andThen (iv_on_interfaces (bind (SaveConfiguration_begin (i_Identifier f))
               (\<lambda>_. SaveConfiguration_settle reply)))
             (notify_success ''Interface configuration persisted to file''
                ''The interface configuration has been written to the wg-quick configuration file.'')))
       (\<lambda>e. notify_error ''Failed to persist interface configuration file!'' (Text (reason_string e)))"

text \<open>\<open>onMounted\<close>: the interfaces, then the peers and the statistics of the selected one.\<close>

definition interface_view_mounted ::
  "iface list settled \<Rightarrow> peer list settled \<Rightarrow> stats_response option settled \<Rightarrow> (interface_view, unit) comp" where
  "interface_view_mounted ifs ps st =
     andThen (iv_on_interfaces (bind LoadInterfaces_begin (\<lambda>_. LoadInterfaces_settle ifs)))
    (bind (gets iv_interfaces) (\<lambda>i.
      andThen (iv_on_peers (bind (LoadPeers_begin i None)
        (\<lambda>q. case q of None \<Rightarrow> return () | Some _ \<Rightarrow> LoadPeers_settle ps)))
      (bind (gets iv_interfaces) (\<lambda>j.
        iv_on_peers (bind (LoadStats_begin j None)
          (\<lambda>q. case q of None \<Rightarrow> return () | Some _ \<Rightarrow> LoadStats_settle st))))))"

section \<open>Properties\<close>

lemma window_loop_ints: "window_loop (of_int a) (of_int b) r = r @ map of_int [a..b]"
proof (induction "nat (b - a + 1)" arbitrary: a r)
  case 0
  then have "b < a" by linarith
  then show ?case by (subst window_loop.simps) simp
next
  case (Suc k)
  then have "a \<le> b" "k = nat (b - (a + 1) + 1)" by linarith+
  then show ?case
    using Suc.hyps(1) [of "a + 1" "r @ [of_int a]"] upto_rec1 [of a b]
    by (subst window_loop.simps) simp
qed

lemma visiblePages_range:
  assumes "1 \<le> p" "p \<le> n"
  shows "\<exists>a b. visiblePages [1..n] (Some (of_int p)) = map of_int [a..b] \<and> 1 \<le> a \<and> b \<le> n
    \<and> a \<le> p \<and> p \<le> b \<and> b - a + 1 = min n 10"
proof (cases "n \<le> 10")
  case True
  then have "(of_nat (length [1..n]) :: rat) \<le> 10" using assms by simp
  then have "visiblePages [1..n] (Some (of_int p)) = map of_int [1..n]"
    unfolding visiblePages_def Let_def by simp
  with True assms show ?thesis by (intro exI [of _ 1] exI [of _ n]) simp
next
  case False
  let ?a = "max 1 (p - 5)"
  have n: "(of_nat (length [1..n]) :: rat) = of_int n" using assms by simp
  have floor: "\<lfloor>10 / 2 :: rat\<rfloor> = 5" by simp
  have start: "max 1 (of_int p - of_int 5) = (of_int ?a :: rat)"
    by (simp add: max_def)
  have gt: "\<not> (of_int n :: rat) \<le> 10" using False by simp
  show ?thesis
  proof (cases "?a + 9 > n")
    case True
    then have cmp: "(of_int ?a :: rat) + 10 - 1 > of_int n"
      using of_int_less_iff [of n "?a + 9", where ?'a = rat] by simp
    have last: "max 1 (of_int n - 10 + 1) = (of_int (n - 9) :: rat)" using False by simp
    have "visiblePages [1..n] (Some (of_int p)) = map of_int [n - 9..n]"
      unfolding visiblePages_def Let_def n floor start last
      using gt cmp window_loop_ints [of "n - 9" n "[]"] by simp
    with True False assms show ?thesis by (intro exI [of _ "n - 9"] exI [of _ n]) auto
  next
    case False2: False
    then have cmp: "\<not> (of_int (?a + 9) :: rat) > of_int n" 
      by (simp only: of_int_less_iff False2 not_False_eq_True)
    have stop: "(of_int ?a :: rat) + 10 - 1 = of_int (?a + 9)" by simp
    have "visiblePages [1..n] (Some (of_int p)) = map of_int [?a..?a + 9]"
      unfolding visiblePages_def Let_def n floor option.case start stop
      by (simp only: gt cmp if_False window_loop_ints append_Nil)
    with False False2 assms show ?thesis by (intro exI [of _ ?a] exI [of _ "?a + 9"]) auto
  qed
qed

text \<open>Whenever the current page is one of the \<open>n\<close> pages, the bar shows ten consecutive page
  links, or all of them when there are fewer, and the current page is one of those shown.\<close>

theorem visiblePages_window:
  assumes "1 \<le> p" "p \<le> n"
  shows "\<exists>a b. visiblePages [1..n] (Some (of_int p)) = map of_int [a..b] \<and> 1 \<le> a \<and> b \<le> n
    \<and> a \<le> p \<and> p \<le> b \<and> b - a + 1 = min n 10"
  using visiblePages_range [OF assms] .

theorem visiblePages_window_witness:
  "\<exists>a b. visiblePages [1..30] (Some 17) = map of_int [a..b] \<and> a \<le> 17 \<and> 17 \<le> b \<and> b - a + 1 = 10"
proof -
  obtain a b where "visiblePages [1..30] (Some (of_int 17)) = map of_int [a..b]" "a \<le> 17" "17 \<le> b"
    "b - a + 1 = min 30 10"
    using visiblePages_window [of 17 30] by auto
  then show ?thesis by (intro exI [of _ a] exI [of _ b]) simp
qed

lemma split_on_plain: "u \<notin> set s \<Longrightarrow> split_on u s = [s]"
  by (induction s) auto

lemma split_join:
  "addrs \<noteq> [] \<Longrightarrow> \<forall>a \<in> set addrs. u \<notin> set a \<Longrightarrow> split_on u (join_with u addrs) = addrs"
proof (induction u addrs rule: join_with.induct)
  case (3 u s t ts)
  have "split_on u (s @ u # rest) = s # split_on u rest" if "u \<notin> set s" for s rest
    using that by (induction s) auto
  with 3 show ?case by simp
qed (simp_all add: split_on_plain)

definition tidy :: "jsstr \<Rightarrow> bool" where
  "tidy a \<longleftrightarrow> a \<noteq> [] \<and> js_char CHR '','' \<notin> set a \<and> trim a = a"

lemma split_addresses_tidy:
  assumes "list_all tidy addresses"
  shows "split_addresses addresses = addresses"
proof (cases "addresses = []")
  case True
  then show ?thesis by (simp add: split_addresses_def trim_def)
next
  case False
  have "\<forall>a \<in> set addresses. js_char CHR '','' \<notin> set a"
    using assms by (simp add: list_all_iff tidy_def)
  then have "split_addresses addresses = filter (\<lambda>a. a \<noteq> []) (map trim addresses)"
    using split_join [OF False] by (simp add: split_addresses_def)
  also have "map trim addresses = addresses"
    using assms by (intro map_idI) (simp add: list_all_iff tidy_def)
  also have "filter (\<lambda>a. a \<noteq> []) addresses = addresses"
    using assms by (simp add: filter_id_conv list_all_iff tidy_def)
  finally show ?thesis .
qed

text \<open>The addresses of a peer are shown in two lists that are meant to be its IPv4 and its
  IPv6 addresses: every address that contains a colon is in the second, and every one that
  starts with a digit in the first, so an IPv6 address that starts with a digit is in both.\<close>

theorem peer_addresses_split:
  assumes "list_all tidy addresses"
  shows "getPeerAddresses addresses =
    (filter starts_with_digit addresses, filter (\<lambda>a. strIncludes a (js '':'')) addresses)"
  by (simp add: getPeerAddresses_def Let_def split_addresses_tidy [OF assms])

theorem peer_addresses_split_witness:
  "getPeerAddresses [js ''2001:db8::7''] = ([js ''2001:db8::7''], [js ''2001:db8::7''])"
proof -
  have "tidy (js ''2001:db8::7'')"
    by (simp add: tidy_def trim_def is_space_def js_def js_char_def Let_def)
  moreover have "starts_with_digit (js ''2001:db8::7'')"
    by (simp add: starts_with_digit_def js_def js_char_def digit_value_def Let_def)
  moreover have "js ''2001:db8::7'' = js ''2001'' @ js '':'' @ js ''db8::7''" by (simp add: js_append)
  then have "strIncludes (js ''2001:db8::7'') (js '':'')" unfolding strIncludes_iff by blast
  ultimately show ?thesis
    using peer_addresses_split [of "[js ''2001:db8::7'']"] by simp
qed

lemma bind_Returns: "m s = Returns a t es \<Longrightarrow> bind m k s = prepend_effects es (k a t)"
  by (simp add: bind_def)

lemma andThen_Returns: "m s = Returns a t es \<Longrightarrow> andThen m k s = prepend_effects es (k t)"
  by (simp add: andThen_def bind_Returns)

lemma bind_Throws: "m s = Throws e t es \<Longrightarrow> bind m k s = Throws e t es"
  by (simp add: bind_def)

lemma LoadInterfaces_some:
  "bind LoadInterfaces_begin (\<lambda>_. LoadInterfaces_settle (Inr (f # fs))) i
    = Returns () (i\<lparr>if_fetching := False, interfaces := f # fs, selected := i_Identifier f\<rparr>) []"
  by (simp add: LoadInterfaces_begin_def LoadInterfaces_settle_def setInterfaces_def
      select_first_def set_if_fetching_def js_run)

lemma LoadInterfaces_none:
  assumes "ifs = Inr [] \<or> isl ifs"
  shows "\<exists>es. bind LoadInterfaces_begin (\<lambda>_. LoadInterfaces_settle ifs) i
    = Returns () (i\<lparr>if_fetching := False, interfaces := [], selected := []\<rparr>) es"
proof (cases ifs)
  case (Inl e)
  then show ?thesis
    by (simp add: LoadInterfaces_begin_def LoadInterfaces_settle_def setInterfaces_def
        select_first_def set_if_fetching_def notify_backend_def js_run)
next
  case (Inr l)
  with assms have "ifs = Inr []" by auto
  then show ?thesis
    by (simp add: LoadInterfaces_begin_def LoadInterfaces_settle_def setInterfaces_def
        select_first_def set_if_fetching_def js_run)
qed

lemma LoadPeers_selected:
  assumes "GetSelected i = Some f" "i_Identifier f \<noteq> []" "latin1 (i_Identifier f)" "0 < pageSize u"
  shows "\<exists>t. bind (LoadPeers_begin i None)
      (\<lambda>q. case q of None \<Rightarrow> return () | Some _ \<Rightarrow> LoadPeers_settle (Inr ps)) u = Returns () t []
    \<and> peers t = ps \<and> pages t = [1..page_count (peers_FilteredCount t) (pageSize t)]"
proof -
  obtain t where t: "setPeers ps (u\<lparr>fetching := True\<rparr>) = Returns () t []" "peers t = ps"
    "pages t = [1..page_count (peers_FilteredCount t) (pageSize t)]"
    using setPeers_returns [of "u\<lparr>fetching := True\<rparr>" ps] assms(4) by auto
  obtain q where "LoadPeers_begin i None u = Returns (Some q) (u\<lparr>fetching := True\<rparr>) []"
    using assms by (simp add: LoadPeers_begin_def resolve_interface_def set_fetching_def
        encoded_request_cases js_run)
  moreover have "LoadPeers_settle (Inr ps) (u\<lparr>fetching := True\<rparr>) = Returns () t []"
    using t(1) by (simp add: LoadPeers_settle_def catch_def)
  ultimately show ?thesis using t(2,3) by (simp add: bind_Returns)
qed

lemma LoadStats_selected:
  assumes "GetSelected i = Some f" "i_Identifier f \<noteq> []" "latin1 (i_Identifier f)"
  shows "\<exists>t. bind (LoadStats_begin i None)
      (\<lambda>q. case q of None \<Rightarrow> return () | Some _ \<Rightarrow> LoadStats_settle (Inr (Some st))) u = Returns () t []
    \<and> peers t = peers u \<and> tb_stats t = r_Stats st \<and> pages t = pages u \<and> pageSize t = pageSize u
    \<and> peers_FilteredCount t = peers_FilteredCount u"
proof -
  obtain q where "LoadStats_begin i None u = Returns (Some q) (u\<lparr>fetching := True\<rparr>) []"
    using assms by (simp add: LoadStats_begin_def resolve_interface_def set_fetching_def
        encoded_request_cases js_run)
  then show ?thesis
    by (simp add: bind_Returns LoadStats_settle_def setStats_def js_run peers_FilteredCount_def
        peers_Filtered_def)
qed

text \<open>Opening the page: with an interface that has an identifier the peers and statistics of
  the first interface are asked for and shown; with none the page stops with a type error after
  the interfaces, and nothing about peers is asked for.\<close>

theorem interface_view_mounted_outcome:
  assumes "0 < pageSize (iv_peers v)"
  shows "case ifs of
      Inr (f # fs) \<Rightarrow> i_Identifier f = [] \<or> \<not> latin1 (i_Identifier f) \<or>
        (\<exists>t es. interface_view_mounted ifs (Inr ps) (Inr (Some st)) v = Returns () t es
           \<and> GetSelected (iv_interfaces t) = Some f \<and> peers (iv_peers t) = ps
           \<and> tb_stats (iv_peers t) = r_Stats st \<and> pages (iv_peers t)
             = [1..page_count (peers_FilteredCount (iv_peers t)) (pageSize (iv_peers t))])
    | _ \<Rightarrow> (\<exists>t es. interface_view_mounted ifs (Inr ps) (Inr (Some st)) v = Throws TypeError t es
           \<and> iv_peers t = iv_peers v)"
proof -
  have stop: "\<exists>t es. interface_view_mounted ifs (Inr ps) (Inr (Some st)) v = Throws TypeError t es
      \<and> iv_peers t = iv_peers v" if none: "ifs = Inr [] \<or> isl ifs"
  proof -
    let ?i = "(iv_interfaces v)\<lparr>if_fetching := False, interfaces := [], selected := []\<rparr>"
    obtain es where one: "iv_on_interfaces (bind LoadInterfaces_begin (\<lambda>_. LoadInterfaces_settle ifs)) v
        = Returns () (v\<lparr>iv_interfaces := ?i\<rparr>) es"
      using LoadInterfaces_none [OF none, of "iv_interfaces v"] by (auto simp: iv_on_interfaces_def zoom_def)
    have two: "LoadPeers_begin ?i None (iv_peers v) = Throws TypeError (iv_peers v) []"
      by (simp add: LoadPeers_begin_def resolve_interface_def GetSelected_def first_def bind_def throw_def)
    have get: "bind (gets iv_interfaces) k w = k (iv_interfaces w) w" for k w
      by (simp add: bind_def gets_def)
    have three: "iv_on_peers (bind (LoadPeers_begin ?i None)
        (\<lambda>q. case q of None \<Rightarrow> return () | Some _ \<Rightarrow> LoadPeers_settle (Inr ps))) (v\<lparr>iv_interfaces := ?i\<rparr>)
        = Throws TypeError (v\<lparr>iv_interfaces := ?i\<rparr>) []"
      by (simp add: iv_on_peers_def zoom_def bind_Throws [where m = "LoadPeers_begin ?i None", OF two])
    show ?thesis
      unfolding interface_view_mounted_def andThen_Returns
        [where m = "iv_on_interfaces (bind LoadInterfaces_begin (\<lambda>_. LoadInterfaces_settle ifs))", OF one] get
      by (simp add: andThen_def bind_Throws [where m = "iv_on_peers (bind (LoadPeers_begin ?i None)
        (\<lambda>q. case q of None \<Rightarrow> return () | Some _ \<Rightarrow> LoadPeers_settle (Inr ps)))", OF three])
  qed
  have go: "\<exists>t es. interface_view_mounted ifs (Inr ps) (Inr (Some st)) v = Returns () t es
      \<and> GetSelected (iv_interfaces t) = Some f \<and> peers (iv_peers t) = ps
      \<and> tb_stats (iv_peers t) = r_Stats st \<and> pages (iv_peers t)
        = [1..page_count (peers_FilteredCount (iv_peers t)) (pageSize (iv_peers t))]"
    if f: "ifs = Inr (f # fs)" "i_Identifier f \<noteq> []" "latin1 (i_Identifier f)" for f fs
  proof -
    let ?i = "(iv_interfaces v)\<lparr>if_fetching := False, interfaces := f # fs, selected := i_Identifier f\<rparr>"
    have sel: "GetSelected ?i = Some f" by (simp add: GetSelected_def)
    obtain t where t: "bind (LoadPeers_begin ?i None)
        (\<lambda>q. case q of None \<Rightarrow> return () | Some _ \<Rightarrow> LoadPeers_settle (Inr ps)) (iv_peers v) = Returns () t []"
      "peers t = ps" "pages t = [1..page_count (peers_FilteredCount t) (pageSize t)]"
      using LoadPeers_selected [OF sel f(2,3) assms] by blast
    obtain u where u: "bind (LoadStats_begin ?i None)
        (\<lambda>q. case q of None \<Rightarrow> return () | Some _ \<Rightarrow> LoadStats_settle (Inr (Some st))) t = Returns () u []"
      "peers u = peers t" "tb_stats u = r_Stats st" "pages u = pages t" "pageSize u = pageSize t"
      "peers_FilteredCount u = peers_FilteredCount t"
      using LoadStats_selected [OF sel f(2,3)] by blast
    have one: "iv_on_interfaces (bind LoadInterfaces_begin (\<lambda>_. LoadInterfaces_settle ifs)) v
        = Returns () (v\<lparr>iv_interfaces := ?i\<rparr>) []"
      unfolding iv_on_interfaces_def zoom_def f(1) LoadInterfaces_some by simp
    have two: "iv_on_peers (bind (LoadPeers_begin ?i None)
        (\<lambda>q. case q of None \<Rightarrow> return () | Some _ \<Rightarrow> LoadPeers_settle (Inr ps))) (v\<lparr>iv_interfaces := ?i\<rparr>)
        = Returns () (v\<lparr>iv_interfaces := ?i, iv_peers := t\<rparr>) []"
      by (simp add: iv_on_peers_def zoom_def t(1))
    have three: "iv_on_peers (bind (LoadStats_begin ?i None)
        (\<lambda>q. case q of None \<Rightarrow> return () | Some _ \<Rightarrow> LoadStats_settle (Inr (Some st))))
        (v\<lparr>iv_interfaces := ?i, iv_peers := t\<rparr>)
        = Returns () (v\<lparr>iv_interfaces := ?i, iv_peers := u\<rparr>) []"
      by (simp add: iv_on_peers_def zoom_def u(1))
    have get: "bind (gets iv_interfaces) k w = k (iv_interfaces w) w" for k w
      by (simp add: bind_def gets_def)
    have "interface_view_mounted ifs (Inr ps) (Inr (Some st)) v
        = Returns () (v\<lparr>iv_interfaces := ?i, iv_peers := u\<rparr>) []"
      unfolding interface_view_mounted_def andThen_Returns
        [where m = "iv_on_interfaces (bind LoadInterfaces_begin (\<lambda>_. LoadInterfaces_settle ifs))", OF one] prepend_Nil get
      by (simp add: three andThen_Returns [where m = "iv_on_peers (bind (LoadPeers_begin ?i None)
        (\<lambda>q. case q of None \<Rightarrow> return () | Some _ \<Rightarrow> LoadPeers_settle (Inr ps)))", OF two])
    then show ?thesis using t u sel by simp
  qed
  show ?thesis
  proof (cases ifs)
    case (Inl e)
    then show ?thesis using stop by simp
  next
    case (Inr l)
    show ?thesis
    proof (cases l)
      case Nil
      then show ?thesis using stop Inr by simp
    next
      case (Cons f fs)
      then have "ifs = Inr (f # fs)" using Inr by simp
      from go [OF this] show ?thesis unfolding Inr Cons by auto
    qed
  qed
qed

theorem interface_view_mounted_outcome_witness:
  "\<exists>t es. interface_view_mounted (Inr []) (Inr []) (Inr (Some \<lparr>r_Enabled = True, r_Stats = Map.empty\<rparr>))
     \<lparr>iv_interfaces = interfaces_init, iv_peers = peers_init, iv_settings = settings_init,
      iv_sortKey = None, iv_sortOrder = 1, iv_selectAll = False\<rparr> = Throws TypeError t es"
  using interface_view_mounted_outcome [of "\<lparr>iv_interfaces = interfaces_init, iv_peers = peers_init,
      iv_settings = settings_init, iv_sortKey = None, iv_sortOrder = 1, iv_selectAll = False\<rparr>" "Inr []"
      "[]" "\<lparr>r_Enabled = True, r_Stats = Map.empty\<rparr>"]
  by (auto simp: peers_init_def)

end
