(* ===== verification/Peer_Dialog.thy ===== *)
theory Peer_Dialog
  imports Dialog Profile Peers Datetime
begin

text \<open>
  The dialog that edits and creates peers, \<open>components/PeerEditModal.vue\<close>. Thirteen properties of
  a peer (its endpoint, allowed addresses, name servers, hooks and so on) are objects of their
  own, with a value and a flag. Filling the form copies the references to these objects and not
  the objects, so the form and the peer it was filled from share them: what the inputs of the
  dialog and its watch write to a setting is written to the peer of the store at once.

  The state keeps the form with its settings written out, and, in \<open>pd_shares\<close>, whose objects they
  are; \<open>write_through\<close> is the effect of a write on the other holder.
\<close>

section \<open>Shared settings\<close>

text \<open>
  A peer whose setting objects a form can hold: the first of the peer store with an identifier,
  the first of the user's own with one, or the prepared peer.
\<close>

datatype place = Listed jsstr | Own jsstr | Prepared

text \<open>\<open>share_settings f p\<close>: the peer \<open>p\<close> with the settings of \<open>f\<close>.\<close>

definition share_settings :: "peer \<Rightarrow> peer \<Rightarrow> peer" where
  "share_settings f p = p\<lparr>
     p_Endpoint := p_Endpoint f,
     p_EndpointPublicKey := p_EndpointPublicKey f,
     p_AllowedIPs := p_AllowedIPs f,
     p_PersistentKeepalive := p_PersistentKeepalive f,
     p_Dns := p_Dns f,
     p_DnsSearch := p_DnsSearch f,
     p_Mtu := p_Mtu f,
     p_FirewallMark := p_FirewallMark f,
     p_RoutingTable := p_RoutingTable f,
     p_PreUp := p_PreUp f,
     p_PostUp := p_PostUp f,
     p_PreDown := p_PreDown f,
     p_PostDown := p_PostDown f\<rparr>"

fun update_first :: "('a \<Rightarrow> bool) \<Rightarrow> ('a \<Rightarrow> 'a) \<Rightarrow> 'a list \<Rightarrow> 'a list" where
  "update_first P f [] = []"
| "update_first P f (x # xs) = (if P x then f x # xs else x # update_first P f xs)"

section \<open>State\<close>

record peer_dialog =
  pd_peers :: peer_store
  pd_interfaces :: interface_store
  pd_profile :: profile_store
  pd_peerId :: jsstr
  pd_visible :: bool
  pd_form :: peer
  pd_shares :: "place option"
  pd_isSaving :: bool
  pd_isDeleting :: bool
  pd_expiryDate :: jsstr
  pd_expiryTime :: jsstr

definition pd_on_peers :: "(peer_store, 'a) comp \<Rightarrow> (peer_dialog, 'a) comp" where
  "pd_on_peers = zoom pd_peers (\<lambda>u d. d\<lparr>pd_peers := u\<rparr>)"

definition write_through :: "peer_dialog \<Rightarrow> peer_dialog" where
  "write_through d = (case pd_shares d of
      None \<Rightarrow> d
    | Some (Listed k) \<Rightarrow> d\<lparr>pd_peers := (pd_peers d)\<lparr>peers :=
        update_first (\<lambda>p. p_Identifier p = k) (share_settings (pd_form d)) (peers (pd_peers d))\<rparr>\<rparr>
    | Some (Own k) \<Rightarrow> d\<lparr>pd_profile := (pd_profile d)\<lparr>prof_peers :=
        update_first (\<lambda>p. p_Identifier p = k) (share_settings (pd_form d)) (prof_peers (pd_profile d))\<rparr>\<rparr>
    | Some Prepared \<Rightarrow> d\<lparr>pd_peers := (pd_peers d)\<lparr>prepared :=
        share_settings (pd_form d) (prepared (pd_peers d))\<rparr>\<rparr>)"

definition NEW_PEER :: jsstr where "NEW_PEER = js ''#NEW#''"

text \<open>The selected peer, with the place of its settings; the dummy peer is nobody else's.\<close>

definition selectedPeer :: "peer_dialog \<Rightarrow> (peer \<times> place option) option" where
  "selectedPeer d = (case peers_Find (pd_peers d) (pd_peerId d) of
      Some p \<Rightarrow> Some (p, Some (Listed (pd_peerId d)))
    | None \<Rightarrow>
        if pd_peerId d \<noteq> []
        then map_option (\<lambda>p. (p, Some (Own (pd_peerId d)))) (FindPeers (pd_profile d) (pd_peerId d))
        else Some (freshPeer, None))"

definition pd_selectedInterface :: "peer_dialog \<Rightarrow> iface" where
  "pd_selectedInterface d =
     (case GetSelected (pd_interfaces d) of Some v \<Rightarrow> v | None \<Rightarrow> freshInterface)"

definition peer_dialog_title :: "(jsstr \<Rightarrow> jsstr) \<Rightarrow> peer_dialog \<Rightarrow> jsstr" where
  "peer_dialog_title tr d =
     (if \<not> pd_visible d then []
      else if i_Mode (pd_selectedInterface d) = js ''server''
      then (case selectedPeer d of
          Some (p, _) \<Rightarrow> tr (js ''modals.peer-edit.headline-edit-peer'') @ js '' '' @ p_Identifier p
        | None \<Rightarrow> tr (js ''modals.peer-edit.headline-new-peer''))
      else (case selectedPeer d of
          Some (p, _) \<Rightarrow> tr (js ''modals.peer-edit.headline-edit-endpoint'') @ js '' '' @ p_Identifier p
        | None \<Rightarrow> tr (js ''modals.peer-edit.headline-new-endpoint'')))"

section \<open>The watches on the form\<close>

definition set_overridable :: "bool \<Rightarrow> peer \<Rightarrow> peer" where
  "set_overridable b p = p\<lparr>
     p_Endpoint := (p_Endpoint p)\<lparr>ov_Overridable := b\<rparr>,
     p_EndpointPublicKey := (p_EndpointPublicKey p)\<lparr>ov_Overridable := b\<rparr>,
     p_AllowedIPs := (p_AllowedIPs p)\<lparr>ov_Overridable := b\<rparr>,
     p_PersistentKeepalive := (p_PersistentKeepalive p)\<lparr>ov_Overridable := b\<rparr>,
     p_Dns := (p_Dns p)\<lparr>ov_Overridable := b\<rparr>,
     p_DnsSearch := (p_DnsSearch p)\<lparr>ov_Overridable := b\<rparr>,
     p_Mtu := (p_Mtu p)\<lparr>ov_Overridable := b\<rparr>,
     p_FirewallMark := (p_FirewallMark p)\<lparr>ov_Overridable := b\<rparr>,
     p_RoutingTable := (p_RoutingTable p)\<lparr>ov_Overridable := b\<rparr>,
     p_PreUp := (p_PreUp p)\<lparr>ov_Overridable := b\<rparr>,
     p_PostUp := (p_PostUp p)\<lparr>ov_Overridable := b\<rparr>,
     p_PreDown := (p_PreDown p)\<lparr>ov_Overridable := b\<rparr>,
     p_PostDown := (p_PostDown p)\<lparr>ov_Overridable := b\<rparr>\<rparr>"

text \<open>
  A watch runs after the handler that changed the value it watches, and only when the value
  differs from the old one.
\<close>

definition watch_IgnoreGlobalSettings :: "bool \<Rightarrow> peer_dialog \<Rightarrow> peer_dialog" where
  "watch_IgnoreGlobalSettings old d = (let new = p_IgnoreGlobalSettings (pd_form d) in
     if new = old then d else write_through (d\<lparr>pd_form := set_overridable (\<not> new) (pd_form d)\<rparr>))"

definition watch_Disabled :: "bool \<Rightarrow> peer_dialog \<Rightarrow> peer_dialog" where
  "watch_Disabled old d = (let new = p_Disabled (pd_form d) in
     if new = old then d
     else if old \<and> \<not> new \<and> (pd_expiryDate d \<noteq> [] \<or> pd_expiryTime d \<noteq> [])
     then d\<lparr>pd_expiryDate := [], pd_expiryTime := []\<rparr>
     else d)"

definition watched :: "(peer_dialog \<Rightarrow> peer_dialog) \<Rightarrow> (peer_dialog, unit) comp" where
  "watched f = modify (\<lambda>d. watch_Disabled (p_Disabled (pd_form d))
     (watch_IgnoreGlobalSettings (p_IgnoreGlobalSettings (pd_form d)) (f d)))"

text \<open>
  \<open>formData.X.Value = ...\<close> writes to the shared object. An input of the dialog is any change of
  the form, which does not change whose settings it has.
\<close>

definition pd_edit :: "(peer \<Rightarrow> peer) \<Rightarrow> peer_dialog \<Rightarrow> peer_dialog" where
  "pd_edit f d = write_through (d\<lparr>pd_form := f (pd_form d)\<rparr>)"

definition peer_dialog_edit :: "(peer \<Rightarrow> peer) \<Rightarrow> (peer_dialog, unit) comp" where
  "peer_dialog_edit f = watched (pd_edit f)"

definition peer_dialog_edit_expiry :: "jsstr \<Rightarrow> jsstr \<Rightarrow> (peer_dialog, unit) comp" where
  "peer_dialog_edit_expiry date time = modify (\<lambda>d. d\<lparr>pd_expiryDate := date, pd_expiryTime := time\<rparr>)"

section \<open>Opening and closing\<close>

text \<open>
  Both branches of the watch on \<open>visible\<close> copy the same properties, the expiry date as a date and
  a time; only the branch of an existing peer looks at the flags of the settings.
\<close>

definition fill_peer :: "peer \<Rightarrow> peer \<Rightarrow> peer" where
  "fill_peer p f = f\<lparr>
     p_Identifier := p_Identifier p,
     p_DisplayName := p_DisplayName p,
     p_UserIdentifier := p_UserIdentifier p,
     p_InterfaceIdentifier := p_InterfaceIdentifier p,
     p_Disabled := p_Disabled p,
     p_Notes := p_Notes p,
     p_Endpoint := p_Endpoint p,
     p_EndpointPublicKey := p_EndpointPublicKey p,
     p_AllowedIPs := p_AllowedIPs p,
     p_ExtraAllowedIPs := p_ExtraAllowedIPs p,
     p_PresharedKey := p_PresharedKey p,
     p_PersistentKeepalive := p_PersistentKeepalive p,
     p_PrivateKey := p_PrivateKey p,
     p_PublicKey := p_PublicKey p,
     p_Mode := p_Mode p,
     p_Addresses := p_Addresses p,
     p_CheckAliveAddress := p_CheckAliveAddress p,
     p_Dns := p_Dns p,
     p_DnsSearch := p_DnsSearch p,
     p_Mtu := p_Mtu p,
     p_FirewallMark := p_FirewallMark p,
     p_RoutingTable := p_RoutingTable p,
     p_PreUp := p_PreUp p,
     p_PostUp := p_PostUp p,
     p_PreDown := p_PreDown p,
     p_PostDown := p_PostDown p\<rparr>"

definition any_fixed :: "peer \<Rightarrow> bool" where
  "any_fixed f \<longleftrightarrow> \<not> ov_Overridable (p_Endpoint f)
     \<or> \<not> ov_Overridable (p_EndpointPublicKey f)
     \<or> \<not> ov_Overridable (p_AllowedIPs f)
     \<or> \<not> ov_Overridable (p_PersistentKeepalive f)
     \<or> \<not> ov_Overridable (p_Dns f)
     \<or> \<not> ov_Overridable (p_DnsSearch f)
     \<or> \<not> ov_Overridable (p_Mtu f)
     \<or> \<not> ov_Overridable (p_FirewallMark f)
     \<or> \<not> ov_Overridable (p_RoutingTable f)
     \<or> \<not> ov_Overridable (p_PreUp f)
     \<or> \<not> ov_Overridable (p_PostUp f)
     \<or> \<not> ov_Overridable (p_PreDown f)
     \<or> \<not> ov_Overridable (p_PostDown f)"

definition expiry_fields :: "zone \<Rightarrow> peer \<Rightarrow> jsstr \<times> jsstr" where
  "expiry_fields z p = formatRFC3339ToDatetime z (case p_ExpiresAt p of None \<Rightarrow> [] | Some e \<Rightarrow> e)"

definition fill_from_prepared :: "zone \<Rightarrow> peer_dialog \<Rightarrow> peer_dialog" where
  "fill_from_prepared z d = (let p = prepared (pd_peers d) in
     d\<lparr>pd_form := fill_peer p (pd_form d), pd_shares := Some Prepared,
       pd_expiryDate := fst (expiry_fields z p), pd_expiryTime := snd (expiry_fields z p)\<rparr>)"

definition fill_from_selected :: "zone \<Rightarrow> peer \<Rightarrow> place option \<Rightarrow> peer_dialog \<Rightarrow> peer_dialog" where
  "fill_from_selected z p pl d = (let f = fill_peer p (pd_form d) in
     d\<lparr>pd_form := (if any_fixed f then f\<lparr>p_IgnoreGlobalSettings := True\<rparr> else f), pd_shares := pl,
       pd_expiryDate := fst (expiry_fields z p), pd_expiryTime := snd (expiry_fields z p)\<rparr>)"

definition peer_dialog_shown_begin :: "zone \<Rightarrow> (peer_dialog, unit request option) comp" where
  "peer_dialog_shown_begin z =
     bind (gets (\<lambda>d. d)) (\<lambda>d. case selectedPeer d of
         None \<Rightarrow> bind (pd_on_peers (PreparePeer_begin (i_Identifier (pd_selectedInterface d))))
           (\<lambda>q. return (Some q))
       | Some (p, pl) \<Rightarrow> andThen (watched (fill_from_selected z p pl)) (return None))"

definition peer_dialog_shown_settle :: "zone \<Rightarrow> peer settled \<Rightarrow> (peer_dialog, unit) comp" where
  "peer_dialog_shown_settle z reply =
     andThen (pd_on_peers (PreparePeer_settle reply)) (watched (fill_from_prepared z))"

definition open_peer_dialog :: "zone \<Rightarrow> jsstr \<Rightarrow> (peer_dialog, unit request option) comp" where
  "open_peer_dialog z i =
     andThen (modify (\<lambda>d. d\<lparr>pd_peerId := i, pd_visible := True\<rparr>)) (peer_dialog_shown_begin z)"

text \<open>A fresh form has settings of its own. The page hides the dialog when it is told to close.\<close>

definition peer_dialog_close :: "(peer_dialog, unit) comp" where
  "peer_dialog_close =
     andThen (watched (\<lambda>d. d\<lparr>pd_form := freshPeer, pd_shares := None,
                            pd_expiryDate := [], pd_expiryTime := []\<rparr>))
       (emit Close)"

definition peer_dialog_hidden :: "peer_dialog \<Rightarrow> peer_dialog" where
  "peer_dialog_hidden d = d\<lparr>pd_peerId := [], pd_visible := False\<rparr>"

section \<open>Tag inputs\<close>

definition pd_handleChangeAddresses :: "ip_library \<Rightarrow> jsstr list \<Rightarrow> (peer_dialog, unit) comp" where
  "pd_handleChangeAddresses lib = change_tags (cidr_ok lib) ''Invalid CIDR''
     (\<lambda>tags d. d\<lparr>pd_form := (pd_form d)\<lparr>p_Addresses := tags\<rparr>\<rparr>)"

definition pd_handleChangeAllowedIPs :: "ip_library \<Rightarrow> jsstr list \<Rightarrow> (peer_dialog, unit) comp" where
  "pd_handleChangeAllowedIPs lib = change_tags (cidr_ok lib) ''Invalid CIDR''
     (\<lambda>tags. pd_edit (\<lambda>f. f\<lparr>p_AllowedIPs := (p_AllowedIPs f)\<lparr>ov_Value := tags\<rparr>\<rparr>))"

definition pd_handleChangeExtraAllowedIPs :: "ip_library \<Rightarrow> jsstr list \<Rightarrow> (peer_dialog, unit) comp" where
  "pd_handleChangeExtraAllowedIPs lib = change_tags (cidr_ok lib) ''Invalid CIDR''
     (\<lambda>tags d. d\<lparr>pd_form := (pd_form d)\<lparr>p_ExtraAllowedIPs := tags\<rparr>\<rparr>)"

definition pd_handleChangeDns :: "ip_library \<Rightarrow> jsstr list \<Rightarrow> (peer_dialog, unit) comp" where
  "pd_handleChangeDns lib = change_tags (isIP lib) ''Invalid IP''
     (\<lambda>tags. pd_edit (\<lambda>f. f\<lparr>p_Dns := (p_Dns f)\<lparr>ov_Value := tags\<rparr>\<rparr>))"

definition pd_handleChangeDnsSearch :: "jsstr list \<Rightarrow> (peer_dialog, unit) comp" where
  "pd_handleChangeDnsSearch tags =
     modify (pd_edit (\<lambda>f. f\<lparr>p_DnsSearch := (p_DnsSearch f)\<lparr>ov_Value := tags\<rparr>\<rparr>))"

section \<open>Saving and deleting\<close>

datatype peer_save = PeerUpdate jsstr "peer request" | PeerCreate "peer request"

definition peer_save_begin :: "zone \<Rightarrow> (peer_dialog, peer_save option) comp" where
  "peer_save_begin z =
     guarded_begin pd_isSaving (\<lambda>b d. d\<lparr>pd_isSaving := b\<rparr>) ''Failed to save peer!''
       (andThen (modify (\<lambda>d. d\<lparr>pd_form := (pd_form d)\<lparr>p_ExpiresAt :=
              Some (formatDateTimeToRFC3339 z (pd_expiryDate d) (pd_expiryTime d))\<rparr>\<rparr>))
         (bind (gets (\<lambda>d. d)) (\<lambda>d.
            if pd_peerId d \<noteq> NEW_PEER
            then (case selectedPeer d of
                None \<Rightarrow> throw TypeError
              | Some (p, _) \<Rightarrow> bind (pd_on_peers (UpdatePeer_begin (p_Identifier p) (pd_form d)))
                  (\<lambda>q. return (PeerUpdate (p_Identifier p) q)))
            else bind (pd_on_peers (CreatePeer_begin (i_Identifier (pd_selectedInterface d)) (pd_form d)))
              (\<lambda>q. return (PeerCreate q)))))"

definition peer_save_settle :: "peer_save \<Rightarrow> peer settled \<Rightarrow> (peer_dialog, unit) comp" where
  "peer_save_settle w reply =
     guarded_settle (\<lambda>b d. d\<lparr>pd_isSaving := b\<rparr>) ''Failed to save peer!''
       (andThen (pd_on_peers (case w of
            PeerUpdate i _ \<Rightarrow> UpdatePeer_settle i reply
          | PeerCreate _ \<Rightarrow> CreatePeer_settle reply))
          peer_dialog_close)"

definition peer_del_begin :: "(peer_dialog, (jsstr \<times> unit request) option) comp" where
  "peer_del_begin =
     guarded_begin pd_isDeleting (\<lambda>b d. d\<lparr>pd_isDeleting := b\<rparr>) ''Failed to delete peer!''
       (bind (gets selectedPeer) (\<lambda>sel. case sel of
           None \<Rightarrow> throw TypeError
         | Some (p, _) \<Rightarrow> bind (pd_on_peers (DeletePeer_begin (p_Identifier p)))
             (\<lambda>q. return (p_Identifier p, q))))"

definition peer_del_settle :: "jsstr \<times> unit request \<Rightarrow> unit settled \<Rightarrow> (peer_dialog, unit) comp" where
  "peer_del_settle w reply =
     guarded_settle (\<lambda>b d. d\<lparr>pd_isDeleting := b\<rparr>) ''Failed to delete peer!''
       (andThen (pd_on_peers (DeletePeer_settle (fst w) reply)) peer_dialog_close)"

text \<open>What else changes the stores while a dialog is open: their lists are loaded again, and the
  form keeps the objects it had.\<close>

definition drop_listed :: "peer_dialog \<Rightarrow> peer_dialog" where
  "drop_listed d =
     (case pd_shares d of Some (Listed k) \<Rightarrow> d\<lparr>pd_shares := None\<rparr> | _ \<Rightarrow> d)"

definition peers_reloaded :: "peer list settled \<Rightarrow> (peer_dialog, unit) comp" where
  "peers_reloaded reply = andThen (modify drop_listed) (pd_on_peers (LoadPeers_settle reply))"

section \<open>What the dialog writes to the stores\<close>

lemma find_update_first:
  "(\<And>x. P (f x) = P x) \<Longrightarrow> List.find P (update_first P f xs) = map_option f (List.find P xs)"
  by (induction xs) auto

lemma update_first_twice:
  "(\<And>x. P (f x) = P x) \<Longrightarrow> update_first P g (update_first P f xs) = update_first P (\<lambda>x. g (f x)) xs"
  by (induction xs) auto

lemma update_first_same: "List.find P xs = Some x \<Longrightarrow> f x = x \<Longrightarrow> update_first P f xs = xs"
  by (induction xs) (auto split: if_splits)

lemma share_settings_simps [simp]:
  "p_Identifier (share_settings f p) = p_Identifier p"
  "share_settings p p = p"
  "share_settings f (share_settings g p) = share_settings f p"
  "share_settings (fill_peer p g) p = p"
  "share_settings (g\<lparr>p_IgnoreGlobalSettings := b\<rparr>) = share_settings g"
  by (simp_all add: share_settings_def fill_peer_def fun_eq_iff)

definition holder :: "peer_dialog \<Rightarrow> place \<Rightarrow> peer option" where
  "holder d pl = (case pl of
      Listed k \<Rightarrow> peers_Find (pd_peers d) k
    | Own k \<Rightarrow> FindPeers (pd_profile d) k
    | Prepared \<Rightarrow> Some (prepared (pd_peers d)))"

definition shares_ok :: "peer_dialog \<Rightarrow> bool" where
  "shares_ok d = (case pd_shares d of
      None \<Rightarrow> True
    | Some pl \<Rightarrow> (case holder d pl of None \<Rightarrow> False | Some p \<Rightarrow> share_settings (pd_form d) p = p))"

lemma shares_okI: "pd_shares d = None \<Longrightarrow> shares_ok d"
  by (simp add: shares_ok_def)

lemma write_through_frame [simp]:
  "pd_form (write_through d) = pd_form d" "pd_shares (write_through d) = pd_shares d"
  "pd_peerId (write_through d) = pd_peerId d" "pd_isSaving (write_through d) = pd_isSaving d"
  "pd_isDeleting (write_through d) = pd_isDeleting d" "pd_interfaces (write_through d) = pd_interfaces d"
  "pd_expiryDate (write_through d) = pd_expiryDate d" "pd_expiryTime (write_through d) = pd_expiryTime d"
  by (simp_all add: write_through_def split: option.split place.split)

lemma holder_write_through:
  "pd_shares d = Some pl \<Longrightarrow> holder (write_through d) pl = map_option (share_settings (pd_form d)) (holder d pl)"
  by (cases pl) (simp_all add: write_through_def holder_def peers_Find_def FindPeers_def find_update_first)

lemma write_through_ok:
  assumes "\<And>pl. pd_shares d = Some pl \<Longrightarrow> holder d pl \<noteq> None"
  shows "shares_ok (write_through d)"
proof (cases "pd_shares d")
  case None
  then show ?thesis by (simp add: shares_ok_def)
next
  case (Some pl)
  obtain p where "holder d pl = Some p" using assms [OF Some] by auto
  with Some show ?thesis by (simp add: shares_ok_def holder_write_through)
qed

lemma pd_edit_ok: "shares_ok d \<Longrightarrow> shares_ok (pd_edit f d)"
  unfolding pd_edit_def
  by (rule write_through_ok) (auto simp: shares_ok_def holder_def split: option.splits place.splits)

lemma shares_ok_cong:
  assumes "pd_peers d = pd_peers e" "pd_profile d = pd_profile e" "pd_form d = pd_form e"
    "pd_shares d = pd_shares e"
  shows "shares_ok d = shares_ok e"
proof -
  have same: "holder d = holder e" by (rule ext) (simp add: holder_def assms split: place.split)
  show ?thesis unfolding shares_ok_def same assms ..
qed

lemma watch_edit: "watch_IgnoreGlobalSettings b d =
    (if p_IgnoreGlobalSettings (pd_form d) = b then d else pd_edit (set_overridable b) d)"
  by (auto simp: watch_IgnoreGlobalSettings_def pd_edit_def Let_def)

lemma watch_ok: "shares_ok d \<Longrightarrow> shares_ok (watch_IgnoreGlobalSettings b d)"
  by (simp add: watch_edit pd_edit_ok)

lemma watch_Disabled_ok: "shares_ok d \<Longrightarrow> shares_ok (watch_Disabled b d)"
  unfolding watch_Disabled_def Let_def by (auto intro: shares_ok_cong [THEN iffD1])

lemma watched_ok: "shares_ok (f d) \<Longrightarrow> run_all shares_ok (watched f d)"
  by (simp add: watched_def modify_def watch_ok watch_Disabled_ok)

lemma pd_on_peers_cases:
  "pd_on_peers m d = (case m (pd_peers d) of
      Returns a u es \<Rightarrow> Returns a (d\<lparr>pd_peers := u\<rparr>) es
    | Throws e u es \<Rightarrow> Throws e (d\<lparr>pd_peers := u\<rparr>) es
    | Diverges \<Rightarrow> Diverges)"
  by (simp add: pd_on_peers_def zoom_def)

lemma PreparePeer_begin_cases:
  "PreparePeer_begin i u = (if latin1 i
     then Returns (Request GET (js ''/peer/iface/'' @ projr (base64_url_encode i) @ js ''/prepare'') None) u []
     else Throws InvalidCharacterError u [])"
  by (simp add: PreparePeer_begin_def encoded_request_cases)

lemma fill_from_selected_ok:
  assumes "selectedPeer d = Some (p, pl)"
  shows "shares_ok (fill_from_selected z p pl d)"
proof (cases pl)
  case None
  then show ?thesis by (simp add: fill_from_selected_def shares_ok_def Let_def)
next
  case (Some w)
  with assms have "holder d w = Some p"
    by (auto simp: selectedPeer_def holder_def split: option.splits if_splits)
  moreover have "holder (fill_from_selected z p pl d) w = holder d w"
    by (simp add: holder_def fill_from_selected_def Let_def split: place.split)
  ultimately show ?thesis using Some
    by (simp add: shares_ok_def) (simp add: fill_from_selected_def Let_def)
qed

lemma fill_from_prepared_ok: "shares_ok (fill_from_prepared z d)"
  by (simp add: fill_from_prepared_def shares_ok_def holder_def Let_def)

lemma peer_dialog_shown_begin_ok: "shares_ok d \<Longrightarrow> run_all shares_ok (peer_dialog_shown_begin z d)"
proof (cases "selectedPeer d")
  case None
  moreover assume "shares_ok d"
  ultimately show ?thesis
    by (simp add: peer_dialog_shown_begin_def pd_on_peers_cases PreparePeer_begin_cases bind_def gets_def
        return_def)
next
  case (Some s)
  obtain p pl where s: "s = (p, pl)" by (cases s)
  then have "run_all shares_ok (watched (fill_from_selected z p pl) d)"
    using Some fill_from_selected_ok by (intro watched_ok) simp
  with Some s show ?thesis
    by (simp add: peer_dialog_shown_begin_def bind_def gets_def andThen_def watched_def modify_def return_def)
qed

lemma peer_dialog_shown_settle_ok: "run_all shares_ok (peer_dialog_shown_settle z reply d)"
proof -
  obtain u es where u: "PreparePeer_settle reply (pd_peers d) = Returns () u es"
    by (cases reply) (simp_all add: PreparePeer_settle_def setPreparedPeer_def notify_backend_def js_run)
  have "run_all shares_ok (watched (fill_from_prepared z) e)" for e
    by (intro watched_ok fill_from_prepared_ok)
  then show ?thesis
    by (simp add: peer_dialog_shown_settle_def andThen_def bind_def pd_on_peers_cases u)
qed

lemma peer_dialog_close_run:
  "peer_dialog_close d = Returns () (d\<lparr>pd_form := freshPeer, pd_shares := None,
     pd_expiryDate := [], pd_expiryTime := []\<rparr>) [Close]"
  by (simp add: peer_dialog_close_def watched_def watch_edit watch_Disabled_def Let_def pd_edit_def
      write_through_def js_run) (simp add: set_overridable_def freshPeer_def)

section \<open>The actions, branch by branch\<close>

definition with_expiry :: "zone \<Rightarrow> peer_dialog \<Rightarrow> peer" where
  "with_expiry z d = (pd_form d)\<lparr>p_ExpiresAt :=
     Some (formatDateTimeToRFC3339 z (pd_expiryDate d) (pd_expiryTime d))\<rparr>"

definition save_failed :: "reason \<Rightarrow> effect list" where
  "save_failed e = [Notify (js ''Failed to save peer!'') (Text (reason_string e)) (Some (js ''error''))]"

lemma selectedPeer_frame [simp]:
  "selectedPeer (d\<lparr>pd_form := f\<rparr>) = selectedPeer d"
  "selectedPeer (d\<lparr>pd_isSaving := b\<rparr>) = selectedPeer d"
  "selectedPeer (d\<lparr>pd_isDeleting := b\<rparr>) = selectedPeer d"
  by (simp_all add: selectedPeer_def split: option.split)

lemma peer_save_begin_cases:
  "peer_save_begin z d =
     (if pd_isSaving d then Returns None d []
      else (let ready = d\<lparr>pd_form := with_expiry z d\<rparr>;
                sent = ready\<lparr>pd_isSaving := True, pd_peers := (pd_peers d)\<lparr>fetching := True\<rparr>\<rparr>
       in if pd_peerId d = NEW_PEER
          then (let i = i_Identifier (pd_selectedInterface d) in
            if latin1 i then Returns (Some (PeerCreate (Request POST (js ''/peer/iface/''
                @ projr (base64_url_encode i) @ js ''/new'') (Some (with_expiry z d))))) sent []
            else Returns None (sent\<lparr>pd_isSaving := False\<rparr>) (save_failed InvalidCharacterError))
          else (case selectedPeer d of
              None \<Rightarrow> Returns None ready (save_failed TypeError)
            | Some (p, _) \<Rightarrow> if latin1 (p_Identifier p)
                then Returns (Some (PeerUpdate (p_Identifier p) (Request PUT (js ''/peer/''
                    @ projr (base64_url_encode (p_Identifier p))) (Some (with_expiry z d))))) sent []
                else Returns None (sent\<lparr>pd_isSaving := False\<rparr>) (save_failed InvalidCharacterError))))"
  by (simp add: peer_save_begin_def guarded_begin_cases pd_on_peers_def UpdatePeer_begin_def
      CreatePeer_begin_def set_fetching_def encoded_request_cases with_expiry_def save_failed_def
      pd_selectedInterface_def js_run Let_def split: option.split)

lemma peer_save_settle_cases:
  "peer_save_settle w reply d =
     (case reply of
        Inr p \<Rightarrow> Returns () (d\<lparr>pd_isSaving := False, pd_form := freshPeer, pd_shares := None,
          pd_expiryDate := [], pd_expiryTime := [], pd_peers :=
          (case w of
             PeerUpdate i _ \<Rightarrow> (pd_peers d)\<lparr>fetching := False, peers := setIndex (peers (pd_peers d))
               (findIndex (\<lambda>x. p_Identifier x = i) (peers (pd_peers d))) p\<rparr>
           | PeerCreate _ \<Rightarrow> (pd_peers d)\<lparr>fetching := False, peers := peers (pd_peers d) @ [p]\<rparr>)\<rparr>) [Close]
      | Inl e \<Rightarrow> Returns () (d\<lparr>pd_isSaving := False, pd_peers := (pd_peers d)\<lparr>fetching := False\<rparr>\<rparr>)
          (save_failed (new_Error e)))"
  by (cases w; cases reply)
    (simp_all add: peer_save_settle_def guarded_settle_cases andThen_def bind_def pd_on_peers_cases
      UpdatePeer_settle_def CreatePeer_settle_def peer_dialog_close_run set_fetching_def modify_def
      catch_def throw_def save_failed_def Let_def)

lemma peer_del_begin_cases:
  "\<exists>v t es. peer_del_begin d = Returns v t es
     \<and> (if pd_isDeleting d then v = None \<and> t = d \<and> es = []
        else (pd_isDeleting t \<longleftrightarrow> v \<noteq> None)
          \<and> (t = d\<lparr>pd_isDeleting := v \<noteq> None, pd_peers := pd_peers t\<rparr>)
          \<and> (pd_peers t = pd_peers d \<or> pd_peers t = (pd_peers d)\<lparr>fetching := True\<rparr>))"
  by (simp add: peer_del_begin_def guarded_begin_cases pd_on_peers_def DeletePeer_begin_def
      set_fetching_def encoded_request_cases js_run Let_def split: option.split)

lemma peer_del_settle_cases:
  "peer_del_settle w reply d =
     (case reply of
        Inr _ \<Rightarrow> Returns () (d\<lparr>pd_isDeleting := False, pd_form := freshPeer, pd_shares := None,
          pd_expiryDate := [], pd_expiryTime := [], pd_peers := (pd_peers d)\<lparr>fetching := False,
            peers := filter (\<lambda>p. p_Identifier p \<noteq> fst w) (peers (pd_peers d))\<rparr>\<rparr>) [Close]
      | Inl e \<Rightarrow> Returns () (d\<lparr>pd_isDeleting := False, pd_peers := (pd_peers d)\<lparr>fetching := False\<rparr>\<rparr>)
          [Notify (js ''Failed to delete peer!'') (Text (reason_string (new_Error e))) (Some (js ''error''))])"
  by (cases reply)
    (simp_all add: peer_del_settle_def guarded_settle_cases andThen_def bind_def pd_on_peers_cases
      DeletePeer_settle_def peer_dialog_close_run set_fetching_def modify_def catch_def throw_def)

lemma shares_ok_fetching:
  "shares_ok (d\<lparr>pd_peers := (pd_peers d)\<lparr>fetching := b\<rparr>\<rparr>) = shares_ok d"
proof -
  have same: "holder (d\<lparr>pd_peers := (pd_peers d)\<lparr>fetching := b\<rparr>\<rparr>) = holder d"
    by (rule ext) (simp add: holder_def peers_Find_def split: place.split)
  show ?thesis unfolding shares_ok_def same by (simp split: option.split)
qed

section \<open>Sessions\<close>

text \<open>
  Everything that happens around the dialog: it is opened and its answer comes, inputs, tags,
  buttons with their answers, closing and hiding, and reloads of the list.
\<close>

inductive peer_dialog_step :: "peer_dialog \<Rightarrow> peer_dialog \<Rightarrow> bool" where
  pds_open: "ends_in (open_peer_dialog z i d) e \<Longrightarrow> peer_dialog_step d e"
| pds_prepared: "ends_in (peer_dialog_shown_settle z reply d) e \<Longrightarrow> peer_dialog_step d e"
| pds_edit: "ends_in (peer_dialog_edit f d) e \<Longrightarrow> peer_dialog_step d e"
| pds_expiry: "ends_in (peer_dialog_edit_expiry date time d) e \<Longrightarrow> peer_dialog_step d e"
| pds_addresses: "ends_in (pd_handleChangeAddresses lib tags d) e \<Longrightarrow> peer_dialog_step d e"
| pds_allowed: "ends_in (pd_handleChangeAllowedIPs lib tags d) e \<Longrightarrow> peer_dialog_step d e"
| pds_extra: "ends_in (pd_handleChangeExtraAllowedIPs lib tags d) e \<Longrightarrow> peer_dialog_step d e"
| pds_dns: "ends_in (pd_handleChangeDns lib tags d) e \<Longrightarrow> peer_dialog_step d e"
| pds_search: "ends_in (pd_handleChangeDnsSearch tags d) e \<Longrightarrow> peer_dialog_step d e"
| pds_save: "ends_in (peer_save_begin z d) e \<Longrightarrow> peer_dialog_step d e"
| pds_saved: "ends_in (peer_save_settle w r d) e \<Longrightarrow> peer_dialog_step d e"
| pds_del: "ends_in (peer_del_begin d) e \<Longrightarrow> peer_dialog_step d e"
| pds_deleted: "ends_in (peer_del_settle v u d) e \<Longrightarrow> peer_dialog_step d e"
| pds_close: "ends_in (peer_dialog_close d) e \<Longrightarrow> peer_dialog_step d e"
| pds_hidden: "peer_dialog_step d (peer_dialog_hidden d)"
| pds_reload: "ends_in (peers_reloaded reply d) e \<Longrightarrow> peer_dialog_step d e"

lemma run_all_ends: "run_all P r \<Longrightarrow> ends_in r t \<Longrightarrow> P t"
  by (cases r) simp_all

lemma change_tags_ok:
  "(\<And>tags d. shares_ok d \<Longrightarrow> shares_ok (update tags d)) \<Longrightarrow> shares_ok d
    \<Longrightarrow> run_all shares_ok (change_tags ok title update tags d)"
  by (simp add: change_tags_run)

lemma plain_ok: "share_settings f = share_settings (pd_form d) \<Longrightarrow> shares_ok d \<Longrightarrow> shares_ok (d\<lparr>pd_form := f\<rparr>)"
proof -
  assume same: "share_settings f = share_settings (pd_form d)" and ok: "shares_ok d"
  have holders: "holder (d\<lparr>pd_form := f\<rparr>) = holder d"
    by (rule ext) (simp add: holder_def split: place.split)
  show ?thesis using ok unfolding shares_ok_def holders
    by (auto simp: same split: option.splits)
qed

lemma share_plain [simp]:
  "share_settings (g\<lparr>p_Addresses := x\<rparr>) = share_settings g"
  "share_settings (g\<lparr>p_ExtraAllowedIPs := y\<rparr>) = share_settings g"
  "share_settings (g\<lparr>p_ExpiresAt := e\<rparr>) = share_settings g"
  by (simp_all add: share_settings_def fun_eq_iff)

lemma open_ok: "shares_ok d \<Longrightarrow> run_all shares_ok (open_peer_dialog z i d)"
proof -
  assume "shares_ok d"
  then have "shares_ok (d\<lparr>pd_peerId := i, pd_visible := True\<rparr>)"
    by (rule shares_ok_cong [THEN iffD1, rotated -1]) simp_all
  then show ?thesis
    using peer_dialog_shown_begin_ok by (simp add: open_peer_dialog_def andThen_def bind_def modify_def)
qed

lemma save_begin_ok: "shares_ok d \<Longrightarrow> run_all shares_ok (peer_save_begin z d)"
proof -
  assume ok: "shares_ok d"
  have ready: "shares_ok (d\<lparr>pd_form := with_expiry z d\<rparr>)"
    using ok by (intro plain_ok) (simp_all add: with_expiry_def)
  have flags: "shares_ok (e\<lparr>pd_isSaving := b\<rparr>) = shares_ok e" for e b
    by (rule shares_ok_cong) simp_all
  have sent: "shares_ok (d\<lparr>pd_form := with_expiry z d, pd_isSaving := b, pd_peers := (pd_peers d)\<lparr>fetching := True\<rparr>\<rparr>)" for b
    using ready shares_ok_fetching [where d = "d\<lparr>pd_form := with_expiry z d, pd_isSaving := b\<rparr>" and b = True] flags by simp
  have sent2: "shares_ok (d\<lparr>pd_form := with_expiry z d, pd_peers := (pd_peers d)\<lparr>fetching := True\<rparr>,
      pd_isSaving := False\<rparr>)"
    using sent [of False] by (rule shares_ok_cong [THEN iffD1, rotated -1]) simp_all
  show ?thesis using ok ready sent sent2
    by (simp add: peer_save_begin_cases Let_def split: option.split)
qed

lemma saved_ok: "shares_ok d \<Longrightarrow> run_all shares_ok (peer_save_settle w r d)"
  using shares_ok_fetching [where d = "d\<lparr>pd_isSaving := False\<rparr>" and b = False]
    shares_ok_cong [of "d\<lparr>pd_isSaving := False\<rparr>" d]
  by (simp add: peer_save_settle_cases shares_okI split: sum.split)

lemma del_begin_ok: "shares_ok d \<Longrightarrow> run_all shares_ok (peer_del_begin d)"
proof -
  assume ok: "shares_ok d"
  obtain v t es where r: "peer_del_begin d = Returns v t es"
    "if pd_isDeleting d then v = None \<and> t = d \<and> es = []
     else (pd_isDeleting t \<longleftrightarrow> v \<noteq> None) \<and> (t = d\<lparr>pd_isDeleting := v \<noteq> None, pd_peers := pd_peers t\<rparr>)
       \<and> (pd_peers t = pd_peers d \<or> pd_peers t = (pd_peers d)\<lparr>fetching := True\<rparr>)"
    using peer_del_begin_cases [of d] by blast
  let ?e = "d\<lparr>pd_isDeleting := v \<noteq> None\<rparr>"
  have e: "shares_ok ?e" using ok by (rule shares_ok_cong [THEN iffD1, rotated -1]) simp_all
  then have "shares_ok (?e\<lparr>pd_peers := (pd_peers ?e)\<lparr>fetching := True\<rparr>\<rparr>)"
    by (simp only: shares_ok_fetching)
  with e r ok show ?thesis by (auto split: if_splits)
qed

lemma deleted_ok: "shares_ok d \<Longrightarrow> run_all shares_ok (peer_del_settle v u d)"
  using shares_ok_fetching [where d = "d\<lparr>pd_isDeleting := False\<rparr>" and b = False]
    shares_ok_cong [of "d\<lparr>pd_isDeleting := False\<rparr>" d]
  by (simp add: peer_del_settle_cases shares_okI split: sum.split)

lemma prepared_calculatePages [keep]: "keeps (\<lambda>s. prepared s = p) peers_calculatePages"
  by (simp add: keeps_def peers_calculatePages_def bind_def lift_option_def modify_def split: option.split)

lemma prepared_setPeers: "keeps (\<lambda>s. prepared s = p) (setPeers ps)"
  unfolding setPeers_def set_fetching_def
  by (rule keeps_andThen keeps_modify prepared_calculatePages | simp)+

lemma prepared_LoadPeers: "keeps (\<lambda>s. prepared s = p) (LoadPeers_settle reply)"
  unfolding LoadPeers_settle_def notify_backend_def
  by (rule keeps_then_catch keeps_andThen prepared_setPeers keeps_emit)+

lemma drop_listed_cases:
  "drop_listed d = d \<and> (\<forall>k. pd_shares d \<noteq> Some (Listed k)) \<or> drop_listed d = d\<lparr>pd_shares := None\<rparr>"
  by (simp add: drop_listed_def split: option.split place.split)

lemma drop_listed_ok:
  assumes ok: "shares_ok d" and same: "prepared t = prepared (pd_peers d)"
  shows "shares_ok ((drop_listed d)\<lparr>pd_peers := t\<rparr>)"
proof (cases "drop_listed d = d\<lparr>pd_shares := None\<rparr>")
  case True
  then show ?thesis by (simp add: shares_ok_def)
next
  case False
  then have kept: "drop_listed d = d" "\<And>k. pd_shares d \<noteq> Some (Listed k)"
    using drop_listed_cases [of d] by auto
  have "holder (d\<lparr>pd_peers := t\<rparr>) pl = holder d pl" if "pd_shares d = Some pl" for pl
    using kept(2) that same by (cases pl) (auto simp: holder_def)
  then show ?thesis using ok kept(1) by (auto simp: shares_ok_def split: option.splits)
qed

lemma reload_ok: "shares_ok d \<Longrightarrow> run_all shares_ok (peers_reloaded reply d)"
proof -
  assume ok: "shares_ok d"
  have same: "pd_peers (drop_listed d) = pd_peers d" using drop_listed_cases [of d] by auto
  have "run_all (\<lambda>t. prepared t = prepared (pd_peers d)) (LoadPeers_settle reply (pd_peers d))"
    using prepared_LoadPeers [of "prepared (pd_peers d)" reply] by (simp add: keeps_def)
  then have "run_all shares_ok (pd_on_peers (LoadPeers_settle reply) (drop_listed d))"
    using drop_listed_ok [OF ok] unfolding pd_on_peers_cases same
    by (cases "LoadPeers_settle reply (pd_peers d)") simp_all
  then show ?thesis by (simp add: peers_reloaded_def andThen_def bind_def modify_def)
qed

lemma hidden_ok: "shares_ok d \<Longrightarrow> shares_ok (peer_dialog_hidden d)"
  unfolding peer_dialog_hidden_def by (rule shares_ok_cong [THEN iffD1, rotated -1]) simp_all

lemma expiry_ok: "shares_ok d \<Longrightarrow> run_all shares_ok (peer_dialog_edit_expiry date time d)"
  unfolding peer_dialog_edit_expiry_def modify_def run_all.simps
  by (rule shares_ok_cong [THEN iffD1, rotated -1]) simp_all

lemma edit_ok: "shares_ok d \<Longrightarrow> run_all shares_ok (peer_dialog_edit f d)"
  unfolding peer_dialog_edit_def by (rule watched_ok) (simp add: pd_edit_ok)

lemma tags_ok:
  "shares_ok d \<Longrightarrow> run_all shares_ok (pd_handleChangeAddresses lib tags d)"
  "shares_ok d \<Longrightarrow> run_all shares_ok (pd_handleChangeAllowedIPs lib tags d)"
  "shares_ok d \<Longrightarrow> run_all shares_ok (pd_handleChangeExtraAllowedIPs lib tags d)"
  "shares_ok d \<Longrightarrow> run_all shares_ok (pd_handleChangeDns lib tags d)"
  "shares_ok d \<Longrightarrow> run_all shares_ok (pd_handleChangeDnsSearch tags d)"
  by (simp_all add: pd_handleChangeAddresses_def pd_handleChangeAllowedIPs_def
      pd_handleChangeExtraAllowedIPs_def pd_handleChangeDns_def pd_handleChangeDnsSearch_def
      change_tags_run modify_def plain_ok pd_edit_ok)

lemma close_ok: "run_all shares_ok (peer_dialog_close d)"
  by (simp add: peer_dialog_close_run shares_okI)

lemmas step_ok =
  open_ok edit_ok tags_ok save_begin_ok saved_ok del_begin_ok deleted_ok reload_ok expiry_ok

lemmas step_ends = step_ok [THEN run_all_ends]

lemma peer_dialog_step_ok: "peer_dialog_step d e \<Longrightarrow> shares_ok d \<Longrightarrow> shares_ok e"
proof (induction rule: peer_dialog_step.induct)
  case (pds_prepared z reply d e)
  show ?case by (rule run_all_ends [OF peer_dialog_shown_settle_ok pds_prepared(1)])
next
  case (pds_close d e)
  show ?case by (rule run_all_ends [OF close_ok pds_close(1)])
next
  case (pds_hidden d)
  then show ?case by (rule hidden_ok)
qed (erule (1) step_ends)+

section \<open>Properties\<close>

text \<open>The form of an opened peer: its own copy, with every setting fixed as soon as one is.\<close>

definition opened_form :: "peer \<Rightarrow> peer" where
  "opened_form p = (let f = fill_peer p freshPeer in
     if any_fixed p then set_overridable False (f\<lparr>p_IgnoreGlobalSettings := True\<rparr>) else f)"

lemma any_fixed_fill [simp]: "any_fixed (fill_peer p f) = any_fixed p"
  by (simp add: any_fixed_def fill_peer_def)

lemma fill_peer_plain [simp]:
  "p_IgnoreGlobalSettings (fill_peer p f) = p_IgnoreGlobalSettings f"
  "p_Identifier (fill_peer p f) = p_Identifier p" "p_Disabled (fill_peer p f) = p_Disabled p"
  by (simp_all add: fill_peer_def)

lemma set_overridable_plain [simp]:
  "p_IgnoreGlobalSettings (set_overridable b p) = p_IgnoreGlobalSettings p"
  "p_Identifier (set_overridable b p) = p_Identifier p" "p_Disabled (set_overridable b p) = p_Disabled p"
  by (simp_all add: set_overridable_def)

lemma watch_Disabled_frame [simp]:
  "pd_peers (watch_Disabled b d) = pd_peers d" "pd_form (watch_Disabled b d) = pd_form d"
  "pd_shares (watch_Disabled b d) = pd_shares d" "pd_peerId (watch_Disabled b d) = pd_peerId d"
  "pd_isSaving (watch_Disabled b d) = pd_isSaving d" "pd_profile (watch_Disabled b d) = pd_profile d"
  "pd_isDeleting (watch_Disabled b d) = pd_isDeleting d"
  by (simp_all add: watch_Disabled_def Let_def)

lemma watch_Disabled_enabled [simp]: "watch_Disabled False d = d"
  by (simp add: watch_Disabled_def Let_def)

lemma open_run:
  assumes "peers_Find (pd_peers d) i = Some p" "pd_form d = freshPeer"
  shows "\<exists>e. open_peer_dialog z i d = Returns None e [] \<and> pd_form e = opened_form p
    \<and> pd_shares e = Some (Listed i) \<and> pd_peerId e = i \<and> pd_isSaving e = pd_isSaving d
    \<and> pd_expiryDate e = fst (expiry_fields z p) \<and> pd_expiryTime e = snd (expiry_fields z p)
    \<and> pd_peers e = (pd_peers d)\<lparr>peers := update_first (\<lambda>q. p_Identifier q = i)
        (share_settings (opened_form p)) (peers (pd_peers d))\<rparr>"
proof -
  let ?d = "d\<lparr>pd_peerId := i, pd_visible := True\<rparr>"
  let ?e = "fill_from_selected z p (Some (Listed i)) ?d"
  have sel: "selectedPeer ?d = Some (p, Some (Listed i))"
    using assms(1) by (simp add: selectedPeer_def)
  have fresh: "p_IgnoreGlobalSettings freshPeer = False" "p_Disabled freshPeer = False"
    by (simp_all add: freshPeer_def)
  have run: "open_peer_dialog z i d
      = Returns None (if any_fixed p then pd_edit (set_overridable False) ?e else ?e) []"
    using fresh assms(2) sel
    by (simp add: open_peer_dialog_def peer_dialog_shown_begin_def andThen_def bind_def modify_def gets_def
        return_def watched_def watch_edit fill_from_selected_def Let_def)
  have id: "update_first (\<lambda>q. p_Identifier q = i) (share_settings (fill_peer p freshPeer))
      (peers (pd_peers d)) = peers (pd_peers d)"
    using assms(1) by (intro update_first_same [of _ _ p]) (simp_all add: peers_Find_def)
  show ?thesis
  proof (cases "any_fixed p")
    case True
    with run assms show ?thesis
      by (simp add: pd_edit_def fill_from_selected_def opened_form_def write_through_def Let_def)
  next
    case False
    with run assms id show ?thesis
      by (simp add: fill_from_selected_def opened_form_def Let_def)
  qed
qed

section \<open>At most one save in flight\<close>

text \<open>What else happens around a save; the deletion with its answers included.\<close>

inductive around_peer_save :: "peer_dialog \<Rightarrow> peer_dialog \<Rightarrow> bool" where
  aps_open: "ends_in (open_peer_dialog z i d) e \<Longrightarrow> around_peer_save d e"
| aps_prepared: "ends_in (peer_dialog_shown_settle z reply d) e \<Longrightarrow> around_peer_save d e"
| aps_edit: "ends_in (peer_dialog_edit f d) e \<Longrightarrow> around_peer_save d e"
| aps_expiry: "ends_in (peer_dialog_edit_expiry date time d) e \<Longrightarrow> around_peer_save d e"
| aps_del: "ends_in (peer_del_begin d) e \<Longrightarrow> around_peer_save d e"
| aps_deleted: "ends_in (peer_del_settle v u d) e \<Longrightarrow> around_peer_save d e"
| aps_close: "ends_in (peer_dialog_close d) e \<Longrightarrow> around_peer_save d e"
| aps_hidden: "around_peer_save d (peer_dialog_hidden d)"
| aps_reload: "ends_in (peers_reloaded reply d) e \<Longrightarrow> around_peer_save d e"

lemma pd_edit_saving [simp]: "pd_isSaving (pd_edit f d) = pd_isSaving d"
  by (simp add: pd_edit_def)

lemma watched_saving: "pd_isSaving (f d) = pd_isSaving d \<Longrightarrow> ends_in (watched f d) e \<Longrightarrow> pd_isSaving e = pd_isSaving d"
  by (simp add: watched_def modify_def watch_edit split: if_splits)

lemma pd_on_peers_saving: "ends_in (pd_on_peers m d) e \<Longrightarrow> pd_isSaving e = pd_isSaving d"
  by (cases "m (pd_peers d)") (auto simp: pd_on_peers_cases)

lemma open_saving: "ends_in (open_peer_dialog z i d) e \<Longrightarrow> pd_isSaving e = pd_isSaving d"
proof -
  let ?d = "d\<lparr>pd_peerId := i, pd_visible := True\<rparr>"
  assume "ends_in (open_peer_dialog z i d) e"
  then have run: "ends_in (peer_dialog_shown_begin z ?d) e"
    by (simp add: open_peer_dialog_def andThen_def bind_def modify_def)
  show ?thesis
  proof (cases "selectedPeer ?d")
    case None
    then show ?thesis using run
      by (auto simp: peer_dialog_shown_begin_def bind_def gets_def pd_on_peers_cases
          PreparePeer_begin_cases return_def split: if_splits)
  next
    case (Some s)
    then obtain p pl where "selectedPeer ?d = Some (p, pl)" by (cases s) simp
    then have "ends_in (watched (fill_from_selected z p pl) ?d) e"
      using run by (simp add: peer_dialog_shown_begin_def bind_def gets_def andThen_def watched_def
          modify_def return_def)
    then have "pd_isSaving e = pd_isSaving ?d"
      by (rule watched_saving [rotated]) (simp add: fill_from_selected_def Let_def)
    then show ?thesis by simp
  qed
qed

lemma shown_settle_saving: "ends_in (peer_dialog_shown_settle z reply d) e \<Longrightarrow> pd_isSaving e = pd_isSaving d"
proof -
  obtain u es where u: "PreparePeer_settle reply (pd_peers d) = Returns () u es"
    by (cases reply) (simp_all add: PreparePeer_settle_def setPreparedPeer_def notify_backend_def js_run)
  assume "ends_in (peer_dialog_shown_settle z reply d) e"
  then have "ends_in (watched (fill_from_prepared z) (d\<lparr>pd_peers := u\<rparr>)) e"
    by (simp add: peer_dialog_shown_settle_def andThen_def bind_def pd_on_peers_cases u)
  then have "pd_isSaving e = pd_isSaving (d\<lparr>pd_peers := u\<rparr>)"
    by (rule watched_saving [rotated]) (simp add: fill_from_prepared_def Let_def)
  then show ?thesis by simp
qed

lemma del_begin_saving: "\<exists>v t es. peer_del_begin d = Returns v t es \<and> pd_isSaving t = pd_isSaving d"
  by (simp add: peer_del_begin_def guarded_begin_cases pd_on_peers_def DeletePeer_begin_def
      set_fetching_def encoded_request_cases js_run Let_def split: option.split)

lemma around_peer_save_frame: "around_peer_save d e \<Longrightarrow> pd_isSaving e = pd_isSaving d"
proof (induction rule: around_peer_save.induct)
  case (aps_edit f d e)
  then show ?case unfolding peer_dialog_edit_def by (rule watched_saving [rotated]) simp
next
  case (aps_expiry date time d e)
  then show ?case by (simp add: peer_dialog_edit_expiry_def modify_def)
next
  case (aps_del d e)
  with del_begin_saving [of d] show ?case by auto
next
  case (aps_deleted v u d e)
  then show ?case by (simp add: peer_del_settle_cases split: sum.splits)
next
  case (aps_close d e)
  then show ?case by (simp add: peer_dialog_close_run)
next
  case (aps_hidden d)
  then show ?case by (simp add: peer_dialog_hidden_def)
next
  case (aps_reload reply d e)
  then have "ends_in (pd_on_peers (LoadPeers_settle reply) (drop_listed d)) e"
    by (simp add: peers_reloaded_def andThen_def bind_def modify_def)
  then have "pd_isSaving e = pd_isSaving (drop_listed d)" by (rule pd_on_peers_saving)
  then show ?case using drop_listed_cases [of d] by auto
qed (auto dest: open_saving shown_settle_saving)

interpretation peer_save: one_in_flight pd_isSaving "peer_save_begin z" peer_save_settle around_peer_save for z
proof
  fix d w reply e
  show "pd_isSaving d \<Longrightarrow> peer_save_begin z d = Returns None d []"
    by (simp add: peer_save_begin_cases)
  show "\<not> pd_isSaving d \<Longrightarrow> \<exists>v t es. peer_save_begin z d = Returns v t es \<and> (pd_isSaving t \<longleftrightarrow> v \<noteq> None)"
    by (simp add: peer_save_begin_cases Let_def split: option.split)
  show "\<exists>t es. peer_save_settle w reply d = Returns () t es \<and> \<not> pd_isSaving t"
    by (simp add: peer_save_settle_cases split: sum.split)
  show "around_peer_save d e \<Longrightarrow> pd_isSaving e = pd_isSaving d" by (rule around_peer_save_frame)
qed

lemma edit_run:
  assumes "pd_shares e = Some (Listed i)"
    "p_IgnoreGlobalSettings (f (pd_form e)) = p_IgnoreGlobalSettings (pd_form e)"
  shows "\<exists>t. peer_dialog_edit f e = Returns () t [] \<and> pd_form t = f (pd_form e)
    \<and> pd_shares t = Some (Listed i)
    \<and> peers (pd_peers t) = update_first (\<lambda>q. p_Identifier q = i) (share_settings (f (pd_form e)))
        (peers (pd_peers e))"
  using assms
  by (simp add: peer_dialog_edit_def watched_def modify_def watch_edit pd_edit_def write_through_def)

definition peer_dialog_init :: "peer_store \<Rightarrow> interface_store \<Rightarrow> profile_store \<Rightarrow> peer_dialog" where
  "peer_dialog_init u v w = \<lparr>pd_peers = u, pd_interfaces = v, pd_profile = w, pd_peerId = [],
     pd_visible = False, pd_form = freshPeer, pd_shares = None, pd_isSaving = False,
     pd_isDeleting = False, pd_expiryDate = [], pd_expiryTime = []\<rparr>"

text \<open>C4. In every session with the dialog, whatever is opened, typed, answered and reloaded: when
  the form holds the settings of a listed peer, that peer is still in the list and its settings
  are, at every moment, the ones in the form; what is typed is in the table before it is saved.\<close>

theorem peer_form_is_listed:
  assumes "peer_dialog_step\<^sup>*\<^sup>* (peer_dialog_init u v w) d" "pd_shares d = Some (Listed k)"
  shows "\<exists>p. peers_Find (pd_peers d) k = Some p \<and> share_settings (pd_form d) p = p"
proof -
  have "shares_ok (peer_dialog_init u v w)" by (simp add: shares_ok_def peer_dialog_init_def)
  with assms(1) have "shares_ok d"
    by (induction rule: rtranclp_induct) (auto intro: peer_dialog_step_ok)
  with assms(2) show ?thesis by (auto simp: shares_ok_def holder_def split: option.splits)
qed

definition sample_store :: "peer \<Rightarrow> peer_store" where
  "sample_store p = peers_init\<lparr>peers := [p]\<rparr>"

definition fixed_peer :: peer where
  "fixed_peer = freshPeer\<lparr>p_Identifier := js ''a'', p_Mtu := \<lparr>ov_Value = 1420, ov_Overridable = False\<rparr>\<rparr>"

lemma fixed_peer_simps [simp]:
  "p_Identifier fixed_peer = js ''a''" "any_fixed fixed_peer" "p_Disabled fixed_peer = False"
  "p_ExpiresAt fixed_peer = None"
  by (simp_all add: fixed_peer_def any_fixed_def freshPeer_def)

lemma sample_open:
  "peers_Find (pd_peers (peer_dialog_init (sample_store fixed_peer) v w)) (js ''a'') = Some fixed_peer"
  by (simp add: peer_dialog_init_def sample_store_def peers_Find_def)

theorem peer_form_is_listed_witness:
  "\<exists>d p. peer_dialog_step\<^sup>*\<^sup>* (peer_dialog_init (sample_store fixed_peer) interfaces_init profile_init) d
    \<and> peers_Find (pd_peers d) (js ''a'') = Some p \<and> share_settings (pd_form d) p = p"
proof -
  let ?d = "peer_dialog_init (sample_store fixed_peer) interfaces_init profile_init"
  have "pd_form ?d = freshPeer" by (simp add: peer_dialog_init_def)
  from open_run [OF sample_open this, of new_york]
  obtain e where e: "open_peer_dialog new_york (js ''a'') ?d = Returns None e []"
    "pd_shares e = Some (Listed (js ''a''))"
    by blast
  then have "ends_in (open_peer_dialog new_york (js ''a'') ?d) e" by simp
  then have "peer_dialog_step\<^sup>*\<^sup>* ?d e" by (intro r_into_rtranclp pds_open)
  with peer_form_is_listed [OF this e(2)] show ?thesis by blast
qed

text \<open>C30. Opening the dialog of a peer one of whose settings is fixed makes all thirteen settings of
  the listed peer fixed, before anything is saved; a peer without a fixed setting is left as it
  is, and no other peer and no other property changes.\<close>

theorem opening_fixes_settings:
  assumes "peers_Find (pd_peers d) i = Some p" "pd_form d = freshPeer"
  shows "\<exists>t. open_peer_dialog z i d = Returns None t []
    \<and> peers (pd_peers t) = (if any_fixed p
        then update_first (\<lambda>q. p_Identifier q = i) (set_overridable False) (peers (pd_peers d))
        else peers (pd_peers d))"
proof -
  have found: "List.find (\<lambda>q. p_Identifier q = i) (peers (pd_peers d)) = Some p"
    using assms(1) by (simp add: peers_Find_def)
  have eq: "update_first P f xs = update_first P g xs"
    if "List.find P xs = Some p" "f p = g p" for P f g and xs :: "peer list"
    using that by (induction xs) (auto split: if_splits)
  have same: "share_settings (opened_form p) p = (if any_fixed p then set_overridable False p else p)"
    by (simp add: opened_form_def Let_def) (simp add: share_settings_def set_overridable_def fill_peer_def)
  obtain e where e: "open_peer_dialog z i d = Returns None e []" "pd_peers e = (pd_peers d)\<lparr>peers :=
      update_first (\<lambda>q. p_Identifier q = i) (share_settings (opened_form p)) (peers (pd_peers d))\<rparr>"
    using open_run [OF assms] by blast
  show ?thesis
  proof (cases "any_fixed p")
    case True
    then show ?thesis using e eq [OF found, of "share_settings (opened_form p)" "set_overridable False"] same
      by simp
  next
    case False
    then show ?thesis using e update_first_same [OF found] same by simp
  qed
qed

theorem opening_fixes_settings_witness:
  "\<exists>t q. open_peer_dialog new_york (js ''a'') (peer_dialog_init (sample_store fixed_peer) interfaces_init profile_init) = Returns None t []
    \<and> peers (pd_peers t) = [q] \<and> ov_Overridable (p_Mtu q) = False \<and> ov_Overridable (p_PreUp q) = False
    \<and> ov_Overridable (p_PreUp fixed_peer)"
  using opening_fixes_settings [OF sample_open, of interfaces_init profile_init new_york]
  by (simp add: peer_dialog_init_def sample_store_def)
    (auto simp: set_overridable_def fixed_peer_def freshPeer_def)

text \<open>C29. What was typed into a setting stays in the table when the dialog is closed without saving:
  closing does not bring back the settings of the listed peer, whose reopened dialog shows them
  and whose next save sends them.\<close>

theorem cancelled_edit_stays:
  assumes "peers_Find (pd_peers d) i = Some p" "pd_form d = freshPeer"
    and "p_IgnoreGlobalSettings (f (opened_form p)) = p_IgnoreGlobalSettings (opened_form p)"
  shows "\<exists>t. andThen (andThen (open_peer_dialog z i) (peer_dialog_edit f)) peer_dialog_close d
      = Returns () t [Close]
    \<and> peers (pd_peers t) = update_first (\<lambda>q. p_Identifier q = i)
        (share_settings (f (opened_form p))) (peers (pd_peers d))"
proof -
  obtain e where e: "open_peer_dialog z i d = Returns None e []" "pd_form e = opened_form p"
    "pd_shares e = Some (Listed i)" "peers (pd_peers e) = update_first (\<lambda>q. p_Identifier q = i)
        (share_settings (opened_form p)) (peers (pd_peers d))"
    using open_run [OF assms(1,2), of z] by auto
  obtain t where t: "peer_dialog_edit f e = Returns () t []"
    "peers (pd_peers t) = update_first (\<lambda>q. p_Identifier q = i) (share_settings (f (opened_form p)))
        (peers (pd_peers e))"
    using edit_run [OF e(3), of f] assms(3) e(2) by auto
  have "peers (pd_peers t) = update_first (\<lambda>q. p_Identifier q = i)
      (share_settings (f (opened_form p))) (peers (pd_peers d))"
    unfolding t(2) e(4) by (subst update_first_twice) simp_all
  then show ?thesis
    by (simp add: andThen_def bind_def e(1) t(1) peer_dialog_close_run)
qed

theorem cancelled_edit_stays_witness:
  "\<exists>t q. andThen (andThen (open_peer_dialog new_york (js ''a''))
      (peer_dialog_edit (\<lambda>f. f\<lparr>p_PreUp := (p_PreUp f)\<lparr>ov_Value := js ''rm''\<rparr>\<rparr>))) peer_dialog_close
      (peer_dialog_init (sample_store fixed_peer) interfaces_init profile_init) = Returns () t [Close]
    \<and> peers (pd_peers t) = [q] \<and> ov_Value (p_PreUp q) = js ''rm'' \<and> ov_Value (p_PreUp fixed_peer) = []"
  using cancelled_edit_stays [OF sample_open, of interfaces_init profile_init "\<lambda>f. f\<lparr>p_PreUp := (p_PreUp f)\<lparr>ov_Value := js ''rm''\<rparr>\<rparr>" new_york]
  by (simp add: peer_dialog_init_def sample_store_def)
    (auto simp: share_settings_def fixed_peer_def freshPeer_def)

text \<open>What a peer becomes on its way through a form, as it is sent.\<close>

definition resent :: "zone \<Rightarrow> peer \<Rightarrow> peer" where
  "resent z p = p\<lparr>
     p_ExpiresAt := Some (formatDateTimeToRFC3339 z (fst (expiry_fields z p)) (snd (expiry_fields z p))),
     p_DisabledReason := None, p_Filename := [], p_IsSelected := False, p_IgnoreGlobalSettings := any_fixed p\<rparr>"

lemma unchanged_peer_request:
  assumes "peers_Find (pd_peers d) i = Some p" "pd_form d = freshPeer"
    and "\<not> pd_isSaving d" "i \<noteq> NEW_PEER" "latin1 i"
  shows "\<exists>t. andThen (open_peer_dialog z i) (peer_save_begin z) d
    = Returns (Some (PeerUpdate i (Request PUT (js ''/peer/'' @ projr (base64_url_encode i)) (Some
        ((if any_fixed p then set_overridable False else id) (resent z p)))))) t []"
proof -
  obtain e where e: "open_peer_dialog z i d = Returns None e []" "pd_form e = opened_form p"
    "pd_peerId e = i" "pd_isSaving e = pd_isSaving d" "pd_expiryDate e = fst (expiry_fields z p)"
    "pd_expiryTime e = snd (expiry_fields z p)" "pd_peers e = (pd_peers d)\<lparr>peers :=
        update_first (\<lambda>q. p_Identifier q = i) (share_settings (opened_form p)) (peers (pd_peers d))\<rparr>"
    using open_run [OF assms(1,2), of z] by auto
  have "p_Identifier p = i" using assms(1) by (auto simp: peers_Find_def find_Some_iff)
  moreover have "peers_Find (pd_peers e) i = Some (share_settings (opened_form p) p)"
    using assms(1) by (simp add: e(7) peers_Find_def find_update_first)
  then have "selectedPeer e = Some (share_settings (opened_form p) p, Some (Listed i))"
    by (simp add: selectedPeer_def e(3))
  moreover have "with_expiry z e = (if any_fixed p then set_overridable False else id)
      (resent z p)"
    by (rule peer.equality)
      (simp_all add: with_expiry_def resent_def e opened_form_def set_overridable_def fill_peer_def freshPeer_def Let_def)
  ultimately show ?thesis using assms(3,4,5)
    by (simp add: andThen_def bind_def e(1) peer_save_begin_cases e(3,4) Let_def)
qed

text \<open>Saving an opened peer without a change sends it with its expiry date converted there and
  back, without its file name, and, when one of its settings is fixed, with all of them fixed.\<close>

theorem unchanged_peer_sent:
  assumes "peers_Find (pd_peers d) i = Some p" "pd_form d = freshPeer"
    and "\<not> pd_isSaving d" "i \<noteq> NEW_PEER" "latin1 i"
  shows "\<exists>t path. andThen (open_peer_dialog z i) (peer_save_begin z) d
    = Returns (Some (PeerUpdate i (Request PUT path (Some
        ((if any_fixed p then set_overridable False else id)
          (p\<lparr>p_ExpiresAt := Some (formatDateTimeToRFC3339 z (fst (expiry_fields z p)) (snd (expiry_fields z p))),
             p_DisabledReason := None, p_Filename := [], p_IsSelected := False, p_IgnoreGlobalSettings := any_fixed p\<rparr>)))))) t []"
  using unchanged_peer_request [OF assms, of z] unfolding resent_def by blast

theorem unchanged_peer_sent_witness:
  "\<exists>t path body. andThen (open_peer_dialog new_york (js ''a'')) (peer_save_begin new_york)
      (peer_dialog_init (sample_store fixed_peer) interfaces_init profile_init)
    = Returns (Some (PeerUpdate (js ''a'') (Request PUT path (Some body)))) t []
    \<and> ov_Overridable (p_PreUp body) = False \<and> p_ExpiresAt body = Some []"
proof -
  have "js ''a'' \<noteq> NEW_PEER" "latin1 (js ''a'')"
    by (simp_all add: NEW_PEER_def js_def latin1_def js_char_def)
  moreover have "pd_form (peer_dialog_init (sample_store fixed_peer) interfaces_init profile_init) = freshPeer"
    "\<not> pd_isSaving (peer_dialog_init (sample_store fixed_peer) interfaces_init profile_init)"
    by (simp_all add: peer_dialog_init_def)
  ultimately show ?thesis
    using unchanged_peer_sent [OF sample_open, of interfaces_init profile_init new_york]
    by (auto simp: set_overridable_def expiry_fields_def formatRFC3339ToDatetime_def
        formatDateTimeToRFC3339_def)
qed

text \<open>Enabling a disabled peer again removes its expiry date: unless a new one is typed, the save
  that follows sends an empty one.\<close>

theorem reenabling_drops_expiry:
  assumes "peers_Find (pd_peers d) i = Some p" "pd_form d = freshPeer" "p_Disabled p"
    and "\<not> pd_isSaving d" "i \<noteq> NEW_PEER" "latin1 i"
  shows "\<exists>t path body. andThen (andThen (open_peer_dialog z i)
        (peer_dialog_edit (\<lambda>f. f\<lparr>p_Disabled := False\<rparr>))) (peer_save_begin z) d
      = Returns (Some (PeerUpdate i (Request PUT path (Some body)))) t []
    \<and> \<not> p_Disabled body \<and> p_ExpiresAt body = Some []"
proof -
  obtain e where e: "open_peer_dialog z i d = Returns None e []" "pd_form e = opened_form p"
    "pd_shares e = Some (Listed i)" "pd_peerId e = i" "pd_isSaving e = pd_isSaving d"
    "pd_peers e = (pd_peers d)\<lparr>peers := update_first (\<lambda>q. p_Identifier q = i)
        (share_settings (opened_form p)) (peers (pd_peers d))\<rparr>"
    using open_run [OF assms(1,2), of z] by auto
  let ?g = "(opened_form p)\<lparr>p_Disabled := False\<rparr>"
  let ?u = "write_through (e\<lparr>pd_form := ?g\<rparr>)"
  let ?t = "watch_Disabled True ?u"
  have disabled: "p_Disabled (opened_form p)" using assms(3) by (simp add: opened_form_def Let_def)
  have run: "peer_dialog_edit (\<lambda>f. f\<lparr>p_Disabled := False\<rparr>) e = Returns () ?t []"
    by (simp add: peer_dialog_edit_def watched_def modify_def watch_edit pd_edit_def e(2) disabled)
  have cleared: "pd_expiryDate ?t = []" "pd_expiryTime ?t = []"
    by (simp_all add: watch_Disabled_def Let_def)
  have "pd_peers ?u = (pd_peers e)\<lparr>peers := update_first (\<lambda>q. p_Identifier q = i) (share_settings ?g)
      (peers (pd_peers e))\<rparr>"
    by (simp add: write_through_def e(3))
  then have "peers_Find (pd_peers ?t) i = Some (share_settings ?g p)"
    using assms(1) by (simp add: e(6) peers_Find_def find_update_first)
  moreover have "p_Identifier p = i" using assms(1) by (auto simp: peers_Find_def find_Some_iff)
  moreover have "pd_peerId ?t = i" "\<not> pd_isSaving ?t" using e(4,5) assms(4) by simp_all
  ultimately have sel: "selectedPeer ?t = Some (share_settings ?g p, Some (Listed i))"
    by (simp add: selectedPeer_def)
  have body: "with_expiry z ?t = ?g\<lparr>p_ExpiresAt := Some []\<rparr>"
    by (simp add: with_expiry_def cleared formatDateTimeToRFC3339_def)
  show ?thesis
    using sel assms(4,5,6) \<open>p_Identifier p = i\<close> e(4,5)
    by (simp add: andThen_def bind_def e(1) run peer_save_begin_cases body Let_def)
qed

theorem reenabling_drops_expiry_witness:
  "\<exists>t path body. andThen (andThen (open_peer_dialog new_york (js ''a''))
        (peer_dialog_edit (\<lambda>f. f\<lparr>p_Disabled := False\<rparr>))) (peer_save_begin new_york)
      (peer_dialog_init (sample_store (freshPeer\<lparr>p_Identifier := js ''a'', p_Disabled := True,
         p_ExpiresAt := Some (js ''2030-01-01T00:00:00Z'')\<rparr>)) interfaces_init profile_init)
    = Returns (Some (PeerUpdate (js ''a'') (Request PUT path (Some body)))) t [] \<and> p_ExpiresAt body = Some []"
proof -
  let ?p = "freshPeer\<lparr>p_Identifier := js ''a'', p_Disabled := True,
     p_ExpiresAt := Some (js ''2030-01-01T00:00:00Z'')\<rparr>"
  have "peers_Find (pd_peers (peer_dialog_init (sample_store ?p) interfaces_init profile_init)) (js ''a'') = Some ?p"
    by (simp add: peer_dialog_init_def sample_store_def peers_Find_def)
  moreover have "js ''a'' \<noteq> NEW_PEER" "latin1 (js ''a'')"
    by (simp_all add: NEW_PEER_def js_def latin1_def js_char_def)
  ultimately show ?thesis
    using reenabling_drops_expiry [of "peer_dialog_init (sample_store ?p) interfaces_init profile_init" "js ''a''" ?p new_york]
    by (auto simp: peer_dialog_init_def)
qed

text \<open>C20. The save button of the peer dialog never stays dead: whatever happened, at most one save is
  on its way, exactly while the button is disabled, and its answer, whatever it is, enables the
  button again.\<close>

theorem peer_save_never_stuck:
  assumes "(flight_step (peer_save_begin z) peer_save_settle around_peer_save)\<^sup>*\<^sup>*
      (peer_dialog_init u v w, []) (d, ws)"
  shows "length ws = (if pd_isSaving d then 1 else 0)
    \<and> (\<exists>e. (flight_step (peer_save_begin z) peer_save_settle around_peer_save)\<^sup>*\<^sup>* (d, ws) (e, [])
        \<and> \<not> pd_isSaving e)"
proof -
  have "\<not> pd_isSaving (peer_dialog_init u v w)" by (simp add: peer_dialog_init_def)
  then show ?thesis
    using peer_save.reachable_ok [OF assms] peer_save.eventually_free [OF assms] by blast
qed

theorem peer_save_never_stuck_witness:
  "\<exists>d e q. (flight_step (peer_save_begin new_york) peer_save_settle around_peer_save)\<^sup>*\<^sup>* (d, [q]) (e, [])
     \<and> pd_isSaving d \<and> \<not> pd_isSaving e"
proof -
  let ?step = "flight_step (peer_save_begin new_york) peer_save_settle around_peer_save"
  let ?s = "peer_dialog_init (sample_store fixed_peer) interfaces_init profile_init"
  have fresh: "pd_form ?s = freshPeer" by (simp add: peer_dialog_init_def)
  have id: "js ''a'' \<noteq> NEW_PEER" "latin1 (js ''a'')"
    by (simp_all add: NEW_PEER_def js_def latin1_def js_char_def)
  obtain e where e: "open_peer_dialog new_york (js ''a'') ?s = Returns None e []" "pd_peerId e = js ''a''"
    "\<not> pd_isSaving e" "pd_peers e = (pd_peers ?s)\<lparr>peers := update_first (\<lambda>q. p_Identifier q = js ''a'')
        (share_settings (opened_form fixed_peer)) (peers (pd_peers ?s))\<rparr>"
    using open_run [OF sample_open fresh, of new_york] by (auto simp: peer_dialog_init_def)
  then have opened: "?step (?s, []) (e, [])"
    by (intro flight_other aps_open [of new_york "js ''a''"]) simp
  have "peers_Find (pd_peers e) (js ''a'') = Some (share_settings (opened_form fixed_peer) fixed_peer)"
    using sample_open by (simp add: e(4) peers_Find_def find_update_first)
  then have "selectedPeer e = Some (share_settings (opened_form fixed_peer) fixed_peer, Some (Listed (js ''a'')))"
    by (simp add: selectedPeer_def e(2))
  with id e(2,3) obtain q t where q: "peer_save_begin new_york e = Returns (Some q) t []"
    by (auto simp: peer_save_begin_cases Let_def)
  then have "?step (e, []) (t, case Some q of None \<Rightarrow> [] | Some q \<Rightarrow> q # [])" by (rule flight_press)
  with opened have run: "?step\<^sup>*\<^sup>* (?s, []) (t, [q])" by auto
  from peer_save_never_stuck [OF run] show ?thesis by (auto split: if_splits)
qed

end
