(* ===== verification/User_Peer_Dialog.thy ===== *)
theory User_Peer_Dialog
  imports Peer_Dialog
begin

text \<open>
  The dialog with which users edit their own peers, \<open>components/UserPeerEditModal.vue\<close>. It has the
  state of the administration's dialog, fills and saves its form in the same way, and shares the
  setting objects of the peer it was filled from; it takes the interface from the profile, shows
  fewer inputs, and has no watch on \<open>IgnoreGlobalSettings\<close>.
\<close>

section \<open>Selection\<close>

definition user_selectedPeer :: "peer_dialog \<Rightarrow> (peer \<times> place option) option" where
  "user_selectedPeer d = (case peers_Find (pd_peers d) (pd_peerId d) of
      Some p \<Rightarrow> Some (p, Some (Listed (pd_peerId d)))
    | None \<Rightarrow>
        if pd_peerId d \<noteq> []
        then map_option (\<lambda>p. (p, Some (Own (pd_peerId d)))) (FindPeers (pd_profile d) (pd_peerId d))
        else Some (freshPeer, None))"

text \<open>An interface that is selected in the profile but not among its interfaces is undefined.\<close>

definition user_selectedInterface :: "peer_dialog \<Rightarrow> iface option" where
  "user_selectedInterface d =
     (if selectedInterfaceId (pd_profile d) \<noteq> []
      then List.find (\<lambda>i. i_Identifier i = selectedInterfaceId (pd_profile d))
        (prof_interfaces (pd_profile d))
      else Some freshInterface)"

definition user_peer_dialog_title :: "(jsstr \<Rightarrow> jsstr) \<Rightarrow> peer_dialog \<Rightarrow> jsstr" where
  "user_peer_dialog_title tr d =
     (if \<not> pd_visible d then []
      else (case user_selectedPeer d of
          Some (p, _) \<Rightarrow> tr (js ''modals.peer-edit.headline-edit-peer'') @ js '' '' @ p_Identifier p
        | None \<Rightarrow> tr (js ''modals.peer-edit.headline-new-peer'')))"

section \<open>The watch on the form\<close>

definition user_watch_Disabled :: "bool \<Rightarrow> peer_dialog \<Rightarrow> peer_dialog" where
  "user_watch_Disabled old d = (let new = p_Disabled (pd_form d) in
     if new = old then d
     else if old \<and> \<not> new \<and> (pd_expiryDate d \<noteq> [] \<or> pd_expiryTime d \<noteq> [])
     then d\<lparr>pd_expiryDate := [], pd_expiryTime := []\<rparr>
     else d)"

definition user_watched :: "(peer_dialog \<Rightarrow> peer_dialog) \<Rightarrow> (peer_dialog, unit) comp" where
  "user_watched f = modify (\<lambda>d. user_watch_Disabled (p_Disabled (pd_form d)) (f d))"

definition user_peer_dialog_edit :: "(peer \<Rightarrow> peer) \<Rightarrow> (peer_dialog, unit) comp" where
  "user_peer_dialog_edit f = user_watched (pd_edit f)"

section \<open>Opening and closing\<close>

definition user_fill_from_prepared :: "zone \<Rightarrow> peer_dialog \<Rightarrow> peer_dialog" where
  "user_fill_from_prepared z d = (let p = prepared (pd_peers d) in
     d\<lparr>pd_form := (pd_form d)\<lparr>
       p_Identifier := p_Identifier p,
       p_DisplayName := p_DisplayName p,
       p_UserIdentifier := p_UserIdentifier p,
       p_InterfaceIdentifier := p_InterfaceIdentifier p,
       p_Disabled := p_Disabled p,
       p_Notes := p_Notes p,
       p_Endpoint := p_Endpoint p,
       p_EndpointPublicKey := p_EndpointPublicKey p,
       p_AllowedIPs := p_AllowedIPs p,
       p_ExtraAllowedIPs := p_ExtraAllowedIPs p,
       p_PresharedKey := p_PresharedKey p,
       p_PersistentKeepalive := p_PersistentKeepalive p,
       p_PrivateKey := p_PrivateKey p,
       p_PublicKey := p_PublicKey p,
       p_Mode := p_Mode p,
       p_Addresses := p_Addresses p,
       p_CheckAliveAddress := p_CheckAliveAddress p,
       p_Dns := p_Dns p,
       p_DnsSearch := p_DnsSearch p,
       p_Mtu := p_Mtu p,
       p_FirewallMark := p_FirewallMark p,
       p_RoutingTable := p_RoutingTable p,
       p_PreUp := p_PreUp p,
       p_PostUp := p_PostUp p,
       p_PreDown := p_PreDown p,
       p_PostDown := p_PostDown p\<rparr>,
       pd_shares := Some Prepared,
       pd_expiryDate := fst (expiry_fields z p), pd_expiryTime := snd (expiry_fields z p)\<rparr>)"

definition user_fill_from_selected :: "zone \<Rightarrow> peer \<Rightarrow> place option \<Rightarrow> peer_dialog \<Rightarrow> peer_dialog" where
  "user_fill_from_selected z p pl d = (let f = (pd_form d)\<lparr>
       p_Identifier := p_Identifier p,
       p_DisplayName := p_DisplayName p,
       p_UserIdentifier := p_UserIdentifier p,
       p_InterfaceIdentifier := p_InterfaceIdentifier p,
       p_Disabled := p_Disabled p,
       p_Notes := p_Notes p,
       p_Endpoint := p_Endpoint p,
       p_EndpointPublicKey := p_EndpointPublicKey p,
       p_AllowedIPs := p_AllowedIPs p,
       p_ExtraAllowedIPs := p_ExtraAllowedIPs p,
       p_PresharedKey := p_PresharedKey p,
       p_PersistentKeepalive := p_PersistentKeepalive p,
       p_PrivateKey := p_PrivateKey p,
       p_PublicKey := p_PublicKey p,
       p_Mode := p_Mode p,
       p_Addresses := p_Addresses p,
       p_CheckAliveAddress := p_CheckAliveAddress p,
       p_Dns := p_Dns p,
       p_DnsSearch := p_DnsSearch p,
       p_Mtu := p_Mtu p,
       p_FirewallMark := p_FirewallMark p,
       p_RoutingTable := p_RoutingTable p,
       p_PreUp := p_PreUp p,
       p_PostUp := p_PostUp p,
       p_PreDown := p_PreDown p,
       p_PostDown := p_PostDown p\<rparr> in
     d\<lparr>pd_form :=
         (if \<not> ov_Overridable (p_Endpoint f)
         \<or> \<not> ov_Overridable (p_EndpointPublicKey f)
         \<or> \<not> ov_Overridable (p_AllowedIPs f)
         \<or> \<not> ov_Overridable (p_PersistentKeepalive f)
         \<or> \<not> ov_Overridable (p_Dns f)
         \<or> \<not> ov_Overridable (p_DnsSearch f)
         \<or> \<not> ov_Overridable (p_Mtu f)
         \<or> \<not> ov_Overridable (p_FirewallMark f)
         \<or> \<not> ov_Overridable (p_RoutingTable f)
         \<or> \<not> ov_Overridable (p_PreUp f)
         \<or> \<not> ov_Overridable (p_PostUp f)
         \<or> \<not> ov_Overridable (p_PreDown f)
         \<or> \<not> ov_Overridable (p_PostDown f)
          then f\<lparr>p_IgnoreGlobalSettings := True\<rparr> else f),
       pd_shares := pl,
       pd_expiryDate := fst (expiry_fields z p), pd_expiryTime := snd (expiry_fields z p)\<rparr>)"

definition user_peer_dialog_shown_begin :: "zone \<Rightarrow> (peer_dialog, unit request option) comp" where
  "user_peer_dialog_shown_begin z =
     bind (gets (\<lambda>d. d)) (\<lambda>d. case user_selectedPeer d of
         None \<Rightarrow> (case user_selectedInterface d of
             None \<Rightarrow> throw TypeError
           | Some v \<Rightarrow> bind (pd_on_peers (PreparePeer_begin (i_Identifier v))) (\<lambda>q. return (Some q)))
       | Some (p, pl) \<Rightarrow> andThen (user_watched (user_fill_from_selected z p pl)) (return None))"

definition user_peer_dialog_shown_settle :: "zone \<Rightarrow> peer settled \<Rightarrow> (peer_dialog, unit) comp" where
  "user_peer_dialog_shown_settle z reply =
     andThen (pd_on_peers (PreparePeer_settle reply)) (user_watched (user_fill_from_prepared z))"

definition open_user_peer_dialog :: "zone \<Rightarrow> jsstr \<Rightarrow> (peer_dialog, unit request option) comp" where
  "open_user_peer_dialog z i =
     andThen (modify (\<lambda>d. d\<lparr>pd_peerId := i, pd_visible := True\<rparr>)) (user_peer_dialog_shown_begin z)"

definition user_peer_dialog_close :: "(peer_dialog, unit) comp" where
  "user_peer_dialog_close =
     andThen (user_watched (\<lambda>d. d\<lparr>pd_form := freshPeer, pd_shares := None,
                                  pd_expiryDate := [], pd_expiryTime := []\<rparr>))
       (emit Close)"

section \<open>Saving and deleting\<close>

definition user_peer_save_begin :: "zone \<Rightarrow> (peer_dialog, peer_save option) comp" where
  "user_peer_save_begin z =
     guarded_begin pd_isSaving (\<lambda>b d. d\<lparr>pd_isSaving := b\<rparr>) ''Failed to save peer!''
       (andThen (modify (\<lambda>d. d\<lparr>pd_form := (pd_form d)\<lparr>p_ExpiresAt :=
              Some (formatDateTimeToRFC3339 z (pd_expiryDate d) (pd_expiryTime d))\<rparr>\<rparr>))
         (bind (gets (\<lambda>d. d)) (\<lambda>d.
            if pd_peerId d \<noteq> NEW_PEER
            then (case user_selectedPeer d of
                None \<Rightarrow> throw TypeError
              | Some (p, _) \<Rightarrow> bind (pd_on_peers (UpdatePeer_begin (p_Identifier p) (pd_form d)))
                  (\<lambda>q. return (PeerUpdate (p_Identifier p) q)))
            else (case user_selectedInterface d of
                None \<Rightarrow> throw TypeError
              | Some v \<Rightarrow> bind (pd_on_peers (CreatePeer_begin (i_Identifier v) (pd_form d)))
                  (\<lambda>q. return (PeerCreate q))))))"

definition user_peer_save_settle :: "peer_save \<Rightarrow> peer settled \<Rightarrow> (peer_dialog, unit) comp" where
  "user_peer_save_settle w reply =
     guarded_settle (\<lambda>b d. d\<lparr>pd_isSaving := b\<rparr>) ''Failed to save peer!''
       (andThen (pd_on_peers (case w of
            PeerUpdate i _ \<Rightarrow> UpdatePeer_settle i reply
          | PeerCreate _ \<Rightarrow> CreatePeer_settle reply))
          user_peer_dialog_close)"

definition user_peer_del_begin :: "(peer_dialog, (jsstr \<times> unit request) option) comp" where
  "user_peer_del_begin =
     guarded_begin pd_isDeleting (\<lambda>b d. d\<lparr>pd_isDeleting := b\<rparr>) ''Failed to delete peer!''
       (bind (gets user_selectedPeer) (\<lambda>sel. case sel of
           None \<Rightarrow> throw TypeError
         | Some (p, _) \<Rightarrow> bind (pd_on_peers (DeletePeer_begin (p_Identifier p)))
             (\<lambda>q. return (p_Identifier p, q))))"

definition user_peer_del_settle :: "jsstr \<times> unit request \<Rightarrow> unit settled \<Rightarrow> (peer_dialog, unit) comp" where
  "user_peer_del_settle w reply =
     guarded_settle (\<lambda>b d. d\<lparr>pd_isDeleting := b\<rparr>) ''Failed to delete peer!''
       (andThen (pd_on_peers (DeletePeer_settle (fst w) reply)) user_peer_dialog_close)"

section \<open>Properties\<close>

lemma user_selectedPeer_same: "user_selectedPeer = selectedPeer"
  by (rule ext) (simp add: user_selectedPeer_def selectedPeer_def)

lemma user_fill_from_selected_same: "user_fill_from_selected = fill_from_selected"
  by (simp add: fun_eq_iff user_fill_from_selected_def fill_from_selected_def fill_peer_def
      any_fixed_def Let_def)

lemma user_watch_Disabled_same: "user_watch_Disabled = watch_Disabled"
  by (simp add: fun_eq_iff user_watch_Disabled_def watch_Disabled_def)

lemma user_open_run:
  assumes "selectedPeer (d\<lparr>pd_peerId := i, pd_visible := True\<rparr>) = Some (p, pl)" "pd_form d = freshPeer"
  shows "open_user_peer_dialog z i d
    = Returns None (fill_from_selected z p pl (d\<lparr>pd_peerId := i, pd_visible := True\<rparr>)) []"
proof -
  have "\<not> p_Disabled freshPeer" by (simp add: freshPeer_def)
  with assms show ?thesis
    by (simp add: open_user_peer_dialog_def user_peer_dialog_shown_begin_def andThen_def bind_def
        modify_def gets_def return_def user_watched_def user_watch_Disabled_same
        user_fill_from_selected_same user_selectedPeer_same)
qed

lemma selectedPeer_fill: "selectedPeer (fill_from_selected z p pl d) = selectedPeer d"
  by (simp add: selectedPeer_def fill_from_selected_def Let_def split: option.split)

lemma user_unchanged_request:
  assumes "selectedPeer (d\<lparr>pd_peerId := i, pd_visible := True\<rparr>) = Some (p, pl)" "p_Identifier p = i"
    and "pd_form d = freshPeer" "\<not> pd_isSaving d" "i \<noteq> NEW_PEER" "latin1 i"
  shows "\<exists>t. andThen (open_user_peer_dialog z i) (user_peer_save_begin z) d
    = Returns (Some (PeerUpdate i (Request PUT (js ''/peer/'' @ projr (base64_url_encode i))
        (Some (resent z p))))) t []"
proof -
  let ?e = "fill_from_selected z p pl (d\<lparr>pd_peerId := i, pd_visible := True\<rparr>)"
  have body: "(pd_form ?e)\<lparr>p_ExpiresAt :=
      Some (formatDateTimeToRFC3339 z (pd_expiryDate ?e) (pd_expiryTime ?e))\<rparr> = resent z p"
    by (rule peer.equality)
      (simp_all add: fill_from_selected_def resent_def assms(3) fill_peer_def freshPeer_def Let_def
        any_fixed_def)
  have plain: "pd_isSaving ?e = pd_isSaving d" "pd_peerId ?e = i"
    by (simp_all add: fill_from_selected_def Let_def)
  have sel: "selectedPeer ?e = Some (p, pl)" unfolding selectedPeer_fill by (rule assms(1))
  show ?thesis
    using assms(2,4,5,6) sel plain
    by (simp add: andThen_def bind_def user_open_run [OF assms(1,3)] user_peer_save_begin_def
        guarded_begin_cases modify_def gets_def user_selectedPeer_same pd_on_peers_def zoom_def
        UpdatePeer_begin_def set_fetching_def encoded_request_cases return_def body)
qed

text \<open>C31. The two dialogs of a peer send the same request for it when it is opened and saved
  unchanged, but for one thing: when a setting is fixed, the administration's dialog fixes all of
  them and the user's dialog leaves them as they are.\<close>

theorem dialogs_agree:
  assumes "peers_Find (pd_peers d) i = Some p" "pd_form d = freshPeer"
    and "\<not> pd_isSaving d" "i \<noteq> NEW_PEER" "latin1 i"
  shows "\<exists>t u path body.
      andThen (open_user_peer_dialog z i) (user_peer_save_begin z) d
        = Returns (Some (PeerUpdate i (Request PUT path (Some body)))) t []
    \<and> andThen (open_peer_dialog z i) (peer_save_begin z) d
        = Returns (Some (PeerUpdate i (Request PUT path (Some
            ((if any_fixed p then set_overridable False else id) body))))) u []
    \<and> share_settings body p = p"
proof -
  have id: "p_Identifier p = i" using assms(1) by (auto simp: peers_Find_def find_Some_iff)
  have sel: "selectedPeer (d\<lparr>pd_peerId := i, pd_visible := True\<rparr>) = Some (p, Some (Listed i))"
    using assms(1) by (simp add: selectedPeer_def)
  have "share_settings (resent z p) p = p" by (simp add: share_settings_def resent_def)
  then show ?thesis
    using user_unchanged_request [OF sel id assms(2-5), of z] unchanged_peer_request [OF assms, of z]
    by blast
qed

theorem dialogs_agree_witness:
  "\<exists>t u path body. andThen (open_user_peer_dialog new_york (js ''a'')) (user_peer_save_begin new_york)
      (peer_dialog_init (sample_store fixed_peer) interfaces_init profile_init)
      = Returns (Some (PeerUpdate (js ''a'') (Request PUT path (Some body)))) t []
    \<and> andThen (open_peer_dialog new_york (js ''a'')) (peer_save_begin new_york)
        (peer_dialog_init (sample_store fixed_peer) interfaces_init profile_init)
      = Returns (Some (PeerUpdate (js ''a'') (Request PUT path (Some (set_overridable False body))))) u []
    \<and> ov_Overridable (p_PreUp body)"
proof -
  have id: "js ''a'' \<noteq> NEW_PEER" "latin1 (js ''a'')"
    by (simp_all add: NEW_PEER_def js_def latin1_def js_char_def)
  have start: "pd_form (peer_dialog_init (sample_store fixed_peer) interfaces_init profile_init) = freshPeer"
    "\<not> pd_isSaving (peer_dialog_init (sample_store fixed_peer) interfaces_init profile_init)"
    by (simp_all add: peer_dialog_init_def)
  have pre: "ov_Overridable (p_PreUp body)" if "share_settings body fixed_peer = fixed_peer" for body
  proof -
    have "p_PreUp body = p_PreUp (share_settings body fixed_peer)" by (simp add: share_settings_def)
    also have "\<dots> = p_PreUp fixed_peer" unfolding that ..
    finally show ?thesis by (simp add: fixed_peer_def freshPeer_def)
  qed
  show ?thesis
    using dialogs_agree [OF sample_open start id, of new_york] pre by (simp only: fixed_peer_simps if_True) blast
qed

text \<open>An accepted save of the user's dialog closes it and changes the store of the administration
  only: the user's own list keeps the old peer until the page loads it again. A refused save
  leaves dialog, form and lists as they were, with a message.\<close>

theorem user_peer_save_outcome:
  "user_peer_save_settle w reply d = (case reply of
     Inr p \<Rightarrow> Returns () (d\<lparr>pd_isSaving := False, pd_form := freshPeer, pd_shares := None,
        pd_expiryDate := [], pd_expiryTime := [], pd_peers :=
        (case w of
           PeerUpdate i _ \<Rightarrow> (pd_peers d)\<lparr>fetching := False, peers := setIndex (peers (pd_peers d))
             (findIndex (\<lambda>x. p_Identifier x = i) (peers (pd_peers d))) p\<rparr>
         | PeerCreate _ \<Rightarrow> (pd_peers d)\<lparr>fetching := False, peers := peers (pd_peers d) @ [p]\<rparr>)\<rparr>) [Close]
   | Inl e \<Rightarrow> Returns () (d\<lparr>pd_isSaving := False, pd_peers := (pd_peers d)\<lparr>fetching := False\<rparr>\<rparr>)
        (save_failed (new_Error e)))"
proof -
  have close: "user_peer_dialog_close d = Returns () (d\<lparr>pd_form := freshPeer, pd_shares := None,
     pd_expiryDate := [], pd_expiryTime := []\<rparr>) [Close]" for d
    by (simp add: user_peer_dialog_close_def user_watched_def user_watch_Disabled_def js_run Let_def)
  show ?thesis
    by (cases w; cases reply)
      (simp_all add: user_peer_save_settle_def guarded_settle_cases andThen_def bind_def pd_on_peers_cases
        UpdatePeer_settle_def CreatePeer_settle_def close set_fetching_def modify_def
        catch_def throw_def save_failed_def Let_def)
qed

end
