(* ===== verification/View_Dialogs.thy ===== *)
theory View_Dialogs
  imports Peer_Dialog Interface_View Users
begin

text \<open>
  The dialogs that only show: \<open>components/PeerViewModal.vue\<close> with the configuration of a peer,
  \<open>components/InterfaceViewModal.vue\<close>, \<open>components/UserViewModal.vue\<close>, the question of
  \<open>components/Confirmation.vue\<close>, and the frame all dialogs share, \<open>components/Modal.vue\<close>.
\<close>

section \<open>The dialog of a peer\<close>

record peer_view =
  pv_peers :: peer_store
  pv_profile :: profile_store
  pv_interfaces :: interface_store
  pv_settings :: settings_store
  pv_peerId :: jsstr
  pv_visible :: bool
  pv_configString :: jsstr
  pv_configStyle :: jsstr

definition pv_on_peers :: "(peer_store, 'a) comp \<Rightarrow> (peer_view, 'a) comp" where
  "pv_on_peers = zoom pv_peers (\<lambda>u v. v\<lparr>pv_peers := u\<rparr>)"

definition pv_selectedPeer :: "peer_view \<Rightarrow> peer option" where
  "pv_selectedPeer v = (case peers_Find (pv_peers v) (pv_peerId v) of
      Some p \<Rightarrow> Some p
    | None \<Rightarrow> if pv_peerId v \<noteq> [] then FindPeers (pv_profile v) (pv_peerId v) else Some freshPeer)"

definition formattedExpiryDate :: "zone \<Rightarrow> peer_view \<Rightarrow> jsstr settled" where
  "formattedExpiryDate z v = (case pv_selectedPeer v of
      None \<Rightarrow> Inl TypeError
    | Some p \<Rightarrow> Inr (case p_ExpiresAt p of
        None \<Rightarrow> []
      | Some e \<Rightarrow> if e = [] then []
          else (case formatRFC3339ToDatetime z e of (date, time) \<Rightarrow>
            if date \<noteq> [] \<and> time \<noteq> [] then date @ js '' '' @ time else e)))"

text \<open>
  The statistics of the peer store are always an object, fresh ones when there are none; the
  code after \<open>if (!s)\<close> is kept here as the branch for none.
\<close>

definition selectedStats :: "peer_view \<Rightarrow> stats" where
  "selectedStats v = (case Some (Statistics (pv_peers v) (pv_peerId v)) of
      Some s \<Rightarrow> s
    | None \<Rightarrow> if pv_peerId v \<noteq> [] then Statistics (pv_profile v) (pv_peerId v) else freshStats)"

definition pv_selectedInterface :: "peer_view \<Rightarrow> iface" where
  "pv_selectedInterface v =
     (case GetSelected (pv_interfaces v) of Some i \<Rightarrow> i | None \<Rightarrow> freshInterface)"

definition peer_view_title :: "(jsstr \<Rightarrow> jsstr) \<Rightarrow> peer_view \<Rightarrow> jsstr settled" where
  "peer_view_title tr v =
     (if \<not> pv_visible v then Inr []
      else (case pv_selectedPeer v of
          None \<Rightarrow> Inl TypeError
        | Some p \<Rightarrow> Inr (if i_Mode (pv_selectedInterface v) = js ''server''
            then tr (js ''modals.peer-view.headline-peer'') @ js '' '' @ p_DisplayName p
            else tr (js ''modals.peer-view.headline-endpoint'') @ js '' '' @ p_DisplayName p)))"

text \<open>
  Showing the dialog and switching the style each ask for the configuration; an answer is shown
  when it comes.
\<close>

definition peer_view_ask :: "(peer_view, unit request) comp" where
  "peer_view_ask =
     bind (gets (\<lambda>v. v)) (\<lambda>v. case pv_selectedPeer v of
         None \<Rightarrow> throw TypeError
       | Some p \<Rightarrow> pv_on_peers (LoadPeerConfig_begin (p_Identifier p) (pv_configStyle v)))"

definition peer_view_answer :: "jsstr settled \<Rightarrow> (peer_view, unit) comp" where
  "peer_view_answer reply =
     andThen (pv_on_peers (LoadPeerConfig_settle reply))
       (modify (\<lambda>v. v\<lparr>pv_configString := configuration (pv_peers v)\<rparr>))"

definition peer_view_shown :: "jsstr \<Rightarrow> (peer_view, unit request) comp" where
  "peer_view_shown i = andThen (modify (\<lambda>v. v\<lparr>pv_peerId := i, pv_visible := True\<rparr>)) peer_view_ask"

definition peer_view_style :: "jsstr \<Rightarrow> (peer_view, unit request option) comp" where
  "peer_view_style style =
     bind (gets pv_configStyle) (\<lambda>old. andThen (modify (\<lambda>v. v\<lparr>pv_configStyle := style\<rparr>))
       (if style = old then return None else bind peer_view_ask (\<lambda>q. return (Some q))))"

text \<open>The text and the name of the file the browser is given.\<close>

definition peer_view_download :: "peer_view \<Rightarrow> (jsstr \<times> jsstr) settled" where
  "peer_view_download v = (case pv_selectedPeer v of
      None \<Rightarrow> Inl TypeError
    | Some p \<Rightarrow> Inr (pv_configString v, p_Filename p))"

text \<open>A setting that is missing is left out of the request, which the backend reads as false.\<close>

definition peer_view_email :: "unit settled \<Rightarrow> (peer_view, unit) comp" where
  "peer_view_email reply =
     bind (gets (\<lambda>v. v)) (\<lambda>v. case pv_selectedPeer v of
         None \<Rightarrow> throw TypeError
       | Some p \<Rightarrow> catch
           (bind (pv_on_peers (MailPeerConfig_begin
               (case Setting (pv_settings v) (js ''MailLinkOnly'') of Some (JBool b) \<Rightarrow> b | _ \<Rightarrow> False)
               (pv_configStyle v) [p_Identifier p]))
             (\<lambda>q. pv_on_peers (MailPeerConfig_settle reply)))
           (\<lambda>e. notify_error ''Failed to send mail with peer configuration!'' (Text (reason_string e))))"

definition peer_view_ConfigQrUrl :: "jsstr \<Rightarrow> peer_view \<Rightarrow> jsstr settled" where
  "peer_view_ConfigQrUrl base v =
     (if length (pv_peerId v) \<noteq> 0
      then map_sum id (\<lambda>seg. apiUrl base (js ''/peer/config-qr/'' @ seg @ js ''?style='' @ pv_configStyle v))
        (base64_url_encode (pv_peerId v))
      else Inr [])"

definition peer_view_close :: "(peer_view, unit) comp" where
  "peer_view_close = emit Close"

section \<open>The dialog of an interface\<close>

record interface_show =
  is_interfaces :: interface_store
  is_interfaceId :: jsstr
  is_visible :: bool
  is_configString :: jsstr

definition is_on_interfaces :: "(interface_store, 'a) comp \<Rightarrow> (interface_show, 'a) comp" where
  "is_on_interfaces = zoom is_interfaces (\<lambda>u v. v\<lparr>is_interfaces := u\<rparr>)"

definition is_selectedInterface :: "interface_show \<Rightarrow> iface option" where
  "is_selectedInterface v = if_Find (is_interfaces v) (is_interfaceId v)"

definition interface_show_title :: "(jsstr \<Rightarrow> jsstr) \<Rightarrow> interface_show \<Rightarrow> jsstr settled" where
  "interface_show_title tr v =
     (if \<not> is_visible v then Inr []
      else (case is_selectedInterface v of
          None \<Rightarrow> Inl TypeError
        | Some i \<Rightarrow> Inr (tr (js ''modals.interface-view.headline'') @ js '' '' @ i_Identifier i)))"

definition interface_show_shown :: "jsstr settled \<Rightarrow> (interface_show, unit) comp" where
  "interface_show_shown reply =
     bind (gets is_selectedInterface) (\<lambda>sel. case sel of
         None \<Rightarrow> throw TypeError
       | Some i \<Rightarrow> andThen (is_on_interfaces (bind (LoadInterfaceConfig_begin (i_Identifier i))
             (\<lambda>_. LoadInterfaceConfig_settle reply)))
           (modify (\<lambda>v. v\<lparr>is_configString := if_configuration (is_interfaces v)\<rparr>)))"

definition interface_show_close :: "(interface_show, unit) comp" where
  "interface_show_close = emit Close"

section \<open>The dialog of a user\<close>

record user_view =
  uv_users :: user_store
  uv_userId :: jsstr
  uv_visible :: bool

definition uv_on_users :: "(user_store, 'a) comp \<Rightarrow> (user_view, 'a) comp" where
  "uv_on_users = zoom uv_users (\<lambda>u v. v\<lparr>uv_users := u\<rparr>)"

text \<open>
  The empty object that stands for no user has no identifier; an undefined identifier becomes
  the text \<open>undefined\<close> in the headline and in the request.
\<close>

definition uv_selectedUser :: "user_view \<Rightarrow> user option" where
  "uv_selectedUser v = users_Find (uv_users v) (uv_userId v)"

definition uv_identifier :: "user_view \<Rightarrow> jsstr" where
  "uv_identifier v = (case uv_selectedUser v of Some u \<Rightarrow> u_Identifier u | None \<Rightarrow> js ''undefined'')"

definition user_view_title :: "(jsstr \<Rightarrow> jsstr) \<Rightarrow> user_view \<Rightarrow> jsstr" where
  "user_view_title tr v =
     (if \<not> uv_visible v then [] else tr (js ''modals.user-view.headline'') @ js '' '' @ uv_identifier v)"

definition uv_userPeers :: "user_view \<Rightarrow> peer list" where
  "uv_userPeers v = userPeers (uv_users v)"

definition uv_getPeerAddresses :: "jsstr list \<Rightarrow> jsstr list \<times> jsstr list" where
  "uv_getPeerAddresses addresses =
     (let addrsArray = split_addresses addresses
      in (filter starts_with_digit addrsArray, filter (\<lambda>addr. strIncludes addr (js '':'')) addrsArray))"

definition user_view_shown :: "peer list settled \<Rightarrow> (user_view, unit) comp" where
  "user_view_shown reply =
     bind (gets uv_identifier) (\<lambda>i.
       uv_on_users (bind (LoadUserPeers_begin i) (\<lambda>_. LoadUserPeers_settle reply)))"

definition user_view_close :: "(user_view, unit) comp" where
  "user_view_close = emit Close"

section \<open>The question\<close>

record confirmation =
  co_title :: jsstr
  co_question :: jsstr
  co_visible :: bool

datatype verdict_event = Yes | No

definition confirmation_init :: confirmation where
  "confirmation_init =
     \<lparr>co_title = js ''Default Title'', co_question = js ''Default Question'', co_visible = True\<rparr>"

definition showDialog :: "jsstr \<Rightarrow> jsstr \<Rightarrow> (confirmation, unit) comp" where
  "showDialog titleStr questionStr =
     modify (\<lambda>c. c\<lparr>co_visible := True, co_title := titleStr, co_question := questionStr\<rparr>)"

definition answer_yes :: "(confirmation, verdict_event) comp" where
  "answer_yes = andThen (modify (\<lambda>c. c\<lparr>co_visible := False\<rparr>)) (return Yes)"

definition answer_no :: "(confirmation, verdict_event) comp" where
  "answer_no = andThen (modify (\<lambda>c. c\<lparr>co_visible := False\<rparr>)) (return No)"

section \<open>The frame of the dialogs\<close>

text \<open>
  The height of the frame and its observers, which are numbered in the order they are made: those
  that run, and the last pair put on the element. The browser's part is the height of the content
  at each animation frame. Without the elements (\<open>mounted\<close> false) nothing is done.
\<close>

record frame =
  fr_visible :: bool
  fr_closeOnBackdrop :: bool
  fr_minHeight :: int
  fr_mounted :: bool
  fr_styleMinHeight :: "int option"
  fr_running :: "nat list"
  fr_attached :: "nat option"
  fr_next :: nat

definition setModalHeight :: "int \<Rightarrow> (frame, unit) comp" where
  "setModalHeight scrollHeight = modify (\<lambda>m.
     if \<not> fr_mounted m then m
     else m\<lparr>fr_styleMinHeight := Some (max scrollHeight (fr_minHeight m))\<rparr>)"

text \<open>
  The watch on \<open>visible\<close>: becoming visible awaits the first animation frame and then makes the
  observers, whatever has happened in between; becoming hidden stops the last observers.
\<close>

definition frame_shown :: "(frame, unit) comp" where
  "frame_shown = modify (\<lambda>m. m\<lparr>fr_visible := True\<rparr>)"

definition frame_animated :: "int \<Rightarrow> (frame, unit) comp" where
  "frame_animated scrollHeight =
     andThen (setModalHeight scrollHeight)
       (modify (\<lambda>m. if \<not> fr_mounted m then m\<lparr>fr_next := fr_next m + 1\<rparr>
          else m\<lparr>fr_running := fr_next m # fr_running m, fr_attached := Some (fr_next m),
                 fr_next := fr_next m + 1\<rparr>))"

definition frame_hidden :: "(frame, unit) comp" where
  "frame_hidden = modify (\<lambda>m. let h = m\<lparr>fr_visible := False\<rparr> in
     if \<not> fr_mounted m then h
     else (case fr_attached m of
         None \<Rightarrow> h
       | Some n \<Rightarrow> h\<lparr>fr_running := filter (\<lambda>k. k \<noteq> n) (fr_running m)\<rparr>))"

definition closeBackdrop :: "(frame, unit) comp" where
  "closeBackdrop = bind (gets fr_closeOnBackdrop) (\<lambda>b. if b then emit Close else return ())"

definition closeModal :: "(frame, unit) comp" where
  "closeModal = emit Close"

section \<open>Properties\<close>

text \<open>On the page of the logged-in user, which never loads the peer store, the dialog of a peer
  shows fresh statistics, whatever statistics the profile has loaded for it.\<close>

theorem profile_statistics_not_shown:
  "selectedStats (v\<lparr>pv_peers := peers_init, pv_profile := p\<rparr>) = freshStats"
  by (simp add: selectedStats_def Statistics_def peers_init_def)

lemma peer_view_answer_run:
  "\<exists>es. peer_view_answer reply v = (let c = (case reply of Inr c \<Rightarrow> c | Inl _ \<Rightarrow> []) in
     Returns () (v\<lparr>pv_peers := (pv_peers v)\<lparr>configuration := c\<rparr>, pv_configString := c\<rparr>) es)"
  by (cases reply) (simp_all add: peer_view_answer_def pv_on_peers_def LoadPeerConfig_settle_def
      setPeerConfig_def notify_backend_def js_run)

text \<open>The answers to the requests for a configuration are shown as they come: when the style is
  switched before the first answer and the answers come in the other order, the dialog ends up
  with the new style selected and the configuration of the old one on display.\<close>

theorem peer_view_answers_swapped:
  assumes "pv_selectedPeer v = Some p" "latin1 (p_Identifier p)" "style \<noteq> pv_configStyle v"
  shows "\<exists>q1 q2 t es. bind peer_view_ask (\<lambda>a. bind (peer_view_style style) (\<lambda>b.
        andThen (peer_view_answer (Inr new_text)) (andThen (peer_view_answer (Inr old_text))
          (return (a, b))))) v = Returns (q1, Some q2) t es
    \<and> q1 \<noteq> q2 \<and> pv_configStyle t = style \<and> pv_configString t = old_text"
proof -
  let ?path = "js ''/peer/config/'' @ projr (base64_url_encode (p_Identifier p)) @ js ''?style=''"
  let ?q = "\<lambda>s. Request GET (?path @ s) None"
  let ?v = "v\<lparr>pv_configStyle := style\<rparr>"
  have ask: "peer_view_ask w = Returns (?q (pv_configStyle w)) w []" if "pv_selectedPeer w = Some p" for w
    using that assms(2)
    by (simp add: peer_view_ask_def pv_on_peers_def LoadPeerConfig_begin_def encoded_request_cases
        bind_def gets_def zoom_def)
  have "pv_selectedPeer ?v = pv_selectedPeer v" by (simp add: pv_selectedPeer_def split: option.split)
  then have switched: "peer_view_style style v = Returns (Some (?q style)) ?v []"
    using assms(1,3) ask [of ?v] by (simp add: peer_view_style_def andThen_def bind_def gets_def
        modify_def return_def)
  let ?w = "?v\<lparr>pv_peers := (pv_peers v)\<lparr>configuration := new_text\<rparr>, pv_configString := new_text\<rparr>"
  obtain es where one: "peer_view_answer (Inr new_text) ?v = Returns () ?w es"
    using peer_view_answer_run [of "Inr new_text" ?v] by (auto simp: Let_def)
  let ?x = "?w\<lparr>pv_peers := (pv_peers ?w)\<lparr>configuration := old_text\<rparr>, pv_configString := old_text\<rparr>"
  obtain es' where two: "peer_view_answer (Inr old_text) ?w = Returns () ?x es'"
    using peer_view_answer_run [of "Inr old_text" ?w] by (auto simp: Let_def)
  have "?q (pv_configStyle v) \<noteq> ?q style" using assms(3) by simp
  then show ?thesis
    by (simp add: andThen_def bind_def ask [OF assms(1)] switched one two return_def)
qed

theorem peer_view_answers_swapped_witness:
  "\<exists>v q1 q2 t es. bind peer_view_ask (\<lambda>a. bind (peer_view_style (js ''raw'')) (\<lambda>b.
        andThen (peer_view_answer (Inr (js ''raw text''))) (andThen (peer_view_answer (Inr (js ''quick text'')))
          (return (a, b))))) v = Returns (q1, Some q2) t es
    \<and> pv_configStyle t = js ''raw'' \<and> pv_configString t = js ''quick text''"
proof -
  let ?v = "\<lparr>pv_peers = sample_store fixed_peer, pv_profile = profile_init,
    pv_interfaces = interfaces_init, pv_settings = settings_init, pv_peerId = js ''a'',
    pv_visible = True, pv_configString = [], pv_configStyle = js ''wgquick''\<rparr>"
  have "pv_selectedPeer ?v = Some fixed_peer"
    by (simp add: pv_selectedPeer_def peers_Find_def sample_store_def)
  moreover have "latin1 (p_Identifier fixed_peer)" by (simp add: js_def latin1_def js_char_def)
  moreover have "js ''raw'' \<noteq> pv_configStyle ?v" by (simp add: js_def)
  ultimately show ?thesis using peer_view_answers_swapped by blast
qed

text \<open>
  A session of a frame, with the number of animation frames it awaits. In a calm session the
  frame is not hidden while it awaits one.
\<close>

inductive frame_step :: "frame \<times> nat \<Rightarrow> frame \<times> nat \<Rightarrow> bool" where
  frame_step_shown: "\<not> fr_visible m \<Longrightarrow> ends_in (frame_shown m) t \<Longrightarrow> frame_step (m, n) (t, n + 1)"
| frame_step_animated: "ends_in (frame_animated h m) t \<Longrightarrow> frame_step (m, n + 1) (t, n)"
| frame_step_hidden: "fr_visible m \<Longrightarrow> ends_in (frame_hidden m) t \<Longrightarrow> frame_step (m, 0) (t, 0)"
| frame_step_observed: "ends_in (setModalHeight h m) t \<Longrightarrow> frame_step (m, n) (t, n)"

definition frame_ok :: "frame \<times> nat \<Rightarrow> bool" where
  "frame_ok c = (case c of (m, n) \<Rightarrow> fr_mounted m
     \<and> (if fr_visible m \<and> n = 0 then \<exists>k. fr_running m = [k] \<and> fr_attached m = Some k
        else fr_running m = [] \<and> (if fr_visible m then n = 1 else n = 0)))"

lemma frame_step_ok: "frame_step c d \<Longrightarrow> frame_ok c \<Longrightarrow> frame_ok d"
  by (induction rule: frame_step.induct)
    (auto simp: frame_ok_def frame_shown_def frame_animated_def frame_hidden_def setModalHeight_def
      andThen_def bind_def modify_def Let_def split: if_splits)

text \<open>C36. In a calm session a hidden frame has no observers running, and a shown one has one pair,
  from the first animation frame on.\<close>

theorem frame_observers:
  assumes "frame_step\<^sup>*\<^sup>* (m, 0) (t, n)" "fr_mounted m" "\<not> fr_visible m" "fr_running m = []"
  shows "length (fr_running t) = (if fr_visible t \<and> n = 0 then 1 else 0)"
proof -
  have "frame_ok (m, 0)" using assms(2-4) by (simp add: frame_ok_def)
  with assms(1) have "frame_ok (t, n)"
    by (induction rule: rtranclp_induct) (auto intro: frame_step_ok)
  then show ?thesis by (auto simp: frame_ok_def split: if_splits)
qed

definition sample_frame :: frame where
  "sample_frame = \<lparr>fr_visible = False, fr_closeOnBackdrop = False, fr_minHeight = 300, fr_mounted = True,
     fr_styleMinHeight = None, fr_running = [], fr_attached = None, fr_next = 0\<rparr>"

theorem frame_observers_witness:
  "\<exists>t. frame_step\<^sup>*\<^sup>* (sample_frame, 0) (t, 0) \<and> fr_visible t \<and> length (fr_running t) = 1"
proof -
  let ?a = "sample_frame\<lparr>fr_visible := True\<rparr>"
  let ?b = "?a\<lparr>fr_styleMinHeight := Some 640, fr_running := [0], fr_attached := Some 0, fr_next := 1\<rparr>"
  have hidden: "\<not> fr_visible sample_frame" by (simp add: sample_frame_def)
  have "frame_step (sample_frame, 0) (?a, 0 + 1)"
    by (rule frame_step_shown) (simp_all add: frame_shown_def modify_def hidden)
  moreover have "frame_step (?a, 0 + 1) (?b, 0)"
    by (rule frame_step_animated [of 640])
      (simp add: frame_animated_def setModalHeight_def andThen_def bind_def modify_def sample_frame_def)
  ultimately have run: "frame_step\<^sup>*\<^sup>* (sample_frame, 0) (?b, 0)" by auto
  have "length (fr_running ?b) = (if fr_visible ?b \<and> (0::nat) = 0 then 1 else 0)"
    by (rule frame_observers [OF run]) (simp_all add: sample_frame_def)
  with run show ?thesis by auto
qed

text \<open>A frame that is hidden before its first animation frame gets its observers all the same,
  and nothing stops them: they run while it is hidden and after every later showing of it.\<close>

theorem frame_observers_leak:
  "\<exists>t. andThen frame_shown (andThen frame_hidden (andThen (frame_animated h)
      (andThen frame_shown (andThen (frame_animated h) frame_hidden))))
      (m\<lparr>fr_mounted := True, fr_running := [], fr_attached := None\<rparr>) = Returns () t []
    \<and> \<not> fr_visible t \<and> fr_running t = [fr_next m]"
  by (simp add: frame_shown_def frame_animated_def frame_hidden_def setModalHeight_def andThen_def
      bind_def modify_def Let_def)

end
