(* ===== verification/Pages.thy ===== *)
theory Pages
  imports Interface_View Users Audit_Log Portal Profile
begin

text \<open>
  The smaller pages and the frame of the application: language and theme (\<open>App.vue\<close>,
  \<open>lang/index.js\<close>), the text filter of \<open>main.js\<close>, the passkeys of \<open>views/SettingsView.vue\<close>, the rest
  of \<open>views/ProfileView.vue\<close>, \<open>views/UserView.vue\<close> and \<open>views/AuditView.vue\<close>, and the key generator,
  \<open>views/KeyGeneraterView.vue\<close>.
\<close>

section \<open>Language and theme\<close>

record appearance =
  ap_storage :: "jsstr \<rightharpoonup> jsstr"
  ap_locale :: jsstr
  ap_theme :: "jsstr option"

text \<open>The languages the browser reports; \<open>userLanguage\<close> is a property few browsers have.\<close>

record navigator =
  na_userLanguage :: "jsstr option"
  na_language :: "jsstr option"

definition or_else :: "jsstr option \<Rightarrow> jsstr option \<Rightarrow> jsstr option" where
  "or_else a b = (if a = None \<or> a = Some [] then b else a)"

definition fallbackLocale :: jsstr where "fallbackLocale = js ''en''"

definition messages :: "jsstr list" where
  "messages = map js [''de'', ''en'', ''fr'', ''ko'', ''pt'', ''ru'', ''uk'', ''vi'', ''zh'']"

text \<open>The locale the application starts with; without any language of the browser it throws.\<close>

definition initial_locale :: "(jsstr \<rightharpoonup> jsstr) \<Rightarrow> navigator \<Rightarrow> jsstr settled" where
  "initial_locale stored nav = (case or_else (stored (js ''wgLang'')) None of
      Some l \<Rightarrow> Inr l
    | None \<Rightarrow> (case or_else (na_userLanguage nav) (na_language nav) of
        None \<Rightarrow> Inl TypeError
      | Some l \<Rightarrow> let t = split_first (js_char CHR ''-'') l in
          Inr (if t \<noteq> [] then t else js ''en'')))"

definition restore_theme :: "(appearance, unit) comp" where
  "restore_theme = modify (\<lambda>a. a\<lparr>ap_theme :=
     Some (case or_else (ap_storage a (js ''wgTheme'')) None of Some t \<Rightarrow> t | None \<Rightarrow> js ''light'')\<rparr>)"

definition switchLanguage :: "jsstr \<Rightarrow> (appearance, unit) comp" where
  "switchLanguage lang = modify (\<lambda>a. if ap_locale a \<noteq> lang
     then a\<lparr>ap_storage := (ap_storage a)(js ''wgLang'' \<mapsto> lang), ap_locale := lang\<rparr> else a)"

definition switchTheme :: "jsstr \<Rightarrow> (appearance, unit) comp" where
  "switchTheme theme = modify (\<lambda>a. if ap_theme a \<noteq> Some theme
     then a\<lparr>ap_storage := (ap_storage a)(js ''wgTheme'' \<mapsto> theme), ap_theme := Some theme\<rparr> else a)"

text \<open>\<open>toLowerCase\<close> on the letters a language tag can have.\<close>

definition toLowerCase :: "jsstr \<Rightarrow> jsstr" where
  "toLowerCase s = map (\<lambda>u. if 65 \<le> unat u \<and> unat u \<le> 90 then u + 32 else u) s"

definition langMap :: "(jsstr \<times> jsstr) list" where
  "langMap = map (map_prod js js)
     [(''en'', ''us''), (''pt'', ''pt''), (''uk'', ''ua''), (''zh'', ''cn''), (''ko'', ''kr'')]"

definition languageFlag :: "appearance \<Rightarrow> jsstr" where
  "languageFlag a =
     (let lang1 = toLowerCase (ap_locale a);
          lang = (if lang1 \<notin> set messages then fallbackLocale else lang1)
      in js ''fi-'' @ (case map_of langMap lang of Some f \<Rightarrow> f | None \<Rightarrow> lang))"

section \<open>The text filter\<close>

definition truncate_text :: "jsstr \<Rightarrow> nat \<Rightarrow> jsstr \<Rightarrow> jsstr" where
  "truncate_text v maxLength suffix1 =
     (let suffix = (if suffix1 = [] then js ''...'' else suffix1)
      in if length v > maxLength then take maxLength v @ suffix else v)"

section \<open>Passkeys\<close>

text \<open>
  The page marks a credential object that is being renamed and keeps the typed name in it;
  \<open>sv_temp\<close> has the typed name of the credentials in this mode, by their place in the list. A new
  list has new objects, without marks.
\<close>

record settings_view =
  sv_auth :: auth_store
  sv_temp :: "nat \<rightharpoonup> jsstr"

definition sv_credentials :: "settings_view \<Rightarrow> credential list" where
  "sv_credentials v = (case webAuthnCredentials (sv_auth v) of None \<Rightarrow> [] | Some cs \<Rightarrow> cs)"

definition enableRename :: "nat \<Rightarrow> (settings_view, unit) comp" where
  "enableRename i = modify (\<lambda>v. if i < length (sv_credentials v)
     then v\<lparr>sv_temp := (sv_temp v)(i \<mapsto> cr_Name (sv_credentials v ! i))\<rparr> else v)"

definition typeName :: "nat \<Rightarrow> jsstr \<Rightarrow> (settings_view, unit) comp" where
  "typeName i name = modify (\<lambda>v. if sv_temp v i = None then v
     else v\<lparr>sv_temp := (sv_temp v)(i \<mapsto> name)\<rparr>)"

definition cancelRename :: "nat \<Rightarrow> (settings_view, unit) comp" where
  "cancelRename i = modify (\<lambda>v. v\<lparr>sv_temp := (sv_temp v)(i := None)\<rparr>)"

text \<open>
  Saving a name: the request of the store, whose answer replaces the list or is reported by the
  store without an error; then the object the button belongs to gets the name, which is in the
  list only when the list was not replaced. Credentials that are not in the mode have no button.
\<close>

definition saveRename :: "nat \<Rightarrow> credential list option settled \<Rightarrow> (settings_view, unit) comp" where
  "saveRename i reply =
     bind (gets (\<lambda>v. v)) (\<lambda>v. if \<not> i < length (sv_credentials v) then return () else
       (case sv_temp v i of
          None \<Rightarrow> return ()
        | Some name \<Rightarrow> catch
            (andThen (zoom sv_auth (\<lambda>a v. v\<lparr>sv_auth := a\<rparr>)
                (bind (RenameWebAuthnCredential_begin ((sv_credentials v ! i)\<lparr>cr_Name := name\<rparr>))
                  (\<lambda>q. RenameWebAuthnCredential_settle reply)))
              (modify (\<lambda>w. case reply of
                  Inr _ \<Rightarrow> w\<lparr>sv_temp := Map.empty\<rparr>
                | Inl _ \<Rightarrow> w\<lparr>sv_temp := (sv_temp w)(i := None), sv_auth := (sv_auth w)\<lparr>webAuthnCredentials :=
                    Some ((sv_credentials w)[i := (sv_credentials w ! i)\<lparr>cr_Name := name\<rparr>])\<rparr>\<rparr>)))
            (\<lambda>error. return ())))"

text \<open>Which parts of the page are shown.\<close>

definition api_card_shown :: "settings_view \<Rightarrow> settings_store \<Rightarrow> bool" where
  "api_card_shown v s \<longleftrightarrow> IsAdmin (sv_auth v)
     \<or> \<not> (case Setting s (js ''ApiAdminOnly'') of Some x \<Rightarrow> truthy x | None \<Rightarrow> False)"

section \<open>The user's page\<close>

record profile_view =
  fv_profile :: profile_store
  fv_sortKey :: "sort_key option"
  fv_sortOrder :: int
  fv_selectAll :: bool

definition profile_sortBy :: "sort_key \<Rightarrow> (profile_view, unit) comp" where
  "profile_sortBy key =
     andThen (modify (\<lambda>v. if fv_sortKey v = Some key then v\<lparr>fv_sortOrder := fv_sortOrder v * -1\<rparr>
                          else v\<lparr>fv_sortKey := Some key, fv_sortOrder := 1\<rparr>))
       (modify (\<lambda>v. v\<lparr>fv_profile := (fv_profile v)\<lparr>sortKey := the (fv_sortKey v),
                                                  sortOrder := fv_sortOrder v\<rparr>\<rparr>))"

definition friendlyInterfaceName :: "jsstr \<Rightarrow> jsstr \<Rightarrow> jsstr" where
  "friendlyInterfaceName i name = (if name \<noteq> [] then name else i)"

definition profile_formatExpiryTooltip :: "zone \<Rightarrow> jsstr option \<Rightarrow> jsstr" where
  "profile_formatExpiryTooltip z expiresAt = (case expiresAt of
      None \<Rightarrow> []
    | Some e \<Rightarrow> if e = [] then []
        else (case formatRFC3339ToDatetime z e of (date, time) \<Rightarrow>
          if date \<noteq> [] \<and> time \<noteq> [] then date @ js '' '' @ time else e))"

definition profile_toggleSelectAll ::
  "ip_library \<Rightarrow> (jsstr \<Rightarrow> int option) \<Rightarrow> (profile_view, unit) comp" where
  "profile_toggleSelectAll lib toNum =
     bind (gets (\<lambda>v. FilteredAndPagedPeers lib toNum (fv_profile v))) (\<lambda>r. case r of
         Inl e \<Rightarrow> throw e
       | Inr rows \<Rightarrow> modify (\<lambda>v. v\<lparr>fv_profile := (fv_profile v)\<lparr>prof_peers := map (\<lambda>p.
             if p_Identifier p \<in> set (map p_Identifier rows) then p\<lparr>p_IsSelected := fv_selectAll v\<rparr> else p)
             (prof_peers (fv_profile v))\<rparr>\<rparr>))"

section \<open>The pages of the users and of the audit log\<close>

definition users_toggleSelectAll :: "bool \<Rightarrow> (user_store, unit) comp" where
  "users_toggleSelectAll selectAll = modify (\<lambda>s. s\<lparr>users := map (\<lambda>u.
     if u_Identifier u \<in> set (map u_Identifier (users_FilteredAndPaged s))
     then u\<lparr>u_IsSelected := selectAll\<rparr> else u) (users s)\<rparr>)"

definition user_page_mounted :: "user list settled \<Rightarrow> (user_store, unit) comp" where
  "user_page_mounted reply = bind LoadUsers_begin (\<lambda>q. LoadUsers_settle reply)"

definition audit_page_mounted :: "audit_entry list settled \<Rightarrow> (audit_store, unit) comp" where
  "audit_page_mounted reply = bind LoadEntries_begin (\<lambda>q. LoadEntries_settle reply)"

section \<open>The key generator\<close>

record key_generator =
  kg_privateKey :: jsstr
  kg_publicKey :: jsstr
  kg_presharedKey :: jsstr

text \<open>
  The browser's part: the exported pair of keys, as the members \<open>x\<close> and \<open>d\<close> of their JSON form,
  or the rejection of one of the three calls; and the thirty-two random bytes.
\<close>

definition generateKeypair :: "(jsstr \<times> jsstr) settled \<Rightarrow> (jsstr \<times> jsstr) settled" where
  "generateKeypair exported = map_sum id (\<lambda>(x, d). (b64urlToB64 x, b64urlToB64 d)) exported"

definition generatePresharedKey :: "(nat \<Rightarrow> 8 word) \<Rightarrow> 8 word list" where
  "generatePresharedKey getRandomValue = map getRandomValue [0..<32]"

definition generateNewKeyPair :: "(jsstr \<times> jsstr) settled \<Rightarrow> (key_generator, unit) comp" where
  "generateNewKeyPair exported =
     bind (lift_settled (generateKeypair exported)) (\<lambda>(publicKey, privateKey).
       andThen (modify (\<lambda>g. g\<lparr>kg_privateKey := privateKey\<rparr>))
         (modify (\<lambda>g. g\<lparr>kg_publicKey := publicKey\<rparr>)))"

definition generateNewPresharedKey :: "(nat \<Rightarrow> 8 word) \<Rightarrow> (key_generator, unit) comp" where
  "generateNewPresharedKey getRandomValue =
     bind (lift_settled (arrayBufferToBase64 (generatePresharedKey getRandomValue)))
       (\<lambda>key. modify (\<lambda>g. g\<lparr>kg_presharedKey := key\<rparr>))"

section \<open>Properties\<close>

datatype switch = Language jsstr | Theme jsstr

fun apply_switch :: "switch \<Rightarrow> (appearance, unit) comp" where
  "apply_switch (Language l) = switchLanguage l"
| "apply_switch (Theme t) = switchTheme t"

fun named :: "switch \<Rightarrow> bool" where
  "named (Language l) = (l \<noteq> [])"
| "named (Theme t) = (t \<noteq> [])"

fun apply_switches :: "switch list \<Rightarrow> (appearance, unit) comp" where
  "apply_switches [] = return ()"
| "apply_switches (w # ws) = andThen (apply_switch w) (apply_switches ws)"

definition stored_theme :: "(jsstr \<rightharpoonup> jsstr) \<Rightarrow> jsstr" where
  "stored_theme st = (case or_else (st (js ''wgTheme'')) None of Some t \<Rightarrow> t | None \<Rightarrow> js ''light'')"

definition appearance_ok :: "navigator \<Rightarrow> appearance \<Rightarrow> bool" where
  "appearance_ok nav a \<longleftrightarrow> initial_locale (ap_storage a) nav = Inr (ap_locale a)
     \<and> ap_theme a = Some (stored_theme (ap_storage a))"

lemma storage_keys [simp]: "js ''wgLang'' \<noteq> js ''wgTheme''" "js ''wgTheme'' \<noteq> js ''wgLang''"
  by (simp_all add: js_def js_char_def)

lemma apply_switch_run:
  "named w \<Longrightarrow> appearance_ok nav a \<Longrightarrow> \<exists>b. apply_switch w a = Returns () b [] \<and> appearance_ok nav b"
  by (cases w) (auto simp: switchLanguage_def switchTheme_def modify_def appearance_ok_def
      initial_locale_def stored_theme_def or_else_def)

lemma apply_switches_run:
  "list_all named ws \<Longrightarrow> appearance_ok nav a
    \<Longrightarrow> \<exists>b. apply_switches ws a = Returns () b [] \<and> appearance_ok nav b"
proof (induction ws arbitrary: a)
  case Nil
  then show ?case by (simp add: return_def)
next
  case (Cons w ws)
  then obtain b where "apply_switch w a = Returns () b []" "appearance_ok nav b"
    using apply_switch_run [of w nav a] by auto
  with Cons.IH [of b] Cons.prems show ?case by (auto simp: andThen_def bind_def)
qed

text \<open>However often language and theme are switched, a reload of the application in the same
  browser starts with the language and the theme last shown.\<close>

theorem appearance_survives_reload:
  assumes "initial_locale st nav = Inr l" "list_all named ws"
  shows "\<exists>b. andThen restore_theme (apply_switches ws) \<lparr>ap_storage = st, ap_locale = l, ap_theme = th\<rparr>
      = Returns () b []
    \<and> initial_locale (ap_storage b) nav = Inr (ap_locale b)
    \<and> restore_theme (b\<lparr>ap_theme := None\<rparr>) = Returns () b []"
proof -
  let ?a = "\<lparr>ap_storage = st, ap_locale = l, ap_theme = Some (stored_theme st)\<rparr>"
  have "appearance_ok nav ?a" using assms(1) by (simp add: appearance_ok_def)
  from apply_switches_run [OF assms(2) this]
  obtain b where b: "apply_switches ws ?a = Returns () b []" "appearance_ok nav b" by blast
  then show ?thesis
    by (simp add: andThen_def bind_def restore_theme_def modify_def stored_theme_def [symmetric] appearance_ok_def)
qed

theorem appearance_survives_reload_witness:
  "\<exists>b. andThen restore_theme (apply_switches [Language (js ''de''), Theme (js ''dark'')])
      \<lparr>ap_storage = Map.empty, ap_locale = js ''en'', ap_theme = None\<rparr> = Returns () b []
    \<and> initial_locale (ap_storage b) \<lparr>na_userLanguage = None, na_language = Some (js ''en-US'')\<rparr> = Inr (ap_locale b)"
proof -
  have "initial_locale Map.empty \<lparr>na_userLanguage = None, na_language = Some (js ''en-US'')\<rparr> = Inr (js ''en'')"
    by (simp add: initial_locale_def or_else_def split_first_def js_def js_char_def)
  from appearance_survives_reload [OF this, of "[Language (js ''de''), Theme (js ''dark'')]" None]
  show ?thesis by (auto simp: js_def)
qed

text \<open>Renaming a passkey: an accepted rename shows the list of the answer; a refused one shows a
  message and, in the list, the new name all the same, which the server does not have; a
  credential whose identifier cannot be encoded stays in the mode, and the store stays busy.\<close>

theorem saveRename_outcome:
  assumes "i < length (sv_credentials v)" "sv_temp v i = Some name"
  shows "saveRename i reply v =
    (if \<not> latin1 (cr_ID (sv_credentials v ! i))
     then Returns () (v\<lparr>sv_auth := (sv_auth v)\<lparr>auth_fetching := True\<rparr>\<rparr>) []
     else (case reply of
        Inr cs \<Rightarrow> Returns () \<lparr>sv_auth = (sv_auth v)\<lparr>auth_fetching := False, webAuthnCredentials := cs\<rparr>,
            sv_temp = Map.empty\<rparr>
          [Notify (js ''Success'') (Text (js ''Passkey renamed successfully!'')) (Some (js ''success''))]
      | Inl e \<Rightarrow> Returns () \<lparr>sv_auth = (sv_auth v)\<lparr>auth_fetching := False, webAuthnCredentials :=
              Some ((sv_credentials v)[i := (sv_credentials v ! i)\<lparr>cr_Name := name\<rparr>])\<rparr>,
            sv_temp = (sv_temp v)(i := None)\<rparr>
          [Notify (js ''Backend Connection Failure'') e (Some (js ''error''))]))"
proof (cases "latin1 (cr_ID (sv_credentials v ! i))")
  case True
  then obtain seg where seg: "base64_url_encode (cr_ID (sv_credentials v ! i)) = Inr seg"
    by (auto simp: base64_url_encode_def btoa_def Let_def)
  have creds: "sv_credentials (v\<lparr>sv_auth := (sv_auth v)\<lparr>auth_fetching := b\<rparr>\<rparr>) = sv_credentials v" for b
    by (simp add: sv_credentials_def)
  show ?thesis using True assms seg
    by (cases reply) (simp_all add: saveRename_def RenameWebAuthnCredential_begin_def
        RenameWebAuthnCredential_settle_def set_auth_fetching_def setWebAuthnCredentials_def
        notify_success_def notify_error_def creds js_run)
next
  case False
  then have "base64_url_encode (cr_ID (sv_credentials v ! i)) = Inl InvalidCharacterError"
    by (simp add: base64_url_encode_def btoa_def)
  with False assms show ?thesis
    by (simp add: saveRename_def RenameWebAuthnCredential_begin_def set_auth_fetching_def js_run)
qed

definition passkey_page :: settings_view where
  "passkey_page = \<lparr>sv_auth = \<lparr>auth_user = None, providers = [], returnUrl = None,
     webAuthnCredentials = Some [\<lparr>cr_ID = js ''k'', cr_Name = js ''old'', cr_CreatedAt = []\<rparr>],
     auth_fetching = False, storage = Map.empty\<rparr>, sv_temp = [0 \<mapsto> js ''new'']\<rparr>"

theorem saveRename_outcome_witness:
  "\<exists>t es. saveRename 0 (Inl (Text (js ''refused''))) passkey_page = Returns () t es
    \<and> sv_credentials t = [\<lparr>cr_ID = js ''k'', cr_Name = js ''new'', cr_CreatedAt = []\<rparr>]"
proof -
  have creds: "sv_credentials passkey_page = [\<lparr>cr_ID = js ''k'', cr_Name = js ''old'', cr_CreatedAt = []\<rparr>]"
    by (simp add: passkey_page_def sv_credentials_def)
  have "0 < length (sv_credentials passkey_page)" "sv_temp passkey_page 0 = Some (js ''new'')"
    by (simp_all add: creds) (simp add: passkey_page_def)
  moreover have "latin1 (js ''k'')" by (simp add: js_def latin1_def js_char_def)
  ultimately show ?thesis
    using saveRename_outcome [of 0 passkey_page "js ''new''" "Inl (Text (js ''refused''))"]
    by (simp add: creds) (simp add: sv_credentials_def)
qed

text \<open>Selecting all marks exactly the users of the shown page, which stays the same page, and
  clearing takes the marks from exactly these.\<close>

theorem select_all_marks_page:
  "\<exists>t. users_toggleSelectAll b s = Returns () t []
    \<and> users_FilteredAndPaged t = map (\<lambda>u. u\<lparr>u_IsSelected := b\<rparr>) (users_FilteredAndPaged s)
    \<and> map u_Identifier (users t) = map u_Identifier (users s)
    \<and> filter (\<lambda>u. u_Identifier u \<notin> set (map u_Identifier (users_FilteredAndPaged s))) (users t)
      = filter (\<lambda>u. u_Identifier u \<notin> set (map u_Identifier (users_FilteredAndPaged s))) (users s)"
proof -
  let ?ids = "set (map u_Identifier (users_FilteredAndPaged s))"
  let ?f = "\<lambda>u. if u_Identifier u \<in> ?ids then u\<lparr>u_IsSelected := b\<rparr> else u"
  let ?t = "s\<lparr>users := map ?f (users s)\<rparr>"
  have run: "users_toggleSelectAll b s = Returns () ?t []"
    by (simp add: users_toggleSelectAll_def modify_def)
  have filtered: "users_Filtered ?t = map ?f (users_Filtered s)"
    by (simp add: users_Filtered_def filter_map comp_def if_distrib cong: if_cong)
  have sliced: "slice (map ?f xs) i j = map ?f (slice xs i j)" for xs i j
    by (simp add: slice_def Let_def take_map drop_map)
  have "users_FilteredAndPaged ?t
      = slice (users_Filtered ?t) (pageOffset ?t) (pageOffset ?t + pageSize ?t)"
    by (rule users_FilteredAndPaged_def)
  also have "\<dots> = slice (map ?f (users_Filtered s)) (pageOffset s) (pageOffset s + pageSize s)"
    unfolding filtered by simp
  also have "\<dots> = map ?f (slice (users_Filtered s) (pageOffset s) (pageOffset s + pageSize s))"
    by (rule sliced)
  also have "\<dots> = map ?f (users_FilteredAndPaged s)" by (simp only: users_FilteredAndPaged_def)
  also have "\<dots> = map (\<lambda>u. u\<lparr>u_IsSelected := b\<rparr>) (users_FilteredAndPaged s)"
    by (rule map_cong) simp_all
  finally have rows: "users_FilteredAndPaged ?t = map (\<lambda>u. u\<lparr>u_IsSelected := b\<rparr>) (users_FilteredAndPaged s)" .
  have ids: "u_Identifier (?f u) = u_Identifier u" for u by simp
  have others: "filter (\<lambda>u. u_Identifier u \<notin> ?ids) (map ?f us) = filter (\<lambda>u. u_Identifier u \<notin> ?ids) us" for us
    by (induction us) auto
  show ?thesis using run rows ids others by (simp add: comp_def)
qed

text \<open>The key generator: a pair of exported keys is shown as the standard Base64 of their bytes,
  a failed export leaves the shown keys as they are, and the pre-shared key decodes to the
  thirty-two random bytes.\<close>

theorem key_generator_outcome:
  assumes "\<forall>b \<in> set pub. is_byte b" "\<forall>b \<in> set priv. is_byte b"
  shows "generateNewKeyPair (Inr (b64url_bytes pub, b64url_bytes priv)) g
      = Returns () (g\<lparr>kg_privateKey := b64_bytes priv, kg_publicKey := b64_bytes pub\<rparr>) []
    \<and> generateNewKeyPair (Inl e) g = Throws e g []
    \<and> (\<exists>k. generateNewPresharedKey rand g = Returns () (g\<lparr>kg_presharedKey := k\<rparr>) []
        \<and> StdEncoding_DecodeString k = map (\<lambda>i. unat (rand i)) [0..<32])"
proof -
  obtain k where k: "arrayBufferToBase64 (generatePresharedKey rand) = Inr k"
    "StdEncoding_DecodeString k = map unat (generatePresharedKey rand)"
    using arrayBufferToBase64_decodes [of "generatePresharedKey rand"] by blast
  have psk: "generateNewPresharedKey rand g = Returns () (g\<lparr>kg_presharedKey := k\<rparr>) []"
    by (simp add: generateNewPresharedKey_def k(1) js_run)
  have "map unat (generatePresharedKey rand) = map (\<lambda>i. unat (rand i)) [0..<32]"
    by (simp add: generatePresharedKey_def comp_def)
  with k(2) psk show ?thesis
    using b64urlToB64_bytes [OF assms(1)] b64urlToB64_bytes [OF assms(2)]
    by (intro conjI exI [of _ k]) (simp_all add: generateNewKeyPair_def generateKeypair_def js_run)
qed

theorem key_generator_outcome_witness:
  "\<exists>k. generateNewKeyPair (Inr (b64url_bytes [251, 255], b64url_bytes [0]))
      \<lparr>kg_privateKey = [], kg_publicKey = [], kg_presharedKey = []\<rparr>
      = Returns () \<lparr>kg_privateKey = b64_bytes [0], kg_publicKey = b64_bytes [251, 255], kg_presharedKey = []\<rparr> []
    \<and> StdEncoding_DecodeString k = replicate 32 7"
proof -
  have "map (\<lambda>i. unat (7 :: 8 word)) [0..<32] = replicate 32 7"
    by (simp add: map_replicate_const)
  then show ?thesis
    using key_generator_outcome [of "[251, 255]" "[0]" "\<lparr>kg_privateKey = [], kg_publicKey = [], kg_presharedKey = []\<rparr>"
      "TypeError" "\<lambda>_. 7"]
    by (auto simp: is_byte_def)
qed

end
