(* ===== verification/Page_Templates.thy ===== *)
theory Page_Templates
  imports Pages
begin

text \<open>
  What the pages show, from the templates of \<open>App.vue\<close> and \<open>views/\<close>: the menu, the controls of
  the login form, the pagination bars, the tables of peers, users and audit entries with their
  headings, the card of the selected interface and the table of the passkeys. A template is a
  function from the state to the list of the shown parts; the texts of the translations, the
  style classes, the icons' pictures and the tooltips are left out.
\<close>

section \<open>The menu\<close>

text \<open>A truthy setting; a missing one is undefined.\<close>

definition setting_on :: "settings_store \<Rightarrow> string \<Rightarrow> bool" where
  "setting_on s key = (case Setting s (js key) of None \<Rightarrow> False | Some v \<Rightarrow> truthy v)"

text \<open>A link carries the name of its route.\<close>

datatype menu_item = Route_link jsstr | Logout_link

definition app_menu :: "portal \<Rightarrow> menu_item list" where
  "app_menu s = (let auth = po_auth s in
     [Route_link (js ''home'')]
     @ (if IsAuthenticated auth \<and> IsAdmin auth then [Route_link (js ''interfaces'')] else [])
     @ (if IsAuthenticated auth \<and> IsAdmin auth then [Route_link (js ''users'')] else [])
     @ [Route_link (js ''key-generator'')]
     @ (if IsAuthenticated auth
        then [Route_link (js ''profile'')]
          @ (if IsAdmin auth \<or> \<not> setting_on (po_settings s) ''ApiAdminOnly''
                \<or> setting_on (po_settings s) ''WebAuthnEnabled''
             then [Route_link (js ''settings'')] else [])
          @ (if IsAdmin auth then [Route_link (js ''audit'')] else [])
          @ [Logout_link]
        else [])
     @ (if \<not> IsAuthenticated auth then [Route_link (js ''login'')] else []))"

section \<open>The login form\<close>

text \<open>
  The inputs with their mark of an invalid text, the buttons with whether they are disabled and
  whether they spin, the buttons of the providers with the distance to the one before.
\<close>

datatype login_control =
    Username_input bool
  | Password_input bool
  | Login_button bool bool
  | Passkey_button bool
  | Provider_button jsstr bool bool

definition provider_buttons :: "portal \<Rightarrow> login_control list" where
  "provider_buttons s =
     map (\<lambda>(i, p). Provider_button (pr_Name p) (po_loggingIn s) (i > 0))
       (enumerate 0 (providers (po_auth s)))"

definition passkey_button :: "portal \<Rightarrow> login_control list" where
  "passkey_button s =
     (if setting_on (po_settings s) ''WebAuthnEnabled'' then [Passkey_button (po_loggingIn s)] else [])"

definition login_form ::
  "portal \<Rightarrow> (jsstr \<rightharpoonup> jsstr) \<Rightarrow> jsstr \<Rightarrow> jsstr \<Rightarrow> login_control list" where
  "login_form s query username password =
     (if showLoginForm s query
      then [Username_input (usernameInvalid username), Password_input (passwordInvalid password),
            Login_button (disableLoginBtn s username password) (po_loggingIn s)]
        @ passkey_button s @ provider_buttons s
      else passkey_button s @ provider_buttons s)"

section \<open>Pagination bars\<close>

text \<open>The arrows with whether they are disabled, the page links with whether they are active.\<close>

datatype bar_link = Bar_previous bool | Bar_page rat bool | Bar_next bool

definition users_bar :: "user_store \<Rightarrow> bar_link list" where
  "users_bar s =
     Bar_previous (pageOffset s = 0)
     # map (\<lambda>p. Bar_page (of_int p) (users_currentPage s = Some (of_int p))) (pages s)
     @ [Bar_next (\<not> users_hasNextPage s)]"

definition profile_bar :: "profile_store \<Rightarrow> bar_link list" where
  "profile_bar s =
     Bar_previous (pageOffset s = 0)
     # map (\<lambda>p. Bar_page (of_int p) (profile_currentPage s = Some (of_int p))) (pages s)
     @ [Bar_next (\<not> profile_hasNextPage s)]"

definition audit_bar :: "audit_store \<Rightarrow> bar_link list" where
  "audit_bar s =
     Bar_previous (pageOffset s = 0)
     # map (\<lambda>p. Bar_page (of_int p) (audit_currentPage s = Some (of_int p))) (pages s)
     @ [Bar_next (\<not> audit_hasNextPage s)]"


section \<open>Tables\<close>

datatype column =
    Select_col | Status_col | Name_col | Owner_col | Addresses_col | Expiry_col | Endpoint_col
  | Connection_col | Traffic_col | Interface_col | Actions_col
  | Identifier_col | Email_col | Firstname_col | Lastname_col | Source_col | Peers_col | Admin_col
  | Id_col | Time_col | Severity_col | User_col | Origin_col | Message_col

datatype icon = Disabled_icon | Expiring_icon | Locked_icon

datatype cell =
    Select_cell bool
  | Status_cell "icon list"
  | Name_cell jsstr
  | Owner_cell jsstr
  | Addresses_cell "jsstr list list"
  | Expiry_cell jsstr
  | Endpoint_cell jsstr
  | Connection_cell bool
  | Traffic_cell jsstr jsstr
  | Interface_cell jsstr
  | Actions_cell jsstr
  | Identifier_cell jsstr
  | Email_cell jsstr
  | Firstname_cell jsstr
  | Lastname_cell jsstr
  | Source_cell jsstr
  | Peers_cell int
  | Admin_cell bool
  | Id_cell int
  | Time_cell jsstr
  | Severity_cell jsstr jsstr
  | User_cell jsstr
  | Origin_cell jsstr
  | Message_cell jsstr

text \<open>A heading: its column and what a click on it sorts by.\<close>

type_synonym heading = "column \<times> sort_key option"

text \<open>The mark of a heading: ascending or descending, when the view sorts by it.\<close>

definition sort_mark :: "sort_key option \<Rightarrow> int \<Rightarrow> sort_key \<Rightarrow> bool option" where
  "sort_mark key order k = (if key = Some k then Some (order = 1) else None)"

text \<open>A text is truthy when it is neither undefined nor empty.\<close>

definition given :: "jsstr option \<Rightarrow> bool" where
  "given t \<longleftrightarrow> t \<noteq> None \<and> t \<noteq> Some []"

definition peer_icons :: "peer \<Rightarrow> icon list" where
  "peer_icons p = (if p_Disabled p then [Disabled_icon] else [])
     @ (if \<not> p_Disabled p \<and> given (p_ExpiresAt p) then [Expiring_icon] else [])"

definition peer_name :: "peer \<Rightarrow> jsstr" where
  "peer_name p = (if p_DisplayName p \<noteq> [] then p_DisplayName p
     else truncate_text (p_Identifier p) 10 [])"

section \<open>The table of the peers of an interface\<close>

definition peer_headings :: "iface \<Rightarrow> peer_store \<Rightarrow> heading list" where
  "peer_headings f s =
     [(Select_col, None), (Status_col, None), (Name_col, Some DisplayName),
      (Owner_col, Some UserIdentifier_key), (Addresses_col, Some Addresses),
      (Expiry_col, Some ExpiresAt)]
     @ (if i_Mode f = js ''client'' then [(Endpoint_col, None)] else [])
     @ (if hasStatistics s then [(Connection_col, Some IsConnected)] else [])
     @ (if hasStatistics s then [(Traffic_col, Some Traffic)] else [])
     @ [(Actions_col, None)]"

text \<open>A peer without an expiry date has a dash, the character 8212. Byte counts are natural
  numbers, and the action links open the dialogs of the peer with that identifier.\<close>

definition expiry_text :: "zone \<Rightarrow> jsstr option \<Rightarrow> jsstr" where
  "expiry_text z e = (if given e
     then fst (formatRFC3339ToDatetime z (the e)) @ js '' '' @ snd (formatRFC3339ToDatetime z (the e))
     else [8212])"

definition peer_cells :: "(nat \<Rightarrow> real) \<Rightarrow> zone \<Rightarrow> iface \<Rightarrow> peer_store \<Rightarrow> peer \<Rightarrow> cell list" where
  "peer_cells logs z f s p = (let st = Statistics s (p_Identifier p) in
     [Select_cell (p_IsSelected p), Status_cell (peer_icons p), Name_cell (peer_name p),
      Owner_cell (p_UserIdentifier p),
      Addresses_cell [fst (getPeerAddresses (p_Addresses p)), snd (getPeerAddresses (p_Addresses p))],
      Expiry_cell (expiry_text z (p_ExpiresAt p))]
     @ (if i_Mode f = js ''client'' then [Endpoint_cell (ov_Value (p_Endpoint p))] else [])
     @ (if hasStatistics s then [Connection_cell (s_IsConnected st)] else [])
     @ (if hasStatistics s
        then [Traffic_cell (humanFileSize logs (nat (getTotalTraffic (Some st) True)))
                (humanFileSize logs (nat (getTotalTraffic (Some st) False)))]
        else [])
     @ [Actions_cell (p_Identifier p)])"

definition peer_table ::
  "(nat \<Rightarrow> real) \<Rightarrow> ip_library \<Rightarrow> (jsstr \<Rightarrow> int option) \<Rightarrow> zone \<Rightarrow> interface_view \<Rightarrow> (heading list \<times> cell list list) option settled"
where
  "peer_table logs lib toNum z v = (case GetSelected (iv_interfaces v) of
      None \<Rightarrow> Inr None
    | Some f \<Rightarrow>
       (if peers_Count (iv_peers v) = 0 then Inr None
        else map_sum id (\<lambda>rows. Some (peer_headings f (iv_peers v), map (peer_cells logs z f (iv_peers v)) rows))
          (peers_FilteredAndPaged lib toNum (iv_peers v))))"

section \<open>The table of the user's own peers\<close>

definition profile_headings :: "profile_store \<Rightarrow> heading list" where
  "profile_headings s =
     [(Select_col, None), (Status_col, None), (Name_col, Some DisplayName), (Addresses_col, Some Addresses)]
     @ (if hasStatistics s then [(Connection_col, Some IsConnected)] else [])
     @ (if hasStatistics s then [(Traffic_col, Some Traffic)] else [])
     @ [(Interface_col, None), (Actions_col, None)]"

definition profile_cells :: "(nat \<Rightarrow> real) \<Rightarrow> profile_store \<Rightarrow> peer \<Rightarrow> cell list" where
  "profile_cells logs s p = (let st = Statistics s (p_Identifier p) in
     [Select_cell (p_IsSelected p), Status_cell (peer_icons p), Name_cell (peer_name p),
      Addresses_cell [p_Addresses p]]
     @ (if hasStatistics s then [Connection_cell (s_IsConnected st)] else [])
     @ (if hasStatistics s
        then [Traffic_cell (humanFileSize logs (nat (s_BytesReceived st)))
                (humanFileSize logs (nat (s_BytesTransmitted st)))]
        else [])
     @ [Interface_cell (p_InterfaceIdentifier p), Actions_cell (p_Identifier p)])"

definition profile_table ::
  "(nat \<Rightarrow> real) \<Rightarrow> ip_library \<Rightarrow> (jsstr \<Rightarrow> int option) \<Rightarrow> profile_store \<Rightarrow> (heading list \<times> cell list list) option settled"
where
  "profile_table logs lib toNum s =
     (if CountPeers s = 0 then Inr None
      else map_sum id (\<lambda>rows. Some (profile_headings s, map (profile_cells logs s) rows))
        (FilteredAndPagedPeers lib toNum s))"

text \<open>
  The choice of an interface for a new peer, shown with self-provisioning only: whether it is
  disabled, and its entries with their names.
\<close>

definition interface_choice :: "settings_store \<Rightarrow> profile_store \<Rightarrow> (bool \<times> (jsstr \<times> jsstr) list) option"
where
  "interface_choice cfg s =
     (if setting_on cfg ''SelfProvisioning''
      then Some (CountInterfaces s = 0,
        map (\<lambda>f. (i_Identifier f, friendlyInterfaceName (i_Identifier f) (i_DisplayName f)))
          (prof_interfaces s))
      else None)"

section \<open>The tables of the users and of the audit log\<close>

definition user_headings :: "heading list" where
  "user_headings = map (\<lambda>c. (c, None))
     [Select_col, Status_col, Identifier_col, Email_col, Firstname_col, Lastname_col, Source_col,
      Peers_col, Admin_col, Actions_col]"

definition user_cells :: "user \<Rightarrow> cell list" where
  "user_cells u =
     [Select_cell (u_IsSelected u),
      Status_cell ((if u_Disabled u then [Disabled_icon] else []) @ (if u_Locked u then [Locked_icon] else [])),
      Identifier_cell (u_Identifier u), Email_cell (u_Email u), Firstname_cell (u_Firstname u),
      Lastname_cell (u_Lastname u), Source_cell (u_Source u), Peers_cell (u_PeerCount u),
      Admin_cell (u_IsAdmin u), Actions_cell (u_Identifier u)]"

definition user_table :: "user_store \<Rightarrow> (heading list \<times> cell list list) option" where
  "user_table s =
     (if users_Count s = 0 then None else Some (user_headings, map user_cells (users_FilteredAndPaged s)))"

definition audit_headings :: "heading list" where
  "audit_headings = map (\<lambda>c. (c, None))
     [Id_col, Time_col, Severity_col, User_col, Origin_col, Message_col]"

definition audit_cells :: "audit_entry \<Rightarrow> cell list" where
  "audit_cells e =
     [Id_cell (e_Id e), Time_cell (e_Timestamp e),
      Severity_cell (if e_Severity e = js ''low'' then js ''bg-light''
          else if e_Severity e = js ''medium'' then js ''bg-warning'' else js ''bg-danger'') (e_Severity e),
      User_cell (e_ContextUser e), Origin_cell (e_Origin e), Message_cell (e_Message e)]"

definition audit_table :: "audit_store \<Rightarrow> (heading list \<times> cell list list) option" where
  "audit_table s =
     (if audit_Count s = 0 then None
      else Some (audit_headings, map audit_cells (audit_FilteredAndPaged s)))"

section \<open>The card of the selected interface\<close>

text \<open>
  The rows of the card, left and right: a label with a text, a number or a list of badges, of
  which an undefined list has none. An interface in another mode has a card without rows, and
  without an interface there is no card.
\<close>

datatype card_row = Text_row string jsstr | Number_row string int | Badge_row string "jsstr list"

definition address_rows :: "jsstr list \<Rightarrow> jsstr list \<Rightarrow> card_row list" where
  "address_rows ipv4 ipv6 = [Badge_row ''ip (IPv4)'' ipv4, Badge_row ''ip (IPv6)'' ipv6]"

definition defined :: "jsstr list option \<Rightarrow> jsstr list" where
  "defined xs = (case xs of None \<Rightarrow> [] | Some ys \<Rightarrow> ys)"

definition server_card :: "jsstr list \<Rightarrow> jsstr list \<Rightarrow> iface \<Rightarrow> card_row list \<times> card_row list" where
  "server_card ipv4 ipv6 f =
     ([Text_row ''key'' (i_PublicKey f), Text_row ''endpoint'' (i_PeerDefEndpoint f),
       Number_row ''port'' (i_ListenPort f), Number_row ''peers'' (i_EnabledPeers f),
       Number_row ''total-peers'' (i_TotalPeers f)],
      address_rows ipv4 ipv6
      @ [Badge_row ''dns'' (defined (i_Dns f)), Number_row ''mtu'' (i_Mtu f),
         Number_row ''default-keep-alive'' (i_PeerDefPersistentKeepalive f),
         Badge_row ''default-allowed-ip'' (i_PeerDefAllowedIPs f)])"

definition client_card :: "jsstr list \<Rightarrow> jsstr list \<Rightarrow> iface \<Rightarrow> card_row list \<times> card_row list" where
  "client_card ipv4 ipv6 f =
     ([Text_row ''key'' (i_PublicKey f), Number_row ''endpoints'' (i_EnabledPeers f),
       Number_row ''total-endpoints'' (i_TotalPeers f)],
      address_rows ipv4 ipv6
      @ [Badge_row ''dns'' (defined (i_Dns f)), Number_row ''mtu'' (i_Mtu f)])"

definition any_card :: "jsstr list \<Rightarrow> jsstr list \<Rightarrow> iface \<Rightarrow> card_row list \<times> card_row list" where
  "any_card ipv4 ipv6 f =
     ([Text_row ''key'' (i_PublicKey f), Text_row ''endpoint'' (i_PeerDefEndpoint f),
       Number_row ''port'' (i_ListenPort f), Number_row ''peers'' (i_EnabledPeers f),
       Number_row ''total-peers'' (i_TotalPeers f)],
      address_rows ipv4 ipv6
      @ [Badge_row ''default-allowed-ip'' (i_PeerDefAllowedIPs f), Badge_row ''dns'' (i_PeerDefDns f),
         Number_row ''mtu'' (i_Mtu f), Number_row ''default-keep-alive'' (i_PeerDefPersistentKeepalive f)])"

definition interface_card :: "interface_view \<Rightarrow> (card_row list \<times> card_row list) option settled" where
  "interface_card v = (case GetSelected (iv_interfaces v) of
      None \<Rightarrow> Inr None
    | Some f \<Rightarrow> (case (ipv4Addresses v, ipv6Addresses v) of
          (Inr ipv4, Inr ipv6) \<Rightarrow> Inr (Some
            (if i_Mode f = js ''server'' then server_card ipv4 ipv6 f
             else if i_Mode f = js ''client'' then client_card ipv4 ipv6 f
             else if i_Mode f = js ''any'' then any_card ipv4 ipv6 f
             else ([], [])))
        | (Inl e, _) \<Rightarrow> Inl e
        | (_, Inl e) \<Rightarrow> Inl e))"

section \<open>The table of the passkeys\<close>

text \<open>A passkey's name, or the input with the typed name; and its date of creation.\<close>

datatype passkey_name = Name_shown jsstr | Name_input jsstr

definition passkey_rows :: "settings_view \<Rightarrow> (passkey_name \<times> jsstr) list" where
  "passkey_rows v = map (\<lambda>(i, c).
       (case sv_temp v i of None \<Rightarrow> Name_shown (cr_Name c) | Some name \<Rightarrow> Name_input name, cr_CreatedAt c))
     (enumerate 0 (sv_credentials v))"

section \<open>Properties\<close>

lemma menu_link_cases:
  assumes "Route_link n \<in> set (app_menu s)"
  shows "n \<in> {js ''home'', js ''key-generator'', js ''login''}
    \<or> IsAuthenticated (po_auth s) \<and> n \<in> {js ''profile'', js ''settings''}
    \<or> IsAuthenticated (po_auth s) \<and> IsAdmin (po_auth s)
      \<and> n \<in> {js ''interfaces'', js ''users'', js ''audit''}"
  using assms unfolding app_menu_def Let_def
  by (cases "IsAuthenticated (po_auth s)"; cases "IsAdmin (po_auth s)")
    (simp_all only: if_True if_False set_append set_simps Un_iff insert_iff empty_iff menu_item.simps
      simp_thms, auto split: if_splits)

text \<open>C12. Every link of the menu opens its page: the guard of the router lets the navigation
  pass, without a redirection and without a change. The pages of the administration are linked
  for administrators only.\<close>

theorem menu_links_open:
  assumes "Route_link n \<in> set (app_menu s)"
  shows "(\<exists>path. (path, n) \<in> set routes \<and> (\<forall>to. to_path to = path \<longrightarrow> to_query to (js ''wgLoginState'') = None
        \<longrightarrow> beforeEach showUser session to (po_auth s) = Returns Proceed (po_auth s) []))
    \<and> (n \<in> js ` {''interfaces'', ''users'', ''audit''} \<longrightarrow> IsAdmin (po_auth s))"
proof -
  have passed: "beforeEach showUser session to (po_auth s) = Returns Proceed (po_auth s) []"
    if "to_query to (js ''wgLoginState'') = None" "IsAuthenticated (po_auth s) \<or> to_path to \<in> set publicPages" for to
    using that by (auto simp: beforeEach_def authRequired_def js_run)
  have route: "(js ''/'', js ''home'') \<in> set routes" "(js ''/key-generator'', js ''key-generator'') \<in> set routes"
    "(js ''/login'', js ''login'') \<in> set routes" "(js ''/profile'', js ''profile'') \<in> set routes"
    "(js ''/settings'', js ''settings'') \<in> set routes" "(js ''/interfaces'', js ''interfaces'') \<in> set routes"
    "(js ''/users'', js ''users'') \<in> set routes" "(js ''/audit'', js ''audit'') \<in> set routes"
    by (simp_all add: routes_def)
  have page: "js ''/'' \<in> set publicPages" "js ''/login'' \<in> set publicPages" "js ''/key-generator'' \<in> set publicPages"
    by (simp_all add: publicPages_def)
  have "\<exists>path. (path, n) \<in> set routes \<and> (IsAuthenticated (po_auth s) \<or> path \<in> set publicPages)"
    using menu_link_cases [OF assms] route page by blast
  moreover have "n \<in> js ` {''interfaces'', ''users'', ''audit''} \<longrightarrow> IsAdmin (po_auth s)"
    using menu_link_cases [OF assms] by auto
  ultimately show ?thesis using passed by blast
qed

text \<open>Every restricted page of the route table but the second name of the interfaces' page has a
  link, which an administrator sees.\<close>

lemma admin_menu_complete:
  assumes "IsAdmin (po_auth s)" "(path, n) \<in> set routes" "n \<notin> js ` {''interface'', ''login''}"
  shows "Route_link n \<in> set (app_menu s)"
proof -
  have "IsAuthenticated (po_auth s)"
    using assms(1) by (auto simp: IsAdmin_def IsAuthenticated_def split: option.splits)
  with assms show ?thesis by (auto simp: app_menu_def Let_def routes_def)
qed

definition admin_portal :: portal where
  "admin_portal = \<lparr>po_auth = visitor\<lparr>auth_user := Some \<lparr>au_Identifier = Some (js ''a''), au_Firstname = None,
       au_Lastname = None, au_Email = None, au_IsAdmin = Some True\<rparr>\<rparr>, po_security = security_init,
     po_settings = settings_init, po_loggingIn = False\<rparr>"

theorem menu_links_open_witness:
  "\<exists>path. (path, js ''users'') \<in> set routes \<and> IsAdmin (po_auth admin_portal)
     \<and> beforeEach (\<lambda>u. []) (Inl TypeError) \<lparr>to_path = path, to_fullPath = path, to_query = Map.empty\<rparr>
        (po_auth admin_portal) = Returns Proceed (po_auth admin_portal) []"
proof -
  have admin: "IsAdmin (po_auth admin_portal)" by (simp add: admin_portal_def IsAdmin_def)
  then have "Route_link (js ''users'') \<in> set (app_menu admin_portal)"
    by (intro admin_menu_complete [where path = "js ''/users''"]) (auto simp: routes_def)
  from menu_links_open [OF this, of "\<lambda>u. []" "Inl TypeError"] obtain path where
    "(path, js ''users'') \<in> set routes"
    "\<forall>to. to_path to = path \<longrightarrow> to_query to (js ''wgLoginState'') = None \<longrightarrow>
      beforeEach (\<lambda>u. []) (Inl TypeError) to (po_auth admin_portal) = Returns Proceed (po_auth admin_portal) []"
    by blast
  with admin show ?thesis by (intro exI [of _ path]) simp
qed

text \<open>The bar of every page has one active link, that of the current page; the arrow back is
  disabled on the first page and the arrow forth on the last.\<close>

definition whole_bar :: "int \<Rightarrow> int \<Rightarrow> bar_link list" where
  "whole_bar n p = Bar_previous (p = 1) # map (\<lambda>q. Bar_page (of_int q) (q = p)) [1..n] @ [Bar_next (p = n)]"

lemma whole_barI:
  assumes "ps = [1..n]" "1 \<le> p" "p \<le> n" "current = Some (of_int p :: rat)" "off = 0 \<longleftrightarrow> p = 1" "next \<longleftrightarrow> p < n"
  shows "Bar_previous (off = 0) # map (\<lambda>q. Bar_page (of_int q) (current = Some (of_int q))) ps
     @ [Bar_next (\<not> next)] = whole_bar n p"
  using assms by (auto simp: whole_bar_def)

lemma users_bar_whole:
  assumes "pager_inv users_pager s" "users_Filtered s \<noteq> []"
  shows "\<exists>p. (p - 1) * pageSize s = pageOffset s
    \<and> users_bar s = whole_bar (page_count (users_FilteredCount s) (pageSize s)) p"
proof -
  have "0 < pg_count users_pager s" using assms(2) by (simp add: users_pager_def users_FilteredCount_def)
  from users.current_page [OF assms(1) this] assms(1) show ?thesis
    unfolding users_bar_def by (auto simp: users_pager_def pager_inv_def intro!: whole_barI)
qed

lemma profile_bar_whole:
  assumes "pager_inv (profile_pager lib toNum) s" "FilteredPeers s \<noteq> []"
  shows "\<exists>p. (p - 1) * pageSize s = pageOffset s
    \<and> profile_bar s = whole_bar (page_count (FilteredPeerCount s) (pageSize s)) p"
proof -
  have "0 < pg_count (profile_pager lib toNum) s"
    using assms(2) by (simp add: profile_pager_def FilteredPeerCount_def)
  from profile.current_page [OF assms(1) this] assms(1) show ?thesis
    unfolding profile_bar_def by (auto simp: profile_pager_def pager_inv_def intro!: whole_barI)
qed

lemma audit_bar_whole:
  assumes "pager_inv audit_pager s" "audit_Filtered s \<noteq> []"
  shows "\<exists>p. (p - 1) * pageSize s = pageOffset s
    \<and> audit_bar s = whole_bar (page_count (audit_FilteredCount s) (pageSize s)) p"
proof -
  have "0 < pg_count audit_pager s" using assms(2) by (simp add: audit_pager_def audit_FilteredCount_def)
  from audit.current_page [OF assms(1) this] assms(1) show ?thesis
    unfolding audit_bar_def by (auto simp: audit_pager_def pager_inv_def intro!: whole_barI)
qed



text \<open>The types of the tables: which column a cell belongs to and which column shows the property a
  sort key names.\<close>

fun column_of :: "cell \<Rightarrow> column" where
  "column_of (Select_cell _) = Select_col"
| "column_of (Status_cell _) = Status_col"
| "column_of (Name_cell _) = Name_col"
| "column_of (Owner_cell _) = Owner_col"
| "column_of (Addresses_cell _) = Addresses_col"
| "column_of (Expiry_cell _) = Expiry_col"
| "column_of (Endpoint_cell _) = Endpoint_col"
| "column_of (Connection_cell _) = Connection_col"
| "column_of (Traffic_cell _ _) = Traffic_col"
| "column_of (Interface_cell _) = Interface_col"
| "column_of (Actions_cell _) = Actions_col"
| "column_of (Identifier_cell _) = Identifier_col"
| "column_of (Email_cell _) = Email_col"
| "column_of (Firstname_cell _) = Firstname_col"
| "column_of (Lastname_cell _) = Lastname_col"
| "column_of (Source_cell _) = Source_col"
| "column_of (Peers_cell _) = Peers_col"
| "column_of (Admin_cell _) = Admin_col"
| "column_of (Id_cell _) = Id_col"
| "column_of (Time_cell _) = Time_col"
| "column_of (Severity_cell _ _) = Severity_col"
| "column_of (User_cell _) = User_col"
| "column_of (Origin_cell _) = Origin_col"
| "column_of (Message_cell _) = Message_col"

fun key_column :: "sort_key \<Rightarrow> column" where
  "key_column DisplayName = Name_col"
| "key_column UserIdentifier_key = Owner_col"
| "key_column Addresses = Addresses_col"
| "key_column ExpiresAt = Expiry_col"
| "key_column IsConnected = Connection_col"
| "key_column Traffic = Traffic_col"

text \<open>A table is well-typed when every row has the cells of the headings in their order, every
  heading sorts by what its column shows, and no column is there twice.\<close>

definition well_typed :: "(heading list \<times> cell list list) option \<Rightarrow> bool" where
  "well_typed t = (case t of None \<Rightarrow> True | Some (hs, rows) \<Rightarrow>
     list_all (\<lambda>r. map column_of r = map fst hs) rows
     \<and> list_all (\<lambda>(c, k). case k of None \<Rightarrow> True | Some k \<Rightarrow> key_column k = c) hs
     \<and> distinct (map fst hs))"

text \<open>C26. The tables of four pages, of the peers of an interface, of the user's own peers, of the users and
  of the audit log, are well-typed in every state of their stores (the one in the dialog of a user
  is not, see \<open>user_rows_short\<close> in \<open>Show_Templates\<close>): with and without
  statistics, for interfaces of every mode, on every page and in every order. A sorted table that
  cannot be computed is an error, never a table with rows of another form.\<close>

theorem tables_well_typed:
  "pred_sum (\<lambda>e. True) well_typed (peer_table logs lib toNum z v)
   \<and> pred_sum (\<lambda>e. True) well_typed (profile_table logs lib toNum s)
   \<and> well_typed (user_table u) \<and> well_typed (audit_table a)"
proof (intro conjI)
  have "map column_of (peer_cells logs z f st p) = map fst (peer_headings f st)" for f st p
    by (simp add: peer_cells_def peer_headings_def Let_def)
  then have "well_typed (Some (peer_headings f st, map (peer_cells logs z f st) ps))" for f st ps
    by (simp add: well_typed_def list_all_iff) (simp add: peer_headings_def)
  then show "pred_sum (\<lambda>e. True) well_typed (peer_table logs lib toNum z v)"
    by (cases "peers_FilteredAndPaged lib toNum (iv_peers v)")
      (simp_all add: peer_table_def well_typed_def split: option.split)
  have "map column_of (profile_cells logs st p) = map fst (profile_headings st)" for st p
    by (simp add: profile_cells_def profile_headings_def Let_def)
  then have "well_typed (Some (profile_headings st, map (profile_cells logs st) ps))" for st ps
    by (simp add: well_typed_def list_all_iff) (simp add: profile_headings_def)
  then show "pred_sum (\<lambda>e. True) well_typed (profile_table logs lib toNum s)"
    by (cases "FilteredAndPagedPeers lib toNum s") (simp_all add: profile_table_def well_typed_def)
  show "well_typed (user_table u)"
    by (simp add: well_typed_def user_table_def list_all_iff user_cells_def user_headings_def)
  show "well_typed (audit_table a)"
    by (simp add: well_typed_def audit_table_def list_all_iff audit_cells_def audit_headings_def)
qed

text \<open>The rows of the table are the listed peers in their order, each under its identifier.\<close>

definition row_peer :: "cell list \<Rightarrow> jsstr" where
  "row_peer r = (case last r of Actions_cell i \<Rightarrow> i | _ \<Rightarrow> [])"

lemma peer_table_rows:
  assumes "peer_table logs lib toNum z v = Inr (Some (hs, rows))"
  shows "\<exists>ps. peers_FilteredAndPaged lib toNum (iv_peers v) = Inr ps
    \<and> map row_peer rows = map p_Identifier ps"
  using assms
  by (cases "peers_FilteredAndPaged lib toNum (iv_peers v)")
    (auto simp: peer_table_def row_peer_def peer_cells_def Let_def split: option.splits if_splits)

text \<open>While a login is on its way every button that can be pressed is the one for passkeys, which
  starts a second login.\<close>

definition pressable :: "login_control \<Rightarrow> bool" where
  "pressable c = (case c of
      Login_button disabled _ \<Rightarrow> \<not> disabled | Provider_button _ disabled _ \<Rightarrow> \<not> disabled
    | Passkey_button _ \<Rightarrow> True | _ \<Rightarrow> False)"

theorem second_login:
  "filter pressable (login_form (s\<lparr>po_loggingIn := True\<rparr>) query username password)
   = (if setting_on (po_settings s) ''WebAuthnEnabled'' then [Passkey_button True] else [])"
proof -
  let ?s = "s\<lparr>po_loggingIn := True\<rparr>"
  have "filter pressable (provider_buttons ?s) = []"
    by (auto simp: provider_buttons_def pressable_def filter_empty_conv)
  then show ?thesis
    by (simp add: login_form_def passkey_button_def pressable_def disableLoginBtn_def)
qed

text \<open>The card of an interface of one of the three modes has all its addresses that are shown at
  all, those with a leading digit and those with a colon.\<close>

theorem interface_card_addresses:
  assumes "GetSelected (iv_interfaces v) = Some f" "list_all tidy (i_Addresses f)"
    and "i_Mode f \<in> {js ''server'', js ''client'', js ''any''}"
  shows "\<exists>l r. interface_card v = Inr (Some (l, address_rows
      (filter starts_with_digit (i_Addresses f)) (filter (\<lambda>a. strIncludes a (js '':'')) (i_Addresses f)) @ r))"
proof -
  have "split_addresses (i_Addresses f) = i_Addresses f" by (rule split_addresses_tidy [OF assms(2)])
  with assms show ?thesis
    by (auto simp: interface_card_def ipv4Addresses_def ipv6Addresses_def getAllAddresses_def
        server_card_def client_card_def any_card_def)
qed

text \<open>After a click on a heading the one mark is at that heading and tells the direction in which
  the store sorts, by that column; before the first click there is none.\<close>

theorem sort_mark_truthful:
  "\<exists>t. sortBy k v = Returns () t [] \<and> sortKey (iv_peers t) = k
     \<and> sort_mark (iv_sortKey t) (iv_sortOrder t) k' = (if k' = k then Some (sortOrder (iv_peers t) = 1) else None)"
  "\<exists>t. profile_sortBy k w = Returns () t [] \<and> sortKey (fv_profile t) = k
     \<and> sort_mark (fv_sortKey t) (fv_sortOrder t) k' = (if k' = k then Some (sortOrder (fv_profile t) = 1) else None)"
  by (auto simp: sortBy_def profile_sortBy_def sort_mark_def js_run)

text \<open>A renaming that is cancelled leaves the table of the passkeys as it was.\<close>

theorem rename_cancelled:
  assumes "sv_temp v i = None"
  shows "\<exists>t. andThen (enableRename i) (andThen (typeName i name) (cancelRename i)) v = Returns () t []
    \<and> passkey_rows t = passkey_rows v"
proof -
  have "(sv_temp v)(i := None) = sv_temp v" using assms by auto
  then show ?thesis
    by (auto simp: assms enableRename_def typeName_def cancelRename_def js_run passkey_rows_def sv_credentials_def)
qed

end
