(* ===== verification/Edit_Forms.thy ===== *)
theory Edit_Forms
  imports User_Dialog Interface_Dialog
begin

text \<open>
  The forms of the dialogs \<open>components/UserEditModal.vue\<close>, \<open>components/InterfaceEditModal.vue\<close>
  and \<open>components/PeerMultiCreateModal.vue\<close>, from their templates: which inputs are shown in
  which state, what each shows and what a change of it does, and the buttons of the footers. A
  session with a form is a sequence of changes of the inputs that it shows at the time.
\<close>

section \<open>Inputs\<close>

text \<open>
  An input has a name, the value it shows and the effect of a change; a choice has its options,
  and a disabled input no change. A number input is modelled for whole numbers only: an emptied
  one gives the empty string, which the record of a number cannot hold. A \<open>Raw_control\<close> is an
  input whose changes are all of that kind, and none of them is modelled.
\<close>

datatype 's control =
    Text_control string jsstr "jsstr \<Rightarrow> ('s, unit) comp"
  | Number_control string int "int \<Rightarrow> ('s, unit) comp"
  | Switch_control string bool "bool \<Rightarrow> ('s, unit) comp"
  | Choice_control string jsstr "jsstr list" "jsstr \<Rightarrow> ('s, unit) comp"
  | Tags_control string "jsstr list" "jsstr list \<Rightarrow> ('s, unit) comp"
  | Disabled_control string jsstr
  | Raw_control string jsstr

fun control_name :: "'s control \<Rightarrow> string" where
  "control_name (Text_control l v c) = l"
| "control_name (Number_control l n c) = l"
| "control_name (Switch_control l b c) = l"
| "control_name (Choice_control l v vs c) = l"
| "control_name (Tags_control l vs c) = l"
| "control_name (Disabled_control l v) = l"
| "control_name (Raw_control l v) = l"

inductive form_input :: "'s control list \<Rightarrow> 's \<Rightarrow> 's \<Rightarrow> bool" for cs where
  type_text: "Text_control l v c \<in> set cs \<Longrightarrow> ends_in (c t d) e \<Longrightarrow> form_input cs d e"
| type_number: "Number_control l n c \<in> set cs \<Longrightarrow> ends_in (c m d) e \<Longrightarrow> form_input cs d e"
| flip_switch: "Switch_control l b c \<in> set cs \<Longrightarrow> ends_in (c (\<not> b) d) e \<Longrightarrow> form_input cs d e"
| choose: "Choice_control l v vs c \<in> set cs \<Longrightarrow> w \<in> set vs \<Longrightarrow> ends_in (c w d) e \<Longrightarrow> form_input cs d e"
| edit_tags: "Tags_control l ts c \<in> set cs \<Longrightarrow> ends_in (c us d) e \<Longrightarrow> form_input cs d e"

text \<open>A control keeps an invariant when every change that it offers does.\<close>

fun control_keeps :: "('s \<Rightarrow> bool) \<Rightarrow> 's control \<Rightarrow> bool" where
  "control_keeps I (Text_control l v c) = (\<forall>t. keeps I (c t))"
| "control_keeps I (Number_control l n c) = (\<forall>m. keeps I (c m))"
| "control_keeps I (Switch_control l b c) = (\<forall>b. keeps I (c b))"
| "control_keeps I (Choice_control l v vs c) = (\<forall>w \<in> set vs. keeps I (c w))"
| "control_keeps I (Tags_control l ts c) = (\<forall>us. keeps I (c us))"
| "control_keeps I (Disabled_control l v) = True"
| "control_keeps I (Raw_control l v) = True"

lemma form_input_keeps: "form_input cs d e \<Longrightarrow> list_all (control_keeps I) cs \<Longrightarrow> I d \<Longrightarrow> I e"
proof (induction rule: form_input.induct)
  case (type_text l v c t d e)
  then have "keeps I (c t)" by (auto simp: list_all_iff)
  with type_text show ?case using keepsD by metis
next
  case (type_number l n c m d e)
  then have "keeps I (c m)" by (auto simp: list_all_iff)
  with type_number show ?case using keepsD by metis
next
  case (flip_switch l b c d e)
  then have "control_keeps I (Switch_control l b c)" by (auto simp: list_all_iff)
  then have "keeps I (c (\<not> b))" by simp
  with flip_switch show ?case using keepsD by metis
next
  case (choose l v vs c w d e)
  then have "control_keeps I (Choice_control l v vs c)" by (auto simp: list_all_iff)
  with choose(2) have "keeps I (c w)" by simp
  with choose show ?case using keepsD by metis
next
  case (edit_tags l ts c us d e)
  then have "keeps I (c us)" by (auto simp: list_all_iff)
  with edit_tags show ?case using keepsD by metis
qed

lemma change_tags_keeps:
  "(\<And>us d. I d \<Longrightarrow> I (update us d)) \<Longrightarrow> keeps I (change_tags ok title update tags)"
  by (simp add: keeps_def change_tags_run)

section \<open>Sessions\<close>

text \<open>
  A session with an opened form: changes of the inputs that it shows, as long as it can be
  shown, and whatever else happens around it. The locale is for dialogs where the latter does not
  touch the edited data, which then has every invariant that the shown inputs keep.
\<close>

inductive form_session ::
  "('s \<Rightarrow> 's control list settled) \<Rightarrow> ('s \<Rightarrow> 's \<Rightarrow> bool) \<Rightarrow> 's \<Rightarrow> 's \<Rightarrow> bool"
  for shown around where
  session_input: "shown d = Inr cs \<Longrightarrow> form_input cs d e \<Longrightarrow> form_session shown around d e"
| session_around: "around d e \<Longrightarrow> form_session shown around d e"

locale edited_form =
  fixes shown :: "'s \<Rightarrow> 's control list settled"
    and around :: "'s \<Rightarrow> 's \<Rightarrow> bool"
    and edited :: "'s \<Rightarrow> 'v"
  assumes around_frame: "around d e \<Longrightarrow> edited e = edited d"
begin

lemma session_invariant:
  assumes "(form_session shown around)\<^sup>*\<^sup>* d e" "I (edited d)"
    and inputs: "\<And>d cs. I (edited d) \<Longrightarrow> shown d = Inr cs \<Longrightarrow> list_all (control_keeps (\<lambda>d. I (edited d))) cs"
  shows "I (edited e)"
  using assms(1,2)
proof (induction rule: rtranclp_induct)
  case (step d e)
  from step(2) step.IH [OF step.prems] show ?case
  proof (induction rule: form_session.induct)
    case (session_input d cs e)
    show ?case by (rule form_input_keeps [OF session_input(2) inputs [OF session_input(3,1)] session_input(3)])
  next
    case (session_around d e)
    then show ?case by (simp add: around_frame)
  qed
qed

end

section \<open>Footers\<close>

text \<open>The buttons of a footer, with whether they are disabled and whether they spin.\<close>

datatype dialog_button =
    Delete_button bool bool
  | Save_button bool bool
  | Defaults_button bool bool
  | Close_button

section \<open>The form of a user\<close>

definition user_edit :: "(user \<Rightarrow> user) \<Rightarrow> (user_dialog, unit) comp" where
  "user_edit f = modify (\<lambda>d. d\<lparr>ud_form := f (ud_form d)\<rparr>)"

definition user_account_controls :: "user_dialog \<Rightarrow> user_dialog control list" where
  "user_account_controls d = (let f = ud_form d in
     (if ud_userId d = NEW
      then [Text_control ''identifier'' (u_Identifier f) (\<lambda>t. user_edit (\<lambda>f. f\<lparr>u_Identifier := t\<rparr>))]
      else [])
     @ [Disabled_control ''source'' (u_Source f)]
     @ (if u_Source f = js ''db''
        then [Text_control ''password'' (u_Password f) (\<lambda>t. user_edit (\<lambda>f. f\<lparr>u_Password := t\<rparr>))]
        else []))"

definition user_personal_controls :: "user_dialog \<Rightarrow> user_dialog control list" where
  "user_personal_controls d = (let f = ud_form d in
     [Text_control ''email'' (u_Email f) (\<lambda>t. user_edit (\<lambda>f. f\<lparr>u_Email := t\<rparr>)),
      Text_control ''firstname'' (u_Firstname f) (\<lambda>t. user_edit (\<lambda>f. f\<lparr>u_Firstname := t\<rparr>)),
      Text_control ''lastname'' (u_Lastname f) (\<lambda>t. user_edit (\<lambda>f. f\<lparr>u_Lastname := t\<rparr>)),
      Text_control ''phone'' (u_Phone f) (\<lambda>t. user_edit (\<lambda>f. f\<lparr>u_Phone := t\<rparr>)),
      Text_control ''department'' (u_Department f) (\<lambda>t. user_edit (\<lambda>f. f\<lparr>u_Department := t\<rparr>))])"

definition user_state_controls :: "user_dialog \<Rightarrow> user_dialog control list" where
  "user_state_controls d = (let f = ud_form d in
     [Text_control ''notes'' (u_Notes f) (\<lambda>t. user_edit (\<lambda>f. f\<lparr>u_Notes := t\<rparr>)),
      Switch_control ''disabled'' (u_Disabled f) (\<lambda>b. user_edit (\<lambda>f. f\<lparr>u_Disabled := b\<rparr>)),
      Switch_control ''locked'' (u_Locked f) (\<lambda>b. user_edit (\<lambda>f. f\<lparr>u_Locked := b\<rparr>))]
     @ (if u_Source f = js ''db''
        then [Switch_control ''admin'' (u_IsAdmin f) (\<lambda>b. user_edit (\<lambda>f. f\<lparr>u_IsAdmin := b\<rparr>))]
        else []))"

definition user_controls :: "user_dialog \<Rightarrow> user_dialog control list" where
  "user_controls d =
     (if u_Source (ud_form d) = js ''db'' then user_account_controls d @ user_personal_controls d else [])
     @ user_state_controls d"

text \<open>Whether the password is marked as invalid and as valid.\<close>

definition password_marks :: "user_dialog \<Rightarrow> bool \<times> bool" where
  "password_marks d = (passwordWeak d, u_Password (ud_form d) \<noteq> [] \<and> \<not> passwordWeak d)"

definition user_buttons :: "user_dialog \<Rightarrow> dialog_button list" where
  "user_buttons d =
     (if ud_userId d \<noteq> NEW then [Delete_button (ud_isDeleting d) (ud_isDeleting d)] else [])
     @ [Save_button (\<not> formValid d \<or> ud_isSaving d) (ud_isSaving d), Close_button]"

text \<open>
  Around the inputs of an opened form: loads of the users, and presses of the enabled save button
  whose answers are refusals; any other answer closes the dialog.
\<close>

inductive around_user_form :: "user_dialog \<Rightarrow> user_dialog \<Rightarrow> bool" where
  auf_load: "ends_in (on_users (LoadUsers_settle reply) d) e \<Longrightarrow> around_user_form d e"
| auf_save: "Save_button False spin \<in> set (user_buttons d) \<Longrightarrow> ends_in (user_save_begin d) e
    \<Longrightarrow> around_user_form d e"
| auf_refused: "ends_in (user_save_settle w (Inl r) d) e \<Longrightarrow> around_user_form d e"

definition user_form_step :: "user_dialog \<Rightarrow> user_dialog \<Rightarrow> bool" where
  "user_form_step = form_session (\<lambda>d. Inr (user_controls d)) around_user_form"

lemma on_users_keeps: "ends_in (on_users m d) e \<Longrightarrow> ud_form e = ud_form d \<and> ud_userId e = ud_userId d"
  by (cases "m (ud_users d)") (auto simp: on_users_def zoom_def)

lemma user_save_begin_keeps:
  "ends_in (user_save_begin d) e \<Longrightarrow> ud_form e = ud_form d \<and> ud_userId e = ud_userId d"
  by (auto simp: user_save_begin_cases Let_def split: if_splits option.splits)

interpretation user_form: edited_form "\<lambda>d. Inr (user_controls d)" around_user_form
  "\<lambda>d. (ud_userId d, ud_form d)"
proof
  show "(ud_userId e, ud_form e) = (ud_userId d, ud_form d)" if "around_user_form d e" for d e
    using that
  proof (induction rule: around_user_form.induct)
    case (auf_load reply d e)
    then show ?case using on_users_keeps by blast
  next
    case (auf_save spin d e)
    then show ?case using user_save_begin_keeps by blast
  next
    case (auf_refused w r d e)
    then show ?case by (simp add: user_save_settle_cases)
  qed
qed

lemma user_session_invariant:
  assumes "user_form_step\<^sup>*\<^sup>* d e" "I (ud_userId d) (ud_form d)"
    and "\<And>d. I (ud_userId d) (ud_form d) \<Longrightarrow>
      list_all (control_keeps (\<lambda>d. I (ud_userId d) (ud_form d))) (user_controls d)"
  shows "I (ud_userId e) (ud_form e)"
proof -
  have "(\<lambda>v. I (fst v) (snd v)) (ud_userId e, ud_form e)"
    by (rule user_form.session_invariant [OF assms(1) [unfolded user_form_step_def]])
      (auto simp: assms(2) intro!: assms(3))
  then show ?thesis by simp
qed

lemma user_form_input: "form_input (user_controls d) d e \<Longrightarrow> user_form_step d e"
  by (simp add: user_form_step_def session_input)

text \<open>What the form of an existing user cannot change.\<close>

definition user_kept :: "user \<Rightarrow> user \<Rightarrow> bool" where
  "user_kept u f \<longleftrightarrow> u_Identifier f = u_Identifier u \<and> u_Source f = u_Source u
     \<and> (u_Source u = js ''db'' \<or>
        u_Email f = u_Email u \<and> u_Firstname f = u_Firstname u \<and> u_Lastname f = u_Lastname u
        \<and> u_Phone f = u_Phone u \<and> u_Department f = u_Department u \<and> u_IsAdmin f = u_IsAdmin u
        \<and> u_Password f = [])"

lemmas user_controls_defs = user_controls_def user_account_controls_def user_personal_controls_def
  user_state_controls_def user_edit_def keeps_def modify_def Let_def

lemma user_kept_controls:
  "ud_userId d = i \<and> user_kept u (ud_form d) \<Longrightarrow> i \<noteq> NEW \<Longrightarrow>
     list_all (control_keeps (\<lambda>d. ud_userId d = i \<and> user_kept u (ud_form d))) (user_controls d)"
  by (auto simp: user_controls_defs user_kept_def)

lemma new_user_controls:
  "ud_userId d = NEW \<and> u_Source (ud_form d) = js ''db'' \<Longrightarrow>
     list_all (control_keeps (\<lambda>d. ud_userId d = NEW \<and> u_Source (ud_form d) = js ''db'')) (user_controls d)"
  by (simp add: user_controls_defs)

lemma open_user_run:
  "users_Find (ud_users d) i = Some u \<Longrightarrow> ud_form d = freshUser \<Longrightarrow>
     ends_in (open_user_dialog i d) t \<Longrightarrow> ud_userId t = i \<and> user_kept u (ud_form t)"
  "users_Find (ud_users d) i = None \<Longrightarrow>
     ends_in (open_user_dialog i d) t \<Longrightarrow> ud_userId t = i \<and> u_Source (ud_form t) = js ''db''"
  by (simp_all add: open_user_dialog_def user_dialog_shown_def selectedUser_def user_kept_def
      freshUser_def js_run)

lemma user_save_sends:
  assumes "user_save_begin d = Returns (Some w) v es"
  shows "\<exists>q. req_body q = Some (ud_form d)
    \<and> w = (if ud_userId d = NEW then SaveCreate q else SaveUpdate (ud_userId d) q)"
proof (cases "ud_userId d = NEW")
  case True
  then show ?thesis using assms by (auto simp: user_save_begin_cases Let_def split: if_splits)
next
  case False
  then obtain u where u: "selectedUser d = Some u" "latin1 (u_Identifier u)"
    using assms by (auto simp: user_save_begin_cases Let_def split: if_splits option.splits)
  then have "u_Identifier u = ud_userId d"
    by (auto simp: selectedUser_def users_Find_def find_Some_iff)
  with u False show ?thesis using assms by (auto simp: user_save_begin_cases Let_def split: if_splits)
qed

text \<open>C18. Whatever is done in the dialog of an existing user, a save sends the user it was opened for:
  with the same identifier and source, and, when the source is not the portal's own database,
  with the same name, address, department and role and without a password, whatever loads of the
  users and refused saves come in between. Only the notes and the two switches are left to edit.\<close>

theorem external_user_confined:
  assumes "users_Find (ud_users d) i = Some u" "ud_form d = freshUser" "i \<noteq> NEW"
    and "ends_in (open_user_dialog i d) t" "user_form_step\<^sup>*\<^sup>* t e"
    and "user_save_begin e = Returns (Some w) v es"
  shows "\<exists>q f. w = SaveUpdate i q \<and> req_body q = Some f \<and> user_kept u f"
proof -
  have "ud_userId t = i \<and> user_kept u (ud_form t)" by (rule open_user_run(1) [OF assms(1,2,4)])
  then have "ud_userId e = i \<and> user_kept u (ud_form e)"
    by (rule user_session_invariant [OF assms(5)]) (rule user_kept_controls [OF _ assms(3)])
  then show ?thesis using user_save_sends [OF assms(6)] assms(3) by auto
qed

definition ldap_user :: user where
  "ldap_user = (sample_user_named ''a'')\<lparr>u_Source := js ''ldap'', u_Email := js ''a@b''\<rparr>"

theorem external_user_confined_witness:
  "\<exists>t e q v es f. ends_in (open_user_dialog (js ''a'')
       (user_dialog_init\<lparr>ud_users := users_init\<lparr>users := [ldap_user]\<rparr>\<rparr>)) t
     \<and> user_form_step\<^sup>*\<^sup>* t e \<and> user_save_begin e = Returns (Some (SaveUpdate (js ''a'') q)) v es
     \<and> req_body q = Some f \<and> u_Locked f \<and> u_Email f = js ''a@b''"
proof -
  let ?d = "user_dialog_init\<lparr>ud_users := users_init\<lparr>users := [ldap_user]\<rparr>\<rparr>"
  have a: "users_Find (ud_users ?d) (js ''a'') = Some ldap_user" "ud_form ?d = freshUser" "js ''a'' \<noteq> NEW"
    by (simp_all add: users_Find_def ldap_user_def sample_user_named_def user_dialog_init_def NEW_def)
  obtain t where t: "open_user_dialog (js ''a'') ?d = Returns () t []"
    by (simp add: open_user_dialog_def user_dialog_shown_def js_run)
  have start: "ud_userId t = js ''a''" "user_kept ldap_user (ud_form t)" "\<not> ud_isSaving t"
    "ud_users t = ud_users ?d"
    using open_user_run(1) [OF a(1,2), of t] t
    by (auto simp: open_user_dialog_def user_dialog_shown_def selectedUser_def user_dialog_init_def
        users_init_def js_run split: option.splits)
  have not_locked: "\<not> u_Locked (ud_form t)" using t a(1)
    by (simp add: open_user_dialog_def user_dialog_shown_def selectedUser_def ldap_user_def
        users_Find_def sample_user_named_def freshUser_def js_run) auto
  let ?e = "t\<lparr>ud_form := (ud_form t)\<lparr>u_Locked := True\<rparr>\<rparr>"
  have "form_input (user_controls t) t ?e"
    using not_locked
    by (intro flip_switch [where l = "''locked''" and b = False
          and c = "\<lambda>b. user_edit (\<lambda>f. f\<lparr>u_Locked := b\<rparr>)"]) (simp_all add: user_controls_defs)
  then have run: "user_form_step\<^sup>*\<^sup>* t ?e" by (intro r_into_rtranclp user_form_input)
  obtain q v es where q: "user_save_begin ?e = Returns (Some (SaveUpdate (js ''a'') q)) v es"
    "req_body q = Some (ud_form ?e)"
    using start a(1,3) by (simp add: user_save_begin_cases selectedUser_def users_Find_def ldap_user_def
        sample_user_named_def Let_def)
  from t have "ends_in (open_user_dialog (js ''a'') ?d) t" by simp
  from external_user_confined [OF a this run q(1)] q(2)
  have "user_kept ldap_user (ud_form ?e)" by auto
  then have "u_Email (ud_form ?e) = js ''a@b''" by (simp add: user_kept_def ldap_user_def)
  with t run q show ?thesis by (intro exI [of _ t] exI [of _ ?e]) auto
qed

text \<open>C6. A user can only be created with a valid form: when the dialog of a new user has been
  opened, every save that an enabled button sends creates a user of the portal's own database
  with an identifier and a password as long as the settings demand.\<close>

theorem created_users_valid:
  assumes "users_Find (ud_users d) NEW = None" "ends_in (open_user_dialog NEW d) t"
    and "user_form_step\<^sup>*\<^sup>* t e" "Save_button False spin \<in> set (user_buttons e)"
    and "user_save_begin e = Returns (Some w) v es"
  shows "\<exists>q f. w = SaveCreate q \<and> req_body q = Some f \<and> u_Source f = js ''db'' \<and> u_Identifier f \<noteq> []
    \<and> u_Password f \<noteq> []
    \<and> (\<forall>n. Setting (ud_settings e) (js ''MinPasswordLength'') = Some (JNum n) \<longrightarrow> n \<le> int (length (u_Password f)))"
proof -
  have "ud_userId t = NEW \<and> u_Source (ud_form t) = js ''db''" by (rule open_user_run(2) [OF assms(1,2)])
  then have new: "ud_userId e = NEW \<and> u_Source (ud_form e) = js ''db''"
    by (rule user_session_invariant [OF assms(3)]) (rule new_user_controls)
  moreover have "formValid e" using assms(4) by (auto simp: user_buttons_def)
  ultimately have "u_Identifier (ud_form e) \<noteq> []" "u_Password (ud_form e) \<noteq> []" "\<not> passwordWeak e"
    by (auto simp: formValid_def split: if_splits)
  with new show ?thesis using user_save_sends [OF assms(5)]
    by (auto simp: passwordWeak_def)
qed

theorem created_users_valid_witness:
  "\<exists>t e q v es. ends_in (open_user_dialog NEW user_dialog_init) t \<and> user_form_step\<^sup>*\<^sup>* t e
     \<and> user_save_begin e = Returns (Some (SaveCreate q)) v es
     \<and> map_option (\<lambda>f. (u_Identifier f, u_Source f)) (req_body q) = Some (js ''bo'', js ''db'')"
proof -
  let ?t = "user_dialog_init\<lparr>ud_userId := NEW, ud_visible := True\<rparr>"
  let ?u = "?t\<lparr>ud_form := freshUser\<lparr>u_Identifier := js ''bo''\<rparr>\<rparr>"
  let ?e = "?t\<lparr>ud_form := freshUser\<lparr>u_Identifier := js ''bo'', u_Password := js ''secret''\<rparr>\<rparr>"
  have none: "users_Find (ud_users user_dialog_init) NEW = None"
    by (simp add: user_dialog_init_def users_init_def users_Find_def)
  have t: "ends_in (open_user_dialog NEW user_dialog_init) ?t"
    by (simp add: open_user_dialog_def user_dialog_shown_def selectedUser_def js_run)
      (simp add: user_dialog_init_def users_init_def users_Find_def)
  have "form_input (user_controls ?t) ?t ?u"
    by (intro type_text [where l = "''identifier''" and v = "[]" and t = "js ''bo''"
          and c = "\<lambda>t. user_edit (\<lambda>f. f\<lparr>u_Identifier := t\<rparr>)"])
      (simp_all add: user_controls_defs user_dialog_init_def freshUser_def)
  moreover have "form_input (user_controls ?u) ?u ?e"
    by (intro type_text [where l = "''password''" and v = "[]" and t = "js ''secret''"
          and c = "\<lambda>t. user_edit (\<lambda>f. f\<lparr>u_Password := t\<rparr>)"])
      (simp_all add: user_controls_defs user_dialog_init_def freshUser_def)
  ultimately have run: "user_form_step\<^sup>*\<^sup>* ?t ?e"
    by (meson user_form_input rtranclp.rtrancl_into_rtrancl rtranclp.rtrancl_refl)
  have button: "Save_button False False \<in> set (user_buttons ?e)"
    by (simp add: user_buttons_def formValid_def passwordWeak_def user_dialog_init_def freshUser_def
        settings_init_def Setting_def)
  obtain w v es where w: "user_save_begin ?e = Returns (Some w) v es" "w = SaveCreate
      (Request POST (js ''/user/new'') (Some (ud_form ?e)))"
    by (simp add: user_save_begin_cases user_dialog_init_def Let_def)
  from created_users_valid [OF none t run button w(1)] w(2)
  have "u_Source (ud_form ?e) = js ''db''" by auto
  then show ?thesis using t run w by fastforce
qed

section \<open>The form of an interface\<close>

definition iface_edit :: "(iface \<Rightarrow> iface) \<Rightarrow> (interface_dialog, unit) comp" where
  "iface_edit f = modify (\<lambda>d. d\<lparr>id_form := f (id_form d)\<rparr>)"

definition iface_general_controls :: "interface_dialog \<Rightarrow> interface_dialog control list" where
  "iface_general_controls d = (let f = id_form d in
     (if id_interfaceId d = NEW_INTERFACE
      then [Text_control ''identifier'' (i_Identifier f) (\<lambda>t. iface_edit (\<lambda>f. f\<lparr>i_Identifier := t\<rparr>))]
      else [])
     @ [Choice_control ''mode'' (i_Mode f) [js ''server'', js ''client'', js ''any'']
          (\<lambda>t. iface_edit (\<lambda>f. f\<lparr>i_Mode := t\<rparr>)),
        Choice_control ''backend'' (i_Backend f) (backend_ids (id_settings d))
          (\<lambda>t. iface_edit (\<lambda>f. f\<lparr>i_Backend := t\<rparr>)),
        Text_control ''display-name'' (i_DisplayName f) (\<lambda>t. iface_edit (\<lambda>f. f\<lparr>i_DisplayName := t\<rparr>)),
        Text_control ''private-key'' (i_PrivateKey f) (\<lambda>t. iface_edit (\<lambda>f. f\<lparr>i_PrivateKey := t\<rparr>)),
        Text_control ''public-key'' (i_PublicKey f) (\<lambda>t. iface_edit (\<lambda>f. f\<lparr>i_PublicKey := t\<rparr>))])"

text \<open>
  The tags of a list are \<open>list.map(...)\<close>, which throws when the list is undefined: the name
  servers are shown in every mode but \<open>server\<close>.
\<close>

definition iface_mode_controls :: "ip_library \<Rightarrow> interface_dialog \<Rightarrow> interface_dialog control list settled" where
  "iface_mode_controls lib d = (let f = id_form d in
     if i_Mode f = js ''server''
     then Inr [Number_control ''listen-port'' (i_ListenPort f) (\<lambda>t. iface_edit (\<lambda>f. f\<lparr>i_ListenPort := t\<rparr>))]
     else (case i_Dns f of
         None \<Rightarrow> Inl TypeError
       | Some dns \<Rightarrow> Inr
          [Tags_control ''dns'' dns (if_handleChangeDns lib),
           Tags_control ''dns-search'' (i_DnsSearch f) if_handleChangeDnsSearch]))"

definition iface_local_controls :: "interface_dialog \<Rightarrow> interface_dialog control list" where
  "iface_local_controls d = (let f = id_form d in
     [Number_control ''mtu'' (i_Mtu f) (\<lambda>t. iface_edit (\<lambda>f. f\<lparr>i_Mtu := t\<rparr>))]
     @ (if i_Backend f = js ''local''
        then [Number_control ''firewall-mark'' (i_FirewallMark f) (\<lambda>t. iface_edit (\<lambda>f. f\<lparr>i_FirewallMark := t\<rparr>))]
        else [])
     @ (if i_Backend f = js ''local''
        then [Text_control ''routing-table'' (i_RoutingTable f) (\<lambda>t. iface_edit (\<lambda>f. f\<lparr>i_RoutingTable := t\<rparr>))]
        else []))"

definition iface_hook_controls :: "interface_dialog \<Rightarrow> interface_dialog control list" where
  "iface_hook_controls d = (let f = id_form d in
     [Text_control ''pre-up'' (i_PreUp f) (\<lambda>t. iface_edit (\<lambda>f. f\<lparr>i_PreUp := t\<rparr>)),
      Text_control ''post-up'' (i_PostUp f) (\<lambda>t. iface_edit (\<lambda>f. f\<lparr>i_PostUp := t\<rparr>)),
      Text_control ''pre-down'' (i_PreDown f) (\<lambda>t. iface_edit (\<lambda>f. f\<lparr>i_PreDown := t\<rparr>)),
      Text_control ''post-down'' (i_PostDown f) (\<lambda>t. iface_edit (\<lambda>f. f\<lparr>i_PostDown := t\<rparr>)),
      Switch_control ''disabled'' (i_Disabled f) (\<lambda>t. iface_edit (\<lambda>f. f\<lparr>i_Disabled := t\<rparr>)),
      Switch_control ''save-config'' (i_SaveConfig f) (\<lambda>t. iface_edit (\<lambda>f. f\<lparr>i_SaveConfig := t\<rparr>))])"

definition iface_controls :: "ip_library \<Rightarrow> interface_dialog \<Rightarrow> interface_dialog control list settled" where
  "iface_controls lib d = map_sum id (\<lambda>shown.
       iface_general_controls d
       @ [Tags_control ''addresses'' (i_Addresses (id_form d)) (if_handleChangeAddresses lib)]
       @ shown @ iface_local_controls d @ iface_hook_controls d)
     (iface_mode_controls lib d)"

definition defaults_network_controls :: "ip_library \<Rightarrow> interface_dialog \<Rightarrow> interface_dialog control list" where
  "defaults_network_controls lib d = (let f = id_form d in
     [Text_control ''endpoint'' (i_PeerDefEndpoint f) (\<lambda>t. iface_edit (\<lambda>f. f\<lparr>i_PeerDefEndpoint := t\<rparr>)),
      Tags_control ''networks'' (i_PeerDefNetwork f) (handleChangePeerDefNetwork lib),
      Tags_control ''allowed-ip'' (i_PeerDefAllowedIPs f) (handleChangePeerDefAllowedIPs lib),
      Tags_control ''dns'' (i_PeerDefDns f) (handleChangePeerDefDns lib),
      Tags_control ''dns-search'' (i_PeerDefDnsSearch f) handleChangePeerDefDnsSearch,
      Number_control ''mtu'' (i_PeerDefMtu f) (\<lambda>t. iface_edit (\<lambda>f. f\<lparr>i_PeerDefMtu := t\<rparr>)),
      Number_control ''firewall-mark'' (i_PeerDefFirewallMark f) (\<lambda>t. iface_edit (\<lambda>f. f\<lparr>i_PeerDefFirewallMark := t\<rparr>)),
      Raw_control ''routing-table'' (i_PeerDefRoutingTable f),
      Number_control ''keep-alive'' (i_PeerDefPersistentKeepalive f) (\<lambda>t. iface_edit (\<lambda>f. f\<lparr>i_PeerDefPersistentKeepalive := t\<rparr>))])"

definition defaults_hook_controls :: "interface_dialog \<Rightarrow> interface_dialog control list" where
  "defaults_hook_controls d = (let f = id_form d in
     [Text_control ''pre-up'' (i_PeerDefPreUp f) (\<lambda>t. iface_edit (\<lambda>f. f\<lparr>i_PeerDefPreUp := t\<rparr>)),
      Text_control ''post-up'' (i_PeerDefPostUp f) (\<lambda>t. iface_edit (\<lambda>f. f\<lparr>i_PeerDefPostUp := t\<rparr>)),
      Text_control ''pre-down'' (i_PeerDefPreDown f) (\<lambda>t. iface_edit (\<lambda>f. f\<lparr>i_PeerDefPreDown := t\<rparr>)),
      Text_control ''post-down'' (i_PeerDefPostDown f) (\<lambda>t. iface_edit (\<lambda>f. f\<lparr>i_PeerDefPostDown := t\<rparr>))])"

text \<open>The two panes of the dialog: the second has a tab with a server only.\<close>

definition iface_panes ::
  "ip_library \<Rightarrow> interface_dialog \<Rightarrow> (interface_dialog control list \<times> interface_dialog control list option) settled"
where
  "iface_panes lib d = map_sum id (\<lambda>cs. (cs,
       if i_Mode (id_form d) = js ''server''
       then Some (defaults_network_controls lib d @ defaults_hook_controls d) else None))
     (iface_controls lib d)"

definition iface_backend_warning :: "interface_dialog \<Rightarrow> bool" where
  "iface_backend_warning d \<longleftrightarrow> \<not> dialog_isBackendValid d"

definition iface_buttons :: "interface_dialog \<Rightarrow> dialog_button list" where
  "iface_buttons d =
     (if id_interfaceId d \<noteq> NEW_INTERFACE then [Delete_button (id_isDeleting d) (id_isDeleting d)] else [])
     @ [Save_button (id_isSaving d) (id_isSaving d), Close_button]"

definition defaults_buttons :: "interface_dialog \<Rightarrow> dialog_button list" where
  "defaults_buttons d =
     (if id_interfaceId d \<noteq> NEW_INTERFACE
      then [Defaults_button (id_isApplyingDefaults d) (id_isApplyingDefaults d)] else [])"

text \<open>Around the inputs of an opened form: loads of the interfaces, saves and refusals.\<close>

inductive around_iface_form :: "interface_dialog \<Rightarrow> interface_dialog \<Rightarrow> bool" where
  aif_load: "ends_in (on_interfaces (LoadInterfaces_settle reply) d) e \<Longrightarrow> around_iface_form d e"
| aif_save: "ends_in (interface_save_begin d) e \<Longrightarrow> around_iface_form d e"
| aif_refused: "ends_in (interface_save_settle w (Inl r) d) e \<Longrightarrow> around_iface_form d e"

text \<open>The inputs that can be reached: those of the shown panes.\<close>

definition iface_reachable :: "ip_library \<Rightarrow> interface_dialog \<Rightarrow> interface_dialog control list settled" where
  "iface_reachable lib d =
     map_sum id (\<lambda>(cs, more). cs @ (case more of None \<Rightarrow> [] | Some ds \<Rightarrow> ds)) (iface_panes lib d)"

definition iface_form_step :: "ip_library \<Rightarrow> interface_dialog \<Rightarrow> interface_dialog \<Rightarrow> bool" where
  "iface_form_step lib = form_session (iface_reachable lib) around_iface_form"

lemma on_interfaces_keeps:
  "ends_in (on_interfaces m d) e \<Longrightarrow> id_form e = id_form d \<and> id_interfaceId e = id_interfaceId d"
  by (cases "m (id_interfaces d)") (auto simp: on_interfaces_def zoom_def)

interpretation iface_form: edited_form "iface_reachable lib" around_iface_form
  "\<lambda>d. (id_interfaceId d, id_form d)" for lib
proof
  show "(id_interfaceId e, id_form e) = (id_interfaceId d, id_form d)" if "around_iface_form d e" for d e
    using that
  proof (induction rule: around_iface_form.induct)
    case (aif_load reply d e)
    then show ?case using on_interfaces_keeps by blast
  next
    case (aif_save d e)
    then show ?case by (auto simp: interface_save_begin_cases Let_def split: if_splits option.splits)
  next
    case (aif_refused w r d e)
    then show ?case by (cases w) (auto simp: interface_save_settle_def guarded_settle_cases
        interface_dialog_defs js_run)
  qed
qed

text \<open>The form of the interface \<open>i\<close> has name servers to show, and the identifier of an existing
  interface.\<close>

definition iface_kept :: "jsstr \<Rightarrow> jsstr \<times> iface \<Rightarrow> bool" where
  "iface_kept i v \<longleftrightarrow> fst v = i \<and> i_Dns (snd v) \<noteq> None \<and> (i = NEW_INTERFACE \<or> i_Identifier (snd v) = i)"

lemmas iface_controls_defs =
  iface_general_controls_def iface_mode_controls_def iface_local_controls_def iface_hook_controls_def
  defaults_network_controls_def defaults_hook_controls_def iface_edit_def if_handleChangeAddresses_def
  if_handleChangeDns_def if_handleChangeDnsSearch_def handleChangePeerDefNetwork_def
  handleChangePeerDefAllowedIPs_def handleChangePeerDefDns_def handleChangePeerDefDnsSearch_def Let_def

definition iface_all_kept :: "jsstr \<Rightarrow> interface_dialog control list \<Rightarrow> bool" where
  "iface_all_kept i = list_all (control_keeps (\<lambda>d. iface_kept i (id_interfaceId d, id_form d)))"

lemma iface_kept_parts:
  assumes "iface_kept i (id_interfaceId d, id_form d)"
  shows "iface_all_kept i (iface_general_controls d)" "iface_all_kept i (iface_local_controls d)"
    "iface_all_kept i (iface_hook_controls d)" "iface_all_kept i (defaults_network_controls lib d)"
    "iface_all_kept i (defaults_hook_controls d)"
    "iface_mode_controls lib d = Inr cs \<Longrightarrow> iface_all_kept i cs"
    "iface_all_kept i [Tags_control l (i_Addresses (id_form d)) (if_handleChangeAddresses lib)]"
  using assms
  by (auto simp: iface_all_kept_def iface_controls_defs iface_kept_def keeps_def modify_def change_tags_run
      split: if_splits option.splits)

lemma iface_reachable_kept:
  assumes "iface_kept i (id_interfaceId d, id_form d)"
  shows "\<exists>cs. iface_reachable lib d = Inr cs"
    "iface_reachable lib d = Inr cs \<Longrightarrow> iface_all_kept i cs"
proof -
  have "\<exists>shown. iface_mode_controls lib d = Inr shown"
    using assms by (auto simp: iface_mode_controls_def iface_kept_def Let_def)
  then obtain shown where shown: "iface_mode_controls lib d = Inr shown" ..
  then show "\<exists>cs. iface_reachable lib d = Inr cs"
    by (simp add: iface_reachable_def iface_panes_def iface_controls_def)
  have app: "iface_all_kept i (as @ bs)" if "iface_all_kept i as" "iface_all_kept i bs" for as bs
    using that by (simp add: iface_all_kept_def)
  have none: "iface_all_kept i []" by (simp add: iface_all_kept_def)
  note parts = iface_kept_parts(1-5) [OF assms] iface_kept_parts(6) [OF assms shown]
    iface_kept_parts(7) [OF assms]
  show "iface_all_kept i cs" if "iface_reachable lib d = Inr cs"
  proof -
    have "cs = (iface_general_controls d
        @ [Tags_control ''addresses'' (i_Addresses (id_form d)) (if_handleChangeAddresses lib)]
        @ shown @ iface_local_controls d @ iface_hook_controls d)
      @ (if i_Mode (id_form d) = js ''server''
         then defaults_network_controls lib d @ defaults_hook_controls d else [])"
      using that shown by (auto simp: iface_reachable_def iface_panes_def iface_controls_def)
    then show ?thesis by (simp only: split: if_split) (intro conjI impI app parts none)
  qed
qed

lemma open_iface_run:
  assumes "id_form d = freshInterface" "ends_in (open_interface_dialog i reply d) t"
  shows "if_Find (id_interfaces d) i = Some v \<Longrightarrow> id_interfaceId t = i \<and> id_form t = fill_existing v freshInterface"
    "if_Find (id_interfaces d) i = None \<Longrightarrow> id_interfaceId t = i \<and> id_form t = fill_prepared
       (case reply of Inl e \<Rightarrow> freshInterface | Inr v \<Rightarrow> v) freshInterface"
  using assms
  by (cases reply; auto simp: open_interface_dialog_def interface_dialog_shown_def selectedInterface_def
      on_interfaces_def PrepareInterface_begin_def PrepareInterface_settle_def setPreparedInterface_def
      notify_backend_def js_run)+

text \<open>The form of an interface can be shown at every moment of a session when the object it was
  filled from has a list of name servers, in every mode; and the identifier of an existing
  interface stays as it is.\<close>

theorem interface_form_shown:
  assumes "id_form d = freshInterface" "ends_in (open_interface_dialog i reply d) t"
    and "(iface_form_step lib)\<^sup>*\<^sup>* t e"
    and "case if_Find (id_interfaces d) i of
        Some v \<Rightarrow> i_Dns v \<noteq> None
      | None \<Rightarrow> i = NEW_INTERFACE \<and> (\<exists>v. reply = Inr v \<and> i_Dns v \<noteq> None)"
  shows "(\<exists>panes. iface_panes lib e = Inr panes) \<and> (i = NEW_INTERFACE \<or> i_Identifier (id_form e) = i)"
proof -
  have "iface_kept i (id_interfaceId t, id_form t)"
  proof (cases "if_Find (id_interfaces d) i")
    case None
    with assms(4) open_iface_run(2) [OF assms(1,2)] show ?thesis
      by (auto simp: iface_kept_def fill_prepared_def)
  next
    case (Some v)
    then have "i_Identifier v = i" by (auto simp: if_Find_def find_Some_iff)
    with Some assms(4) open_iface_run(1) [OF assms(1,2)] show ?thesis
      by (auto simp: iface_kept_def fill_existing_def)
  qed
  then have kept: "iface_kept i (id_interfaceId e, id_form e)"
    by (rule iface_form.session_invariant [OF assms(3) [unfolded iface_form_step_def]])
      (use iface_reachable_kept(2) in \<open>simp only: iface_all_kept_def\<close>)
  then have "\<exists>panes. iface_panes lib e = Inr panes"
    using iface_reachable_kept(1) [of i e lib] by (cases "iface_panes lib e") (simp_all add: iface_reachable_def)
  with kept show ?thesis by (auto simp: iface_kept_def)
qed

lemma mode_choice:
  "iface_reachable lib d = Inr cs \<Longrightarrow>
     Choice_control ''mode'' (i_Mode (id_form d)) [js ''server'', js ''client'', js ''any'']
       (\<lambda>t. iface_edit (\<lambda>f. f\<lparr>i_Mode := t\<rparr>)) \<in> set cs"
  by (auto simp: iface_reachable_def iface_panes_def iface_controls_def iface_general_controls_def Let_def)

lemma choose_mode:
  assumes "iface_reachable lib d = Inr cs" "m \<in> set [js ''server'', js ''client'', js ''any'']"
  shows "iface_form_step lib d (d\<lparr>id_form := (id_form d)\<lparr>i_Mode := m\<rparr>\<rparr>)"
proof -
  have "form_input cs d (d\<lparr>id_form := (id_form d)\<lparr>i_Mode := m\<rparr>\<rparr>)"
    by (rule choose [OF mode_choice [OF assms(1)] assms(2)]) (simp add: iface_edit_def modify_def)
  with assms(1) show ?thesis by (simp add: iface_form_step_def session_input)
qed

text \<open>C28. When the interface with which a new one begins cannot be loaded, the form is filled from the
  fresh object, which has no list of name servers. The dialog opens in the server mode, which does
  not show them; of the three modes that its selector offers, server can be chosen and the dialog is
  shown again, while choosing client, or any, ends in an exception, and the dialog cannot be shown.\<close>

theorem failed_prepare_breaks_form:
  assumes "id_form d = freshInterface" "if_Find (id_interfaces d) NEW_INTERFACE = None"
  defines "chosen \<equiv> \<lambda>m t. t\<lparr>id_form := (id_form t)\<lparr>i_Mode := js m\<rparr>\<rparr>"
  shows "\<exists>t panes again. ends_in (open_interface_dialog NEW_INTERFACE (Inl r) d) t
    \<and> i_Mode (id_form t) = js ''server'' \<and> iface_panes lib t = Inr panes
    \<and> iface_form_step lib t (chosen ''server'' t) \<and> iface_panes lib (chosen ''server'' t) = Inr again
    \<and> iface_form_step lib t (chosen ''client'' t) \<and> iface_panes lib (chosen ''client'' t) = Inl TypeError
    \<and> iface_form_step lib t (chosen ''any'' t) \<and> iface_panes lib (chosen ''any'' t) = Inl TypeError"
proof -
  have "\<exists>t es. open_interface_dialog NEW_INTERFACE (Inl r) d = Returns () t es"
    using assms(2) by (simp add: open_interface_dialog_def interface_dialog_shown_def
        selectedInterface_def on_interfaces_def PrepareInterface_begin_def
        PrepareInterface_settle_def notify_backend_def js_run)
  then obtain t where t: "ends_in (open_interface_dialog NEW_INTERFACE (Inl r) d) t" by auto
  have form: "id_form t = freshInterface"
    using open_iface_run(2) [OF assms(1) t assms(2)] by (simp add: fill_prepared_def freshInterface_def)
  have mode: "i_Mode (id_form t) = js ''server''" by (simp add: form) (simp add: freshInterface_def)
  have shown: "\<exists>panes. iface_panes lib e = Inr panes" if "i_Mode (id_form e) = js ''server''" for e
    using that by (simp add: iface_panes_def iface_controls_def iface_mode_controls_def Let_def)
  then obtain panes where panes: "iface_panes lib t = Inr panes" using mode by blast
  then obtain cs where cs: "iface_reachable lib t = Inr cs" by (auto simp: iface_reachable_def)
  have step: "iface_form_step lib t (chosen m t)" if "m \<in> set [''server'', ''client'', ''any'']" for m
    unfolding chosen_def by (rule choose_mode [OF cs]) (use that in auto)
  obtain again where "iface_panes lib (chosen ''server'' t) = Inr again"
    using shown [of "chosen ''server'' t"] by (auto simp: chosen_def)
  moreover have "iface_panes lib (chosen m t) = Inl TypeError" if "m \<noteq> ''server''" for m
    using that by (simp add: iface_panes_def iface_controls_def iface_mode_controls_def chosen_def form Let_def)
      (simp add: freshInterface_def)
  ultimately show ?thesis using t mode panes step by auto
qed

theorem failed_prepare_breaks_form_witness:
  "\<exists>t e. ends_in (open_interface_dialog NEW_INTERFACE (Inl TypeError) interface_dialog_init) t
    \<and> e = t\<lparr>id_form := (id_form t)\<lparr>i_Mode := js ''client''\<rparr>\<rparr>
    \<and> iface_form_step no_library t e \<and> iface_panes no_library e = Inl TypeError"
proof -
  have "id_form interface_dialog_init = freshInterface"
    "if_Find (id_interfaces interface_dialog_init) NEW_INTERFACE = None"
    by (simp_all add: interface_dialog_init_def interfaces_init_def if_Find_def)
  from failed_prepare_breaks_form [OF this] show ?thesis by blast
qed

theorem interface_form_shown_witness:
  "\<exists>t e. ends_in (open_interface_dialog (js ''wg0'') (Inl TypeError)
       (interface_dialog_init\<lparr>id_interfaces := interfaces_init\<lparr>interfaces :=
          [freshInterface\<lparr>i_Identifier := js ''wg0'', i_Dns := Some []\<rparr>]\<rparr>\<rparr>)) t
     \<and> (iface_form_step no_library)\<^sup>*\<^sup>* t e \<and> i_Mode (id_form e) = js ''client''
     \<and> (\<exists>panes. iface_panes no_library e = Inr panes)"
proof -
  let ?v = "freshInterface\<lparr>i_Identifier := js ''wg0'', i_Dns := Some []\<rparr>"
  let ?d = "interface_dialog_init\<lparr>id_interfaces := interfaces_init\<lparr>interfaces := [?v]\<rparr>\<rparr>"
  have fresh: "id_form ?d = freshInterface" by (simp add: interface_dialog_init_def)
  have found: "if_Find (id_interfaces ?d) (js ''wg0'') = Some ?v" by (simp add: if_Find_def)
  have dns: "case if_Find (id_interfaces ?d) (js ''wg0'') of Some v \<Rightarrow> i_Dns v \<noteq> None
      | None \<Rightarrow> js ''wg0'' = NEW_INTERFACE \<and> (\<exists>v. Inl TypeError = Inr v \<and> i_Dns v \<noteq> None)"
    unfolding found by simp
  obtain t where t: "ends_in (open_interface_dialog (js ''wg0'') (Inl TypeError) ?d) t"
    using found by (simp add: open_interface_dialog_def interface_dialog_shown_def selectedInterface_def js_run)
  have "id_interfaceId t = js ''wg0''" "id_form t = fill_existing ?v freshInterface"
    using open_iface_run(1) [OF fresh t found] by simp_all
  then have "iface_kept (js ''wg0'') (id_interfaceId t, id_form t)"
    by (simp add: iface_kept_def fill_existing_def)
  from iface_reachable_kept(1) [OF this] obtain cs where "iface_reachable no_library t = Inr cs" by blast
  then have run: "(iface_form_step no_library)\<^sup>*\<^sup>* t (t\<lparr>id_form := (id_form t)\<lparr>i_Mode := js ''client''\<rparr>\<rparr>)"
    by (intro r_into_rtranclp choose_mode) simp_all
  with interface_form_shown [OF fresh t run dns] t show ?thesis
    by (intro exI [of _ t] exI [of _ "t\<lparr>id_form := (id_form t)\<lparr>i_Mode := js ''client''\<rparr>\<rparr>"]) simp
qed

section \<open>The form of several new peers\<close>

definition multi_controls :: "multi_dialog \<Rightarrow> multi_dialog control list" where
  "multi_controls d =
     [Tags_control ''identifiers'' (mf_Identifiers (md_form d)) handleChangeUserIdentifiers,
      Text_control ''prefix'' (mf_Prefix (md_form d))
        (\<lambda>t. modify (\<lambda>d. d\<lparr>md_form := (md_form d)\<lparr>mf_Prefix := t\<rparr>\<rparr>))]"

definition multi_buttons :: "multi_dialog \<Rightarrow> dialog_button list" where
  "multi_buttons d = [Save_button (md_isSaving d) (md_isSaving d), Close_button]"

end
