(* ===== verification/Peer_Forms.thy ===== *)
theory Peer_Forms
  imports Edit_Forms User_Peer_Dialog
begin

text \<open>
  The forms of the two dialogs of a peer, \<open>components/PeerEditModal.vue\<close> for the administration
  and \<open>components/UserPeerEditModal.vue\<close> for the owner of a peer, from their templates: the inputs
  with what they show and change, and the buttons of the footers; and what no session with one of
  these forms can change of the opened peer.
\<close>

section \<open>The form of the administration\<close>

definition peer_general_controls :: "peer_dialog \<Rightarrow> peer_dialog control list" where
  "peer_general_controls d = (let f = pd_form d in
     [Text_control ''display-name'' (p_DisplayName f) (\<lambda>t. peer_dialog_edit (\<lambda>f. f\<lparr>p_DisplayName := t\<rparr>)),
      Text_control ''linked-user'' (p_UserIdentifier f) (\<lambda>t. peer_dialog_edit (\<lambda>f. f\<lparr>p_UserIdentifier := t\<rparr>))])"

definition peer_crypto_controls :: "peer_dialog \<Rightarrow> peer_dialog control list" where
  "peer_crypto_controls d = (let f = pd_form d in
     (if i_Mode (pd_selectedInterface d) = js ''server''
      then [Text_control ''private-key'' (p_PrivateKey f) (\<lambda>t. peer_dialog_edit (\<lambda>f. f\<lparr>p_PrivateKey := t\<rparr>))]
      else [])
     @ [Text_control ''public-key'' (p_PublicKey f) (\<lambda>t. peer_dialog_edit (\<lambda>f. f\<lparr>p_PublicKey := t\<rparr>)),
      Text_control ''preshared-key'' (p_PresharedKey f) (\<lambda>t. peer_dialog_edit (\<lambda>f. f\<lparr>p_PresharedKey := t\<rparr>))]
     @ (if p_Mode f = js ''client''
        then [Text_control ''endpoint-public-key'' (ov_Value (p_EndpointPublicKey f))
        (\<lambda>t. peer_dialog_edit (\<lambda>f. f\<lparr>p_EndpointPublicKey := (p_EndpointPublicKey f)\<lparr>ov_Value := t\<rparr>\<rparr>))]
        else []))"

definition peer_network_controls :: "ip_library \<Rightarrow> peer_dialog \<Rightarrow> peer_dialog control list" where
  "peer_network_controls lib d = (let f = pd_form d in
     (if i_Mode (pd_selectedInterface d) = js ''client''
      then [Text_control ''endpoint'' (ov_Value (p_Endpoint f))
        (\<lambda>t. peer_dialog_edit (\<lambda>f. f\<lparr>p_Endpoint := (p_Endpoint f)\<lparr>ov_Value := t\<rparr>\<rparr>))]
      else [])
     @ [Tags_control ''addresses'' (p_Addresses f) (pd_handleChangeAddresses lib),
      Tags_control ''allowed-ip'' (ov_Value (p_AllowedIPs f)) (pd_handleChangeAllowedIPs lib),
      Tags_control ''extra-allowed-ip'' (p_ExtraAllowedIPs f) (pd_handleChangeExtraAllowedIPs lib),
      Tags_control ''dns'' (ov_Value (p_Dns f)) (pd_handleChangeDns lib),
      Tags_control ''dns-search'' (ov_Value (p_DnsSearch f)) pd_handleChangeDnsSearch,
      Number_control ''keep-alive'' (ov_Value (p_PersistentKeepalive f))
        (\<lambda>t. peer_dialog_edit (\<lambda>f. f\<lparr>p_PersistentKeepalive := (p_PersistentKeepalive f)\<lparr>ov_Value := t\<rparr>\<rparr>)),
      Number_control ''mtu'' (ov_Value (p_Mtu f))
        (\<lambda>t. peer_dialog_edit (\<lambda>f. f\<lparr>p_Mtu := (p_Mtu f)\<lparr>ov_Value := t\<rparr>\<rparr>))])"

definition peer_hook_controls :: "peer_dialog \<Rightarrow> peer_dialog control list" where
  "peer_hook_controls d = (let f = pd_form d in
     [Text_control ''pre-up'' (ov_Value (p_PreUp f))
        (\<lambda>t. peer_dialog_edit (\<lambda>f. f\<lparr>p_PreUp := (p_PreUp f)\<lparr>ov_Value := t\<rparr>\<rparr>)),
      Text_control ''post-up'' (ov_Value (p_PostUp f))
        (\<lambda>t. peer_dialog_edit (\<lambda>f. f\<lparr>p_PostUp := (p_PostUp f)\<lparr>ov_Value := t\<rparr>\<rparr>)),
      Text_control ''pre-down'' (ov_Value (p_PreDown f))
        (\<lambda>t. peer_dialog_edit (\<lambda>f. f\<lparr>p_PreDown := (p_PreDown f)\<lparr>ov_Value := t\<rparr>\<rparr>)),
      Text_control ''post-down'' (ov_Value (p_PostDown f))
        (\<lambda>t. peer_dialog_edit (\<lambda>f. f\<lparr>p_PostDown := (p_PostDown f)\<lparr>ov_Value := t\<rparr>\<rparr>))])"

definition peer_state_controls :: "peer_dialog \<Rightarrow> peer_dialog control list" where
  "peer_state_controls d = (let f = pd_form d in
     [Switch_control ''disabled'' (p_Disabled f) (\<lambda>t. peer_dialog_edit (\<lambda>f. f\<lparr>p_Disabled := t\<rparr>)),
      Switch_control ''ignore-global'' (p_IgnoreGlobalSettings f) (\<lambda>t. peer_dialog_edit (\<lambda>f. f\<lparr>p_IgnoreGlobalSettings := t\<rparr>)),
      Text_control ''expires-at-date'' (pd_expiryDate d) (\<lambda>t. modify (\<lambda>d. d\<lparr>pd_expiryDate := t\<rparr>)),
      Text_control ''expires-at-time'' (pd_expiryTime d) (\<lambda>t. modify (\<lambda>d. d\<lparr>pd_expiryTime := t\<rparr>))])"

definition peer_controls :: "ip_library \<Rightarrow> peer_dialog \<Rightarrow> peer_dialog control list" where
  "peer_controls lib d = peer_general_controls d @ peer_crypto_controls d
     @ peer_network_controls lib d @ peer_hook_controls d @ peer_state_controls d"

definition peer_buttons :: "peer_dialog \<Rightarrow> dialog_button list" where
  "peer_buttons d =
     (if pd_peerId d \<noteq> NEW_PEER then [Delete_button (pd_isDeleting d) (pd_isDeleting d)] else [])
     @ [Save_button (pd_isSaving d) (pd_isSaving d), Close_button]"

section \<open>The form of the owner\<close>

definition own_general_controls :: "peer_dialog \<Rightarrow> peer_dialog control list" where
  "own_general_controls d = (let f = pd_form d in
     [Text_control ''display-name'' (p_DisplayName f) (\<lambda>t. user_peer_dialog_edit (\<lambda>f. f\<lparr>p_DisplayName := t\<rparr>)),
      Text_control ''private-key'' (p_PrivateKey f) (\<lambda>t. user_peer_dialog_edit (\<lambda>f. f\<lparr>p_PrivateKey := t\<rparr>)),
      Text_control ''public-key'' (p_PublicKey f) (\<lambda>t. user_peer_dialog_edit (\<lambda>f. f\<lparr>p_PublicKey := t\<rparr>)),
      Text_control ''preshared-key'' (p_PresharedKey f) (\<lambda>t. user_peer_dialog_edit (\<lambda>f. f\<lparr>p_PresharedKey := t\<rparr>)),
      Number_control ''keep-alive'' (ov_Value (p_PersistentKeepalive f))
        (\<lambda>t. user_peer_dialog_edit (\<lambda>f. f\<lparr>p_PersistentKeepalive := (p_PersistentKeepalive f)\<lparr>ov_Value := t\<rparr>\<rparr>)),
      Number_control ''mtu'' (ov_Value (p_Mtu f))
        (\<lambda>t. user_peer_dialog_edit (\<lambda>f. f\<lparr>p_Mtu := (p_Mtu f)\<lparr>ov_Value := t\<rparr>\<rparr>))])"

definition own_hook_controls :: "peer_dialog \<Rightarrow> peer_dialog control list" where
  "own_hook_controls d = (let f = pd_form d in
     [Text_control ''pre-up'' (ov_Value (p_PreUp f))
        (\<lambda>t. user_peer_dialog_edit (\<lambda>f. f\<lparr>p_PreUp := (p_PreUp f)\<lparr>ov_Value := t\<rparr>\<rparr>)),
      Text_control ''post-up'' (ov_Value (p_PostUp f))
        (\<lambda>t. user_peer_dialog_edit (\<lambda>f. f\<lparr>p_PostUp := (p_PostUp f)\<lparr>ov_Value := t\<rparr>\<rparr>)),
      Text_control ''pre-down'' (ov_Value (p_PreDown f))
        (\<lambda>t. user_peer_dialog_edit (\<lambda>f. f\<lparr>p_PreDown := (p_PreDown f)\<lparr>ov_Value := t\<rparr>\<rparr>)),
      Text_control ''post-down'' (ov_Value (p_PostDown f))
        (\<lambda>t. user_peer_dialog_edit (\<lambda>f. f\<lparr>p_PostDown := (p_PostDown f)\<lparr>ov_Value := t\<rparr>\<rparr>))])"

definition own_state_controls :: "peer_dialog \<Rightarrow> peer_dialog control list" where
  "own_state_controls d = (let f = pd_form d in
     [Switch_control ''disabled'' (p_Disabled f) (\<lambda>t. user_peer_dialog_edit (\<lambda>f. f\<lparr>p_Disabled := t\<rparr>)),
      Text_control ''expires-at-date'' (pd_expiryDate d) (\<lambda>t. modify (\<lambda>d. d\<lparr>pd_expiryDate := t\<rparr>)),
      Text_control ''expires-at-time'' (pd_expiryTime d) (\<lambda>t. modify (\<lambda>d. d\<lparr>pd_expiryTime := t\<rparr>))])"

definition own_controls :: "peer_dialog \<Rightarrow> peer_dialog control list" where
  "own_controls d = own_general_controls d @ own_hook_controls d @ own_state_controls d"

definition own_buttons :: "peer_dialog \<Rightarrow> dialog_button list" where
  "own_buttons d =
     (if pd_peerId d \<noteq> NEW_PEER then [Delete_button (pd_isDeleting d) (pd_isDeleting d)] else [])
     @ [Save_button (pd_isSaving d) (pd_isSaving d), Close_button]"

section \<open>Sessions\<close>

text \<open>
  Around the inputs of an opened form: loads of the peers, and saves whose answers are refusals.
  A save writes the expiry date into the form, which is left out of what is called edited.
\<close>

inductive around_peer_form :: "peer_dialog \<Rightarrow> peer_dialog \<Rightarrow> bool" where
  apf_load: "ends_in (peers_reloaded reply d) e \<Longrightarrow> around_peer_form d e"
| apf_save: "ends_in (peer_save_begin z d) e \<Longrightarrow> around_peer_form d e"
| apf_refused: "ends_in (peer_save_settle w (Inl r) d) e \<Longrightarrow> around_peer_form d e"

inductive around_own_form :: "peer_dialog \<Rightarrow> peer_dialog \<Rightarrow> bool" where
  aof_load: "ends_in (peers_reloaded reply d) e \<Longrightarrow> around_own_form d e"
| aof_save: "ends_in (user_peer_save_begin z d) e \<Longrightarrow> around_own_form d e"
| aof_refused: "ends_in (user_peer_save_settle w (Inl r) d) e \<Longrightarrow> around_own_form d e"

definition peer_form_step :: "ip_library \<Rightarrow> peer_dialog \<Rightarrow> peer_dialog \<Rightarrow> bool" where
  "peer_form_step lib = form_session (\<lambda>d. Inr (peer_controls lib d)) around_peer_form"

definition own_form_step :: "peer_dialog \<Rightarrow> peer_dialog \<Rightarrow> bool" where
  "own_form_step = form_session (\<lambda>d. Inr (own_controls d)) around_own_form"

definition peer_edited :: "peer_dialog \<Rightarrow> jsstr \<times> jsstr \<times> peer" where
  "peer_edited d = (pd_peerId d, i_Mode (pd_selectedInterface d), (pd_form d)\<lparr>p_ExpiresAt := None\<rparr>)"

lemma peer_edited_cong:
  "pd_peerId e = pd_peerId d \<Longrightarrow> pd_interfaces e = pd_interfaces d
     \<Longrightarrow> (pd_form e)\<lparr>p_ExpiresAt := None\<rparr> = (pd_form d)\<lparr>p_ExpiresAt := None\<rparr> \<Longrightarrow> peer_edited e = peer_edited d"
  by (simp add: peer_edited_def pd_selectedInterface_def)

lemma on_peers_edited: "ends_in (pd_on_peers m d) e \<Longrightarrow> peer_edited e = peer_edited d"
  by (cases "m (pd_peers d)") (auto simp: pd_on_peers_cases intro: peer_edited_cong)

lemma reloaded_edited: "ends_in (peers_reloaded reply d) e \<Longrightarrow> peer_edited e = peer_edited d"
proof -
  assume "ends_in (peers_reloaded reply d) e"
  then have "ends_in (pd_on_peers (LoadPeers_settle reply) (drop_listed d)) e"
    by (simp add: peers_reloaded_def andThen_def bind_def modify_def)
  then have "peer_edited e = peer_edited (drop_listed d)" by (rule on_peers_edited)
  also have "\<dots> = peer_edited d"
    by (rule peer_edited_cong) (simp_all add: drop_listed_def split: option.split place.split)
  finally show ?thesis .
qed

lemma save_edited: "ends_in (peer_save_begin z d) e \<Longrightarrow> peer_edited e = peer_edited d"
  by (rule peer_edited_cong)
    (auto simp: peer_save_begin_cases with_expiry_def Let_def split: if_splits option.splits)

lemma user_peer_save_begin_cases:
  "user_peer_save_begin z d =
     (if pd_isSaving d then Returns None d []
      else (let ready = d\<lparr>pd_form := with_expiry z d\<rparr>;
                sent = ready\<lparr>pd_isSaving := True, pd_peers := (pd_peers d)\<lparr>fetching := True\<rparr>\<rparr>
       in if pd_peerId d = NEW_PEER
          then (case user_selectedInterface d of
              None \<Rightarrow> Returns None ready (save_failed TypeError)
            | Some v \<Rightarrow> if latin1 (i_Identifier v)
                then Returns (Some (PeerCreate (Request POST (js ''/peer/iface/''
                    @ projr (base64_url_encode (i_Identifier v)) @ js ''/new'') (Some (with_expiry z d))))) sent []
                else Returns None (sent\<lparr>pd_isSaving := False\<rparr>) (save_failed InvalidCharacterError))
          else (case selectedPeer d of
              None \<Rightarrow> Returns None ready (save_failed TypeError)
            | Some (p, _) \<Rightarrow> if latin1 (p_Identifier p)
                then Returns (Some (PeerUpdate (p_Identifier p) (Request PUT (js ''/peer/''
                    @ projr (base64_url_encode (p_Identifier p))) (Some (with_expiry z d))))) sent []
                else Returns None (sent\<lparr>pd_isSaving := False\<rparr>) (save_failed InvalidCharacterError))))"
  by (simp add: user_peer_save_begin_def guarded_begin_cases pd_on_peers_def UpdatePeer_begin_def
      CreatePeer_begin_def set_fetching_def encoded_request_cases with_expiry_def save_failed_def
      user_selectedPeer_same user_selectedInterface_def js_run Let_def split: option.split)

lemma own_save_edited: "ends_in (user_peer_save_begin z d) e \<Longrightarrow> peer_edited e = peer_edited d"
  by (rule peer_edited_cong)
    (auto simp: user_peer_save_begin_cases with_expiry_def Let_def split: if_splits option.splits)

interpretation peer_form: edited_form "\<lambda>d. Inr (peer_controls lib d)" around_peer_form peer_edited for lib
proof
  show "peer_edited e = peer_edited d" if "around_peer_form d e" for d e
    using that
  proof (induction rule: around_peer_form.induct)
    case (apf_refused w r d e)
    then show ?case by (intro peer_edited_cong) (simp_all add: peer_save_settle_cases)
  qed (auto dest: reloaded_edited save_edited)
qed

interpretation own_form: edited_form "\<lambda>d. Inr (own_controls d)" around_own_form peer_edited
proof
  show "peer_edited e = peer_edited d" if "around_own_form d e" for d e
    using that
  proof (induction rule: around_own_form.induct)
    case (aof_refused w r d e)
    then show ?case by (intro peer_edited_cong) (simp_all add: user_peer_save_outcome)
  qed (auto dest: reloaded_edited own_save_edited)
qed

text \<open>What a save of an existing peer sends.\<close>

lemma selected_identifier: "selectedPeer d = Some (p, pl) \<Longrightarrow> p_Identifier p = pd_peerId d"
  by (auto simp: selectedPeer_def peers_Find_def FindPeers_def find_Some_iff freshPeer_def
      split: option.splits if_splits)

lemma save_sends:
  assumes "pd_peerId d \<noteq> NEW_PEER"
  shows "peer_save_begin z d = Returns (Some w) v es \<Longrightarrow>
      \<exists>q. w = PeerUpdate (pd_peerId d) q \<and> req_body q = Some (with_expiry z d)"
    "user_peer_save_begin z d = Returns (Some w) v es \<Longrightarrow>
      \<exists>q. w = PeerUpdate (pd_peerId d) q \<and> req_body q = Some (with_expiry z d)"
  using assms selected_identifier [of d]
  by (auto simp: peer_save_begin_cases user_peer_save_begin_cases Let_def split: if_splits option.splits)

section \<open>What the owner cannot change\<close>

definition own_kept :: "peer \<Rightarrow> peer \<Rightarrow> bool" where
  "own_kept p f \<longleftrightarrow> p_Identifier f = p_Identifier p
     \<and> p_UserIdentifier f = p_UserIdentifier p
     \<and> p_InterfaceIdentifier f = p_InterfaceIdentifier p
     \<and> p_Mode f = p_Mode p
     \<and> p_Notes f = p_Notes p
     \<and> p_Addresses f = p_Addresses p
     \<and> p_CheckAliveAddress f = p_CheckAliveAddress p
     \<and> p_ExtraAllowedIPs f = p_ExtraAllowedIPs p
     \<and> p_AllowedIPs f = p_AllowedIPs p
     \<and> p_Endpoint f = p_Endpoint p
     \<and> p_EndpointPublicKey f = p_EndpointPublicKey p
     \<and> p_Dns f = p_Dns p
     \<and> p_DnsSearch f = p_DnsSearch p
     \<and> p_FirewallMark f = p_FirewallMark p
     \<and> p_RoutingTable f = p_RoutingTable p
     \<and> ov_Overridable (p_PersistentKeepalive f) = ov_Overridable (p_PersistentKeepalive p)
     \<and> ov_Overridable (p_Mtu f) = ov_Overridable (p_Mtu p)
     \<and> ov_Overridable (p_PreUp f) = ov_Overridable (p_PreUp p)
     \<and> ov_Overridable (p_PostUp f) = ov_Overridable (p_PostUp p)
     \<and> ov_Overridable (p_PreDown f) = ov_Overridable (p_PreDown p)
     \<and> ov_Overridable (p_PostDown f) = ov_Overridable (p_PostDown p)"

lemma own_kept_edits [simp]:
  "own_kept p (f\<lparr>p_ExpiresAt := x0\<rparr>) = own_kept p f"
  "own_kept p (f\<lparr>p_DisplayName := x1\<rparr>) = own_kept p f"
  "own_kept p (f\<lparr>p_PrivateKey := x2\<rparr>) = own_kept p f"
  "own_kept p (f\<lparr>p_PublicKey := x3\<rparr>) = own_kept p f"
  "own_kept p (f\<lparr>p_PresharedKey := x4\<rparr>) = own_kept p f"
  "own_kept p (f\<lparr>p_Disabled := x5\<rparr>) = own_kept p f"
  "own_kept p (f\<lparr>p_PersistentKeepalive := (p_PersistentKeepalive f)\<lparr>ov_Value := x6\<rparr>\<rparr>) = own_kept p f"
  "own_kept p (f\<lparr>p_Mtu := (p_Mtu f)\<lparr>ov_Value := x7\<rparr>\<rparr>) = own_kept p f"
  "own_kept p (f\<lparr>p_PreUp := (p_PreUp f)\<lparr>ov_Value := x8\<rparr>\<rparr>) = own_kept p f"
  "own_kept p (f\<lparr>p_PostUp := (p_PostUp f)\<lparr>ov_Value := x9\<rparr>\<rparr>) = own_kept p f"
  "own_kept p (f\<lparr>p_PreDown := (p_PreDown f)\<lparr>ov_Value := x10\<rparr>\<rparr>) = own_kept p f"
  "own_kept p (f\<lparr>p_PostDown := (p_PostDown f)\<lparr>ov_Value := x11\<rparr>\<rparr>) = own_kept p f"
  by (simp_all add: own_kept_def)

lemma own_edit_keeps:
  assumes "\<And>f. own_kept p f \<Longrightarrow> own_kept p (g f)"
  shows "keeps (\<lambda>d. pd_peerId d = i \<and> own_kept p (pd_form d)) (user_peer_dialog_edit g)"
  using assms by (simp add: keeps_def user_peer_dialog_edit_def user_watched_def modify_def pd_edit_def
      user_watch_Disabled_same)

lemma own_controls_keep:
  "list_all (control_keeps (\<lambda>d. pd_peerId d = i \<and> own_kept p (pd_form d))) (own_controls d)"
  by (simp add: own_controls_def own_general_controls_def own_hook_controls_def own_state_controls_def
      own_edit_keeps keeps_modify Let_def)

lemma own_session:
  assumes "own_form_step\<^sup>*\<^sup>* d e" "pd_peerId d = i" "own_kept p (pd_form d)"
  shows "pd_peerId e = i \<and> own_kept p (pd_form e)"
proof -
  have "(\<lambda>(j, m, f). j = i \<and> own_kept p f) (peer_edited e)"
    by (rule own_form.session_invariant [OF assms(1) [unfolded own_form_step_def]])
      (use assms(2,3) own_controls_keep [of i p] in \<open>auto simp: peer_edited_def\<close>)
  then show ?thesis by (simp add: peer_edited_def)
qed

lemma fill_own_kept: "own_kept p (pd_form (fill_from_selected z p pl d))"
  by (simp add: own_kept_def fill_from_selected_def fill_peer_def Let_def)

text \<open>C5. Whatever owners do in their dialog for one of their peers, a save that follows is an update
  of that peer and sends it with the same user, interface, mode, addresses, allowed addresses,
  endpoint, name servers, firewall mark, routing table and notes, and with the same flags: only the
  name, the keys, the keep-alive interval, the MTU, the hooks, the switch and the expiry date are
  theirs to edit.\<close>

theorem owner_confined:
  assumes "user_selectedPeer (d\<lparr>pd_peerId := i, pd_visible := True\<rparr>) = Some (p, pl)"
    and "pd_form d = freshPeer" "i \<noteq> NEW_PEER"
    and "ends_in (open_user_peer_dialog z i d) t" "own_form_step\<^sup>*\<^sup>* t e"
    and "user_peer_save_begin z e = Returns (Some w) v es"
  shows "\<exists>q f. w = PeerUpdate i q \<and> req_body q = Some f \<and> own_kept p f"
proof -
  have "t = fill_from_selected z p pl (d\<lparr>pd_peerId := i, pd_visible := True\<rparr>)"
    using assms(1,2,4) by (simp add: user_selectedPeer_same user_open_run)
  then have "pd_peerId t = i" "own_kept p (pd_form t)"
    by (simp_all add: fill_own_kept) (simp add: fill_from_selected_def Let_def)
  from own_session [OF assms(5) this] have e: "pd_peerId e = i" "own_kept p (pd_form e)" by auto
  then have "own_kept p (with_expiry z e)" by (simp add: with_expiry_def)
  with e save_sends(2) [OF _ assms(6)] assms(3) show ?thesis by auto
qed

theorem owner_confined_witness:
  "\<exists>t e q v es f. ends_in (open_user_peer_dialog new_york (js ''a'')
        (peer_dialog_init (sample_store fixed_peer) interfaces_init profile_init)) t
    \<and> own_form_step\<^sup>*\<^sup>* t e \<and> user_peer_save_begin new_york e = Returns (Some (PeerUpdate (js ''a'') q)) v es
    \<and> req_body q = Some f \<and> p_DisplayName f = js ''mine'' \<and> own_kept fixed_peer f"
proof -
  let ?d = "peer_dialog_init (sample_store fixed_peer) interfaces_init profile_init"
  have fresh: "pd_form ?d = freshPeer" by (simp add: peer_dialog_init_def)
  have new: "js ''a'' \<noteq> NEW_PEER" by (simp add: NEW_PEER_def)
  have sel: "user_selectedPeer (?d\<lparr>pd_peerId := js ''a'', pd_visible := True\<rparr>)
      = Some (fixed_peer, Some (Listed (js ''a'')))"
    using sample_open by (simp add: user_selectedPeer_def)
  let ?t = "fill_from_selected new_york fixed_peer (Some (Listed (js ''a''))) (?d\<lparr>pd_peerId := js ''a'', pd_visible := True\<rparr>)"
  have t: "open_user_peer_dialog new_york (js ''a'') ?d = Returns None ?t []"
    by (rule user_open_run [OF _ fresh]) (use sel in \<open>simp add: user_selectedPeer_same\<close>)
  let ?g = "\<lambda>f. f\<lparr>p_DisplayName := js ''mine''\<rparr>"
  let ?e = "pd_edit ?g ?t"
  have at: "pd_shares ?t = Some (Listed (js ''a''))" "pd_peerId ?t = js ''a''" "\<not> pd_isSaving ?t"
    "pd_peers ?t = pd_peers ?d" "\<not> p_Disabled (pd_form ?t)"
    by (simp_all add: fill_from_selected_def peer_dialog_init_def Let_def)
  have e: "pd_peerId ?e = js ''a''" "\<not> pd_isSaving ?e" "pd_form ?e = ?g (pd_form ?t)"
    using at by (simp_all add: pd_edit_def)
  have "holder ?e (Listed (js ''a'')) = Some (share_settings (pd_form ?e) fixed_peer)"
    using at sample_open by (simp add: pd_edit_def holder_write_through) (simp add: holder_def)
  then have found: "selectedPeer ?e = Some (share_settings (pd_form ?e) fixed_peer, Some (Listed (js ''a'')))"
    by (simp add: holder_def selectedPeer_def e)
  have "user_peer_dialog_edit ?g ?t = Returns () ?e []" using at(5)
    by (simp add: user_peer_dialog_edit_def user_watched_def modify_def user_watch_Disabled_same)
  then have "form_input (own_controls ?t) ?t ?e"
    by (intro type_text [where l = "''display-name''" and v = "p_DisplayName (pd_form ?t)" and t = "js ''mine''"
          and c = "\<lambda>t. user_peer_dialog_edit (\<lambda>f. f\<lparr>p_DisplayName := t\<rparr>)"])
      (simp_all add: own_controls_def own_general_controls_def Let_def)
  then have run: "own_form_step\<^sup>*\<^sup>* ?t ?e"
    by (intro r_into_rtranclp) (simp add: own_form_step_def session_input)
  obtain w v es where w: "user_peer_save_begin new_york ?e = Returns (Some w) v es"
    using found e new by (simp add: user_peer_save_begin_cases Let_def)
  obtain q f where q: "w = PeerUpdate (js ''a'') q" "req_body q = Some f" "own_kept fixed_peer f"
    using owner_confined [OF sel fresh new _ run w] t by auto
  have "f = with_expiry new_york ?e" using save_sends(2) [OF _ w] e(1) new q by auto
  then have "p_DisplayName f = js ''mine''" by (simp add: with_expiry_def e)
  with t run w q show ?thesis by (intro exI [of _ ?t] exI [of _ ?e]) auto
qed

section \<open>What the administration cannot change\<close>

text \<open>The flags of the settings, and the form whose flags all follow its switch.\<close>

definition settings_flags :: "peer \<Rightarrow> bool list" where
  "settings_flags f =
     [ov_Overridable (p_Endpoint f),
      ov_Overridable (p_EndpointPublicKey f),
      ov_Overridable (p_AllowedIPs f),
      ov_Overridable (p_PersistentKeepalive f),
      ov_Overridable (p_Dns f),
      ov_Overridable (p_DnsSearch f),
      ov_Overridable (p_Mtu f),
      ov_Overridable (p_FirewallMark f),
      ov_Overridable (p_RoutingTable f),
      ov_Overridable (p_PreUp f),
      ov_Overridable (p_PostUp f),
      ov_Overridable (p_PreDown f),
      ov_Overridable (p_PostDown f)]"

definition settings_uniform :: "peer \<Rightarrow> bool" where
  "settings_uniform f \<longleftrightarrow> list_all (\<lambda>b. b = (\<not> p_IgnoreGlobalSettings f)) (settings_flags f)"

text \<open>For an interface of the mode \<open>m\<close> and a peer \<open>p\<close>, what is the same in the form \<open>f\<close>.\<close>

definition peer_kept :: "jsstr \<Rightarrow> peer \<Rightarrow> peer \<Rightarrow> bool" where
  "peer_kept m p f \<longleftrightarrow> p_Identifier f = p_Identifier p
     \<and> p_InterfaceIdentifier f = p_InterfaceIdentifier p
     \<and> p_Mode f = p_Mode p
     \<and> p_Notes f = p_Notes p
     \<and> p_CheckAliveAddress f = p_CheckAliveAddress p
     \<and> ov_Value (p_FirewallMark f) = ov_Value (p_FirewallMark p)
     \<and> ov_Value (p_RoutingTable f) = ov_Value (p_RoutingTable p)
     \<and> (m = js ''server'' \<or> p_PrivateKey f = p_PrivateKey p)
     \<and> (m = js ''client'' \<or> ov_Value (p_Endpoint f) = ov_Value (p_Endpoint p))
     \<and> (p_Mode p = js ''client'' \<or> ov_Value (p_EndpointPublicKey f) = ov_Value (p_EndpointPublicKey p))
     \<and> settings_uniform f"

lemma peer_kept_edits [simp]:
  "peer_kept m p (f\<lparr>p_ExpiresAt := x0\<rparr>) = peer_kept m p f"
  "peer_kept m p (f\<lparr>p_DisplayName := x1\<rparr>) = peer_kept m p f"
  "peer_kept m p (f\<lparr>p_UserIdentifier := x2\<rparr>) = peer_kept m p f"
  "peer_kept m p (f\<lparr>p_PublicKey := x3\<rparr>) = peer_kept m p f"
  "peer_kept m p (f\<lparr>p_PresharedKey := x4\<rparr>) = peer_kept m p f"
  "peer_kept m p (f\<lparr>p_Disabled := x5\<rparr>) = peer_kept m p f"
  "peer_kept m p (f\<lparr>p_Addresses := x6\<rparr>) = peer_kept m p f"
  "peer_kept m p (f\<lparr>p_ExtraAllowedIPs := x7\<rparr>) = peer_kept m p f"
  "peer_kept m p (f\<lparr>p_AllowedIPs := (p_AllowedIPs f)\<lparr>ov_Value := x8\<rparr>\<rparr>) = peer_kept m p f"
  "peer_kept m p (f\<lparr>p_Dns := (p_Dns f)\<lparr>ov_Value := x9\<rparr>\<rparr>) = peer_kept m p f"
  "peer_kept m p (f\<lparr>p_DnsSearch := (p_DnsSearch f)\<lparr>ov_Value := x10\<rparr>\<rparr>) = peer_kept m p f"
  "peer_kept m p (f\<lparr>p_PersistentKeepalive := (p_PersistentKeepalive f)\<lparr>ov_Value := x11\<rparr>\<rparr>) = peer_kept m p f"
  "peer_kept m p (f\<lparr>p_Mtu := (p_Mtu f)\<lparr>ov_Value := x12\<rparr>\<rparr>) = peer_kept m p f"
  "peer_kept m p (f\<lparr>p_PreUp := (p_PreUp f)\<lparr>ov_Value := x13\<rparr>\<rparr>) = peer_kept m p f"
  "peer_kept m p (f\<lparr>p_PostUp := (p_PostUp f)\<lparr>ov_Value := x14\<rparr>\<rparr>) = peer_kept m p f"
  "peer_kept m p (f\<lparr>p_PreDown := (p_PreDown f)\<lparr>ov_Value := x15\<rparr>\<rparr>) = peer_kept m p f"
  "peer_kept m p (f\<lparr>p_PostDown := (p_PostDown f)\<lparr>ov_Value := x16\<rparr>\<rparr>) = peer_kept m p f"
  by (simp_all add: peer_kept_def settings_uniform_def settings_flags_def)

lemma peer_kept_switch:
  "peer_kept m p f \<Longrightarrow> p_IgnoreGlobalSettings f \<noteq> b \<Longrightarrow>
     peer_kept m p (set_overridable (\<not> b) (f\<lparr>p_IgnoreGlobalSettings := b\<rparr>))"
  by (simp add: peer_kept_def settings_uniform_def settings_flags_def set_overridable_def)

lemma peer_kept_conditional:
  "peer_kept m p f \<Longrightarrow> m = js ''server'' \<Longrightarrow> peer_kept m p (f\<lparr>p_PrivateKey := k\<rparr>)"
  "peer_kept m p f \<Longrightarrow> m = js ''client'' \<Longrightarrow> peer_kept m p (f\<lparr>p_Endpoint := (p_Endpoint f)\<lparr>ov_Value := e\<rparr>\<rparr>)"
  "peer_kept m p f \<Longrightarrow> p_Mode p = js ''client'' \<Longrightarrow>
     peer_kept m p (f\<lparr>p_EndpointPublicKey := (p_EndpointPublicKey f)\<lparr>ov_Value := k\<rparr>\<rparr>)"
  by (simp_all add: peer_kept_def settings_uniform_def settings_flags_def)

definition peer_ok :: "jsstr \<Rightarrow> jsstr \<Rightarrow> peer \<Rightarrow> peer_dialog \<Rightarrow> bool" where
  "peer_ok i m p d \<longleftrightarrow> pd_peerId d = i \<and> i_Mode (pd_selectedInterface d) = m \<and> peer_kept m p (pd_form d)"

lemma peer_dialog_edit_run:
  "peer_dialog_edit g d = Returns () (watch_Disabled (p_Disabled (pd_form d))
     (if p_IgnoreGlobalSettings (g (pd_form d)) = p_IgnoreGlobalSettings (pd_form d) then pd_edit g d
      else pd_edit (set_overridable (p_IgnoreGlobalSettings (pd_form d))) (pd_edit g d))) []"
  by (simp add: peer_dialog_edit_def watched_def modify_def watch_edit pd_edit_def)

lemma watch_Disabled_interfaces [simp]: "pd_interfaces (watch_Disabled b d) = pd_interfaces d"
  by (simp add: watch_Disabled_def Let_def)

lemma pd_edit_frame [simp]:
  "pd_interfaces (pd_edit g d) = pd_interfaces d" "pd_peerId (pd_edit g d) = pd_peerId d"
  "pd_form (pd_edit g d) = g (pd_form d)"
  by (simp_all add: pd_edit_def)

lemma peer_ok_edit:
  assumes "\<And>f. peer_kept m p f \<Longrightarrow> peer_kept m p
     (if p_IgnoreGlobalSettings (g f) = p_IgnoreGlobalSettings f then g f
      else set_overridable (p_IgnoreGlobalSettings f) (g f))"
  shows "keeps (peer_ok i m p) (peer_dialog_edit g)"
proof -
  have "run_all (peer_ok i m p) (peer_dialog_edit g d)" if "peer_ok i m p d" for d
    using that assms [of "pd_form d"]
    by (simp add: peer_dialog_edit_run peer_ok_def pd_selectedInterface_def split: if_splits)
  then show ?thesis by (simp add: keeps_def)
qed

lemma peer_ok_switch: "keeps (peer_ok i m p) (peer_dialog_edit (\<lambda>f. f\<lparr>p_IgnoreGlobalSettings := b\<rparr>))"
proof (rule peer_ok_edit)
  fix f
  assume kept: "peer_kept m p f"
  show "peer_kept m p
     (if p_IgnoreGlobalSettings (f\<lparr>p_IgnoreGlobalSettings := b\<rparr>) = p_IgnoreGlobalSettings f
      then f\<lparr>p_IgnoreGlobalSettings := b\<rparr>
      else set_overridable (p_IgnoreGlobalSettings f) (f\<lparr>p_IgnoreGlobalSettings := b\<rparr>))"
  proof (cases "p_IgnoreGlobalSettings f = b")
    case True
    then have "f\<lparr>p_IgnoreGlobalSettings := b\<rparr> = f" by auto
    with True kept show ?thesis by (simp only: refl if_True)
  next
    case False
    then have "p_IgnoreGlobalSettings f = (\<not> b)" by simp
    with False kept show ?thesis by (simp add: peer_kept_switch)
  qed
qed

lemma peer_controls_keep:
  assumes "peer_ok i m p d"
  shows "list_all (control_keeps (peer_ok i m p)) (peer_general_controls d)"
    "list_all (control_keeps (peer_ok i m p)) (peer_crypto_controls d)"
    "list_all (control_keeps (peer_ok i m p)) (peer_network_controls lib d)"
    "list_all (control_keeps (peer_ok i m p)) (peer_hook_controls d)"
    "list_all (control_keeps (peer_ok i m p)) (peer_state_controls d)"
proof -
  have mode: "i_Mode (pd_selectedInterface d) = m" "p_Mode (pd_form d) = p_Mode p"
    using assms by (simp_all add: peer_ok_def peer_kept_def)
  have tags: "keeps (peer_ok i m p) (change_tags ok title (\<lambda>us. pd_edit (h us)) us)"
    if "\<And>us f. peer_kept m p (h us f) = peer_kept m p f" for ok title h us
    by (rule change_tags_keeps) (simp add: peer_ok_def pd_selectedInterface_def that)
  have plain: "keeps (peer_ok i m p) (change_tags ok title (\<lambda>us d. d\<lparr>pd_form := h us (pd_form d)\<rparr>) us)"
    if "\<And>us f. peer_kept m p (h us f) = peer_kept m p f" for ok title h us
    by (rule change_tags_keeps) (simp add: peer_ok_def pd_selectedInterface_def that)
  show "list_all (control_keeps (peer_ok i m p)) (peer_general_controls d)"
    "list_all (control_keeps (peer_ok i m p)) (peer_hook_controls d)"
    by (simp_all add: peer_general_controls_def peer_hook_controls_def peer_ok_edit Let_def)
  show "list_all (control_keeps (peer_ok i m p)) (peer_crypto_controls d)"
    by (simp add: peer_crypto_controls_def peer_ok_edit peer_kept_conditional mode Let_def)
  show "list_all (control_keeps (peer_ok i m p)) (peer_network_controls lib d)"
    by (simp add: peer_network_controls_def peer_ok_edit peer_kept_conditional mode Let_def
        pd_handleChangeAddresses_def pd_handleChangeAllowedIPs_def pd_handleChangeExtraAllowedIPs_def
        pd_handleChangeDns_def pd_handleChangeDnsSearch_def tags
        plain [of "\<lambda>us f. f\<lparr>p_Addresses := us\<rparr>"] plain [of "\<lambda>us f. f\<lparr>p_ExtraAllowedIPs := us\<rparr>"])
      (simp add: keeps_def modify_def peer_ok_def pd_selectedInterface_def)
  show "list_all (control_keeps (peer_ok i m p)) (peer_state_controls d)"
    by (simp add: peer_state_controls_def peer_ok_edit peer_ok_switch Let_def)
      (simp add: keeps_def modify_def peer_ok_def pd_selectedInterface_def)
qed

lemma peer_session:
  assumes "(peer_form_step lib)\<^sup>*\<^sup>* d e" "peer_ok i m p d"
  shows "peer_ok i m p e"
proof -
  let ?Q = "\<lambda>(j, n, f). j = i \<and> n = m \<and> peer_kept m p f"
  have view: "?Q (peer_edited d) = peer_ok i m p d" for d
    by (simp add: peer_ok_def peer_edited_def)
  have all: "list_all (control_keeps (peer_ok i m p)) (peer_controls lib d)" if "peer_ok i m p d" for d
    using peer_controls_keep [OF that] by (simp add: peer_controls_def)
  have "?Q (peer_edited e)"
  proof (rule peer_form.session_invariant [OF assms(1) [unfolded peer_form_step_def]])
    show "?Q (peer_edited d)" unfolding view by (rule assms(2))
    show "list_all (control_keeps (\<lambda>d. ?Q (peer_edited d))) cs"
      if "?Q (peer_edited d)" "Inr (peer_controls lib d) = Inr cs" for d cs
      using that(2) all [OF that(1) [unfolded view]] unfolding view by auto
  qed
  then show ?thesis unfolding view .
qed

lemma opened_form_kept: "peer_kept m p (opened_form p)"
proof (cases "any_fixed p")
  case True
  then show ?thesis
    by (simp add: opened_form_def peer_kept_def settings_uniform_def settings_flags_def
        set_overridable_def fill_peer_def Let_def)
next
  case False
  moreover have "\<not> p_IgnoreGlobalSettings freshPeer" by (simp add: freshPeer_def)
  ultimately show ?thesis
    by (simp add: opened_form_def peer_kept_def settings_uniform_def settings_flags_def
        any_fixed_def fill_peer_def Let_def)
qed

text \<open>C19. Whatever is done in the dialog of the administration for a peer of the table, a save that
  follows is an update of that peer and sends it with the same interface, mode and notes, the
  same firewall mark and routing table, with its own private key unless the interface is a
  server, its endpoint unless the interface is a client and the endpoint's key unless the peer is
  one. The thirteen flags all have the value that the switch for the global settings has.\<close>

theorem administration_confined:
  assumes "peers_Find (pd_peers d) i = Some p" "pd_form d = freshPeer" "i \<noteq> NEW_PEER"
    and "ends_in (open_peer_dialog z i d) t" "(peer_form_step lib)\<^sup>*\<^sup>* t e"
    and "peer_save_begin z e = Returns (Some w) v es"
  shows "\<exists>q f. w = PeerUpdate i q \<and> req_body q = Some f
    \<and> peer_kept (i_Mode (pd_selectedInterface d)) p f"
proof -
  let ?m = "i_Mode (pd_selectedInterface d)"
  have sel: "selectedPeer (d\<lparr>pd_peerId := i, pd_visible := True\<rparr>) = Some (p, Some (Listed i))"
    using assms(1) by (simp add: selectedPeer_def)
  obtain t' where t': "open_peer_dialog z i d = Returns None t' []" "pd_form t' = opened_form p" "pd_peerId t' = i"
    using open_run [OF assms(1,2), of z] by auto
  have "pd_interfaces t' = pd_interfaces d" using t'(1) sel
    by (auto simp: open_peer_dialog_def peer_dialog_shown_begin_def andThen_def bind_def modify_def
        gets_def return_def watched_def watch_edit fill_from_selected_def Let_def split: if_splits)
  then have "peer_ok i ?m p t" using assms(4) t'
    by (simp add: peer_ok_def pd_selectedInterface_def opened_form_kept)
  from peer_session [OF assms(5) this] have e: "pd_peerId e = i" "peer_kept ?m p (with_expiry z e)"
    by (simp_all add: peer_ok_def with_expiry_def)
  with save_sends(1) [OF _ assms(6)] assms(3) show ?thesis by auto
qed

theorem administration_confined_witness:
  "\<exists>t e q v es f. ends_in (open_peer_dialog new_york (js ''a'')
        (peer_dialog_init (sample_store fixed_peer) interfaces_init profile_init)) t
    \<and> (peer_form_step no_library)\<^sup>*\<^sup>* t e \<and> peer_save_begin new_york e = Returns (Some (PeerUpdate (js ''a'') q)) v es
    \<and> req_body q = Some f \<and> \<not> p_IgnoreGlobalSettings f \<and> settings_uniform f"
proof -
  let ?d = "peer_dialog_init (sample_store fixed_peer) interfaces_init profile_init"
  have fresh: "pd_form ?d = freshPeer" by (simp add: peer_dialog_init_def)
  have new: "js ''a'' \<noteq> NEW_PEER" by (simp add: NEW_PEER_def)
  obtain t where t: "open_peer_dialog new_york (js ''a'') ?d = Returns None t []"
    "pd_form t = opened_form fixed_peer" "pd_shares t = Some (Listed (js ''a''))" "pd_peerId t = js ''a''"
    "pd_isSaving t = pd_isSaving ?d" "pd_peers t = (pd_peers ?d)\<lparr>peers := update_first (\<lambda>q. p_Identifier q = js ''a'')
        (share_settings (opened_form fixed_peer)) (peers (pd_peers ?d))\<rparr>"
    using open_run [OF sample_open fresh, of new_york] by blast
  have "p_IgnoreGlobalSettings (opened_form fixed_peer)" "\<not> p_Disabled (opened_form fixed_peer)"
    by (simp_all add: opened_form_def)
  note on = this
  have held: "holder t (Listed (js ''a'')) \<noteq> None"
    using sample_open by (simp add: holder_def t(6) peers_Find_def find_update_first)
  let ?g = "\<lambda>f. f\<lparr>p_IgnoreGlobalSettings := False\<rparr>"
  let ?e = "pd_edit (set_overridable True) (pd_edit ?g t)"
  have step: "peer_dialog_edit ?g t = Returns () ?e []"
    by (simp add: peer_dialog_edit_run t(2) on)
  have e: "pd_shares (pd_edit ?g t) = Some (Listed (js ''a''))" "\<not> pd_isSaving ?e" "pd_peerId ?e = js ''a''"
    "pd_form ?e = set_overridable True (?g (opened_form fixed_peer))"
    using t(2-5) by (simp_all add: pd_edit_def) (simp add: peer_dialog_init_def)
  have keep_held: "holder (pd_edit h d) (Listed k) \<noteq> None"
    if "holder d (Listed k) \<noteq> None" "pd_shares d = Some (Listed k)" for h d k
  proof -
    have "holder (pd_edit h d) (Listed k) = map_option (share_settings (h (pd_form d))) (holder d (Listed k))"
      unfolding pd_edit_def by (subst holder_write_through) (simp_all add: that(2) holder_def)
    with that(1) show ?thesis by simp
  qed
  have "holder ?e (Listed (js ''a'')) \<noteq> None" by (intro keep_held held t(3) e(1))
  then obtain p where "peers_Find (pd_peers ?e) (js ''a'') = Some p" by (auto simp: holder_def)
  then have sel: "selectedPeer ?e = Some (p, Some (Listed (js ''a'')))"
    using e(3) by (simp add: selectedPeer_def)
  note found = this selected_identifier [OF this]
  have "form_input (peer_controls no_library t) t ?e"
    using step on(1) t(2)
    by (intro flip_switch [where l = "''ignore-global''" and b = True
          and c = "\<lambda>t. peer_dialog_edit (\<lambda>f. f\<lparr>p_IgnoreGlobalSettings := t\<rparr>)"])
      (simp_all add: peer_controls_def peer_state_controls_def Let_def)
  then have run: "(peer_form_step no_library)\<^sup>*\<^sup>* t ?e"
    by (intro r_into_rtranclp) (simp add: peer_form_step_def session_input)
  obtain w v es where w: "peer_save_begin new_york ?e = Returns (Some w) v es"
    using found e new by (simp add: peer_save_begin_cases Let_def)
  have opened: "ends_in (open_peer_dialog new_york (js ''a'') ?d) t" by (simp add: t(1))
  obtain q f where q: "w = PeerUpdate (js ''a'') q" "req_body q = Some f" "settings_uniform f"
    using administration_confined [OF sample_open fresh new opened run w] by (auto simp: peer_kept_def)
  have "pd_peerId ?e \<noteq> NEW_PEER" using e(3) new by simp
  from save_sends(1) [OF this w] have "f = with_expiry new_york ?e" unfolding q(1) using q(2) by auto
  then have "\<not> p_IgnoreGlobalSettings f" by (simp add: with_expiry_def e(4))
  with q(2,3) opened run w [unfolded q(1)] show ?thesis by blast
qed

end
