(* ===== verification/Async_Views.thy ===== *)
theory Async_Views
  imports View_Dialogs
begin

text \<open>
  Views that show what the backend has for the selected thing: the peers of the interface chosen
  in \<open>views/InterfaceView.vue\<close>, and the dialogs \<open>components/PeerViewModal.vue\<close>,
  \<open>components/InterfaceViewModal.vue\<close> and \<open>components/UserViewModal.vue\<close>. Each asks when the
  selection changes and shows an answer when it comes, whatever has been selected since.
\<close>

section \<open>Asking and answering\<close>

text \<open>
  A session with such a view and the keys whose answers have not come, oldest first: a key is
  selected and asked for, and an answer comes, to the oldest request or to any. The backend's
  answer to a request is the same throughout.
\<close>

inductive ask_answer ::
  "('k \<Rightarrow> 's \<Rightarrow> bool) \<Rightarrow> ('k \<Rightarrow> ('s, 'q) comp) \<Rightarrow> ('k \<Rightarrow> 'r) \<Rightarrow> ('r \<Rightarrow> ('s, unit) comp)
     \<Rightarrow> 's \<times> 'k list \<Rightarrow> 's \<times> 'k list \<Rightarrow> bool"
  for valid ask server answer where
  ask_next: "valid k s \<Longrightarrow> ask k s = Returns q t es \<Longrightarrow>
     ask_answer valid ask server answer (s, ks) (t, ks @ [k])"
| answer_oldest: "answer (server k) s = Returns () t es \<Longrightarrow>
     ask_answer valid ask server answer (s, k # ks) (t, ks)"

inductive ask_answer_any ::
  "('k \<Rightarrow> 's \<Rightarrow> bool) \<Rightarrow> ('k \<Rightarrow> ('s, 'q) comp) \<Rightarrow> ('k \<Rightarrow> 'r) \<Rightarrow> ('r \<Rightarrow> ('s, unit) comp)
     \<Rightarrow> 's \<times> 'k list \<Rightarrow> 's \<times> 'k list \<Rightarrow> bool"
  for valid ask server answer where
  ask_any: "valid k s \<Longrightarrow> ask k s = Returns q t es \<Longrightarrow>
     ask_answer_any valid ask server answer (s, ks) (t, ks @ [k])"
| answer_any: "answer (server k) s = Returns () t es \<Longrightarrow>
     ask_answer_any valid ask server answer (s, ks @ k # ls) (t, ks @ ls)"

locale loaded_view =
  fixes valid :: "'k \<Rightarrow> 's \<Rightarrow> bool"
    and current :: "'s \<Rightarrow> 'k"
    and shown :: "'s \<Rightarrow> 'v"
    and ask :: "'k \<Rightarrow> ('s, 'q) comp"
    and req :: "'k \<Rightarrow> 'q"
    and answer :: "'r \<Rightarrow> ('s, unit) comp"
    and display :: "'r \<Rightarrow> 'v"
  assumes asks: "valid k s \<Longrightarrow>
      \<exists>t es. ask k s = Returns (req k) t es \<and> current t = k \<and> shown t = shown s
        \<and> (\<forall>j. valid j t = valid j s)"
    and answers: "valid k s \<Longrightarrow>
      \<exists>t es. answer r s = Returns () t es \<and> current t = current s \<and> shown t = display r
        \<and> (\<forall>j. valid j t = valid j s)"
begin

text \<open>In order: the last key asked for is the selected one, and with nothing pending its answer is
  what is shown.\<close>

definition settled_view :: "('k \<Rightarrow> 'r) \<Rightarrow> 's \<times> 'k list \<Rightarrow> bool" where
  "settled_view server c = (case c of (s, ks) \<Rightarrow> (\<exists>k. valid k s)
     \<and> (if ks = [] then shown s = display (server (current s)) else last ks = current s))"

lemma step_settled:
  "ask_answer valid ask server answer c d \<Longrightarrow> settled_view server c \<Longrightarrow> settled_view server d"
proof (induction rule: ask_answer.induct)
  case (ask_next k s q t es ks)
  then show ?case using asks [of k s] by (auto simp: settled_view_def)
next
  case (answer_oldest k s t es ks)
  then obtain j where j: "valid j s" by (auto simp: settled_view_def)
  with answer_oldest show ?case using answers [of j s "server k"]
    by (auto simp: settled_view_def split: if_splits)
qed

lemma in_order:
  assumes "(ask_answer valid ask server answer)\<^sup>*\<^sup>* (s, ks) (t, [])" "valid k s" "ks \<noteq> []" "last ks = current s"
  shows "shown t = display (server (current t))"
proof -
  have "settled_view server (s, ks)" using assms(2-4) by (auto simp: settled_view_def)
  with assms(1) have "settled_view server (t, [])"
    by (induction rule: rtranclp_induct) (auto intro: step_settled)
  then show ?thesis by (simp add: settled_view_def)
qed

text \<open>Out of order: the older answer stays on display under the newer key.\<close>

lemma swapped:
  assumes "valid a s" "valid b s"
  shows "\<exists>t. (ask_answer_any valid ask server answer)\<^sup>*\<^sup>* (s, []) (t, [])
    \<and> current t = b \<and> shown t = display (server a) \<and> (\<forall>j. valid j t = valid j s)"
proof -
  let ?step = "ask_answer_any valid ask server answer"
  obtain s1 es1 where s1: "ask a s = Returns (req a) s1 es1" "valid b s1" "\<forall>j. valid j s1 = valid j s"
    using asks [OF assms(1)] assms(2) by auto
  obtain s2 es2 where s2: "ask b s1 = Returns (req b) s2 es2" "current s2 = b" "valid b s2" "\<forall>j. valid j s2 = valid j s"
    using asks [OF s1(2)] s1(2,3) by auto
  obtain s3 es3 where s3: "answer (server b) s2 = Returns () s3 es3" "current s3 = b" "valid b s3" "\<forall>j. valid j s3 = valid j s"
    using answers [OF s2(3), of "server b"] s2 by auto
  obtain s4 es4 where s4: "answer (server a) s3 = Returns () s4 es4" "current s4 = b"
    "shown s4 = display (server a)" "\<forall>j. valid j s4 = valid j s"
    using answers [OF s3(3), of "server a"] s3 by auto
  have "?step (s, []) (s1, [] @ [a])" by (rule ask_any [where valid = valid and ask = ask and server = server and answer = answer, OF assms(1) s1(1)])
  moreover have "?step (s1, [a]) (s2, [a] @ [b])" by (rule ask_any [where valid = valid and ask = ask and server = server and answer = answer, OF s1(2) s2(1)])
  moreover have "?step (s2, [a] @ b # []) (s3, [a] @ [])" by (rule answer_any [where valid = valid and ask = ask and server = server and answer = answer, OF s3(1)])
  moreover have "?step (s3, [] @ a # []) (s4, [] @ [])" by (rule answer_any [where valid = valid and ask = ask and server = server and answer = answer, OF s4(1)])
  ultimately have "?step\<^sup>*\<^sup>* (s, []) (s4, [])"
    by (simp add: converse_rtranclp_into_rtranclp)
  with s4 show ?thesis by blast
qed

text \<open>Once more: with nothing pending, selecting a key and awaiting its answer shows it.\<close>

lemma select_and_wait:
  assumes "valid k s"
  shows "\<exists>t u es fs. ask k s = Returns (req k) t es \<and> answer r t = Returns () u fs
    \<and> current u = k \<and> shown u = display r"
proof -
  obtain t es where t: "ask k s = Returns (req k) t es" "current t = k" "valid k t"
    using asks [OF assms] assms by auto
  with answers [OF t(3), of r] show ?thesis by auto
qed

end

section \<open>The page of the interfaces\<close>

text \<open>
  The change of the selector: the binding writes the selected interface, then the peers and the
  statistics are asked for. Neither is awaited; an exception of the first, which the second
  would throw as well, leaves nothing asked for.
\<close>

definition select_interface ::
  "jsstr \<Rightarrow> (interface_view, unit request option \<times> unit request option) comp" where
  "select_interface i =
     andThen (iv_on_interfaces (modify (\<lambda>s. s\<lparr>selected := i\<rparr>)))
       (bind (gets iv_interfaces) (\<lambda>ifs. iv_on_peers
         (bind (LoadPeers_begin ifs None) (\<lambda>p. bind (LoadStats_begin ifs None) (\<lambda>q. return (p, q))))))"

text \<open>The options of the selector, and whether it is disabled.\<close>

definition interface_selector :: "interface_view \<Rightarrow> bool \<times> (jsstr \<times> jsstr) list" where
  "interface_selector v =
     (interfaces (iv_interfaces v) = [],
      (if interfaces (iv_interfaces v) = [] then [(js ''nothing'', js ''interfaces.no-interface.default-selection'')] else [])
      @ map (\<lambda>f. (i_Identifier f, calculateInterfaceName (i_Identifier f) (i_DisplayName f)))
          (interfaces (iv_interfaces v)))"

definition peers_answer :: "peer list settled \<Rightarrow> (interface_view, unit) comp" where
  "peers_answer reply = iv_on_peers (LoadPeers_settle reply)"

definition stats_answer :: "stats_response \<Rightarrow> (interface_view, unit) comp" where
  "stats_answer st = iv_on_peers (LoadStats_settle (Inr (Some st)))"

definition page_valid :: "jsstr \<Rightarrow> interface_view \<Rightarrow> bool" where
  "page_valid i v \<longleftrightarrow> i \<noteq> [] \<and> latin1 i \<and> if_Find (iv_interfaces v) i \<noteq> None \<and> 0 < pageSize (iv_peers v)"

definition page_request :: "jsstr \<Rightarrow> unit request option \<times> unit request option" where
  "page_request i =
     (Some (Request GET (js ''/peer/iface/'' @ projr (base64_url_encode i) @ js ''/all'') None),
      Some (Request GET (js ''/peer/iface/'' @ projr (base64_url_encode i) @ js ''/stats'') None))"

lemma select_interface_run:
  assumes "page_valid i v"
  shows "select_interface i v = Returns (page_request i)
    (v\<lparr>iv_interfaces := (iv_interfaces v)\<lparr>selected := i\<rparr>, iv_peers := (iv_peers v)\<lparr>fetching := True\<rparr>\<rparr>) []"
proof -
  obtain f where f: "List.find (\<lambda>x. i_Identifier x = i) (interfaces (iv_interfaces v)) = Some f"
    using assms by (auto simp: page_valid_def if_Find_def)
  then have "i_Identifier f = i" by (auto simp: find_Some_iff)
  then have "GetSelected ((iv_interfaces v)\<lparr>selected := i\<rparr>) = Some f" "i_Identifier f \<noteq> []" "latin1 i"
    using f assms by (simp_all add: GetSelected_def page_valid_def)
  with \<open>i_Identifier f = i\<close> show ?thesis
    by (simp add: select_interface_def iv_on_interfaces_def iv_on_peers_def LoadPeers_begin_def
        LoadStats_begin_def resolve_interface_def set_fetching_def encoded_request_cases
        page_request_def js_run)
qed

lemma page_valid_frame:
  "interfaces (iv_interfaces w) = interfaces (iv_interfaces v) \<Longrightarrow>
     pageSize (iv_peers w) = pageSize (iv_peers v) \<Longrightarrow> page_valid i w = page_valid i v"
  by (simp add: page_valid_def if_Find_def)

lemma LoadPeers_settle_run:
  assumes "0 < pageSize u"
  shows "\<exists>t es. LoadPeers_settle reply u = Returns () t es
    \<and> peers t = (case reply of Inr ps \<Rightarrow> ps | Inl _ \<Rightarrow> []) \<and> pageSize t = pageSize u
    \<and> pageOffset t = pageOffset u \<and> filter_text t = filter_text u"
proof (cases reply)
  case (Inl e)
  obtain t where "setPeers [] u = Returns () t []" "peers t = []" "pageSize t = pageSize u"
    "pageOffset t = pageOffset u" "filter_text t = filter_text u"
    using setPeers_returns [OF assms, of "[]"] by blast
  then show ?thesis using Inl by (simp add: LoadPeers_settle_def notify_backend_def js_run)
next
  case (Inr ps)
  obtain t where "setPeers ps u = Returns () t []" "peers t = ps" "pageSize t = pageSize u"
    "pageOffset t = pageOffset u" "filter_text t = filter_text u"
    using setPeers_returns [OF assms, of ps] by blast
  then show ?thesis using Inr by (simp add: LoadPeers_settle_def js_run)
qed

interpretation page_peers: loaded_view page_valid "\<lambda>v. selected (iv_interfaces v)"
  "\<lambda>v. peers (iv_peers v)" select_interface page_request peers_answer
  "\<lambda>reply. case reply of Inr ps \<Rightarrow> ps | Inl _ \<Rightarrow> []"
proof
  show "\<exists>t es. select_interface i v = Returns (page_request i) t es \<and> selected (iv_interfaces t) = i
      \<and> peers (iv_peers t) = peers (iv_peers v) \<and> (\<forall>j. page_valid j t = page_valid j v)"
    if "page_valid i v" for i v
    by (intro exI conjI allI, rule select_interface_run [OF that])
      (simp_all, rule page_valid_frame, simp_all)
  show "\<exists>t es. peers_answer reply v = Returns () t es
      \<and> selected (iv_interfaces t) = selected (iv_interfaces v)
      \<and> peers (iv_peers t) = (case reply of Inr ps \<Rightarrow> ps | Inl _ \<Rightarrow> [])
      \<and> (\<forall>j. page_valid j t = page_valid j v)"
    if "page_valid i v" for i v reply
    using LoadPeers_settle_run [of "iv_peers v" reply] that
    by (auto simp: peers_answer_def iv_on_peers_def zoom_def page_valid_def if_Find_def)
qed

text \<open>The statistics come in the same way; an answer without any ends in an exception.\<close>

interpretation page_stats: loaded_view page_valid "\<lambda>v. selected (iv_interfaces v)"
  "\<lambda>v. tb_stats (iv_peers v)" select_interface page_request stats_answer r_Stats
proof
  show "\<exists>t es. select_interface i v = Returns (page_request i) t es \<and> selected (iv_interfaces t) = i
      \<and> tb_stats (iv_peers t) = tb_stats (iv_peers v) \<and> (\<forall>j. page_valid j t = page_valid j v)"
    if "page_valid i v" for i v
    by (intro exI conjI allI, rule select_interface_run [OF that])
      (simp_all, rule page_valid_frame, simp_all)
  show "\<exists>t es. stats_answer st v = Returns () t es
      \<and> selected (iv_interfaces t) = selected (iv_interfaces v) \<and> tb_stats (iv_peers t) = r_Stats st
      \<and> (\<forall>j. page_valid j t = page_valid j v)"
    if "page_valid i v" for i v st
    by (simp add: stats_answer_def iv_on_peers_def LoadStats_settle_def setStats_def js_run
        page_valid_def if_Find_def)
qed

section \<open>The dialogs\<close>

text \<open>The dialog of a peer, whose chosen style is \<open>st\<close>.\<close>

definition peer_view_valid :: "jsstr \<Rightarrow> jsstr \<Rightarrow> peer_view \<Rightarrow> bool" where
  "peer_view_valid st i v \<longleftrightarrow> pv_configStyle v = st \<and> latin1 i
     \<and> (\<exists>p. pv_selectedPeer (v\<lparr>pv_peerId := i\<rparr>) = Some p \<and> p_Identifier p = i)"

definition peer_view_request :: "jsstr \<Rightarrow> jsstr \<Rightarrow> unit request" where
  "peer_view_request st i =
     Request GET (js ''/peer/config/'' @ projr (base64_url_encode i) @ js ''?style='' @ st) None"

lemma pv_selectedPeer_frame:
  "peers (pv_peers w) = peers (pv_peers v) \<Longrightarrow> pv_profile w = pv_profile v \<Longrightarrow> pv_peerId w = pv_peerId v
     \<Longrightarrow> pv_selectedPeer w = pv_selectedPeer v"
  by (simp add: pv_selectedPeer_def peers_Find_def split: option.split)

lemma peer_view_shown_run:
  assumes "peer_view_valid st i v"
  shows "peer_view_shown i v = Returns (peer_view_request st i) (v\<lparr>pv_peerId := i, pv_visible := True\<rparr>) []"
proof -
  let ?v = "v\<lparr>pv_peerId := i, pv_visible := True\<rparr>"
  obtain p where p: "pv_selectedPeer (v\<lparr>pv_peerId := i\<rparr>) = Some p" "p_Identifier p = i" "latin1 i"
    "pv_configStyle v = st"
    using assms by (auto simp: peer_view_valid_def)
  moreover have "pv_selectedPeer ?v = pv_selectedPeer (v\<lparr>pv_peerId := i\<rparr>)"
    by (rule pv_selectedPeer_frame) simp_all
  ultimately show ?thesis
    by (simp add: peer_view_shown_def peer_view_ask_def pv_on_peers_def LoadPeerConfig_begin_def
        encoded_request_cases peer_view_request_def js_run)
qed

lemma peer_view_valid_frame:
  assumes "pv_configStyle w = pv_configStyle v" "peers (pv_peers w) = peers (pv_peers v)" "pv_profile w = pv_profile v"
  shows "peer_view_valid st i w = peer_view_valid st i v"
proof -
  have "pv_selectedPeer (w\<lparr>pv_peerId := i\<rparr>) = pv_selectedPeer (v\<lparr>pv_peerId := i\<rparr>)"
    by (rule pv_selectedPeer_frame) (simp_all add: assms)
  then show ?thesis by (simp add: peer_view_valid_def assms)
qed

interpretation peer_config: loaded_view "peer_view_valid st" pv_peerId pv_configString peer_view_shown
  "peer_view_request st" peer_view_answer "\<lambda>reply. case reply of Inr c \<Rightarrow> c | Inl _ \<Rightarrow> []" for st
proof
  show "\<exists>t es. peer_view_shown i v = Returns (peer_view_request st i) t es \<and> pv_peerId t = i
      \<and> pv_configString t = pv_configString v \<and> (\<forall>j. peer_view_valid st j t = peer_view_valid st j v)"
    if "peer_view_valid st i v" for i v
    by (intro exI conjI allI, rule peer_view_shown_run [OF that])
      (simp_all, rule peer_view_valid_frame, simp_all)
  show "\<exists>t es. peer_view_answer reply v = Returns () t es \<and> pv_peerId t = pv_peerId v
      \<and> pv_configString t = (case reply of Inr c \<Rightarrow> c | Inl _ \<Rightarrow> [])
      \<and> (\<forall>j. peer_view_valid st j t = peer_view_valid st j v)"
    if "peer_view_valid st i v" for i v reply
  proof -
    have "peer_view_valid st j (v\<lparr>pv_peers := (pv_peers v)\<lparr>configuration := c\<rparr>, pv_configString := c\<rparr>)
        = peer_view_valid st j v" for j c
      by (rule peer_view_valid_frame) simp_all
    then show ?thesis using peer_view_answer_run [of reply v] by (auto simp: Let_def)
  qed
qed

text \<open>The dialog of an interface, cut at its \<open>await\<close>.\<close>

definition interface_show_ask :: "jsstr \<Rightarrow> (interface_show, unit request) comp" where
  "interface_show_ask i =
     andThen (modify (\<lambda>v. v\<lparr>is_interfaceId := i, is_visible := True\<rparr>))
       (bind (gets is_selectedInterface) (\<lambda>sel. case sel of
           None \<Rightarrow> throw TypeError
         | Some f \<Rightarrow> is_on_interfaces (LoadInterfaceConfig_begin (i_Identifier f))))"

definition interface_show_answer :: "jsstr settled \<Rightarrow> (interface_show, unit) comp" where
  "interface_show_answer reply =
     andThen (is_on_interfaces (LoadInterfaceConfig_settle reply))
       (modify (\<lambda>v. v\<lparr>is_configString := if_configuration (is_interfaces v)\<rparr>))"

definition interface_show_valid :: "jsstr \<Rightarrow> interface_show \<Rightarrow> bool" where
  "interface_show_valid i v \<longleftrightarrow> latin1 i \<and> if_Find (is_interfaces v) i \<noteq> None"

interpretation interface_config: loaded_view interface_show_valid is_interfaceId is_configString
  interface_show_ask "\<lambda>i. Request GET (js ''/interface/config/'' @ projr (base64_url_encode i)) None"
  interface_show_answer "\<lambda>reply. case reply of Inr c \<Rightarrow> c | Inl _ \<Rightarrow> []"
proof
  show "\<exists>t es. interface_show_ask i v
        = Returns (Request GET (js ''/interface/config/'' @ projr (base64_url_encode i)) None) t es
      \<and> is_interfaceId t = i \<and> is_configString t = is_configString v
      \<and> (\<forall>j. interface_show_valid j t = interface_show_valid j v)"
    if "interface_show_valid i v" for i v
  proof -
    note valid = that
    obtain f where "if_Find (is_interfaces v) i = Some f" "latin1 i"
      using valid by (auto simp: interface_show_valid_def)
    moreover from this have "i_Identifier f = i" by (auto simp: if_Find_def find_Some_iff)
    ultimately show ?thesis
      by (simp add: interface_show_ask_def is_selectedInterface_def is_on_interfaces_def
          LoadInterfaceConfig_begin_def encoded_request_cases interface_show_valid_def js_run)
  qed
  show "\<exists>t es. interface_show_answer reply v = Returns () t es \<and> is_interfaceId t = is_interfaceId v
      \<and> is_configString t = (case reply of Inr c \<Rightarrow> c | Inl _ \<Rightarrow> [])
      \<and> (\<forall>j. interface_show_valid j t = interface_show_valid j v)" for v reply
    by (cases reply) (simp_all add: interface_show_answer_def is_on_interfaces_def
        LoadInterfaceConfig_settle_def setInterfaceConfig_def notify_backend_def
        interface_show_valid_def if_Find_def js_run)
qed

text \<open>The dialog of a user.\<close>

definition user_view_ask :: "jsstr \<Rightarrow> (user_view, unit request) comp" where
  "user_view_ask i =
     andThen (modify (\<lambda>v. v\<lparr>uv_userId := i, uv_visible := True\<rparr>))
       (bind (gets uv_identifier) (\<lambda>i. uv_on_users (LoadUserPeers_begin i)))"

definition user_view_answer :: "peer list settled \<Rightarrow> (user_view, unit) comp" where
  "user_view_answer reply = uv_on_users (LoadUserPeers_settle reply)"

definition user_view_valid :: "jsstr \<Rightarrow> user_view \<Rightarrow> bool" where
  "user_view_valid i v \<longleftrightarrow> latin1 i \<and> users_Find (uv_users v) i \<noteq> None"

interpretation user_peers: loaded_view user_view_valid uv_userId uv_userPeers user_view_ask
  "\<lambda>i. Request GET (js ''/user/'' @ projr (base64_url_encode i) @ js ''/peers'') None"
  user_view_answer "\<lambda>reply. case reply of Inr ps \<Rightarrow> ps | Inl _ \<Rightarrow> []"
proof
  show "\<exists>t es. user_view_ask i v
        = Returns (Request GET (js ''/user/'' @ projr (base64_url_encode i) @ js ''/peers'') None) t es
      \<and> uv_userId t = i \<and> uv_userPeers t = uv_userPeers v
      \<and> (\<forall>j. user_view_valid j t = user_view_valid j v)"
    if "user_view_valid i v" for i v
  proof -
    note valid = that
    obtain u where "users_Find (uv_users v) i = Some u" "latin1 i"
      using valid by (auto simp: user_view_valid_def)
    moreover from this have "u_Identifier u = i" by (auto simp: users_Find_def find_Some_iff)
    ultimately show ?thesis
      by (simp add: user_view_ask_def uv_identifier_def uv_selectedUser_def uv_on_users_def
          LoadUserPeers_begin_def set_fetching_def encoded_request_cases user_view_valid_def
          uv_userPeers_def users_Find_def js_run)
  qed
  show "\<exists>t es. user_view_answer reply v = Returns () t es \<and> uv_userId t = uv_userId v
      \<and> uv_userPeers t = (case reply of Inr ps \<Rightarrow> ps | Inl _ \<Rightarrow> [])
      \<and> (\<forall>j. user_view_valid j t = user_view_valid j v)" for v reply
    by (cases reply) (simp_all add: user_view_answer_def uv_on_users_def LoadUserPeers_settle_def
        setUserPeers_def set_fetching_def notify_backend_def user_view_valid_def users_Find_def
        uv_userPeers_def js_run)
qed

section \<open>Properties\<close>

text \<open>C7. When the answers come in the order of the requests, the page of the interfaces ends up with
  the peers of the selected interface, and the dialog of a peer with the configuration of the peer
  it was opened for last, however often another one is selected while answers are on their way; a
  refused request leaves nothing on display. The dialogs of an interface and of a user are further
  interpretations of the same locale.\<close>

theorem answers_in_order:
  assumes "(ask_answer page_valid select_interface server peers_answer)\<^sup>*\<^sup>* (v, [i]) (w, [])"
    and "page_valid i v" "selected (iv_interfaces v) = i"
    and "(ask_answer (peer_view_valid st) peer_view_shown config peer_view_answer)\<^sup>*\<^sup>* (p, [j]) (q, [])"
    and "peer_view_valid st j p" "pv_peerId p = j"
  shows "peers (iv_peers w) = (case server (selected (iv_interfaces w)) of Inr ps \<Rightarrow> ps | Inl _ \<Rightarrow> [])
    \<and> pv_configString q = (case config (pv_peerId q) of Inr c \<Rightarrow> c | Inl _ \<Rightarrow> [])"
  using page_peers.in_order [OF assms(1,2)] peer_config.in_order [OF assms(4,5)] assms(3,6) by simp

text \<open>C8. When they do not, the dialog of a peer ends up showing, and downloading under the name of the
  file of the peer it was opened for, the configuration of another peer, private key included;
  and the page of the interfaces lists the peers of another interface under the selected one.\<close>

theorem answers_swapped:
  assumes "peer_view_valid st a v" "peer_view_valid st b v" "config a = Inr text"
    and "page_valid i w" "page_valid j w" "server i = Inr ps"
  shows "(\<exists>t (p::peer). (ask_answer_any (peer_view_valid st) peer_view_shown config peer_view_answer)\<^sup>*\<^sup>* (v, []) (t, [])
      \<and> pv_peerId t = b \<and> peer_view_download t = Inr (text, p_Filename p) \<and> p_Identifier p = b)
    \<and> (\<exists>t. (ask_answer_any page_valid select_interface server peers_answer)\<^sup>*\<^sup>* (w, []) (t, [])
      \<and> selected (iv_interfaces t) = j \<and> peers (iv_peers t) = ps)"
proof
  obtain t where t: "(ask_answer_any (peer_view_valid st) peer_view_shown config peer_view_answer)\<^sup>*\<^sup>* (v, []) (t, [])"
    "pv_peerId t = b" "pv_configString t = text" "peer_view_valid st b t"
    using peer_config.swapped [OF assms(1,2), of config] assms(2,3) by auto
  have "t\<lparr>pv_peerId := b\<rparr> = t" using t(2) by simp
  with t(4) obtain p where p: "pv_selectedPeer t = Some p" "p_Identifier p = b"
    by (auto simp: peer_view_valid_def)
  then have "peer_view_download t = Inr (text, p_Filename p)"
    using t(3) by (simp add: peer_view_download_def)
  with t(1,2) p(2) show "\<exists>t (p::peer). (ask_answer_any (peer_view_valid st) peer_view_shown config peer_view_answer)\<^sup>*\<^sup>* (v, []) (t, [])
      \<and> pv_peerId t = b \<and> peer_view_download t = Inr (text, p_Filename p) \<and> p_Identifier p = b"
    by blast
  show "\<exists>t. (ask_answer_any page_valid select_interface server peers_answer)\<^sup>*\<^sup>* (w, []) (t, [])
      \<and> selected (iv_interfaces t) = j \<and> peers (iv_peers t) = ps"
    using page_peers.swapped [OF assms(4,5), of server] assms(6) by auto
qed

definition two_peers :: peer_view where
  "two_peers = \<lparr>pv_peers = peers_init\<lparr>peers := [freshPeer\<lparr>p_Identifier := js ''a'', p_Filename := js ''a.conf''\<rparr>,
       freshPeer\<lparr>p_Identifier := js ''b'', p_Filename := js ''b.conf''\<rparr>]\<rparr>,
     pv_profile = profile_init, pv_interfaces = interfaces_init, pv_settings = settings_init,
     pv_peerId = [], pv_visible = False, pv_configString = [], pv_configStyle = js ''wgquick''\<rparr>"

definition two_interfaces :: interface_view where
  "two_interfaces = \<lparr>iv_interfaces = interfaces_init\<lparr>interfaces := [freshInterface\<lparr>i_Identifier := js ''wg0''\<rparr>,
       freshInterface\<lparr>i_Identifier := js ''wg1''\<rparr>], selected := js ''wg0''\<rparr>,
     iv_peers = peers_init, iv_settings = settings_init, iv_sortKey = None, iv_sortOrder = 1,
     iv_selectAll = False\<rparr>"

lemma two_valid:
  "peer_view_valid (js ''wgquick'') (js ''a'') two_peers" "peer_view_valid (js ''wgquick'') (js ''b'') two_peers"
  "page_valid (js ''wg0'') two_interfaces" "page_valid (js ''wg1'') two_interfaces"
  by (simp_all add: two_peers_def two_interfaces_def peer_view_valid_def page_valid_def
      pv_selectedPeer_def peers_Find_def if_Find_def peers_init_def)

theorem answers_swapped_witness:
  "\<exists>t (p::peer). pv_peerId t = js ''b'' \<and> peer_view_download t = Inr (js ''key of a'', p_Filename p) \<and> p_Identifier p = js ''b''"
proof -
  have "(Inr (js ''key of a'') :: jsstr settled) = Inr (js ''key of a'')"
    "(Inr [freshPeer] :: peer list settled) = Inr [freshPeer]" by simp_all
  from answers_swapped [where config = "\<lambda>_. Inr (js ''key of a'')" and server = "\<lambda>_. Inr [freshPeer]",
      OF two_valid(1,2) this(1) two_valid(3,4) this(2)]
  show ?thesis by blast
qed

theorem answers_in_order_witness:
  "\<exists>w. (ask_answer page_valid select_interface (\<lambda>i. Inr [freshPeer\<lparr>p_InterfaceIdentifier := i\<rparr>]) peers_answer)\<^sup>*\<^sup>*
       (two_interfaces, [js ''wg0'']) (w, [])
     \<and> peers (iv_peers w) = [freshPeer\<lparr>p_InterfaceIdentifier := selected (iv_interfaces w)\<rparr>]"
proof -
  let ?server = "\<lambda>i. Inr [freshPeer\<lparr>p_InterfaceIdentifier := i\<rparr>] :: peer list settled"
  obtain w es where w: "peers_answer (?server (js ''wg0'')) two_interfaces = Returns () w es"
    using page_peers.answers [OF two_valid(3), of "?server (js ''wg0'')"] by blast
  then have run: "(ask_answer page_valid select_interface ?server peers_answer)\<^sup>*\<^sup>*
      (two_interfaces, [js ''wg0'']) (w, [])"
    by (intro r_into_rtranclp answer_oldest)
  let ?p = "two_peers\<lparr>pv_peerId := js ''a''\<rparr>"
  have p: "peer_view_valid (js ''wgquick'') (js ''a'') ?p" "pv_peerId ?p = js ''a''"
    using two_valid(1) by (simp_all add: peer_view_valid_def)
  obtain q fs where q: "peer_view_answer (Inr []) ?p = Returns () q fs"
    using peer_config.answers [OF p(1), of "Inr []"] by blast
  then have "(ask_answer (peer_view_valid (js ''wgquick'')) peer_view_shown (\<lambda>_. Inr []) peer_view_answer)\<^sup>*\<^sup>*
      (?p, [js ''a'']) (q, [])"
    by (intro r_into_rtranclp answer_oldest)
  from answers_in_order [OF run two_valid(3) _ this p] show ?thesis
    using run by (auto simp: two_interfaces_def)
qed

text \<open>The offset of the page stays when another interface is selected: from a later page of a long
  list, the table of an interface with fewer peers is empty, although it has peers.\<close>

theorem selection_keeps_offset:
  assumes "page_valid i v" "int (length ps) \<le> pageOffset (iv_peers v)" "filter_text (iv_peers v) = []"
  shows "\<exists>u w es fs. select_interface i v = Returns (page_request i) u es \<and> peers_answer (Inr ps) u = Returns () w fs
    \<and> selected (iv_interfaces w) = i \<and> peers (iv_peers w) = ps
    \<and> pageOffset (iv_peers w) = pageOffset (iv_peers v)
    \<and> (\<forall>rows. peers_FilteredAndPaged lib toNum (iv_peers w) = Inr rows \<longrightarrow> rows = [])"
proof -
  let ?u = "v\<lparr>iv_interfaces := (iv_interfaces v)\<lparr>selected := i\<rparr>, iv_peers := (iv_peers v)\<lparr>fetching := True\<rparr>\<rparr>"
  have "0 < pageSize (iv_peers ?u)" using assms(1) by (simp add: page_valid_def)
  then obtain t es where t: "LoadPeers_settle (Inr ps) (iv_peers ?u) = Returns () t es" "peers t = ps"
    "pageOffset t = pageOffset (iv_peers v)" "filter_text t = []"
    using LoadPeers_settle_run [of "iv_peers ?u" "Inr ps"] assms(3) by auto
  have "rows = []" if "peers_FilteredAndPaged lib toNum t = Inr rows" for rows
  proof -
    note paged = that
    obtain xs where xs: "peers_Sorted lib toNum t = Inr xs"
      "rows = slice xs (pageOffset t) (pageOffset t + pageSize t)"
      using paged by (auto simp: peers_FilteredAndPaged_def)
    then have "length xs = length ps" using length_peers_Sorted t(2,4) by (fastforce simp: peers_Filtered_def)
    then have "int (length xs) \<le> pageOffset t" using assms(2) t(3) by simp
    then show ?thesis by (simp add: xs(2) slice_def rel_index_def Let_def)
  qed
  then show ?thesis
    using select_interface_run [OF assms(1)] t
    by (intro exI [of _ ?u] exI [of _ "?u\<lparr>iv_peers := t\<rparr>"]) (simp add: peers_answer_def iv_on_peers_def zoom_def)
qed

theorem selection_keeps_offset_witness:
  "\<exists>w :: interface_view. peers (iv_peers w) = [freshPeer] \<and> pageOffset (iv_peers w) = 10
     \<and> (\<forall>rows. peers_FilteredAndPaged no_library (\<lambda>_. None) (iv_peers w) = Inr rows \<longrightarrow> rows = [])"
proof -
  let ?v = "two_interfaces\<lparr>iv_peers := peers_init\<lparr>pageOffset := 10\<rparr>\<rparr>"
  have valid: "page_valid (js ''wg1'') ?v"
    using two_valid(4) by (simp add: page_valid_def two_interfaces_def peers_init_def)
  have "int (length [freshPeer]) \<le> pageOffset (iv_peers ?v)" "filter_text (iv_peers ?v) = []"
    "pageOffset (iv_peers ?v) = 10"
    by (simp_all add: peers_init_def)
  from selection_keeps_offset [OF valid this(1,2), of no_library "\<lambda>_. None", unfolded this(3)]
  show ?thesis by blast
qed

end
