(* ===== verification/Page_Events.thy ===== *)
theory Page_Events
  imports Page_Templates Peer_Forms Async_Views
begin

text \<open>
  The controls around the tables of \<open>views/InterfaceView.vue\<close>, \<open>views/ProfileView.vue\<close>,
  \<open>views/UserView.vue\<close> and \<open>views/AuditView.vue\<close>, event by event: the search field, the choice of
  the page size, the links that open dialogs, and the dialogs that the pages show.
\<close>

section \<open>The search field and the choice of the page size\<close>

text \<open>
  What is left of a table after any events (\<open>bar_event\<close>), handled or not: the handlers bring bar
  and table in agreement at once, on the first page; an arrow or a page link, whose offset may then
  lie outside of the list or between its pages, makes the page links anew, and the click on a page
  link after that brings them in agreement too, on the page of that link.
\<close>

definition bar_recovers :: "('s, 'e) pager \<Rightarrow> 's \<Rightarrow> bool" where
  "bar_recovers P s \<longleftrightarrow>
     (\<exists>t. pg_afterPageSizeChange P s = Returns () t [] \<and> pager_inv P t \<and> pg_offset P t = 0)
     \<and> (\<forall>p. \<forall>m \<in> {pg_previousPage P, pg_nextPage P, pg_gotoPage P p}.
          \<exists>t. m s = Returns () t [] \<and> pg_pages P t = [1..page_count (pg_count P t) (pg_size P t)]
            \<and> pg_count P t = pg_count P s
            \<and> (\<forall>q \<in> set (pg_pages P t). \<exists>u. pg_gotoPage P q t = Returns () u [] \<and> pager_inv P u
                 \<and> pg_offset P u = (q - 1) * pg_size P s))"

context pager_laws
begin

lemma event_alive: "bar_event P ok s ok' t \<Longrightarrow> 0 < pg_size P s \<Longrightarrow> 0 < pg_size P t"
  by (induction rule: bar_event.induct)
    (auto simp: previousPage nextPage gotoPage afterPageSizeChange calculate_returns page_sizes_def)

lemma run_alive: "bar_run P s ok t \<Longrightarrow> 0 < pg_size P s \<Longrightarrow> 0 < pg_size P t"
  by (induction rule: bar_run.induct) (auto dest: event_alive)

lemma recovers:
  assumes "bar_run P s ok t" "0 < pg_size P s"
  shows "bar_recovers P t"
proof -
  have size: "0 < pg_size P t" by (rule run_alive [OF assms])
  have "\<exists>v. m t = Returns () v [] \<and> pg_pages P v = [1..page_count (pg_count P v) (pg_size P v)]
      \<and> pg_count P v = pg_count P t
      \<and> (\<forall>q \<in> set (pg_pages P v). \<exists>u. pg_gotoPage P q v = Returns () u [] \<and> pager_inv P u
           \<and> pg_offset P u = (q - 1) * pg_size P t)"
    if m: "m \<in> {pg_previousPage P, pg_nextPage P, pg_gotoPage P p}" for m p
  proof -
    obtain v where v: "m t = Returns () v []" "pg_size P v = pg_size P t" "pg_count P v = pg_count P t"
      "pg_pages P v = [1..page_count (pg_count P v) (pg_size P v)]"
      using controls_relink [OF size m] by blast
    then have "\<exists>u. pg_gotoPage P q v = Returns () u [] \<and> pager_inv P u \<and> pg_offset P u = (q - 1) * pg_size P t"
      if "q \<in> set (pg_pages P v)" for q
      using goto_inv [of v q] size that by auto
    with v show ?thesis by blast
  qed
  then show ?thesis
    unfolding bar_recovers_def using afterPageSizeChange_inv [OF size] by blast
qed

end

text \<open>C16. Whatever order the events of a bar come in, writes without a handler included, no control of
  any of the four tables hangs, and each of the tables recovers: a \<open>click\<close> on the selector of the
  size or a \<open>keyup\<close> in the search field brings bar and table in agreement, on the first page; any
  arrow or page link makes the page links those of the list again, and a click on one of these
  brings bar and table in agreement on its page.\<close>

theorem bars_recover:
  assumes "bar_run users_pager u ok1 u'" "0 < pageSize u"
    and "bar_run audit_pager a ok2 a'" "0 < pageSize a"
    and "bar_run (peers_pager lib toNum) p ok3 p'" "0 < pageSize p"
    and "bar_run (profile_pager lib toNum) f ok4 f'" "0 < pageSize f"
  shows "bar_recovers users_pager u' \<and> bar_recovers audit_pager a'
    \<and> bar_recovers (peers_pager lib toNum) p' \<and> bar_recovers (profile_pager lib toNum) f'"
  using users.recovers [OF assms(1)] audit.recovers [OF assms(3)]
    peers.recovers [OF assms(5)] profile.recovers [OF assms(7)] assms(2,4,6,8)
  by (simp add: users_pager_def audit_pager_def peers_pager_def profile_pager_def)

text \<open>In between, a size chosen with the keyboard can lose the table: on the second of ten-row
  pages of a list of at least twenty-five users, choosing twenty-five rows and going back gives a
  negative offset and an empty page.\<close>

theorem keyboard_size_loses_rows:
  assumes "pager_inv users_pager s" "pageOffset s = 10" "25 \<le> users_FilteredCount s"
  shows "\<exists>t u. bar_event users_pager True s False t \<and> bar_event users_pager False t False u \<and> pageSize u = 25
    \<and> pageOffset u = - 15 \<and> users_FilteredAndPaged u = [] \<and> users_Filtered u \<noteq> []"
proof -
  let ?P = users_pager
  let ?t = "s\<lparr>pageSize := 25\<rparr>"
  have "bar_event ?P True s False (pg_set_size ?P 25 s)" by (rule event_size) (simp add: page_sizes_def)
  then have choose: "bar_event ?P True s False ?t" by (simp add: users_pager_def)
  have some: "users_Filtered s \<noteq> []" "users_Filtered ?t = users_Filtered s" "25 \<le> length (users_Filtered s)"
    using assms(3) by (auto simp: users_FilteredCount_def users_Filtered_def)
  have size: "0 < pg_size ?P ?t" by (simp add: users_pager_def)
  obtain u where u: "pg_previousPage ?P ?t = Returns () u []" using users.controls_relink [OF size, of "pg_previousPage ?P"] by blast
  then have earlier: "bar_event ?P False ?t False u"
    by (intro event_previous) (simp_all add: users_pager_def assms(2))
  have off: "pageOffset u = - 15" "pageSize u = 25" "users_Filtered u = users_Filtered s"
    using u by (auto simp: users_pager_def users_previousPage_def users_calculatePages_def js_run assms(2)
        users_Filtered_def split: option.splits)
  have "users_FilteredAndPaged u = []"
    using some(3) by (simp add: users_FilteredAndPaged_def off slice_def rel_index_def Let_def)
  with choose earlier off some(1) show ?thesis by (intro exI [of _ ?t] exI [of _ u] conjI) simp_all
qed

definition second_page :: user_store where
  "second_page = users_init\<lparr>users := replicate 25 freshUser, pageOffset := 10, pages := [1..3]\<rparr>"

lemma second_page_ok: "pager_inv users_pager second_page" "users_FilteredCount second_page = 25"
proof -
  have "page_count 25 10 = 3"
    using page_count_step [of 10 25] page_count_step [of 10 15] page_count_small [of 5 10] by simp
  then show "users_FilteredCount second_page = 25" "pager_inv users_pager second_page"
    by (simp_all add: second_page_def users_FilteredCount_def users_Filtered_def pager_inv_def
        users_pager_def users_init_def)
qed

theorem keyboard_size_loses_rows_witness:
  "\<exists>t u. bar_event users_pager True second_page False t \<and> bar_event users_pager False t False u \<and> pageOffset u = - 15
     \<and> users_FilteredAndPaged u = [] \<and> users_Filtered u \<noteq> []"
proof -
  have "pageOffset second_page = 10" "25 \<le> users_FilteredCount second_page"
    using second_page_ok(2) by (simp_all add: second_page_def)
  from keyboard_size_loses_rows [OF second_page_ok(1) this] show ?thesis by blast
qed

theorem bars_recover_witness:
  "bar_run users_pager second_page False (second_page\<lparr>pageSize := 25\<rparr>)
     \<and> bar_recovers users_pager (second_page\<lparr>pageSize := 25\<rparr>)"
proof -
  have "bar_event users_pager True second_page False (pg_set_size users_pager 25 second_page)"
    by (rule event_size) (simp add: page_sizes_def)
  from bar_step [OF bar_start this]
  have u: "bar_run users_pager second_page False (second_page\<lparr>pageSize := 25\<rparr>)"
    by (simp add: users_pager_def)
  have sizes: "0 < pageSize second_page" "0 < pageSize audit_init" "0 < pageSize peers_init" "0 < pageSize profile_init"
    by (simp_all add: second_page_def users_init_def audit_init_def peers_init_def profile_init_def)
  show ?thesis
    using bars_recover [OF u sizes(1) bar_start sizes(2) bar_start sizes(3) bar_start sizes(4)] u by blast
qed

section \<open>The page of the interfaces\<close>

text \<open>The dialogs of the page are shown while their identifiers are not empty.\<close>

record page_dialogs =
  dg_viewedPeerId :: jsstr
  dg_editPeerId :: jsstr
  dg_multiCreatePeerId :: jsstr
  dg_editInterfaceId :: jsstr
  dg_viewedInterfaceId :: jsstr

datatype dialog_kind =
    View_peer_dialog jsstr
  | Edit_peer_dialog jsstr
  | Multi_create_dialog
  | Edit_interface_dialog jsstr
  | View_interface_dialog jsstr

definition shown_dialogs :: "page_dialogs \<Rightarrow> dialog_kind list" where
  "shown_dialogs d =
     (if dg_viewedPeerId d \<noteq> [] then [View_peer_dialog (dg_viewedPeerId d)] else [])
     @ (if dg_editPeerId d \<noteq> [] then [Edit_peer_dialog (dg_editPeerId d)] else [])
     @ (if dg_multiCreatePeerId d \<noteq> [] then [Multi_create_dialog] else [])
     @ (if dg_editInterfaceId d \<noteq> [] then [Edit_interface_dialog (dg_editInterfaceId d)] else [])
     @ (if dg_viewedInterfaceId d \<noteq> [] then [View_interface_dialog (dg_viewedInterfaceId d)] else [])"

definition close_dialog :: "dialog_kind \<Rightarrow> page_dialogs \<Rightarrow> page_dialogs" where
  "close_dialog k d = (case k of
      View_peer_dialog _ \<Rightarrow> d\<lparr>dg_viewedPeerId := []\<rparr>
    | Edit_peer_dialog _ \<Rightarrow> d\<lparr>dg_editPeerId := []\<rparr>
    | Multi_create_dialog \<Rightarrow> d\<lparr>dg_multiCreatePeerId := []\<rparr>
    | Edit_interface_dialog _ \<Rightarrow> d\<lparr>dg_editInterfaceId := []\<rparr>
    | View_interface_dialog _ \<Rightarrow> d\<lparr>dg_viewedInterfaceId := []\<rparr>)"

text \<open>The links and buttons of the page: those that open a dialog, and the other two.\<close>

datatype page_link = Opens dialog_kind | Download_config | Store_config

definition header_links :: "settings_store \<Rightarrow> interface_view \<Rightarrow> page_link list" where
  "header_links cfg v =
     [Opens (Edit_interface_dialog (js ''#NEW#''))]
     @ (case GetSelected (iv_interfaces v) of
          None \<Rightarrow> []
        | Some f \<Rightarrow> [Opens (View_interface_dialog (i_Identifier f)), Download_config]
            @ (if setting_on cfg ''PersistentConfigSupported'' then [Store_config] else [])
            @ [Opens (Edit_interface_dialog (i_Identifier f)), Opens Multi_create_dialog,
               Opens (Edit_peer_dialog (js ''#NEW#''))])"

definition row_links :: "peer \<Rightarrow> page_link list" where
  "row_links p = [Opens (View_peer_dialog (p_Identifier p)), Opens (Edit_peer_dialog (p_Identifier p))]"

definition open_dialog :: "dialog_kind \<Rightarrow> page_dialogs \<Rightarrow> page_dialogs" where
  "open_dialog k d = (case k of
      View_peer_dialog i \<Rightarrow> d\<lparr>dg_viewedPeerId := i\<rparr>
    | Edit_peer_dialog i \<Rightarrow> d\<lparr>dg_editPeerId := i\<rparr>
    | Multi_create_dialog \<Rightarrow> d\<lparr>dg_multiCreatePeerId := js ''#NEW#''\<rparr>
    | Edit_interface_dialog i \<Rightarrow> d\<lparr>dg_editInterfaceId := i\<rparr>
    | View_interface_dialog i \<Rightarrow> d\<lparr>dg_viewedInterfaceId := i\<rparr>)"

section \<open>The pages of the users and of the logged-in user\<close>

record user_dialogs =
  ug_editUserId :: jsstr
  ug_viewedUserId :: jsstr

definition user_row_view :: "user \<Rightarrow> user_dialogs \<Rightarrow> user_dialogs" where
  "user_row_view u g = g\<lparr>ug_viewedUserId := u_Identifier u\<rparr>"

definition user_row_edit :: "user \<Rightarrow> user_dialogs \<Rightarrow> user_dialogs" where
  "user_row_edit u g = g\<lparr>ug_editUserId := u_Identifier u\<rparr>"

definition user_page_add :: "user_dialogs \<Rightarrow> user_dialogs" where
  "user_page_add g = g\<lparr>ug_editUserId := js ''#NEW#''\<rparr>"

text \<open>Closing the edit dialog of the logged-in user's page also loads the peers again.\<close>

record profile_page =
  fp_view :: profile_view
  fp_viewedPeerId :: jsstr
  fp_editPeerId :: jsstr

definition profile_edit_closed :: "auth_store \<Rightarrow> (profile_page, unit request) comp" where
  "profile_edit_closed auth =
     andThen (modify (\<lambda>g. g\<lparr>fp_editPeerId := []\<rparr>))
       (zoom fp_view (\<lambda>v g. g\<lparr>fp_view := v\<rparr>)
         (zoom fv_profile (\<lambda>p v. v\<lparr>fv_profile := p\<rparr>) (profile_LoadPeers_begin auth)))"

definition profile_row_view :: "peer \<Rightarrow> profile_page \<Rightarrow> profile_page" where
  "profile_row_view p g = g\<lparr>fp_viewedPeerId := p_Identifier p\<rparr>"

definition profile_row_edit :: "peer \<Rightarrow> profile_page \<Rightarrow> profile_page" where
  "profile_row_edit p g = g\<lparr>fp_editPeerId := p_Identifier p\<rparr>"

text \<open>The button for a new peer, which is there with self-provisioning only.\<close>

definition profile_add :: "settings_store \<Rightarrow> (profile_page \<Rightarrow> profile_page) option" where
  "profile_add cfg =
     (if setting_on cfg ''SelfProvisioning'' then Some (\<lambda>g. g\<lparr>fp_editPeerId := js ''#NEW#''\<rparr>) else None)"

section \<open>From a row to its dialog\<close>

lemma find_distinct:
  assumes "distinct_keys key xs" "x \<in> set xs"
  shows "List.find (\<lambda>y. key y = key x) xs = Some x"
  using assms by (induction xs) (auto simp: distinct_keys_def)

lemma shown_peers_listed:
  assumes "peers_FilteredAndPaged lib toNum s = Inr rows"
  shows "set rows \<subseteq> set (peers s)"
proof -
  obtain xs where xs: "peers_Sorted lib toNum s = Inr xs"
    "rows = slice xs (pageOffset s) (pageOffset s + pageSize s)"
    using assms by (auto simp: peers_FilteredAndPaged_def)
  then have "mset xs = mset (peers_Filtered s)" unfolding peers_Sorted_def by (intro sort_rows_mset) auto
  then have "set xs = set (peers_Filtered s)" by (rule mset_eq_setD)
  moreover have "set rows \<subseteq> set xs" unfolding xs(2) by (rule slice_sublist)
  ultimately show ?thesis by (auto simp: peers_Filtered_def split: if_splits)
qed

text \<open>C25. When identifiers are distinct and not empty, the links of a row of the tables of peers and of
  users open the dialogs for exactly that row: they are shown, and the peer or user they select
  is the one of the row, which the edit dialog shares its settings with.\<close>

theorem rows_open_their_dialogs:
  assumes "peers_FilteredAndPaged lib toNum st = Inr rows" "p \<in> set rows" "p_Identifier p \<noteq> []"
    and "distinct_keys p_Identifier (peers st)"
    and "u \<in> set (users_FilteredAndPaged us)" "u_Identifier u \<noteq> []" "distinct_keys u_Identifier (users us)"
  shows "(\<forall>k. Opens k \<in> set (row_links p) \<longrightarrow> k \<in> set (shown_dialogs (open_dialog k g)))
    \<and> pv_selectedPeer (v\<lparr>pv_peers := st, pv_peerId := dg_viewedPeerId (open_dialog (View_peer_dialog (p_Identifier p)) g)\<rparr>) = Some p
    \<and> selectedPeer (d\<lparr>pd_peers := st, pd_peerId := dg_editPeerId (open_dialog (Edit_peer_dialog (p_Identifier p)) g)\<rparr>)
       = Some (p, Some (Listed (p_Identifier p)))
    \<and> uv_selectedUser (w\<lparr>uv_users := us, uv_userId := ug_viewedUserId (user_row_view u h)\<rparr>) = Some u
    \<and> selectedUser (e\<lparr>ud_users := us, ud_userId := ug_editUserId (user_row_edit u h)\<rparr>) = Some u"
proof -
  have "p \<in> set (peers st)" using shown_peers_listed [OF assms(1)] assms(2) by blast
  from find_distinct [OF assms(4) this] have p: "peers_Find st (p_Identifier p) = Some p"
    by (simp add: peers_Find_def)
  have "u \<in> set (users us)" using slice_sublist assms(5)
    by (fastforce simp: users_FilteredAndPaged_def users_Filtered_def split: if_splits)
  from find_distinct [OF assms(7) this] have u: "users_Find us (u_Identifier u) = Some u"
    by (simp add: users_Find_def)
  show ?thesis using assms(3,6) p u
    by (auto simp: row_links_def shown_dialogs_def open_dialog_def pv_selectedPeer_def selectedPeer_def
        uv_selectedUser_def selectedUser_def user_row_view_def user_row_edit_def)
qed

theorem rows_open_their_dialogs_witness:
  "\<exists>st rows p. peers_FilteredAndPaged no_library (\<lambda>_. None) st = Inr rows \<and> p \<in> set rows
     \<and> selectedPeer ((peer_dialog_init st interfaces_init profile_init)\<lparr>pd_peerId := p_Identifier p\<rparr>)
        = Some (p, Some (Listed (p_Identifier p)))"
proof -
  let ?p = "freshPeer\<lparr>p_Identifier := js ''a''\<rparr>"
  let ?st = "peers_init\<lparr>peers := [?p], sortKey := DisplayName\<rparr>"
  let ?u = "sample_user_named ''u''"
  have rows: "peers_FilteredAndPaged no_library (\<lambda>_. None) ?st = Inr [?p]"
    by (simp add: peers_FilteredAndPaged_def peers_Sorted_def sort_rows_def peers_Filtered_def
        peers_init_def slice_def rel_index_def)
  have user: "?u \<in> set (users_FilteredAndPaged (users_init\<lparr>users := [?u]\<rparr>))"
    by (simp add: users_FilteredAndPaged_def users_Filtered_def users_init_def slice_def rel_index_def)
  have ids: "?p \<in> set [?p]" "p_Identifier ?p \<noteq> []" "distinct_keys p_Identifier (peers ?st)"
    "u_Identifier ?u \<noteq> []" "distinct_keys u_Identifier (users (users_init\<lparr>users := [?u]\<rparr>))"
    by (simp_all add: distinct_keys_def sample_user_named_def)
  let ?d = "peer_dialog_init ?st interfaces_init profile_init"
  have "selectedPeer (?d\<lparr>pd_peers := ?st, pd_peerId := p_Identifier ?p\<rparr>) = Some (?p, Some (Listed (p_Identifier ?p)))"
    using rows_open_their_dialogs [OF rows ids(1-3) user ids(4,5), where d = ?d]
    by (simp add: open_dialog_def)
  moreover have "?d\<lparr>pd_peers := ?st, pd_peerId := p_Identifier ?p\<rparr> = ?d\<lparr>pd_peerId := p_Identifier ?p\<rparr>"
    by (simp add: peer_dialog_init_def)
  ultimately show ?thesis using rows ids(1) by metis
qed

text \<open>The links above the table open the dialog they name and closing it hides it again; no other
  dialog appears or disappears with it.\<close>

theorem header_links_open:
  assumes "Opens k \<in> set (header_links cfg v)"
    and "\<forall>f \<in> set (interfaces (iv_interfaces v)). i_Identifier f \<noteq> []"
    and "shown_dialogs g = []"
  shows "shown_dialogs (open_dialog k g) = [k] \<and> shown_dialogs (close_dialog k (open_dialog k g)) = []"
proof -
  have "i_Identifier f \<noteq> []" if "GetSelected (iv_interfaces v) = Some f" for f
  proof -
    have "f \<in> set (interfaces (iv_interfaces v))"
      using that by (cases "interfaces (iv_interfaces v)")
        (auto simp: GetSelected_def first_def find_Some_iff split: option.splits if_splits)
    then show ?thesis using assms(2) by blast
  qed
  then have "k \<in> {Edit_interface_dialog (js ''#NEW#''), Multi_create_dialog, Edit_peer_dialog (js ''#NEW#'')}
      \<or> (\<exists>i. i \<noteq> [] \<and> k \<in> {View_interface_dialog i, Edit_interface_dialog i})"
    using assms(1) by (auto simp: header_links_def split: if_splits option.splits)
  with assms(3) show ?thesis
    by (auto simp: shown_dialogs_def open_dialog_def close_dialog_def split: if_splits)
qed

text \<open>On the page of the logged-in user the dialogs look into the peer store of the administration
  first: when that still has a peer of the same identifier, they select its copy, whatever the
  row shows, and what is typed into a setting goes into that copy and not into the row.\<close>

theorem own_row_shadowed:
  assumes "peers_Find (pd_peers d) (p_Identifier p) = Some q"
  shows "user_selectedPeer (d\<lparr>pd_peerId := fp_editPeerId (profile_row_edit p g)\<rparr>) = Some (q, Some (Listed (p_Identifier p)))
    \<and> pv_selectedPeer (v\<lparr>pv_peers := pd_peers d, pv_peerId := fp_viewedPeerId (profile_row_view p g)\<rparr>) = Some q"
  using assms by (simp add: user_selectedPeer_def pv_selectedPeer_def profile_row_edit_def profile_row_view_def)

text \<open>The administrator opens the peer \<open>a\<close> of the administration's list, whose name differs.\<close>

theorem own_row_shadowed_witness:
  "\<exists>d g. user_selectedPeer (d\<lparr>pd_peerId := fp_editPeerId (profile_row_edit (freshPeer\<lparr>p_Identifier := js ''a''\<rparr>) g)\<rparr>)
     = Some (freshPeer\<lparr>p_Identifier := js ''a'', p_DisplayName := js ''old''\<rparr>, Some (Listed (js ''a'')))"
proof -
  let ?q = "freshPeer\<lparr>p_Identifier := js ''a'', p_DisplayName := js ''old''\<rparr>"
  let ?d = "peer_dialog_init (peers_init\<lparr>peers := [?q]\<rparr>) interfaces_init profile_init"
  have "peers_Find (pd_peers ?d) (p_Identifier (freshPeer\<lparr>p_Identifier := js ''a''\<rparr>)) = Some ?q"
    by (simp add: peer_dialog_init_def peers_Find_def)
  from own_row_shadowed [OF this] show ?thesis by auto
qed

text \<open>C34. Closing the edit dialog of that page loads the user's peers again, but nothing computes the page
  links anew: they stay those of the old list, so that after a change of the number of pages bar and
  table disagree.\<close>

theorem profile_reload_stale:
  assumes "pager_inv (profile_pager lib toNum) (fv_profile (fp_view g))"
    and "filter_text (fv_profile (fp_view g)) = []" "currentUser auth = Inr i" "latin1 i"
    and "page_count (int (length ps)) (pageSize (fv_profile (fp_view g))) = n"
    and "page_count (CountPeers (fv_profile (fp_view g))) (pageSize (fv_profile (fp_view g))) = m" "m \<noteq> n"
  shows "\<exists>q h k. profile_edit_closed auth g = Returns q h [] \<and> fp_editPeerId h = []
    \<and> profile_LoadPeers_settle (Inr ps) (fv_profile (fp_view h)) = Returns () k []
    \<and> prof_peers k = ps \<and> pages k = [1..m] \<and> \<not> pager_inv (profile_pager lib toNum) k"
proof -
  let ?s = "fv_profile (fp_view g)"
  let ?h = "g\<lparr>fp_editPeerId := [], fp_view := (fp_view g)\<lparr>fv_profile := ?s\<lparr>fetching := True\<rparr>\<rparr>\<rparr>"
  let ?k = "?s\<lparr>prof_peers := ps, fetching := False\<rparr>"
  obtain q where a: "profile_edit_closed auth g = Returns q ?h []"
    using assms(3,4) by (simp add: profile_edit_closed_def profile_LoadPeers_begin_def own_request_run
        encoded_request_cases js_run)
  have b: "profile_LoadPeers_settle (Inr ps) (fv_profile (fp_view ?h)) = Returns () ?k []"
    by (simp add: profile_LoadPeers_settle_def profile_setPeers_def set_fetching_def js_run)
  have links: "pages ?k = [1..m]" "0 < pageSize ?s"
    using assms(1,2,6) by (simp_all add: pager_inv_def profile_pager_def FilteredPeerCount_def
        FilteredPeers_def CountPeers_def)
  have c: "\<not> pager_inv (profile_pager lib toNum) ?k"
  proof
    assume "pager_inv (profile_pager lib toNum) ?k"
    then have "[1..n] = [1..m]" using assms(2,5) links(1)
      by (simp add: pager_inv_def profile_pager_def FilteredPeerCount_def FilteredPeers_def)
    then have "length [1..n] = length [1..m]" by simp
    moreover have "0 \<le> n" "0 \<le> m"
      unfolding assms(5,6) [symmetric] by (simp_all add: page_count_nonneg [OF links(2)] CountPeers_def)
    ultimately show False using assms(7) by simp
  qed
  have d: "fp_editPeerId ?h = []" "prof_peers ?k = ps" by simp_all
  show ?thesis by (intro exI conjI) (fact a, fact d(1), fact b, fact d(2), fact links(1), fact c)
qed

definition one_own_peer :: profile_page where
  "one_own_peer = \<lparr>fp_view = \<lparr>fv_profile = profile_init\<lparr>prof_peers := [freshPeer], pages := [1]\<rparr>,
     fv_sortKey = None, fv_sortOrder = 1, fv_selectAll = False\<rparr>, fp_viewedPeerId = [], fp_editPeerId = js ''#NEW#''\<rparr>"

theorem profile_reload_stale_witness:
  "\<exists>q h k. profile_edit_closed logged_in one_own_peer = Returns q h []
     \<and> profile_LoadPeers_settle (Inr (replicate 11 freshPeer)) (fv_profile (fp_view h)) = Returns () k []
     \<and> CountPeers k = 11 \<and> pages k = [1]"
proof -
  have "pager_inv (profile_pager no_library (\<lambda>_. None)) (fv_profile (fp_view one_own_peer))"
    "filter_text (fv_profile (fp_view one_own_peer)) = []" "currentUser logged_in = Inr (js ''admin'')"
    "latin1 (js ''admin'')"
    "page_count (int (length (replicate 11 freshPeer))) (pageSize (fv_profile (fp_view one_own_peer))) = 2"
    "page_count (CountPeers (fv_profile (fp_view one_own_peer))) (pageSize (fv_profile (fp_view one_own_peer))) = 1"
    by (simp_all add: one_own_peer_def profile_init_def pager_inv_def profile_pager_def FilteredPeerCount_def
        FilteredPeers_def CountPeers_def page_count_def currentUser_def logged_in_def)
  from profile_reload_stale [OF this] show ?thesis by (auto simp: CountPeers_def)
qed

end
