(* ===== verification/Show_Templates.thy ===== *)
theory Show_Templates
  imports Page_Events
begin

text \<open>
  The templates that mostly show: \<open>views/HomeView.vue\<close>, the cards of \<open>views/SettingsView.vue\<close> with
  the start-up of that page, and the bodies of \<open>components/PeerViewModal.vue\<close> and
  \<open>components/UserViewModal.vue\<close>.
\<close>

section \<open>The home page\<close>

text \<open>The cards with the pages they link, and those with an address elsewhere.\<close>

datatype home_card = Page_card "jsstr list" | Info_card jsstr

definition home_info :: "home_card list" where
  "home_info = map (\<lambda>t. Info_card (js t))
     [''https://www.wireguard.com/install/'', ''https://www.wireguard.com/'', ''https://wgportal.org/'']"

definition home_cards :: "auth_store \<Rightarrow> home_card list" where
  "home_cards auth =
     (if IsAuthenticated auth then [Page_card [js ''profile'']] else [])
     @ (if IsAuthenticated auth \<and> IsAdmin auth then [Page_card [js ''interfaces'', js ''users'']] else [])
     @ home_info"

text \<open>What the home page links, the menu links too, for every visitor.\<close>

theorem home_links_in_menu:
  "Page_card ns \<in> set (home_cards (po_auth s)) \<Longrightarrow> Route_link ` set ns \<subseteq> set (app_menu s)"
  by (auto simp: home_cards_def home_info_def app_menu_def Let_def split: if_splits)

section \<open>The settings page\<close>

record settings_page =
  sp_view :: settings_view
  sp_profile :: profile_store
  sp_settings :: settings_store
  sp_selected :: "credential option"

abbreviation sp_auth :: "settings_page \<Rightarrow> auth_store" where
  "sp_auth g \<equiv> sv_auth (sp_view g)"

definition sp_on_profile :: "(profile_store, 'a) comp \<Rightarrow> (settings_page, 'a) comp" where
  "sp_on_profile = zoom sp_profile (\<lambda>p g. g\<lparr>sp_profile := p\<rparr>)"

definition sp_on_auth :: "(auth_store, 'a) comp \<Rightarrow> (settings_page, 'a) comp" where
  "sp_on_auth = zoom sp_auth (\<lambda>a g. g\<lparr>sp_view := (sp_view g)\<lparr>sv_auth := a\<rparr>\<rparr>)"

text \<open>The start-up awaits the two requests one after the other.\<close>

definition settings_mounted ::
  "user settled \<Rightarrow> credential list option settled \<Rightarrow> (settings_page, unit) comp" where
  "settings_mounted user_reply keys_reply =
     andThen
       (bind (gets sp_auth) (\<lambda>auth. sp_on_profile
         (bind (LoadUser_begin auth) (\<lambda>_. LoadUser_settle user_reply))))
       (sp_on_auth (bind LoadWebAuthnCredentials_begin (\<lambda>_. LoadWebAuthnCredentials_settle keys_reply)))"

text \<open>
  The card of the API: identifier, token, date and whether the button is disabled when there is a
  token, the latter alone when there is none.
\<close>

datatype api_card = Api_active jsstr jsstr "jsstr option" bool | Api_inactive bool

definition api_card :: "settings_page \<Rightarrow> api_card option" where
  "api_card g =
     (if api_card_shown (sp_view g) (sp_settings g)
      then Some (case prof_user (sp_profile g) of
          None \<Rightarrow> Api_inactive (fetching (sp_profile g))
        | Some u \<Rightarrow> (case u_ApiToken u of
            None \<Rightarrow> Api_inactive (fetching (sp_profile g))
          | Some token \<Rightarrow> if token = [] then Api_inactive (fetching (sp_profile g))
              else Api_active (u_Identifier u) token (u_ApiTokenCreated u) (fetching (sp_profile g))))
      else None)"

definition api_enable :: "(settings_page, unit request) comp" where
  "api_enable = bind (gets sp_auth) (\<lambda>auth. sp_on_profile (enableApi_begin auth))"

definition api_disable :: "(settings_page, unit request) comp" where
  "api_disable = bind (gets sp_auth) (\<lambda>auth. sp_on_profile (disableApi_begin auth))"

text \<open>
  A session with the card and the number of requests on their way. A press of a button that is
  not disabled sends a request or throws; an answer comes to a request of either button.
\<close>

inductive api_event :: "settings_page \<times> nat \<Rightarrow> settings_page \<times> nat \<Rightarrow> bool" where
  press_enable: "api_card g = Some (Api_inactive False) \<Longrightarrow> api_enable g = Returns q h es
    \<Longrightarrow> api_event (g, n) (h, Suc n)"
| enable_throws: "api_card g = Some (Api_inactive False) \<Longrightarrow> api_enable g = Throws e h es
    \<Longrightarrow> api_event (g, n) (h, n)"
| press_disable: "api_card g = Some (Api_active i token date False) \<Longrightarrow> api_disable g = Returns q h es
    \<Longrightarrow> api_event (g, n) (h, Suc n)"
| disable_throws: "api_card g = Some (Api_active i token date False) \<Longrightarrow> api_disable g = Throws e h es
    \<Longrightarrow> api_event (g, n) (h, n)"
| enable_answered: "sp_on_profile (enableApi_settle reply) g = Returns () h es
    \<Longrightarrow> api_event (g, Suc n) (h, n)"
| disable_answered: "sp_on_profile (disableApi_settle reply) g = Returns () h es
    \<Longrightarrow> api_event (g, Suc n) (h, n)"

subsection \<open>Passkeys\<close>

text \<open>The buttons of a row, with whether they are disabled.\<close>

datatype passkey_action = Save_name bool | Cancel_name | Rename_key | Delete_key bool

definition passkey_buttons :: "settings_page \<Rightarrow> nat \<Rightarrow> passkey_action list" where
  "passkey_buttons g i =
     (if sv_temp (sp_view g) i \<noteq> None then [Save_name (auth_fetching (sp_auth g)), Cancel_name]
      else [Rename_key, Delete_key (auth_fetching (sp_auth g))])"

text \<open>Whether passkeys are in use, whether the button for a new one is disabled, and the table.\<close>

definition passkey_card ::
  "settings_page \<Rightarrow> (bool \<times> bool \<times> (passkey_name \<times> jsstr \<times> passkey_action list) list) option" where
  "passkey_card g =
     (if setting_on (sp_settings g) ''WebAuthnEnabled''
      then Some (IsWebAuthnEnabled (sp_auth g), auth_fetching (sp_auth g),
        if length (WebAuthnCredentials (sp_auth g)) > 0
        then map (\<lambda>(i, name, created). (name, created, passkey_buttons g i)) (enumerate 0 (passkey_rows (sp_view g)))
        else [])
      else None)"

text \<open>
  The delete button of a row remembers the credential for the dialog; before that the dialog has
  an empty object, whose undefined identifier would be encoded as the text of that word.
\<close>

definition passkey_select :: "nat \<Rightarrow> (settings_page, unit) comp" where
  "passkey_select i = modify (\<lambda>g. g\<lparr>sp_selected := Some (sv_credentials (sp_view g) ! i)\<rparr>)"

definition passkey_dialog :: "settings_page \<Rightarrow> jsstr option \<times> jsstr option \<times> bool" where
  "passkey_dialog g =
     (map_option cr_Name (sp_selected g), map_option cr_CreatedAt (sp_selected g), auth_fetching (sp_auth g))"

definition passkey_delete :: "(settings_page, jsstr request) comp" where
  "passkey_delete = bind (gets sp_selected) (\<lambda>sel.
     sp_on_auth (DeleteWebAuthnCredential_begin (case sel of None \<Rightarrow> js ''undefined'' | Some c \<Rightarrow> cr_ID c)))"

section \<open>What the settings page shows\<close>

text \<open>Whether the identifier of the logged-in user can be part of a path.\<close>

definition own_path :: "auth_store \<Rightarrow> bool" where
  "own_path auth \<longleftrightarrow> (case currentUser auth of Inl _ \<Rightarrow> False | Inr i \<Rightarrow> latin1 i)"

lemma own_request_ends:
  "if own_path auth then \<exists>q. own_request auth verb post s = Returns q (s\<lparr>fetching := True\<rparr>) []
   else \<exists>e. own_request auth verb post s = Throws e (s\<lparr>fetching := True\<rparr>) []"
  by (cases "currentUser auth")
    (simp_all add: own_path_def own_request_run encoded_request_cases)

lemmas api_defs = api_enable_def api_disable_def sp_on_profile_def enableApi_begin_def disableApi_begin_def

lemma api_request_ends:
  assumes "m \<in> {api_enable, api_disable}"
  shows "if own_path (sp_auth g)
    then \<exists>q. m g = Returns q (g\<lparr>sp_profile := (sp_profile g)\<lparr>fetching := True\<rparr>\<rparr>) []
    else \<exists>e. m g = Throws e (g\<lparr>sp_profile := (sp_profile g)\<lparr>fetching := True\<rparr>\<rparr>) []"
proof -
  have "\<exists>post. m g = sp_on_profile (own_request (sp_auth g) POST post) g"
    using assms by (auto simp: api_defs js_run)
  then obtain post where m: "m g = sp_on_profile (own_request (sp_auth g) POST post) g" by blast
  show ?thesis using own_request_ends [of "sp_auth g" POST post "sp_profile g"]
    by (cases "own_path (sp_auth g)") (auto simp: m sp_on_profile_def zoom_def)
qed

text \<open>The requests on their way and the flag of the store, for a visitor who stays the same.\<close>

definition api_ok :: "auth_store \<Rightarrow> settings_page \<times> nat \<Rightarrow> bool" where
  "api_ok auth c \<longleftrightarrow> sp_auth (fst c) = auth
     \<and> (if own_path auth then snd c = (if fetching (sp_profile (fst c)) then 1 else 0) else snd c = 0)"

lemma api_card_busy:
  "api_card g = Some (Api_inactive b) \<Longrightarrow> b = fetching (sp_profile g)"
  "api_card g = Some (Api_active i token date b) \<Longrightarrow> b = fetching (sp_profile g)"
  by (auto simp: api_card_def split: if_splits option.splits)

lemma api_event_ok: "api_event c d \<Longrightarrow> api_ok auth c \<Longrightarrow> api_ok auth d"
proof (induction rule: api_event.induct)
  case (press_enable g q h es n)
  then show ?case using api_request_ends [of api_enable g] api_card_busy(1) [OF press_enable(1)]
    by (auto simp: api_ok_def split: if_splits)
next
  case (enable_throws g e h es n)
  then show ?case using api_request_ends [of api_enable g] by (auto simp: api_ok_def split: if_splits)
next
  case (press_disable g i token date q h es n)
  then show ?case using api_request_ends [of api_disable g] api_card_busy(2) [OF press_disable(1)]
    by (auto simp: api_ok_def split: if_splits)
next
  case (disable_throws g i token date e h es n)
  then show ?case using api_request_ends [of api_disable g] by (auto simp: api_ok_def split: if_splits)
next
  case (enable_answered reply g h es n)
  then show ?case using api_switch_outcome [of True reply "sp_profile g"]
    by (auto simp: api_ok_def sp_on_profile_def zoom_def split: if_splits run.splits)
next
  case (disable_answered reply g h es n)
  then show ?case using api_switch_outcome [of False reply "sp_profile g"]
    by (auto simp: api_ok_def sp_on_profile_def zoom_def split: if_splits run.splits)
qed

lemma api_session_ok: "api_event\<^sup>*\<^sup>* c d \<Longrightarrow> api_ok auth c \<Longrightarrow> api_ok auth d"
  by (induction rule: rtranclp_induct) (auto intro: api_event_ok)

lemma api_okD:
  "api_ok auth (g, n) \<Longrightarrow> n \<le> 1"
  "api_ok auth (g, n) \<Longrightarrow> own_path auth \<Longrightarrow> n = 1 \<longleftrightarrow> fetching (sp_profile g)"
  by (auto simp: api_ok_def split: if_splits)

lemma busy_event:
  assumes "api_event (h, n) (k, m)" "fetching (sp_profile h)"
  shows "n = Suc m"
  using assms(1) by cases (use assms(2) api_card_busy in blast)+

text \<open>However the buttons of the API card are pressed, at most one request is on its way. For a user
  whose identifier can be part of a path that is the case exactly while the button is disabled,
  and every answer to it enables the button again.\<close>

theorem api_card_session:
  assumes "\<not> fetching (sp_profile g)" "api_event\<^sup>*\<^sup>* (g, 0) (h, n)"
  shows "n \<le> 1 \<and> (own_path (sp_auth g) \<longrightarrow> (n = 1 \<longleftrightarrow> fetching (sp_profile h))
    \<and> (\<forall>k m. n = 1 \<longrightarrow> api_event (h, n) (k, m) \<longrightarrow> m = 0 \<and> \<not> fetching (sp_profile k)))"
proof -
  have "api_ok (sp_auth g) (g, 0)" using assms(1) by (simp add: api_ok_def)
  from api_session_ok [OF assms(2) this] have ok: "api_ok (sp_auth g) (h, n)" .
  have "m = 0 \<and> \<not> fetching (sp_profile k)"
    if "api_event (h, n) (k, m)" "n = 1" "own_path (sp_auth g)" for k m
  proof -
    have "fetching (sp_profile h)" using api_okD(2) [OF ok that(3)] that(2) by blast
    from busy_event [OF that(1) this] that(2) have "m = 0" by linarith
    with api_okD(2) [OF api_event_ok [OF that(1) ok] that(3)] show ?thesis by simp
  qed
  with api_okD [OF ok] show ?thesis by blast
qed

lemma stuck_card:
  assumes "api_event\<^sup>*\<^sup>* (h, 0) c" "fetching (sp_profile h)"
  shows "c = (h, 0)"
  using assms(1)
proof (induction rule: rtranclp_induct)
  case (step c d)
  then show ?case using busy_event [of h 0 "fst d" "snd d"] assms(2) by simp
qed simp

text \<open>C38. The start-up of the page loads the user and the passkeys, and both flags are free after it,
  whatever the answers were. For a user whose identifier cannot be part of a path it throws
  before any request: the passkeys are not asked for, and the button of the API card, if there
  is one, stays disabled for ever.\<close>

theorem settings_mounted_outcome:
  "if own_path (sp_auth g)
   then \<exists>h es. settings_mounted user_reply keys_reply g = Returns () h es
     \<and> \<not> fetching (sp_profile h) \<and> \<not> auth_fetching (sp_auth h)
     \<and> prof_user (sp_profile h) = (case user_reply of Inl _ \<Rightarrow> None | Inr u \<Rightarrow> Some u)
     \<and> webAuthnCredentials (sp_auth h) = (case keys_reply of Inl _ \<Rightarrow> Some [] | Inr ks \<Rightarrow> ks)
   else \<exists>e h. settings_mounted user_reply keys_reply g = Throws e h []
     \<and> sp_view h = sp_view g \<and> fetching (sp_profile h)
     \<and> (\<forall>c. api_event\<^sup>*\<^sup>* (h, 0) c \<longrightarrow> c = (h, 0))"
proof (cases "own_path (sp_auth g)")
  case True
  then obtain q where "own_request (sp_auth g) GET [] (sp_profile g)
      = Returns q ((sp_profile g)\<lparr>fetching := True\<rparr>) []"
    using own_request_ends [of "sp_auth g" GET "[]" "sp_profile g"] by auto
  with True show ?thesis
    by (cases user_reply; cases keys_reply)
      (simp_all add: settings_mounted_def LoadUser_begin_def LoadUser_settle_def setUser_def
        set_fetching_def notify_backend_def sp_on_profile_def sp_on_auth_def
        LoadWebAuthnCredentials_begin_def LoadWebAuthnCredentials_settle_def set_auth_fetching_def
        setWebAuthnCredentials_def notify_error_def js_run)
next
  case False
  let ?h = "g\<lparr>sp_profile := (sp_profile g)\<lparr>fetching := True\<rparr>\<rparr>"
  obtain e where "own_request (sp_auth g) GET [] (sp_profile g)
      = Throws e ((sp_profile g)\<lparr>fetching := True\<rparr>) []"
    using False own_request_ends [of "sp_auth g" GET "[]" "sp_profile g"] by auto
  then have "settings_mounted user_reply keys_reply g = Throws e ?h []"
    by (simp add: settings_mounted_def LoadUser_begin_def sp_on_profile_def js_run)
  with False stuck_card [of ?h] show ?thesis by auto
qed

text \<open>The page of the user \<open>admin\<close>.\<close>

definition admin_page :: settings_page where
  "admin_page = \<lparr>sp_view = \<lparr>sv_auth = logged_in, sv_temp = Map.empty\<rparr>, sp_profile = profile_init,
     sp_settings = settings_init, sp_selected = None\<rparr>"

theorem api_card_session_witness:
  "\<exists>q h. api_enable admin_page = Returns q h [] \<and> fetching (sp_profile h)"
proof -
  have own: "own_path (sp_auth admin_page)"
    by (simp add: own_path_def currentUser_def admin_page_def logged_in_def)
  obtain q h where run: "api_enable admin_page = Returns q h []"
    using api_request_ends [of api_enable admin_page] own by auto
  have card: "api_card admin_page = Some (Api_inactive False)"
    by (simp add: api_card_def api_card_shown_def admin_page_def settings_init_def Setting_def profile_init_def)
  have "api_event\<^sup>*\<^sup>* (admin_page, 0) (h, Suc 0)"
    using press_enable [OF card run, of 0] by blast
  from api_card_session [OF _ this] own run show ?thesis
    by (auto simp: admin_page_def profile_init_def)
qed

text \<open>The page of a user with a cyrillic letter as identifier.\<close>

definition cyrillic_page :: settings_page where
  "cyrillic_page = admin_page\<lparr>sp_view := \<lparr>sv_auth = logged_in\<lparr>auth_user := Some \<lparr>au_Identifier = Some [0x438],
     au_Firstname = None, au_Lastname = None, au_Email = None, au_IsAdmin = None\<rparr>\<rparr>, sv_temp = Map.empty\<rparr>\<rparr>"

theorem settings_mounted_outcome_witness:
  "\<exists>e h. settings_mounted (Inr freshUser) (Inr None) cyrillic_page = Throws e h [] \<and> fetching (sp_profile h)
     \<and> (\<forall>c. api_event\<^sup>*\<^sup>* (h, 0) c \<longrightarrow> c = (h, 0))"
proof -
  have "\<not> own_path (sp_auth cyrillic_page)"
    by (simp add: own_path_def currentUser_def cyrillic_page_def latin1_def)
  with settings_mounted_outcome [of cyrillic_page "Inr freshUser" "Inr None"] show ?thesis by auto
qed

text \<open>A chosen passkey is the one the dialog shows and the one whose deletion is asked for.\<close>

theorem passkey_chosen:
  assumes "i < length (sv_credentials (sp_view g))" "c = sv_credentials (sp_view g) ! i"
    "base64_url_encode (cr_ID c) = Inr seg"
  shows "\<exists>h k. passkey_select i g = Returns () h []
    \<and> passkey_dialog h = (Some (cr_Name c), Some (cr_CreatedAt c), auth_fetching (sp_auth g))
    \<and> passkey_delete h = Returns (Request DELETE (js ''/auth/webauthn/credential/'' @ seg) None) k []
    \<and> (\<forall>a. a \<in> set (passkey_buttons k i) \<longrightarrow> a \<in> {Save_name True, Cancel_name, Rename_key, Delete_key True})"
  using assms by (simp add: passkey_select_def passkey_dialog_def passkey_delete_def sp_on_auth_def
      DeleteWebAuthnCredential_begin_def set_auth_fetching_def passkey_buttons_def js_run)

section \<open>The dialog of a peer\<close>

text \<open>
  A line of the dialog is a label with what it shows: texts, one or several, a flag, a number of
  bytes, or nothing for a value that is undefined or null.
\<close>

datatype shown_value =
    Shown_text jsstr
  | Shown_texts "jsstr list"
  | Shown_flag bool
  | Shown_bytes int
  | Shown_nothing

fun shown_option :: "jsstr option \<Rightarrow> shown_value" where
  "shown_option None = Shown_nothing"
| "shown_option (Some t) = Shown_text t"

text \<open>The styles of the configuration, each with whether it is chosen.\<close>

definition style_inputs :: "peer_view \<Rightarrow> (jsstr \<times> bool) list" where
  "style_inputs v = map (\<lambda>st. (st, pv_configStyle v = st)) [js ''raw'', js ''wgquick'']"

definition peer_details :: "zone \<Rightarrow> peer_view \<Rightarrow> (string \<times> shown_value) list settled" where
  "peer_details z v = (case pv_selectedPeer v of
      None \<Rightarrow> Inl TypeError
    | Some p \<Rightarrow> map_sum id (\<lambda>expiry.
        [(''identifier'', Shown_text (p_PublicKey p)),
         (''ip'', Shown_texts (p_Addresses p)),
         (''user'', Shown_text (p_UserIdentifier p))]
        @ (if p_Notes p \<noteq> [] then [(''notes'', Shown_text (p_Notes p))] else [])
        @ (if given (p_ExpiresAt p) then [(''expiry-status'', Shown_text expiry)] else [])
        @ (if p_Disabled p then [(''disabled-status'', shown_option (p_DisabledReason p))] else []))
      (formattedExpiryDate z v))"

definition peer_status :: "peer_view \<Rightarrow> (string \<times> shown_value) list" where
  "peer_status v = (let s = selectedStats v in
     [(''download'', Shown_bytes (getTotalTraffic (Some s) True)),
      (''upload'', Shown_bytes (getTotalTraffic (Some s) False)),
      (''pingable'', Shown_flag (s_IsPingable s)),
      (''handshake'', shown_option (s_LastHandshake s)),
      (''connected-since'', shown_option (s_LastSessionStart s)),
      (''endpoint'', Shown_text (s_EndpointAddress s))])"

text \<open>The configuration, which peers of a server have.\<close>

definition peer_config_section :: "peer_view \<Rightarrow> jsstr option" where
  "peer_config_section v =
     (if i_Mode (pv_selectedInterface v) = js ''server'' then Some (pv_configString v) else None)"

text \<open>The body of the dialog, with the address of the QR code: an exception in any part of it
  makes the whole body throw.\<close>

definition peer_body ::
  "jsstr \<Rightarrow> zone \<Rightarrow> peer_view
    \<Rightarrow> ((string \<times> shown_value) list \<times> jsstr \<times> (string \<times> shown_value) list \<times> jsstr option) settled" where
  "peer_body base z v = (case peer_details z v of
      Inl e \<Rightarrow> Inl e
    | Inr details \<Rightarrow> map_sum id (\<lambda>qr. (details, qr, peer_status v, peer_config_section v))
        (peer_view_ConfigQrUrl base v))"

section \<open>The dialog of a user\<close>

text \<open>Without a user every value is undefined.\<close>

definition user_details :: "user_view \<Rightarrow> (string \<times> shown_value) list" where
  "user_details v = (let u = uv_selectedUser v; field = (\<lambda>f. shown_option (map_option f u)) in
     [(''email'', field u_Email), (''firstname'', field u_Firstname), (''lastname'', field u_Lastname),
      (''phone'', field u_Phone), (''department'', field u_Department),
      (''api-enabled'', case u of None \<Rightarrow> Shown_nothing | Some w \<Rightarrow> Shown_flag (u_ApiEnabled w))]
     @ (case u of None \<Rightarrow> [] | Some w \<Rightarrow>
          (if u_Disabled w then [(''disabled'', Shown_text (u_DisabledReason w))] else [])
          @ (if u_Locked w then [(''locked'', Shown_text (u_LockedReason w))] else [])))"

definition user_notes :: "user_view \<Rightarrow> jsstr option" where
  "user_notes v = (case uv_selectedUser v of
      None \<Rightarrow> None | Some u \<Rightarrow> if u_Notes u \<noteq> [] then Some (u_Notes u) else None)"

definition user_peer_headings :: "string list" where
  "user_peer_headings = [''name'', ''interface'', ''ip (IPv4)'', ''ip (IPv6)'', []]"

definition user_peer_cells :: "peer \<Rightarrow> shown_value list" where
  "user_peer_cells p =
     [Shown_text (p_DisplayName p), Shown_text (p_InterfaceIdentifier p),
      Shown_texts (fst (uv_getPeerAddresses (p_Addresses p))),
      Shown_texts (snd (uv_getPeerAddresses (p_Addresses p)))]"

text \<open>No table but a message when the user has no peers.\<close>

definition user_peer_table :: "user_view \<Rightarrow> (string list \<times> shown_value list list) option" where
  "user_peer_table v =
     (if uv_userPeers v = [] then None
      else Some (user_peer_headings, map user_peer_cells (uv_userPeers v)))"

section \<open>What the dialogs show\<close>

text \<open>The body of the dialog of a peer renders exactly when the stores have the peer and its
  identifier can be part of a path; a peer that vanishes while the dialog is open, or whose
  identifier has a character above 255, makes it throw.\<close>

theorem peer_body_renders:
  "(\<exists>b. peer_body base z v = Inr b) \<longleftrightarrow> pv_peerId v = []
      \<or> (peers_Find (pv_peers v) (pv_peerId v) \<noteq> None \<or> FindPeers (pv_profile v) (pv_peerId v) \<noteq> None)
        \<and> latin1 (pv_peerId v)"
proof -
  have selected: "pv_selectedPeer v \<noteq> None \<longleftrightarrow> pv_peerId v = [] \<or> peers_Find (pv_peers v) (pv_peerId v) \<noteq> None
      \<or> FindPeers (pv_profile v) (pv_peerId v) \<noteq> None"
    by (auto simp: pv_selectedPeer_def split: option.split)
  have details: "(\<exists>ds. peer_details z v = Inr ds) \<longleftrightarrow> pv_selectedPeer v \<noteq> None"
    by (auto simp: peer_details_def formattedExpiryDate_def split: option.split)
  have qr: "(\<exists>u. peer_view_ConfigQrUrl base v = Inr u) \<longleftrightarrow> pv_peerId v = [] \<or> latin1 (pv_peerId v)"
    by (auto simp: peer_view_ConfigQrUrl_def base64_url_encode_def btoa_def Let_def)
  have "(\<exists>b. peer_body base z v = Inr b) \<longleftrightarrow>
      (\<exists>ds. peer_details z v = Inr ds) \<and> (\<exists>u. peer_view_ConfigQrUrl base v = Inr u)"
    by (cases "peer_details z v"; cases "peer_view_ConfigQrUrl base v") (simp_all add: peer_body_def)
  then show ?thesis unfolding details qr selected by blast
qed

text \<open>Every row of the table of a user's peers has one cell less than the table has headings.\<close>

theorem user_rows_short:
  "user_peer_table v = Some (headings, rows) \<Longrightarrow> r \<in> set rows \<Longrightarrow> length headings = Suc (length r)"
  by (auto simp: user_peer_table_def user_peer_headings_def user_peer_cells_def split: if_splits)

end
