(* ===== verification/Shell.thy ===== *)
theory Shell
  imports Show_Templates
begin

text \<open>
  The rest of the frame and of the headlines: the menus of the themes and languages and the footer
  of \<open>App.vue\<close>, the headlines of \<open>views/InterfaceView.vue\<close>, and the two places that warn about the
  backend of an interface, in that page and in \<open>components/InterfaceEditModal.vue\<close>.
\<close>

section \<open>The frame\<close>

text \<open>The entries of the menu of languages: the language and the class of the flag beside it.\<close>

definition language_menu :: "(jsstr \<times> jsstr) list" where
  "language_menu = map (map_prod js js)
     [(''de'', ''fi-de''), (''en'', ''fi-us''), (''fr'', ''fi-fr''), (''ko'', ''fi-kr''), (''pt'', ''fi-pt''),
      (''ru'', ''fi-ru''), (''uk'', ''fi-ua''), (''vi'', ''fi-vi''), (''zh'', ''fi-cn'')]"

definition theme_menu :: "jsstr list" where
  "theme_menu = map js [''light'', ''dark'']"

text \<open>Company and year, with the version for users only.\<close>

definition app_footer :: "jsstr \<Rightarrow> jsstr \<Rightarrow> int \<Rightarrow> auth_store \<Rightarrow> jsstr \<times> int \<times> jsstr option" where
  "app_footer companyName wgVersion currentYear auth =
     (companyName, currentYear, if IsAuthenticated auth then Some wgVersion else None)"

section \<open>The headlines of the page of the interfaces\<close>

text \<open>
  Identifier, mode, backend, whether there is a warning about it, and whether there is the icon of
  a disabled interface; nothing without interfaces.
\<close>

definition interface_headline ::
  "(jsstr \<Rightarrow> jsstr) \<Rightarrow> interface_view \<Rightarrow> (jsstr \<times> jsstr \<times> jsstr \<times> bool \<times> bool) option settled"
where
  "interface_headline tr v =
     (if interfaces (iv_interfaces v) = [] then Inr None
      else (case (GetSelected (iv_interfaces v), calculateBackendName tr v, isBackendValid v) of
          (Some f, Inr name, Inr valid) \<Rightarrow> Inr (Some
            (i_Identifier f, tr (js ''modals.interface-edit.mode.'' @ i_Mode f),
             tr (js ''interfaces.interface.backend'') @ js '': '' @ name, \<not> valid,
             i_Disabled f))
        | _ \<Rightarrow> Inl TypeError))"

definition peers_headline :: "interface_view \<Rightarrow> jsstr option" where
  "peers_headline v = (case GetSelected (iv_interfaces v) of
      None \<Rightarrow> None
    | Some f \<Rightarrow> Some (if i_Mode f = js ''server'' then js ''interfaces.headline-peers''
        else js ''interfaces.headline-endpoints''))"

section \<open>The key generator and the question\<close>

text \<open>The inputs of the key generator, all of them for reading only, and its two buttons.\<close>

definition key_inputs :: "key_generator \<Rightarrow> (string \<times> jsstr) list" where
  "key_inputs g = [(''private-key'', kg_privateKey g), (''public-key'', kg_publicKey g),
     (''preshared-key'', kg_presharedKey g)]"

datatype key_button = Keypair_button "(jsstr \<times> jsstr) settled" | Preshared_button "nat \<Rightarrow> 8 word"

fun key_press :: "key_button \<Rightarrow> (key_generator, unit) comp" where
  "key_press (Keypair_button exported) = generateNewKeyPair exported"
| "key_press (Preshared_button random) = generateNewPresharedKey random"

text \<open>The page after a sequence of presses, each with its exported keys or random bytes.\<close>

fun key_session :: "key_button list \<Rightarrow> key_generator \<Rightarrow> key_generator" where
  "key_session [] g = g"
| "key_session (b # bs) g = (case key_press b g of
      Returns _ h es \<Rightarrow> key_session bs h
    | Throws _ h es \<Rightarrow> key_session bs h
    | Diverges \<Rightarrow> g)"

text \<open>The question with its buttons, while it is visible.\<close>

definition confirmation_shown :: "confirmation \<Rightarrow> (jsstr \<times> jsstr \<times> verdict_event list) option" where
  "confirmation_shown c = (if co_visible c then Some (co_title c, co_question c, [No, Yes]) else None)"

section \<open>Properties\<close>

text \<open>C27. The menu has every language there is a translation for and no other, each once; and whatever
  was displayed before, choosing an entry displays that language with the flag of the entry.\<close>

theorem language_menu_agrees:
  "set (map fst language_menu) = set messages \<and> distinct (map fst language_menu)
   \<and> (\<forall>(l, f) \<in> set language_menu. \<exists>b. switchLanguage l a = Returns () b [] \<and> ap_locale b = l \<and> languageFlag b = f)"
proof -
  have flags: "languageFlag b = f" if "(l, f) \<in> set language_menu" "ap_locale b = l" for l f b
    using that by (auto simp: language_menu_def languageFlag_def toLowerCase_def langMap_def messages_def
        fallbackLocale_def js_def js_char_def)
  have "\<exists>b. switchLanguage l a = Returns () b [] \<and> ap_locale b = l \<and> languageFlag b = f"
    if "(l, f) \<in> set language_menu" for l f
    using flags [OF that] by (auto simp: switchLanguage_def modify_def)
  moreover have "set (map fst language_menu) = set messages" "distinct (map fst language_menu)"
    by (auto simp: language_menu_def messages_def js_def js_char_def)
  ultimately show ?thesis by blast
qed

lemma fold_any: "fold (\<lambda>i valid. if i = b then True else valid) is v = (v \<or> b \<in> set is)"
  by (induction "is" arbitrary: v) auto

lemma fold_any_pair: "fold (\<lambda>(i, n) valid. if i = b then True else valid) ps v = (v \<or> b \<in> fst ` set ps)"
  by (induction ps arbitrary: v) auto

text \<open>The headline of the page and the dialog of the selected interface warn about its backend
  together, when the backends of the settings have identifiers and names: both warn exactly when
  the settings lack the backend of the listed interface. What has been chosen in the form of the
  dialog in the meantime makes no difference to its warning.\<close>

theorem backend_warnings_agree:
  assumes "GetSelected (iv_interfaces v) = Some f" "selectedInterface d = Some f" "id_visible d"
    and "id_settings d = iv_settings v" "backend_ids (iv_settings v) = map fst (backends (iv_settings v))"
  shows "(\<exists>i m n x. interface_headline tr v = Inr (Some (i, m, n, iface_backend_warning (d\<lparr>id_form := g\<rparr>), x)))
    \<and> (iface_backend_warning (d\<lparr>id_form := g\<rparr>) \<longleftrightarrow> i_Backend f \<notin> set (backend_ids (iv_settings v)))"
proof -
  have "selectedInterface (d\<lparr>id_form := g\<rparr>) = Some f" using assms(2) by (simp add: selectedInterface_def)
  then have "iface_backend_warning (d\<lparr>id_form := g\<rparr>) \<longleftrightarrow> i_Backend f \<notin> set (backend_ids (iv_settings v))"
    using assms(3,4) by (simp add: iface_backend_warning_def dialog_isBackendValid_def fold_any)
  moreover have "isBackendValid v = Inr (i_Backend f \<in> set (backend_ids (iv_settings v)))"
    using assms(1,5) by (simp add: isBackendValid_def fold_any_pair)
  moreover have "interfaces (iv_interfaces v) \<noteq> []" using assms(1) by (auto simp: GetSelected_def first_def)
  ultimately show ?thesis
    using assms(1) by (simp add: interface_headline_def calculateBackendName_def)
qed

theorem backend_warnings_agree_witness:
  "\<exists>i m n x. interface_headline id two_interfaces = Inr (Some (i, m, n, True, x))"
proof -
  let ?d = "interface_dialog_init\<lparr>id_interfaces := iv_interfaces two_interfaces, id_interfaceId := js ''wg0'',
    id_visible := True, id_settings := iv_settings two_interfaces\<rparr>"
  obtain f where "GetSelected (iv_interfaces two_interfaces) = Some f" "selectedInterface ?d = Some f"
    by (simp add: two_interfaces_def GetSelected_def selectedInterface_def if_Find_def)
  moreover have "backend_ids (iv_settings two_interfaces) = map fst (backends (iv_settings two_interfaces))"
    "backend_ids (iv_settings two_interfaces) = []"
    by (simp_all add: two_interfaces_def settings_init_def backend_ids_def backends_def Setting_def)
  ultimately show ?thesis using backend_warnings_agree [of two_interfaces f ?d id "id_form ?d"] by auto
qed

theorem language_menu_agrees_witness:
  "\<exists>b. switchLanguage (js ''ko'') \<lparr>ap_storage = Map.empty, ap_locale = js ''en'', ap_theme = None\<rparr> = Returns () b []
     \<and> languageFlag b = js ''fi-kr''"
  using language_menu_agrees [of "\<lparr>ap_storage = Map.empty, ap_locale = js ''en'', ap_theme = None\<rparr>"]
  by (auto simp: language_menu_def)

text \<open>What the page may show, with presses among \<open>S\<close>.\<close>

definition keys_ok :: "key_button set \<Rightarrow> key_generator \<Rightarrow> bool" where
  "keys_ok S g \<longleftrightarrow>
     (kg_privateKey g = [] \<and> kg_publicKey g = []
      \<or> (\<exists>x d. Keypair_button (Inr (x, d)) \<in> S \<and> kg_privateKey g = b64urlToB64 d \<and> kg_publicKey g = b64urlToB64 x))
     \<and> (kg_presharedKey g = [] \<or> length (StdEncoding_DecodeString (kg_presharedKey g)) = 32)"

lemma key_press_ok:
  assumes "b \<in> S" "keys_ok S g"
  shows "\<exists>h. keys_ok S h \<and> (key_press b g = Returns () h [] \<or> (\<exists>e. key_press b g = Throws e h []))"
proof (cases b)
  case (Keypair_button exported)
  show ?thesis
  proof (cases exported)
    case (Inl e)
    with Keypair_button assms(2) show ?thesis
      by (intro exI [of _ g]) (simp add: generateNewKeyPair_def generateKeypair_def js_run)
  next
    case (Inr xd)
    obtain x d where xd: "xd = (x, d)" by (cases xd)
    let ?h = "g\<lparr>kg_privateKey := b64urlToB64 d, kg_publicKey := b64urlToB64 x\<rparr>"
    have "Keypair_button (Inr (x, d)) \<in> S" using assms(1) Keypair_button Inr xd by simp
    then have "keys_ok S ?h" using assms(2) by (simp add: keys_ok_def) blast
    with Keypair_button Inr xd show ?thesis
      by (intro exI [of _ ?h]) (simp add: generateNewKeyPair_def generateKeypair_def js_run)
  qed
next
  case (Preshared_button random)
  obtain k where "arrayBufferToBase64 (generatePresharedKey random) = Inr k"
    "StdEncoding_DecodeString k = map unat (generatePresharedKey random)"
    using arrayBufferToBase64_decodes [of "generatePresharedKey random"] by blast
  with Preshared_button assms(2) show ?thesis
    by (auto simp: generateNewPresharedKey_def generatePresharedKey_def keys_ok_def js_run)
qed

lemma key_session_ok: "set bs \<subseteq> S \<Longrightarrow> keys_ok S g \<Longrightarrow> keys_ok S (key_session bs g)"
proof (induction bs arbitrary: g)
  case (Cons b bs)
  then obtain h where "keys_ok S h" "key_press b g = Returns () h [] \<or> (\<exists>e. key_press b g = Throws e h [])"
    using key_press_ok [of b S g] by auto
  with Cons show ?case by auto
qed simp

text \<open>However often the buttons are pressed and whatever the browser answers, the key generator shows
  the two halves of one pair, or none, and a preshared key of thirty-two bytes, or none.\<close>

theorem keys_shown_match:
  "keys_ok (set bs) (key_session bs \<lparr>kg_privateKey = [], kg_publicKey = [], kg_presharedKey = []\<rparr>)"
  by (rule key_session_ok) (simp_all add: keys_ok_def)

text \<open>An asked question is shown as it was asked, and either answer hides it.\<close>

theorem question_asked:
  "\<exists>d. showDialog t q c = Returns () d [] \<and> confirmation_shown d = Some (t, q, [No, Yes])
     \<and> (\<exists>e. answer_yes d = Returns Yes e [] \<and> confirmation_shown e = None)
     \<and> (\<exists>e. answer_no d = Returns No e [] \<and> confirmation_shown e = None)"
  by (simp add: showDialog_def answer_yes_def answer_no_def confirmation_shown_def js_run)

end
