(* ===== verification/Application.thy ===== *)
theory Application
  imports Portal Fetch Peers View_Dialogs
begin

text \<open>
  The application from its start to the closing of its tab: the router (\<open>router/index.js\<close>), the check
  of the session by the start-up (\<open>App.vue\<close>), the answers of the backend with their automatic logout
  (\<open>helpers/fetch-wrapper.js\<close>), the logout of the menu and the login form (\<open>App.vue\<close>,
  \<open>views/LoginView.vue\<close>, \<open>stores/auth.js\<close>), event by event in any order, and a store that outlives
  them (\<open>stores/peers.js\<close>).
\<close>

section \<open>Events\<close>

text \<open>
  \<open>ap_logins\<close> and \<open>ap_logouts\<close> count the requests on their way. A visit is a link, a reload of
  the page's address or an address typed in; its session is the answer in case the guard asks for
  it, which it does only without a user. An answer is one of any request of a store, whose caller is
  left out. A denial among the replies, to whatever request, logs a user out at once and sends a
  logout (\<open>receive\<close>). The start-up remembers whether there was a user when it sends its request for
  the session.
\<close>

datatype session_check = Not_sent | On_way bool | Checked

record application =
  ap_portal :: portal
  ap_page :: location
  ap_check :: session_check
  ap_logins :: nat
  ap_logouts :: nat
  ap_peers :: peer_store

abbreviation ap_auth :: "application \<Rightarrow> auth_store" where
  "ap_auth s \<equiv> po_auth (ap_portal s)"

definition with_auth :: "auth_store \<Rightarrow> application \<Rightarrow> application" where
  "with_auth a s = s\<lparr>ap_portal := (ap_portal s)\<lparr>po_auth := a\<rparr>\<rparr>"

datatype app_event =
    Visit location "session settled"
  | Session_sent
  | Session_answered "session reply"
  | Answer response
  | Menu_logout
  | Logout_answered "unit reply"
  | Login_sent jsstr jsstr
  | Login_answered "auth_user reply"
  | Peers_answered "peer list reply"

text \<open>What outside code supplies.\<close>

record outside =
  os_parse :: "jsstr \<Rightarrow> jsval option"
  os_showUser :: "auth_user \<Rightarrow> jsstr"
  os_resolve :: "jsstr \<Rightarrow> location"

definition goto :: "outside \<Rightarrow> session settled \<Rightarrow> location \<Rightarrow> application \<Rightarrow> application" where
  "goto os session to s =
     (case navigate 2 (os_showUser os) (os_resolve os) session to (ap_auth s) of
        Returns (Some loc) a es \<Rightarrow> with_auth a s\<lparr>ap_page := loc\<rparr>
      | Returns None a es \<Rightarrow> with_auth a s
      | Throws e a es \<Rightarrow> with_auth a s
      | Diverges \<Rightarrow> s)"

text \<open>The navigations that code pushes; none of them is the end of an OAuth login.\<close>

fun follow :: "outside \<Rightarrow> effect list \<Rightarrow> application \<Rightarrow> application" where
  "follow os [] s = s"
| "follow os (Push link # es) s = follow os es (goto os (Inl TypeError) (os_resolve os link) s)"
| "follow os (e # es) s = follow os es s"

text \<open>The answer to a login of the form: what is left of \<open>login\<close> after its request.\<close>

definition login_answer :: "(auth_user \<Rightarrow> jsstr) \<Rightarrow> auth_user reply \<Rightarrow> (portal, unit) comp" where
  "login_answer showUser reply =
     catch (bind (on_auth (answered showUser reply (Login_settle showUser))) (\<lambda>uid. login_succeeded))
       (\<lambda>error. login_rejected)"

text \<open>
  One event, or none when it is not possible: the menu has the logout for users only, the form is
  on the login page and its button takes both texts. The flag that disables the button belongs to
  the page and is fresh when one comes back to it, so it is not part of the state here.
\<close>

fun app_step :: "outside \<Rightarrow> app_event \<Rightarrow> application \<Rightarrow> application option" where
  "app_step os (Visit to session) s = Some (goto os session to s)"
| "app_step os Session_sent s =
     (if ap_check s = Not_sent then Some (s\<lparr>ap_check := On_way (IsAuthenticated (ap_auth s))\<rparr>) else None)"
| "app_step os (Session_answered reply) s =
     (case ap_check s of
        On_way wasLoggedIn \<Rightarrow>
         (case answered (os_showUser os) reply (LoadSession_settle (os_showUser os)) (ap_auth s) of
            Returns _ a es \<Rightarrow>
              Some (with_auth a s\<lparr>ap_check := Checked, ap_logouts := ap_logouts s + logout_sent es\<rparr>)
          | Throws e a es \<Rightarrow>
             (if wasLoggedIn
              then (case Logout_begin (os_showUser os) a of
                  Returns _ b fs \<Rightarrow> Some (with_auth b s\<lparr>ap_check := Checked,
                    ap_logouts := Suc (ap_logouts s + logout_sent es)\<rparr>)
                | _ \<Rightarrow> None)
              else Some (with_auth a s\<lparr>ap_check := Checked, ap_logouts := ap_logouts s + logout_sent es\<rparr>))
          | Diverges \<Rightarrow> None)
      | _ \<Rightarrow> None)"
| "app_step os (Answer r) s =
     (case catch (bind (handleResponse (os_parse os) (os_showUser os) r) (\<lambda>_. return ())) (\<lambda>_. return ())
         (ap_auth s) of
        Returns _ a es \<Rightarrow> Some (with_auth a s\<lparr>ap_logouts := ap_logouts s + logout_sent es\<rparr>)
      | _ \<Rightarrow> None)"
| "app_step os Menu_logout s =
     (if IsAuthenticated (ap_auth s)
      then (case Logout_begin (os_showUser os) (ap_auth s) of
          Returns _ a es \<Rightarrow> Some (with_auth a s\<lparr>ap_logouts := Suc (ap_logouts s)\<rparr>)
        | _ \<Rightarrow> None)
      else None)"
| "app_step os (Logout_answered reply) s =
     (case ap_logouts s of
        0 \<Rightarrow> None
      | Suc n \<Rightarrow> (case answered (os_showUser os) reply Logout_settle (ap_auth s) of
          Returns _ a es \<Rightarrow> Some (follow os es (with_auth a s\<lparr>ap_logouts := n + logout_sent es\<rparr>))
        | _ \<Rightarrow> None))"
| "app_step os (Login_sent username password) s =
     (if to_path (ap_page s) = js ''/login'' \<and> username \<noteq> [] \<and> password \<noteq> []
      then Some (s\<lparr>ap_logins := Suc (ap_logins s)\<rparr>) else None)"
| "app_step os (Login_answered reply) s =
     (case ap_logins s of
        0 \<Rightarrow> None
      | Suc n \<Rightarrow> (case login_answer (os_showUser os) reply (ap_portal s) of
          Returns _ p es \<Rightarrow> Some (follow os es
            (s\<lparr>ap_portal := p, ap_logins := n, ap_logouts := ap_logouts s + logout_sent es\<rparr>))
        | _ \<Rightarrow> None))"
| "app_step os (Peers_answered reply) s =
     (case attempt (receive (os_showUser os) reply) (ap_auth s) of
        Returns data a es \<Rightarrow> (case LoadPeers_settle data (ap_peers s) of
            Returns _ p fs \<Rightarrow> Some (with_auth a s\<lparr>ap_peers := p, ap_logouts := ap_logouts s + logout_sent es\<rparr>)
          | _ \<Rightarrow> None)
      | _ \<Rightarrow> None)"

fun app_run :: "outside \<Rightarrow> app_event list \<Rightarrow> application \<Rightarrow> application option" where
  "app_run os [] s = Some s"
| "app_run os (e # es) s = (case app_step os e s of None \<Rightarrow> None | Some t \<Rightarrow> app_run os es t)"

text \<open>A calm session: one login at a time, no visit while it is on its way, and no login, by the form or
  by the address of an OAuth callback, while the start-up waits for the session.\<close>

definition waits :: "application \<Rightarrow> bool" where
  "waits s \<longleftrightarrow> (case ap_check s of On_way _ \<Rightarrow> True | _ \<Rightarrow> False)"

fun calm :: "app_event \<Rightarrow> application \<Rightarrow> bool" where
  "calm (Visit to session) s =
     (ap_logins s = 0 \<and> (waits s \<longrightarrow> to_query to (js ''wgLoginState'') = None))"
| "calm (Login_sent username password) s = (ap_logins s = 0 \<and> \<not> waits s)"
| "calm Session_sent s = (ap_logins s = 0)"
| "calm e s = True"

fun calm_run :: "outside \<Rightarrow> app_event list \<Rightarrow> application \<Rightarrow> application option" where
  "calm_run os [] s = Some s"
| "calm_run os (e # es) s =
     (if calm e s then (case app_step os e s of None \<Rightarrow> None | Some t \<Rightarrow> calm_run os es t) else None)"

section \<open>What one event does\<close>

lemma goto_ends:
  assumes "login_page (os_resolve os)" "t = goto os session to s"
  shows "IsAuthenticated (ap_auth t) \<or> \<not> authRequired (ap_page t)"
    "ap_logins t = ap_logins s" "ap_logouts t = ap_logouts s" "ap_peers t = ap_peers s"
    "ap_check t = ap_check s"
proof -
  obtain loc a es where "navigate 2 (os_showUser os) (os_resolve os) session to (ap_auth s) = Returns (Some loc) a es"
    "IsAuthenticated a \<or> \<not> authRequired loc"
    using navigation_ends [OF assms(1)] by blast
  with assms(2) show "IsAuthenticated (ap_auth t) \<or> \<not> authRequired (ap_page t)"
    "ap_logins t = ap_logins s" "ap_logouts t = ap_logouts s" "ap_peers t = ap_peers s"
    "ap_check t = ap_check s"
    by (simp_all add: goto_def with_auth_def)
qed

lemma goto_authenticated:
  "IsAuthenticated (ap_auth s) \<Longrightarrow> goto os session to s = s\<lparr>ap_page := to\<rparr>"
  by (simp add: goto_def numeral_2_eq_2 bind_def guard_authenticated return_def with_auth_def)

lemma goto_login:
  "login_page (os_resolve os) \<Longrightarrow> goto os session (os_resolve os (js ''/login'')) s
     = s\<lparr>ap_page := os_resolve os (js ''/login'')\<rparr>"
  by (simp add: goto_def numeral_2_eq_2 bind_def guard_login return_def with_auth_def)

text \<open>Only the end of an OAuth login can log a visitor in.\<close>

lemma goto_visitor:
  assumes "login_page (os_resolve os)" "to_query to (js ''wgLoginState'') = None" "\<not> IsAuthenticated (ap_auth s)"
  shows "\<not> IsAuthenticated (ap_auth (goto os session to s))"
  using assms by (cases "authRequired to")
    (simp_all add: goto_def numeral_2_eq_2 bind_def guard_restricted guard_public guard_login return_def
      with_auth_def IsAuthenticated_def)

lemma login_not_restricted: "login_page resolve \<Longrightarrow> \<not> authRequired (resolve (js ''/login''))"
  by (simp add: authRequired_def login_page_def login_public)

lemma answer_step:
  "\<exists>t. app_step os (Answer r) s = Some t \<and> ap_page t = ap_page s \<and> ap_logins t = ap_logins s
     \<and> ap_peers t = ap_peers s \<and> ap_check t = ap_check s
     \<and> IsAuthenticated (ap_auth t) = (IsAuthenticated (ap_auth s) \<and> \<not> denies (os_parse os) r)
     \<and> ap_logouts t = ap_logouts s
       + (if IsAuthenticated (ap_auth s) \<and> denies (os_parse os) r then 1 else 0)"
proof -
  obtain a es where
    "catch (bind (handleResponse (os_parse os) (os_showUser os) r) (\<lambda>_. return ())) (\<lambda>_. return ())
       (ap_auth s) = Returns () a es"
    "IsAuthenticated a = (IsAuthenticated (ap_auth s) \<and> \<not> denies (os_parse os) r)"
    "logout_sent es = (if IsAuthenticated (ap_auth s) \<and> denies (os_parse os) r then 1 else 0)"
    using handleResponse_step by blast
  then show ?thesis by (simp add: with_auth_def)
qed

text \<open>A denial among the replies counts one logout more, when somebody is logged in.\<close>

definition dropped :: "application \<Rightarrow> 'a reply \<Rightarrow> nat" where
  "dropped s reply = (if denial reply \<and> IsAuthenticated (ap_auth s) then 1 else 0)"

lemma menu_logout_step:
  "IsAuthenticated (ap_auth s) \<Longrightarrow> \<exists>t. app_step os Menu_logout s = Some t \<and> \<not> IsAuthenticated (ap_auth t)
     \<and> ap_page t = ap_page s \<and> ap_logins t = ap_logins s \<and> ap_logouts t = Suc (ap_logouts s)
     \<and> ap_peers t = ap_peers s \<and> ap_check t = ap_check s"
  by (simp add: Logout_begin_def setUserInfo_def ResetReturnUrl_def with_auth_def js_run)
    (simp add: IsAuthenticated_def)

text \<open>The answer to a logout leads to the login page; only its denial, when somebody has logged in
  again, changes anything else.\<close>

lemma logout_answered_step:
  assumes "login_page (os_resolve os)" "ap_logouts s = Suc n"
  shows "\<exists>t. app_step os (Logout_answered reply) s = Some t \<and> ap_page t = os_resolve os (js ''/login'')
    \<and> ap_logins t = ap_logins s \<and> ap_logouts t = n + dropped s reply \<and> ap_peers t = ap_peers s
    \<and> ap_check t = ap_check s \<and> ap_auth t = (if dropped s reply = 0 then ap_auth s else logged_out (ap_auth s))"
  using assms by (auto simp: answered_run Logout_settle_run goto_login with_auth_def dropped_def logout_sent_def)

text \<open>An accepted login leads to the start page, another one leaves nobody logged in.\<close>

lemma login_answer_run:
  "case reply of
     Accepted u \<Rightarrow> \<exists>p es. login_answer showUser reply q = Returns () p es \<and> auth_user (po_auth p) = Some u
       \<and> filter (\<lambda>e. \<exists>link. e = Push link) es = [Push (js ''/'')] \<and> logout_sent es = 0
   | _ \<Rightarrow> \<exists>p es. login_answer showUser reply q = Returns () p es \<and> \<not> IsAuthenticated (po_auth p)
       \<and> filter (\<lambda>e. \<exists>link. e = Push link) es = []
       \<and> logout_sent es = (if denial reply \<and> IsAuthenticated (po_auth q) then 1 else 0)"
proof -
  note defs = login_answer_def portal_defs answered_run Login_settle_def setUserInfo_def logged_out_def
    ResetReturnUrl_def IsAuthenticated_def ReturnUrl_def settled_reply_def logout_sent_def js_run
  show ?thesis by (cases reply) (auto simp: defs denial_def)
qed

lemma follow_pushes: "follow os es s = follow os (filter (\<lambda>e. \<exists>link. e = Push link) es) s"
  by (induction os es s rule: follow.induct) auto

lemma login_answered_step:
  assumes "ap_logins s = Suc n"
  shows "\<exists>t. app_step os (Login_answered reply) s = Some t \<and> ap_logins t = n
    \<and> ap_logouts t = ap_logouts s + dropped s reply
    \<and> ap_peers t = ap_peers s \<and> ap_check t = ap_check s
    \<and> (case reply of
         Accepted u \<Rightarrow> auth_user (ap_auth t) = Some u \<and> ap_page t = os_resolve os (js ''/'')
       | _ \<Rightarrow> \<not> IsAuthenticated (ap_auth t) \<and> ap_page t = ap_page s)"
proof (cases "\<exists>u. reply = Accepted u")
  case False
  then obtain p es where
    run: "login_answer (os_showUser os) reply (ap_portal s) = Returns () p es" "\<not> IsAuthenticated (po_auth p)"
      "filter (\<lambda>e. \<exists>link. e = Push link) es = []" "logout_sent es = dropped s reply"
    using login_answer_run [where reply = reply and showUser = "os_showUser os" and q = "ap_portal s"] by (cases reply) (auto simp: dropped_def)
  have "follow os es q = q" for q using run(3) by (subst follow_pushes) simp
  with run False assms show ?thesis by (cases reply) simp_all
next
  case True
  then obtain u where u: "reply = Accepted u" ..
  with login_answer_run [where reply = reply and showUser = "os_showUser os" and q = "ap_portal s"] obtain p es where
    run: "login_answer (os_showUser os) reply (ap_portal s) = Returns () p es" "auth_user (po_auth p) = Some u"
      "filter (\<lambda>e. \<exists>link. e = Push link) es = [Push (js ''/'')]" "logout_sent es = 0" by auto
  have "follow os es q = q\<lparr>ap_page := os_resolve os (js ''/'')\<rparr>" if "IsAuthenticated (ap_auth q)" for q
    using run(3) that by (subst follow_pushes) (simp add: goto_authenticated)
  moreover have "IsAuthenticated (po_auth p)" using run(2) by (simp add: IsAuthenticated_def)
  ultimately show ?thesis using run(1,2,4) assms u by (simp add: dropped_def denial_def)
qed

lemma session_answered_step:
  assumes "ap_check s = On_way was"
  shows "\<exists>t. app_step os (Session_answered reply) s = Some t \<and> ap_check t = Checked \<and> ap_page t = ap_page s
    \<and> ap_logins t = ap_logins s \<and> ap_peers t = ap_peers s
    \<and> (if \<exists>se. reply = Accepted se \<and> se_LoggedIn se
       then IsAuthenticated (ap_auth t) \<and> ap_logouts t = ap_logouts s
       else \<not> IsAuthenticated (ap_auth t)
         \<and> ap_logouts t = ap_logouts s + dropped s reply + (if was then 1 else 0))"
proof -
  note defs = answered_run LoadSession_settle_def setUserInfo_def ResetReturnUrl_def Logout_begin_run
    IsAuthenticated_def with_auth_def logged_out_def settled_reply_def dropped_def logout_sent_def js_run
  show ?thesis using assms by (cases reply) (auto simp: defs denial_def)
qed

lemma peers_answered_step:
  assumes "app_step os (Peers_answered reply) s = Some t"
  shows "ap_page t = ap_page s \<and> ap_logins t = ap_logins s \<and> ap_check t = ap_check s
    \<and> ap_logouts t = ap_logouts s + dropped s reply
    \<and> IsAuthenticated (ap_auth t) = (IsAuthenticated (ap_auth s) \<and> dropped s reply = 0)"
  using assms by (auto simp: attempt_receive with_auth_def dropped_def logout_sent_def split: run.splits if_splits)

section \<open>Sessions\<close>

text \<open>A page for users is on display only while there is one or the way to the login page is
  prepared; and the form waits for one answer at a time, on a page for everybody.\<close>

definition guarded :: "application \<Rightarrow> bool" where
  "guarded s \<longleftrightarrow> (IsAuthenticated (ap_auth s) \<or> \<not> authRequired (ap_page s) \<or> 0 < ap_logouts s)
     \<and> (0 < ap_logins s \<longrightarrow> \<not> authRequired (ap_page s) \<and> \<not> waits s) \<and> ap_logins s \<le> 1
     \<and> (ap_check s = On_way False \<longrightarrow> \<not> IsAuthenticated (ap_auth s))"

lemma calm_step_guarded:
  assumes "login_page (os_resolve os)" "\<not> authRequired (os_resolve os (js ''/''))"
    and "calm e s" "app_step os e s = Some t" "guarded s"
  shows "guarded t"
proof (cases e)
  case (Visit to session)
  with assms goto_ends [OF assms(1), of t session to s] goto_visitor [OF assms(1), of to s session]
  show ?thesis by (auto simp: guarded_def waits_def)
next
  case Session_sent
  with assms(3,4,5) show ?thesis by (auto simp: guarded_def split: if_splits)
next
  case (Session_answered reply)
  then obtain was where was: "ap_check s = On_way was" using assms(4) by (auto split: session_check.splits)
  then have "ap_logins s = 0" using assms(5) by (auto simp: guarded_def waits_def)
  with session_answered_step [OF was, of os reply] Session_answered assms(4,5) was show ?thesis
    by (cases was) (auto simp: guarded_def waits_def split: if_splits simp del: app_step.simps)
next
  case (Answer r)
  with assms(4,5) answer_step [of os r s] show ?thesis by (auto simp: guarded_def waits_def)
next
  case Menu_logout
  then have "IsAuthenticated (ap_auth s)" using assms(4) by (simp split: if_splits)
  with Menu_logout assms(4,5) menu_logout_step [of s os] show ?thesis by (auto simp: guarded_def waits_def)
next
  case (Logout_answered reply)
  then obtain n where "ap_logouts s = Suc n" using assms(4) by (cases "ap_logouts s") auto
  from logout_answered_step [OF assms(1) this, of reply] Logout_answered assms(4,5) login_not_restricted [OF assms(1)]
  show ?thesis by (auto simp: guarded_def waits_def simp del: app_step.simps split: if_splits)
next
  case (Login_sent username password)
  with assms(3,4,5) show ?thesis
    by (auto simp: guarded_def waits_def authRequired_def login_public split: if_splits)
next
  case (Login_answered reply)
  then obtain n where n: "ap_logins s = Suc n" using assms(4) by (cases "ap_logins s") auto
  from login_answered_step [OF this, of os reply] Login_answered assms(4,5) n assms(2) show ?thesis
    by (auto simp: guarded_def waits_def IsAuthenticated_def split: reply.splits simp del: app_step.simps)
next
  case (Peers_answered reply)
  with assms(4,5) peers_answered_step [of os reply s t] show ?thesis
    by (auto simp: guarded_def waits_def dropped_def split: if_splits simp del: app_step.simps)
qed

lemma calm_run_guarded:
  "calm_run os es s = Some t \<Longrightarrow> login_page (os_resolve os) \<Longrightarrow> \<not> authRequired (os_resolve os (js ''/''))
     \<Longrightarrow> guarded s \<Longrightarrow> guarded t"
proof (induction es arbitrary: s)
  case (Cons e es)
  then obtain u where "calm e s" "app_step os e s = Some u" "calm_run os es u = Some t"
    by (auto split: if_splits option.splits)
  with Cons calm_step_guarded [of os e s u] show ?case by blast
qed simp

text \<open>The answers to the logouts on their way lead to the login page. One more is needed when the first
  of them is a denial and somebody has logged in since.\<close>

lemma logouts_drained:
  assumes "login_page (os_resolve os)"
  shows "\<exists>t. calm_run os (replicate (ap_logouts s + (if ap_logouts s = 0 then 0 else dropped s reply))
        (Logout_answered reply)) s = Some t
     \<and> ap_logouts t = 0
     \<and> (ap_logouts s = 0 \<or> dropped s reply = 0 \<longrightarrow> ap_auth t = ap_auth s)
     \<and> ap_page t = (if ap_logouts s = 0 then ap_page s else os_resolve os (js ''/login''))"
proof (induction "ap_logouts s + (if ap_logouts s = 0 then 0 else dropped s reply)" arbitrary: s)
  case (Suc k)
  then obtain n where n: "ap_logouts s = Suc n" by (cases "ap_logouts s") auto
  from logout_answered_step [OF assms n, of reply] obtain u where
    u: "app_step os (Logout_answered reply) s = Some u" "ap_page u = os_resolve os (js ''/login'')"
      "ap_logouts u = n + dropped s reply"
      "ap_auth u = (if dropped s reply = 0 then ap_auth s else logged_out (ap_auth s))" by blast
  have d: "dropped u reply = 0" using u(4) by (auto simp: dropped_def)
  then have "k = ap_logouts u + (if ap_logouts u = 0 then 0 else dropped u reply)"
    using Suc(2) n u(3) by simp
  from Suc(1) [OF this] obtain t where
    t: "calm_run os (replicate k (Logout_answered reply)) u = Some t" "ap_logouts t = 0"
      "ap_auth t = ap_auth u" "ap_page t = os_resolve os (js ''/login'')"
    using d u(2) \<open>k = _\<close> by (auto split: if_splits)
  have "calm_run os (replicate (Suc k) (Logout_answered reply)) s = Some t"
    using u(1) t(1) by (simp del: app_step.simps)
  with t u(4) n Suc(2) show ?case by (auto split: if_splits)
qed auto

section \<open>Properties\<close>

text \<open>C2. In every calm session from the opening of the application, in whatever order visits, the
  check of the session, answers, logouts and logins come: a page for users is on display only while
  a user is logged in or a logout is on its way; and once the logouts on their way are answered,
  whatever the answers are, only while a user is logged in. (When the answers are denials and
  somebody has logged in again, the first of them starts one more logout, which is answered too.)\<close>

theorem sessions_guarded:
  assumes "login_page (os_resolve os)" "\<not> authRequired (os_resolve os (js ''/''))"
    and "IsAuthenticated (ap_auth s) \<or> \<not> authRequired (ap_page s)" "ap_logins s = 0" "ap_check s = Not_sent"
    and "calm_run os es s = Some t"
  shows "(IsAuthenticated (ap_auth t) \<or> \<not> authRequired (ap_page t) \<or> 0 < ap_logouts t) \<and> ap_logins t \<le> 1
    \<and> (\<exists>u more. calm_run os (replicate (ap_logouts t + more) (Logout_answered reply)) t = Some u
        \<and> more \<le> (if denial reply \<and> IsAuthenticated (ap_auth t) then 1 else 0) \<and> ap_logouts u = 0
        \<and> (IsAuthenticated (ap_auth u) \<or> \<not> authRequired (ap_page u)))"
proof -
  have "guarded s" using assms(3-5) by (auto simp: guarded_def)
  from calm_run_guarded [OF assms(6,1,2) this] have t: "guarded t" .
  define more where "more = (if ap_logouts t = 0 then 0 else dropped t reply)"
  from logouts_drained [OF assms(1), of t reply] obtain u where
    u: "calm_run os (replicate (ap_logouts t + more) (Logout_answered reply)) t = Some u" "ap_logouts u = 0"
    "ap_logouts t = 0 \<longrightarrow> ap_auth u = ap_auth t"
    "ap_page u = (if ap_logouts t = 0 then ap_page t else os_resolve os (js ''/login''))"
    unfolding more_def by blast
  have "IsAuthenticated (ap_auth u) \<or> \<not> authRequired (ap_page u)"
    using t u(3,4) login_not_restricted [OF assms(1)] by (auto simp: guarded_def)
  moreover have "more \<le> (if denial reply \<and> IsAuthenticated (ap_auth t) then 1 else 0)"
    by (simp add: more_def dropped_def)
  ultimately show ?thesis using t u(1,2) unfolding guarded_def by (intro conjI exI [of _ u] exI [of _ more]) auto
qed

text \<open>C9. Without calm that fails. A user who has sent the login form and goes on to a page for users
  before its answer comes loses the session when the login fails, and what happens then depends on
  how it fails. A denial, which is the backend's answer to a wrong password, has logged the user
  out on its way, so that a logout leads to the login page in the end; but after any other failure
  (a refusal with another status, such as 400 or 500, an unreadable answer, a lost connection) the
  page for users stays on display without a user, and nothing is on its way that would lead
  elsewhere.\<close>

theorem late_refusal:
  assumes "login_page (os_resolve os)" "IsAuthenticated (ap_auth s)" "to_path (ap_page s) = js ''/login''"
    and "ap_logins s = 0" "ap_logouts s = 0" "username \<noteq> []" "password \<noteq> []" "authRequired to"
    and "\<forall>u. reply \<noteq> Accepted u"
  shows "\<exists>t. app_run os [Login_sent username password, Visit to session, Login_answered reply] s = Some t
    \<and> \<not> IsAuthenticated (ap_auth t) \<and> ap_page t = to \<and> authRequired (ap_page t) \<and> ap_logins t = 0
    \<and> (if denial reply
       then ap_logouts t = 1 \<and> (\<exists>u. app_run os [Logout_answered bye] t = Some u
         \<and> ap_page u = os_resolve os (js ''/login'') \<and> ap_logouts u = 0 \<and> \<not> IsAuthenticated (ap_auth u))
       else ap_logouts t = 0)"
proof -
  let ?v = "s\<lparr>ap_logins := Suc 0, ap_page := to\<rparr>"
  have two: "app_step os (Login_sent username password) s = Some (s\<lparr>ap_logins := Suc 0\<rparr>)"
    "app_step os (Visit to session) (s\<lparr>ap_logins := Suc 0\<rparr>) = Some ?v"
    using assms by (simp_all add: goto_authenticated)
  from login_answered_step [of ?v 0 os reply] assms(9) obtain t where
    t: "app_step os (Login_answered reply) ?v = Some t" "ap_logins t = 0" "ap_logouts t = dropped ?v reply"
    "\<not> IsAuthenticated (ap_auth t)" "ap_page t = to" using assms(5) by (cases reply) auto
  have d: "dropped ?v reply = (if denial reply then 1 else 0)" using assms(2) by (simp add: dropped_def)
  have "\<exists>u. app_step os (Logout_answered bye) t = Some u \<and> ap_page u = os_resolve os (js ''/login'')
      \<and> ap_logouts u = 0 \<and> \<not> IsAuthenticated (ap_auth u)" if "denial reply"
    using logout_answered_step [OF assms(1), of t 0 bye] that t(3,4) d by (auto simp: dropped_def)
  with two t d assms(8) show ?thesis by (auto simp del: app_step.simps)
qed

text \<open>The check of the session by the start-up has the same weakness: when its answer, of before the
  login (the backend accepts the request and says that nobody is logged in), comes after a visitor has logged in and opened a page for users, the user is gone, and
  since there was none when it was sent, nothing leads away from the page.\<close>

theorem late_session:
  assumes "\<not> IsAuthenticated (ap_auth s)" "to_path (ap_page s) = js ''/login''" "ap_check s = Not_sent"
    and "ap_logins s = 0" "username \<noteq> []" "password \<noteq> []" "authRequired to"
    and "\<not> (\<exists>se. reply = Accepted se \<and> se_LoggedIn se)" "\<not> denial reply"
  shows "\<exists>t. app_run os [Session_sent, Login_sent username password, Login_answered (Accepted u), Visit to session,
        Session_answered reply] s = Some t
    \<and> \<not> IsAuthenticated (ap_auth t) \<and> ap_page t = to \<and> authRequired (ap_page t)
    \<and> ap_logins t = 0 \<and> ap_logouts t = ap_logouts s"
proof -
  let ?a = "s\<lparr>ap_check := On_way False\<rparr>"
  let ?b = "?a\<lparr>ap_logins := Suc 0\<rparr>"
  have ab: "app_step os Session_sent s = Some ?a" "app_step os (Login_sent username password) ?a = Some ?b"
    using assms by simp_all
  from login_answered_step [of ?b 0 os "Accepted u"] obtain c where
    c: "app_step os (Login_answered (Accepted u)) ?b = Some c" "auth_user (ap_auth c) = Some u"
      "ap_check c = On_way False" "ap_logins c = 0" "ap_logouts c = ap_logouts s"
    by (auto simp: dropped_def denial_def)
  let ?d = "c\<lparr>ap_page := to\<rparr>"
  have d: "app_step os (Visit to session) c = Some ?d"
    using c(2) by (simp add: goto_authenticated IsAuthenticated_def)
  from session_answered_step [of ?d False os reply] assms(8,9) c(3-5) obtain t where
    "app_step os (Session_answered reply) ?d = Some t" "\<not> IsAuthenticated (ap_auth t)" "ap_page t = to"
    "ap_logins t = 0" "ap_logouts t = ap_logouts s" by (auto simp: dropped_def)
  with ab c(1) d assms(7) show ?thesis by (simp del: app_step.simps)
qed

text \<open>C10. The stores outlive the logout: after a user has logged out and another one has logged in, the
  store of the administration still has the first one's peers, and the dialog of a peer, also on
  the page of the second user's own peers, shows them, keys included.\<close>

theorem stores_outlive_logout:
  assumes "login_page (os_resolve os)" "IsAuthenticated (ap_auth s)" "ap_logouts s = 0" "ap_logins s = 0" "\<not> waits s"
    and "peers_Find (ap_peers s) i = Some q" "username \<noteq> []" "password \<noteq> []"
  shows "\<exists>t. calm_run os [Menu_logout, Logout_answered bye, Login_sent username password, Login_answered (Accepted u)] s = Some t
    \<and> auth_user (ap_auth t) = Some u
    \<and> pv_selectedPeer (v\<lparr>pv_peers := ap_peers t, pv_peerId := i\<rparr>) = Some q"
proof -
  obtain a where a: "app_step os Menu_logout s = Some a" "ap_logins a = 0" "ap_logouts a = Suc 0"
    "ap_peers a = ap_peers s" "\<not> waits a" "\<not> IsAuthenticated (ap_auth a)"
    using menu_logout_step [OF assms(2), of os] assms(3-5) by (auto simp: waits_def)
  from logout_answered_step [OF assms(1) a(3), of bye] a(2,4-6) obtain b where
    b: "app_step os (Logout_answered bye) a = Some b" "ap_page b = os_resolve os (js ''/login'')"
      "ap_logins b = 0" "ap_peers b = ap_peers s" "\<not> waits b"
    by (auto simp: waits_def)
  let ?c = "b\<lparr>ap_logins := Suc 0\<rparr>"
  have c: "app_step os (Login_sent username password) b = Some ?c"
    using assms(1,7,8) b(2,3) by (simp add: login_page_def)
  from login_answered_step [of ?c 0 os "Accepted u"] obtain t where
    "app_step os (Login_answered (Accepted u)) ?c = Some t" "ap_peers t = ap_peers s" "auth_user (ap_auth t) = Some u"
    using b(4) by auto
  with a(1) b c assms(6) show ?thesis by (simp add: pv_selectedPeer_def waits_def del: app_step.simps)
qed

section \<open>An administrator with one peer on display\<close>

definition sample_outside :: outside where
  "sample_outside = \<lparr>os_parse = (\<lambda>_. None), os_showUser = (\<lambda>_. []), os_resolve = simple_resolve\<rparr>"

definition sample_application :: "string \<Rightarrow> application" where
  "sample_application path = \<lparr>ap_portal = \<lparr>po_auth = visitor\<lparr>auth_user := Some \<lparr>au_Identifier = Some (js ''root''),
       au_Firstname = None, au_Lastname = None, au_Email = None, au_IsAdmin = Some True\<rparr>\<rparr>,
       po_security = security_init, po_settings = settings_init, po_loggingIn = False\<rparr>,
     ap_page = simple_resolve (js path), ap_check = Not_sent, ap_logins = 0, ap_logouts = 0,
     ap_peers = peers_init\<lparr>peers := [freshPeer\<lparr>p_Identifier := js ''k''\<rparr>]\<rparr>\<rparr>"

lemma sample_facts:
  "login_page (os_resolve sample_outside)" "\<not> authRequired (os_resolve sample_outside (js ''/''))"
  "IsAuthenticated (ap_auth (sample_application path))" "ap_logins (sample_application path) = 0"
  "ap_logouts (sample_application path) = 0" "to_path (ap_page (sample_application path)) = js path"
  "authRequired (simple_resolve (js ''/users''))" "ap_check (sample_application path) = Not_sent"
  "\<not> waits (sample_application path)"
  by (simp_all add: sample_outside_def simple_login_page authRequired_def simple_resolve_def publicPages_def
      sample_application_def IsAuthenticated_def waits_def)

theorem sessions_guarded_witness:
  "\<exists>t u. calm_run sample_outside [Visit (simple_resolve (js ''/users'')) (Inl TypeError), Menu_logout]
       (sample_application ''/'') = Some t
     \<and> authRequired (ap_page t) \<and> 0 < ap_logouts t
     \<and> calm_run sample_outside (replicate (ap_logouts t) (Logout_answered (Lost TypeError))) t = Some u
     \<and> (IsAuthenticated (ap_auth u) \<or> \<not> authRequired (ap_page u))"
proof -
  let ?s = "sample_application ''/''"
  let ?v = "?s\<lparr>ap_page := simple_resolve (js ''/users'')\<rparr>"
  have v: "app_step sample_outside (Visit (simple_resolve (js ''/users'')) (Inl TypeError)) ?s = Some ?v"
    by (simp add: goto_authenticated sample_facts)
  have "IsAuthenticated (ap_auth ?v)" by (simp add: sample_facts)
  from menu_logout_step [OF this, of sample_outside] obtain t where
    t: "app_step sample_outside Menu_logout ?v = Some t" "ap_page t = simple_resolve (js ''/users'')"
      "ap_logouts t = Suc (ap_logouts ?s)" by auto
  have run: "calm_run sample_outside [Visit (simple_resolve (js ''/users'')) (Inl TypeError), Menu_logout] ?s = Some t"
    using v t(1) by (simp add: sample_facts del: app_step.simps)
  have "\<not> denial (Lost TypeError :: unit reply)" by (simp add: denial_def)
  with sessions_guarded [OF sample_facts(1,2) disjI1 [OF sample_facts(3)] sample_facts(4,8) run, of "Lost TypeError"]
  obtain u where "calm_run sample_outside (replicate (ap_logouts t) (Logout_answered (Lost TypeError))) t = Some u"
    "IsAuthenticated (ap_auth u) \<or> \<not> authRequired (ap_page u)" by auto
  then show ?thesis using run t(2,3) sample_facts(7) by auto
qed

theorem late_refusal_witness:
  "\<exists>t. app_run sample_outside [Login_sent (js ''a'') (js ''b''), Visit (simple_resolve (js ''/users'')) (Inl TypeError),
       Login_answered (Lost TypeError)] (sample_application ''/login'') = Some t
     \<and> \<not> IsAuthenticated (ap_auth t) \<and> authRequired (ap_page t) \<and> ap_logouts t = 0"
proof -
  let ?s = "sample_application ''/login''"
  have texts: "js ''a'' \<noteq> []" "js ''b'' \<noteq> []" and lost: "\<forall>u. Lost TypeError \<noteq> Accepted u"
    "\<not> denial (Lost TypeError :: auth_user reply)"
    by (simp_all add: denial_def)
  have page: "to_path (ap_page ?s) = js ''/login''" by (rule sample_facts(6))
  note late = late_refusal [OF sample_facts(1,3) page sample_facts(4,5) texts sample_facts(7) lost(1),
      of "Inl TypeError"]
  then show ?thesis unfolding if_not_P [OF lost(2)] by blast
qed

theorem stores_outlive_logout_witness:
  "\<exists>t (v::peer_view). calm_run sample_outside [Menu_logout, Logout_answered (Accepted ()), Login_sent (js ''a'') (js ''b''),
       Login_answered (Accepted sample_user)] (sample_application ''/'') = Some t
     \<and> auth_user (ap_auth t) = Some sample_user
     \<and> pv_selectedPeer (v\<lparr>pv_peers := ap_peers t, pv_peerId := js ''k''\<rparr>)
        = Some (freshPeer\<lparr>p_Identifier := js ''k''\<rparr>)"
proof -
  have "peers_Find (ap_peers (sample_application ''/'')) (js ''k'') = Some (freshPeer\<lparr>p_Identifier := js ''k''\<rparr>)"
    by (simp add: sample_application_def peers_Find_def)
  note found = this
  have "js ''a'' \<noteq> []" "js ''b'' \<noteq> []" by simp_all
  from stores_outlive_logout [OF sample_facts(1,3,5,4,9) found this, of "Accepted ()" sample_user]
  show ?thesis by blast
qed

end
