(* ===== verification/Refusals.thy ===== *)
theory Refusals
  imports Peer_Forms
begin

text \<open>
  What the user gets to read of a refused change: the way of the server's message from the answer
  (\<open>helpers/fetch-wrapper.js\<close>) through the stores (\<open>stores/users.js\<close>, \<open>stores/interfaces.js\<close>,
  \<open>stores/peers.js\<close>), which wrap it into an error, to the notifications of the dialogs
  (\<open>UserEditModal.vue\<close>, \<open>InterfaceEditModal.vue\<close>, \<open>PeerEditModal.vue\<close>).
\<close>

text \<open>An error of the dialogs that speaks of a text, and the text of an error that speaks of nothing.\<close>

definition error_notice :: "string \<Rightarrow> jsstr \<Rightarrow> effect" where
  "error_notice title text = Notify (js title)
     (Text (if text = [] then js ''Error'' else js ''Error: '' @ text)) (Some (js ''error''))"

lemma reason_string_text:
  "Text (reason_string (new_Error (Text t))) = Text (if t = [] then js ''Error'' else js ''Error: '' @ t)"
  using js_append [of "''Error''" "'': ''"] by (simp add: new_Error_def append_assoc [symmetric] del: append_assoc)

lemma refused_user:
  "\<exists>t. user_save_settle w (Inl (Text m)) d = Returns () t [error_notice ''Failed to save user!'' m]
     \<and> ud_form t = ud_form d \<and> users (ud_users t) = users (ud_users d) \<and> \<not> ud_isSaving t"
  by (simp add: user_save_settle_cases error_notice_def reason_string_text)

lemma refused_interface:
  "\<exists>t. interface_save_settle w (Inl (Text m)) d = Returns () t [error_notice ''Failed to save interface!'' m]
     \<and> id_form t = id_form d \<and> interfaces (id_interfaces t) = interfaces (id_interfaces d) \<and> \<not> id_isSaving t"
  using interface_save_settle_ends [of w "Inl (Text m)" d] by (auto simp: error_notice_def reason_string_text)

lemma refused_peer:
  "\<exists>t. peer_save_settle w (Inl (Text m)) d = Returns () t [error_notice ''Failed to save peer!'' m]
     \<and> pd_form t = pd_form d \<and> peers (pd_peers t) = peers (pd_peers d) \<and> \<not> pd_isSaving t"
  by (simp add: peer_save_settle_cases save_failed_def error_notice_def reason_string_text)

text \<open>C17. The message with which the backend refuses a change reaches the user: an answer outside of
  200 to 299 with a JSON object as its body makes each of the dialogs of users, interfaces and
  peers, whose save waits for it, show one notification with the object's \<open>Message\<close>, or with the
  status text when the message is empty, behind the word \<open>Error\<close>; the dialog stays open with what
  was typed, the list is unchanged and the button is enabled again. A logout is sent on the way
  exactly when access was denied to somebody who is logged in.\<close>

theorem refusal_shown:
  assumes "status r < 200 \<or> 299 < status r" "body_text r \<noteq> []" "parse (body_text r) = Some (JObj props)"
    and "map_of props (js ''Message'') = Some (JStr m)"
  defines "message \<equiv> if m = [] then statusText r else m"
  shows "\<exists>e s' es. handleResponse parse showUser r s = Throws e s' es
    \<and> es = (if (status r = 401 \<or> status r = 403) \<and> IsAuthenticated s then [Send POST (js ''/auth/logout'')] else [])
    \<and> (\<exists>t. user_save_settle u (Inl e) d = Returns () t [error_notice ''Failed to save user!'' message]
        \<and> ud_form t = ud_form d \<and> users (ud_users t) = users (ud_users d) \<and> \<not> ud_isSaving t)
    \<and> (\<exists>t. interface_save_settle v (Inl e) i = Returns () t [error_notice ''Failed to save interface!'' message]
        \<and> id_form t = id_form i \<and> interfaces (id_interfaces t) = interfaces (id_interfaces i) \<and> \<not> id_isSaving t)
    \<and> (\<exists>t. peer_save_settle w (Inl e) p = Returns () t [error_notice ''Failed to save peer!'' message]
        \<and> pd_form t = pd_form p \<and> peers (pd_peers t) = peers (pd_peers p) \<and> \<not> pd_isSaving t)"
proof -
  have data: "response_data parse r = Some (JObj props)" and refused: "\<not> response_ok r"
    using assms(1-3) by (auto simp: response_data_def response_ok_def)
  have "error_text (JObj props) (statusText r) = message"
    using assms(4) by (simp add: error_text_def message_def)
  then obtain s' where e: "handleResponse parse showUser r s = Throws (Text message) s'
      (if (status r = 401 \<or> status r = 403) \<and> IsAuthenticated s then [Send POST (js ''/auth/logout'')] else [])"
    using handleResponse_denied [OF data, of s showUser] handleResponse_rejected [OF data refused, of s showUser] data
    by (cases "denies parse r \<and> IsAuthenticated s") (auto simp: denies_def)
  show ?thesis
    by (rule exI [of _ "Text message"], rule exI [of _ s'], rule exI)
      (rule conjI [OF e], intro conjI refl refused_user refused_interface refused_peer)
qed

theorem refusal_shown_witness:
  "\<exists>e s' t. handleResponse (\<lambda>_. Some (JObj [(js ''Code'', JNum 500), (js ''Message'', JStr (js ''duplicate''))])) (\<lambda>_. [])
       \<lparr>status = 500, statusText = js ''Internal Server Error'', body_text = js ''{}''\<rparr> logged_in = Throws e s' []
     \<and> user_save_settle (SaveCreate (Request POST (js ''/user/new'') (Some freshUser))) (Inl e) user_dialog_init
       = Returns () t [Notify (js ''Failed to save user!'') (Text (js ''Error: duplicate'')) (Some (js ''error''))]"
proof -
  let ?r = "\<lparr>status = 500, statusText = js ''Internal Server Error'', body_text = js ''{}''\<rparr>"
  let ?props = "[(js ''Code'', JNum 500), (js ''Message'', JStr (js ''duplicate''))]"
  have notice: "error_notice title (js ''duplicate'') = Notify (js title) (Text (js ''Error: duplicate'')) (Some (js ''error''))"
    for title by (simp add: error_notice_def js_append)
  have "status ?r < 200 \<or> 299 < status ?r" "body_text ?r \<noteq> []"
    "(\<lambda>_. Some (JObj ?props)) (body_text ?r) = Some (JObj ?props)"
    "map_of ?props (js ''Message'') = Some (JStr (js ''duplicate''))" by simp_all
  from refusal_shown [OF this, of "\<lambda>_. []" logged_in
      "SaveCreate (Request POST (js ''/user/new'') (Some freshUser))" user_dialog_init]
  show ?thesis by (simp add: notice) blast
qed

end
