(* ===== verification/Spec2Isabelle.thy ===== *)
theory Spec2Isabelle
  imports Models Fetch Utils Audit_Log Users Interfaces Peers Profile Settings Router Portal Datetime
    User_Dialog Interface_Dialog Interface_View Peer_Dialog User_Peer_Dialog View_Dialogs Pages
    Page_Templates Edit_Forms Peer_Forms Async_Views Page_Events Show_Templates
    Shell Application Refusals
begin

text \<open>
  \<^bold>\<open>The web frontend of WireGuard Portal\<close>

  A verification library for the JavaScript and Vue sources under \<open>src/frontend/src\<close>. The program
  is a single-page application: stores (\<open>stores/*.js\<close>, Pinia) hold what the backend sent and have
  the actions that call it; views and dialogs (\<open>App.vue\<close>, \<open>views/*.vue\<close>, \<open>components/*.vue\<close>) read the
  stores, keep a little state of their own and call the actions; helpers (\<open>helpers/*.js\<close>) build
  requests, encode identifiers, convert dates and describe the data; the router decides who sees
  which page.

  \<^bold>\<open>How the code is modelled.\<close> A text is a list of 16 bit code units. A store or a component is a
  record of its reactive properties. A function that changes state is a computation
  (\<open>comp\<close> in \<open>JS_Base\<close>): from a state it returns, throws with the mutations made so far, or does
  not end, and lists what leaves the program (messages, navigations, requests that are not
  awaited, the closing of a dialog). An action that awaits an answer is two definitions:
  \<open>X_begin\<close> runs up to the request and returns it, \<open>X_settle\<close> continues with the answer, a settled
  promise (\<open>Inl\<close> the rejection, \<open>Inr\<close> the value), so that whatever happens between the two is a
  step of its own. What the HTTP layer does to the store of the user before the promise settles, the
  automatic logout after a denial, is \<open>receive\<close> in \<open>Fetch\<close>: where the user matters (the start-up, the
  login form and the application as a whole), the answers are replies that go through it first, and
  elsewhere it is an event of its own. \<open>.then(...).catch(...)\<close> is \<open>then_catch\<close>, \<open>try\<close>/\<open>finally\<close> is \<open>try_finally\<close>, a store
  inside a component is reached with \<open>zoom\<close>.

  \<^bold>\<open>The theories.\<close>
  \<^item> \<open>JS_Base\<close>: the language: texts, arrays (\<open>findIndex\<close>, index assignment, \<open>slice\<close>), promises,
    computations, and the collections \<open>js_run\<close>, \<open>keep\<close> and \<open>arr\<close> the proofs share.
  \<^item> \<open>Encoding\<close>: \<open>helpers/encoding.js\<close>, the conversions of \<open>views/KeyGeneraterView.vue\<close>, and the
    decoder of the backend (\<open>encoding.go\<close>); Base64 in both directions.
  \<^item> \<open>Models\<close>, \<open>Utils\<close>, \<open>Datetime\<close>: \<open>helpers/models.js\<close>, \<open>utils.js\<close> and \<open>validators.js\<close>, \<open>datetime.js\<close> with
    the calendar and the parsing of \<open>Date\<close>.
  \<^item> \<open>Fetch\<close>: \<open>helpers/fetch-wrapper.js\<close> and \<open>stores/security.js\<close>.
  \<^item> \<open>Auth\<close>, \<open>Settings\<close>, \<open>Audit_Log\<close>, \<open>Users\<close>, \<open>Interfaces\<close>, \<open>Peers\<close>, \<open>Profile\<close>: the stores of these
    names. \<open>Paging\<close> has what four of them share to cut a list into pages (the locale
    \<open>pager_laws\<close>, interpreted by each) and the events of their tables one by one, the writes of
    the bindings apart from their handlers (\<open>bar_event\<close>), \<open>Keyed_Store\<close> the updates of a list by identifier (the
    locale \<open>keyed_laws\<close>), \<open>Table_Sort\<close> the sorting of the two peer tables.
  \<^item> \<open>Router\<close> and \<open>Portal\<close>: \<open>router/index.js\<close>, the start of \<open>App.vue\<close> and \<open>views/LoginView.vue\<close>.
  \<^item> \<open>Dialog\<close>: the guarded buttons of the dialogs (the locale \<open>one_in_flight\<close>, interpreted by each
    dialog) and their tag inputs. \<open>User_Dialog\<close>, \<open>Interface_Dialog\<close> (with the dialog that creates
    several peers), \<open>Peer_Dialog\<close> and \<open>User_Peer_Dialog\<close>: the editing dialogs of \<open>components/\<close>.
    \<open>View_Dialogs\<close>: the dialogs that only show, \<open>Confirmation.vue\<close> and \<open>Modal.vue\<close>.
  \<^item> \<open>Interface_View\<close> and \<open>Pages\<close>: \<open>views/InterfaceView.vue\<close>; the smaller pages, the language and
    theme switches, the passkeys of the settings page and the key generator.
  \<^item> \<open>Page_Templates\<close>: what the templates show: the menu, the controls of the login form, the
    pagination bars, the four tables with their headings, the card of the selected interface and
    the table of the passkeys. \<open>Show_Templates\<close>: the home page, the cards of \<open>views/SettingsView.vue\<close>
    with its start-up, and the bodies of the dialogs that show a peer and a user.
  \<^item> \<open>Edit_Forms\<close> and \<open>Peer_Forms\<close>: the forms of the editing dialogs. A \<open>control\<close> is an input with
    what it shows and what a change of it does; a session with a form (\<open>form_session\<close>, the locale
    \<open>edited_form\<close>, interpreted by each of the four edit dialogs) is a sequence of changes of the
    inputs shown at the time, with loads and refused saves in between.
  \<^item> \<open>Async_Views\<close>: the places where a selection asks the backend and the answer is put on display
    (the locale \<open>loaded_view\<close>, interpreted for the peers and statistics of the page of the interfaces
    and for the three dialogs that show), with answers in and out of order.
  \<^item> \<open>Page_Events\<close>: how the tables recover from writes without a handler, and the dialogs of the
    pages with the links that open them. \<open>Refusals\<close>: the way of the server's message from a refused
    request to the notifications of the dialogs. \<open>Shell\<close>: the menus of languages and themes and the footer of \<open>App.vue\<close>, the
    headlines of \<open>views/InterfaceView.vue\<close>, and the templates of the key generator and the question.
  \<^item> \<open>Application\<close>: the whole from its start to its end: visits through the guard of the router, the
    check of the session, answers with the automatic logout, logout and login as events (\<open>app_step\<close>) in any order, with
    the requests on their way counted, and the peer store, which outlives the logout.

  \<^bold>\<open>What is shown.\<close>
  \<^item> Refinement: a session of accepted and refused changes on the user and peer stores is the
    corresponding sequence of updates of a finite map.
  \<^item> Tables: the pages of the bars cut the filtered (and, for peers, sorted) rows into consecutive
    pieces; the sort is stable and follows the chosen column; the window of page links contains
    the current page, which has the one active link; every row of the tables of the pages has the
    cells of its headings.
  \<^item> What a form cannot change: the owner of a peer and the administration are confined to the
    inputs of their dialogs, users of other sources keep what their source says, users are
    created with a valid form only, and the form of an interface can always be shown unless
    the interface a new one begins with could not be loaded.
  \<^item> Sessions of the application: in a calm one no page for users is on display without a user or a
    logout on its way; without calm a login that fails late (otherwise than by a denial) or a late check breaks
    that, and the stores keep the data of the session before.
  \<^item> Answers: in the order of the requests the display is that of the selection; out of order it is
    not. Bars and tables agree after a handler of the size or of the search has run, until the size, the
    search or the list changes; no control hangs, and two clicks on the bar repair it too.
  \<^item> The links of a row open the dialogs for exactly that row; the settings page starts with free
    buttons, unless the identifier of the user cannot be part of a path.
  \<^item> Every link of the menu opens its page, and the guard lets no visitor on a restricted one.
  \<^item> Sessions as step relations with invariants: the bar of the audit log, the selected interface,
    the local storage and the auth store, the dialogs with their requests in flight, the setting
    objects that the form of a peer shares with the tables, the observers of a dialog's frame.
  \<^item> Every branch of the handlers: answers of the backend and the automatic logout, login and
    OAuth, start-up of the application and of its pages, saving and renaming.
  \<^item> Round trips: identifiers (those in ASCII whose path is one segment), keys, expiry dates,
    language and theme.
  \<^item> Behaviour that differs from what the code means to do is stated as the code has it; the
    text before such a theorem says what it means for the user.

  \<^bold>\<open>Bounds and fuel.\<close> The loop that counts pages does not end for a page size of zero; it is a
  \<open>partial_function (option)\<close>, and each property about pages shows that it ends for the sizes of
  the selector. \<open>navigate\<close> has fuel for the guards of one navigation; two are enough
  (\<open>navigation_safe\<close>). The search of the year of a day, the padding of Base64 and the window of
  page links are functions with a termination proof. Sizes and counters are \<open>int\<close>, as the numbers
  in question stay in the range of exact integers; quotients of them are \<open>rat\<close>.

  \<^bold>\<open>Parameters.\<close> The packages \<open>ip-address\<close>, \<open>is-cidr\<close>, \<open>is-ip\<close> and the WebAuthn library are functions
  of the record \<open>ip_library\<close> and arguments; \<open>JSON\<close>, \<open>encodeURIComponent\<close> and the translations are
  arguments; the quotient of logarithms in \<open>humanFileSize\<close> is an argument, required to be close to
  the exact one where a size is said to be right; the router library is the resolution of a path to a location and the loop over
  redirections; the conversion of texts to numbers in sorting is an argument.

  \<^bold>\<open>Not modelled.\<close> Style sheets, tooltips and the arrangement of the templates; the texts of the
  translations; console output; third-party scripts; the backend but for its decoder of
  identifiers. A number input is modelled for whole numbers: an emptied one gives the empty text,
  which no record of a number holds, and the number input of the routing table of the defaults,
  a text, has no change. Of the tag inputs the list that a change reports is modelled, not the
  typing. A time zone has one offset, so changes of the offset
  within a year are not seen. Rows that a page marks are found by their identifier. Watches run
  when the handler that changed their value has ended.
\<close>

end
